(* ===== verification/Prelude.thy ===== *)
theory Prelude
  imports Main "HOL-Library.AList" "HOL-Library.Sublist"
begin

text \<open>Shared vocabulary of the development: the outcomes of a Go call, the
  state-passing programs that issue calls to the world outside the repository,
  their weakest preconditions, association lists standing for Go maps, and the
  pieces of the packages \<open>strings\<close>, \<open>strconv\<close> and \<open>fmt\<close> that the sources use.\<close>

named_theorems go_simps \<open>evaluation of the Go vocabulary\<close>
named_theorems wp_simps \<open>weakest preconditions of programs\<close>

section \<open>Outcomes\<close>

text \<open>An error value as far as the sources inspect one: \<open>apierrors.IsNotFound\<close>,
  \<open>apierrors.IsConflict\<close>, \<open>apierrors.IsAlreadyExists\<close>, or any other error with its message.\<close>

datatype go_error =
    NotFound string
  | Conflict string
  | AlreadyExists string
  | Failure string

fun Error :: "go_error \<Rightarrow> string" where
  "Error (NotFound m) = m"
| "Error (Conflict m) = m"
| "Error (AlreadyExists m) = m"
| "Error (Failure m) = m"

fun IsNotFound :: "go_error \<Rightarrow> bool" where
  "IsNotFound (NotFound _) = True"
| "IsNotFound _ = False"

text \<open>\<open>fmt.Errorf\<close> with \<open>%w\<close> keeps the kind of the wrapped error.\<close>

fun wrapE :: "string \<Rightarrow> go_error \<Rightarrow> go_error" where
  "wrapE p (NotFound m) = NotFound (p @ m)"
| "wrapE p (Conflict m) = Conflict (p @ m)"
| "wrapE p (AlreadyExists m) = AlreadyExists (p @ m)"
| "wrapE p (Failure m) = Failure (p @ m)"

lemma IsNotFound_wrapE [simp]: "IsNotFound (wrapE p e) = IsNotFound e"
  by (cases e) simp_all

text \<open>\<open>Val\<close> is a return with a nil error, \<open>Err\<close> a return with an error,
  \<open>Panic\<close> a run-time panic, \<open>Looping\<close> a loop that used up the iterations it was given.\<close>

datatype 'a res = Val 'a | Err go_error | Panic string | Looping

fun bindR :: "'a res \<Rightarrow> ('a \<Rightarrow> 'b res) \<Rightarrow> 'b res" where
  "bindR (Val x) f = f x"
| "bindR (Err e) f = Err e"
| "bindR (Panic m) f = Panic m"
| "bindR Looping f = Looping"

lemma bindR_Val_iff [simp]:
  "bindR r f = Val y \<longleftrightarrow> (\<exists>x. r = Val x \<and> f x = Val y)"
  by (cases r) auto

lemma bindR_assoc: "bindR (bindR r f) g = bindR r (\<lambda>x. bindR (f x) g)"
  by (cases r) auto

fun mapR :: "('a \<Rightarrow> 'b res) \<Rightarrow> 'a list \<Rightarrow> 'b list res" where
  "mapR f [] = Val []"
| "mapR f (x # xs) = bindR (f x) (\<lambda>y. bindR (mapR f xs) (\<lambda>ys. Val (y # ys)))"

lemma mapR_all_Val:
  "(\<And>x. x \<in> set xs \<Longrightarrow> f x = Val (g x)) \<Longrightarrow> mapR f xs = Val (map g xs)"
  by (induction xs) auto

section \<open>Programs over the outside world\<close>

text \<open>Kubernetes, the database drivers, the file system and the clock are not part of
  the repository. They are operations on a state \<open>'w\<close> that the definitions
  take as arguments. A program threads that state and the list of the calls issued so far,
  newest last, so that a theorem can speak of the calls for every behaviour of the environment.\<close>

type_synonym ('c, 'w) st = "'w \<times> 'c list"
type_synonym ('c, 'w, 'a) io = "('c, 'w) st \<Rightarrow> 'a res \<times> ('c, 'w) st"
type_synonym ('w, 'a) op = "'w \<Rightarrow> 'a res \<times> 'w"

definition ret :: "'a \<Rightarrow> ('c, 'w, 'a) io" where
  "ret x s = (Val x, s)"

definition fail :: "go_error \<Rightarrow> ('c, 'w, 'a) io" where
  "fail e s = (Err e, s)"

definition panic :: "string \<Rightarrow> ('c, 'w, 'a) io" where
  "panic m s = (Panic m, s)"

definition looping :: "('c, 'w, 'a) io" where
  "looping s = (Looping, s)"

definition call :: "'c \<Rightarrow> ('w, 'a) op \<Rightarrow> ('c, 'w, 'a) io" where
  "call c f s = (case f (fst s) of (r, w) \<Rightarrow> (r, (w, snd s @ [c])))"

text \<open>\<open>seqc m f\<close> is \<open>x, err := m; if err != nil { return err }; f x\<close>.\<close>

definition seqc :: "('c, 'w, 'a) io \<Rightarrow> ('a \<Rightarrow> ('c, 'w, 'b) io) \<Rightarrow> ('c, 'w, 'b) io" where
  "seqc m f s = (case m s of
      (Val x, s') \<Rightarrow> f x s'
    | (Err e, s') \<Rightarrow> (Err e, s')
    | (Panic p, s') \<Rightarrow> (Panic p, s')
    | (Looping, s') \<Rightarrow> (Looping, s'))"

text \<open>\<open>tryc m f h\<close> is \<open>x, err := m\<close> followed by code that looks at \<open>err\<close> itself.\<close>

definition tryc :: "('c, 'w, 'a) io \<Rightarrow> ('a \<Rightarrow> ('c, 'w, 'b) io) \<Rightarrow> (go_error \<Rightarrow> ('c, 'w, 'b) io) \<Rightarrow> ('c, 'w, 'b) io" where
  "tryc m f h s = (case m s of
      (Val x, s') \<Rightarrow> f x s'
    | (Err e, s') \<Rightarrow> h e s'
    | (Panic p, s') \<Rightarrow> (Panic p, s')
    | (Looping, s') \<Rightarrow> (Looping, s'))"

definition lift :: "'a res \<Rightarrow> ('c, 'w, 'a) io" where
  "lift r s = (r, s)"

text \<open>A \<open>for range\<close> loop whose body returns the function's error.\<close>

fun forM :: "'a list \<Rightarrow> ('a \<Rightarrow> ('c, 'w, unit) io) \<Rightarrow> ('c, 'w, unit) io" where
  "forM [] f = ret ()"
| "forM (x # xs) f = seqc (f x) (\<lambda>_. forM xs f)"

fun foldM :: "('b \<Rightarrow> 'a \<Rightarrow> ('c, 'w, 'b) io) \<Rightarrow> 'b \<Rightarrow> 'a list \<Rightarrow> ('c, 'w, 'b) io" where
  "foldM f b [] = ret b"
| "foldM f b (x # xs) = seqc (f b x) (\<lambda>b'. foldM f b' xs)"

text \<open>\<open>deferc m d\<close> runs \<open>d\<close> when \<open>m\<close> returns or panics, as a \<open>defer\<close> does, and drops its outcome;
  a loop that does not end never gets there.\<close>

definition deferc :: "('c, 'w, 'a) io \<Rightarrow> ('c, 'w, 'b) io \<Rightarrow> ('c, 'w, 'a) io" where
  "deferc m d s = (case m s of (r, s') \<Rightarrow> (r, if r = Looping then s' else snd (d s')))"

text \<open>A call whose error is only logged.\<close>

definition ignorec :: "('c, 'w, 'a) io \<Rightarrow> ('c, 'w, unit) io" where
  "ignorec m = tryc m (\<lambda>_. ret ()) (\<lambda>_. ret ())"

text \<open>\<open>if err != nil { return fmt.Errorf(...) }\<close> with \<open>%w\<close> and with \<open>%v\<close>.\<close>

definition wrapw :: "string \<Rightarrow> ('c, 'w, 'a) io \<Rightarrow> ('c, 'w, 'a) io" where
  "wrapw p m = tryc m ret (\<lambda>e. fail (wrapE p e))"

definition wrapv :: "string \<Rightarrow> ('c, 'w, 'a) io \<Rightarrow> ('c, 'w, 'a) io" where
  "wrapv p m = tryc m ret (\<lambda>e. fail (Failure (p @ Error e)))"

text \<open>\<open>cleanup m d f\<close> is \<open>x, err := m; if err != nil { return err }\<close> in the scope of a deferred \<open>d\<close>:
  the error path runs \<open>d\<close> before it returns.\<close>

definition cleanup :: "('c, 'w, 'a) io \<Rightarrow> ('c, 'w, unit) io \<Rightarrow> ('a \<Rightarrow> ('c, 'w, 'b) io) \<Rightarrow> ('c, 'w, 'b) io" where
  "cleanup m d f = tryc m f (\<lambda>e. seqc d (\<lambda>_. fail e))"

text \<open>\<open>wait.PollWithContext\<close> and \<open>wait.PollImmediateWithContext\<close>: the condition is tried at
  most as often as the interval and the timeout allow (the first argument); an error of the
  condition ends the wait with that error, and when the time is up the error is
  \<open>wait.ErrWaitTimeout\<close>.\<close>

definition ErrWaitTimeout :: go_error where
  "ErrWaitTimeout = Failure ''timed out waiting for the condition''"

fun poll :: "nat \<Rightarrow> ('c, 'w, bool) io \<Rightarrow> ('c, 'w, unit) io" where
  "poll 0 cond = fail ErrWaitTimeout"
| "poll (Suc n) cond = seqc cond (\<lambda>done. if done then ret () else poll n cond)"

text \<open>\<open>retry.RetryOnConflict\<close>: tried again on a conflict, with the steps of
  \<open>retry.DefaultRetry\<close> as the first argument; the last error is returned.\<close>

fun retryOnConflict :: "nat \<Rightarrow> ('c, 'w, 'a) io \<Rightarrow> ('c, 'w, 'a) io" where
  "retryOnConflict 0 m = m"
| "retryOnConflict (Suc n) m = tryc m ret (\<lambda>e. case e of
      Conflict _ \<Rightarrow> retryOnConflict n m | _ \<Rightarrow> fail e)"

lemmas io_defs = ret_def fail_def panic_def looping_def call_def seqc_def tryc_def lift_def

definition calls :: "('c, 'w) st \<Rightarrow> 'c list" where
  "calls s = snd s"

section \<open>Weakest preconditions\<close>

definition wp :: "('c, 'w, 'a) io \<Rightarrow> ('a res \<Rightarrow> ('c, 'w) st \<Rightarrow> bool) \<Rightarrow> ('c, 'w) st \<Rightarrow> bool" where
  "wp m Q s = (case m s of (r, s') \<Rightarrow> Q r s')"

lemma wp_ret [wp_simps]: "wp (ret x) Q s = Q (Val x) s"
  by (simp add: wp_def ret_def)

lemma wp_fail [wp_simps]: "wp (fail e) Q s = Q (Err e) s"
  by (simp add: wp_def fail_def)

lemma wp_panic [wp_simps]: "wp (panic e) Q s = Q (Panic e) s"
  by (simp add: wp_def panic_def)

lemma wp_looping [wp_simps]: "wp looping Q s = Q Looping s"
  by (simp add: wp_def looping_def)

lemma wp_lift [wp_simps]: "wp (lift r) Q s = Q r s"
  by (simp add: wp_def lift_def)

lemma wp_call [wp_simps]:
  "wp (call c f) Q s = (case f (fst s) of (r, w) \<Rightarrow> Q r (w, snd s @ [c]))"
  by (simp add: wp_def call_def split: prod.splits)

lemma wp_seqc [wp_simps]:
  "wp (seqc m f) Q s = wp m (\<lambda>r s'. case r of Val x \<Rightarrow> wp (f x) Q s'
     | Err e \<Rightarrow> Q (Err e) s' | Panic p \<Rightarrow> Q (Panic p) s' | Looping \<Rightarrow> Q Looping s') s"
  by (simp add: wp_def seqc_def split: prod.splits res.splits)

lemma wp_tryc [wp_simps]:
  "wp (tryc m f h) Q s = wp m (\<lambda>r s'. case r of Val x \<Rightarrow> wp (f x) Q s'
     | Err e \<Rightarrow> wp (h e) Q s' | Panic p \<Rightarrow> Q (Panic p) s' | Looping \<Rightarrow> Q Looping s') s"
  by (simp add: wp_def tryc_def split: prod.splits res.splits)

lemma wp_deferc [wp_simps]:
  "wp (deferc m d) Q s = wp m (\<lambda>r s'. Q r (if r = Looping then s' else snd (d s'))) s"
  by (simp add: wp_def deferc_def split: prod.splits)

lemma wp_if [wp_simps]: "wp (if b then m else m') Q s = (if b then wp m Q s else wp m' Q s)"
  by simp

lemma wp_mono: "wp m P s \<Longrightarrow> (\<And>r s'. P r s' \<Longrightarrow> Q r s') \<Longrightarrow> wp m Q s"
  by (auto simp: wp_def split: prod.splits)

lemma wp_conj: "wp m P s \<Longrightarrow> wp m Q s \<Longrightarrow> wp m (\<lambda>r s'. P r s' \<and> Q r s') s"
  by (auto simp: wp_def split: prod.splits)

lemma wp_run: "wp m Q s \<Longrightarrow> m s = (r, s') \<Longrightarrow> Q r s'"
  by (simp add: wp_def)

lemma wpI: "(\<And>r s'. m s = (r, s') \<Longrightarrow> Q r s') \<Longrightarrow> wp m Q s"
  by (auto simp: wp_def split: prod.splits)

text \<open>A loop keeps whatever its body keeps, on every exit.\<close>

lemma wp_forM_inv:
  assumes "\<And>x s. x \<in> set xs \<Longrightarrow> I s \<Longrightarrow> wp (f x) (\<lambda>r s'. I s') s"
    and "I s"
  shows "wp (forM xs f) (\<lambda>r s'. I s') s"
  using assms
proof (induction xs arbitrary: s)
  case Nil
  then show ?case by (simp add: wp_simps)
next
  case (Cons x xs)
  have body: "wp (f x) (\<lambda>r s'. I s') s"
    using Cons.prems by simp
  have rest: "wp (forM xs f) (\<lambda>r s'. I s') s'" if "I s'" for s'
    using Cons.IH Cons.prems(1) that by simp
  show ?case
    unfolding forM.simps wp_seqc using body
    by (rule wp_mono) (auto simp: rest split: res.splits)
qed

text \<open>Programs only ever add to the list of calls. \<open>emits S m\<close>: every call that
  \<open>m\<close> adds satisfies \<open>S\<close>, whatever the environment answers.\<close>

definition emits :: "('c \<Rightarrow> bool) \<Rightarrow> ('c, 'w, 'a) io \<Rightarrow> bool" where
  "emits S m = (\<forall>s r s'. m s = (r, s') \<longrightarrow> (\<exists>cs. snd s' = snd s @ cs \<and> list_all S cs))"

named_theorems emits_intros \<open>which calls a program issues\<close>

lemma emits_ret [emits_intros]: "emits S (ret x)"
  and emits_fail [emits_intros]: "emits S (fail e)"
  and emits_panic [emits_intros]: "emits S (panic p)"
  and emits_looping [emits_intros]: "emits S looping"
  and emits_lift [emits_intros]: "emits S (lift v)"
  by (simp_all add: emits_def ret_def fail_def panic_def looping_def lift_def)

lemma emits_call [emits_intros]: "S c \<Longrightarrow> emits S (call c f)"
  by (auto simp: emits_def call_def split: prod.splits)

lemma emits_seqc [emits_intros]:
  assumes "emits S m" "\<And>x. emits S (f x)"
  shows "emits S (seqc m f)"
  unfolding emits_def
proof (intro allI impI)
  fix s r s'
  assume run: "seqc m f s = (r, s')"
  obtain r0 s0 where m: "m s = (r0, s0)" by (cases "m s")
  then obtain cs where cs: "snd s0 = snd s @ cs" "list_all S cs"
    using assms(1) unfolding emits_def by blast
  show "\<exists>cs. snd s' = snd s @ cs \<and> list_all S cs"
  proof (cases r0)
    case (Val x)
    then have "f x s0 = (r, s')" using run m by (simp add: seqc_def)
    then obtain ds where "snd s' = snd s0 @ ds" "list_all S ds"
      using assms(2) unfolding emits_def by blast
    then show ?thesis using cs by auto
  qed (use run m cs in \<open>auto simp: seqc_def\<close>)
qed

lemma emits_tryc [emits_intros]:
  assumes "emits S m" "\<And>x. emits S (f x)" "\<And>e. emits S (h e)"
  shows "emits S (tryc m f h)"
  unfolding emits_def
proof (intro allI impI)
  fix s r s'
  assume run: "tryc m f h s = (r, s')"
  obtain r0 s0 where m: "m s = (r0, s0)" by (cases "m s")
  then obtain cs where cs: "snd s0 = snd s @ cs" "list_all S cs"
    using assms(1) unfolding emits_def by blast
  have ext: "\<exists>cs. snd s' = snd s @ cs \<and> list_all S cs"
    if "g s0 = (r, s')" "emits S g" for g
  proof -
    obtain ds where "snd s' = snd s0 @ ds" "list_all S ds"
      using \<open>emits S g\<close> \<open>g s0 = (r, s')\<close> unfolding emits_def by blast
    then show ?thesis using cs by auto
  qed
  show "\<exists>cs. snd s' = snd s @ cs \<and> list_all S cs"
  proof (cases r0)
    case (Val x)
    then show ?thesis using run m assms(2) by (auto simp: tryc_def intro: ext)
  next
    case (Err e)
    then show ?thesis using run m assms(3) by (auto simp: tryc_def intro: ext)
  qed (use run m cs in \<open>auto simp: tryc_def\<close>)
qed

lemma emits_if [emits_intros]:
  "(b \<Longrightarrow> emits S m) \<Longrightarrow> (\<not> b \<Longrightarrow> emits S m') \<Longrightarrow> emits S (if b then m else m')"
  by simp

lemma emits_forM [emits_intros]:
  "(\<And>x. x \<in> set xs \<Longrightarrow> emits S (f x)) \<Longrightarrow> emits S (forM xs f)"
  by (induction xs) (simp_all add: emits_ret emits_seqc)

lemma emits_foldM [emits_intros]:
  "(\<And>b x. x \<in> set xs \<Longrightarrow> emits S (f b x)) \<Longrightarrow> emits S (foldM f b xs)"
  by (induction xs arbitrary: b) (simp_all add: emits_ret emits_seqc)

lemma emits_deferc [emits_intros]:
  assumes "emits S m" "emits S d"
  shows "emits S (deferc m d)"
  unfolding emits_def
proof (intro allI impI)
  fix s r s'
  assume run: "deferc m d s = (r, s')"
  obtain r0 s0 where m: "m s = (r0, s0)" by (cases "m s")
  obtain r1 s1 where d: "d s0 = (r1, s1)" by (cases "d s0")
  have "s' = s0 \<or> s' = s1" using run m d by (auto simp: deferc_def split: if_splits)
  moreover obtain cs where "snd s0 = snd s @ cs" "list_all S cs"
    using assms(1) m unfolding emits_def by blast
  moreover obtain ds where "snd s1 = snd s0 @ ds" "list_all S ds"
    using assms(2) d unfolding emits_def by blast
  ultimately show "\<exists>cs. snd s' = snd s @ cs \<and> list_all S cs" by auto
qed

lemma emits_ignorec [emits_intros]: "emits S m \<Longrightarrow> emits S (ignorec m)"
  unfolding ignorec_def by (intro emits_intros)

lemma emits_poll [emits_intros]: "emits S cond \<Longrightarrow> emits S (poll n cond)"
  by (induction n) (simp_all add: emits_fail emits_seqc emits_ret)

lemma emits_retry [emits_intros]: "emits S m \<Longrightarrow> emits S (retryOnConflict n m)"
  by (induction n) (auto intro!: emits_tryc emits_ret emits_fail split: go_error.splits)

lemma emits_wrapw [emits_intros]: "emits S m \<Longrightarrow> emits S (wrapw p m)"
  and emits_wrapv [emits_intros]: "emits S m \<Longrightarrow> emits S (wrapv p m)"
  unfolding wrapw_def wrapv_def by (intro emits_intros, assumption)+

lemma emits_cleanup [emits_intros]:
  "emits S m \<Longrightarrow> emits S d \<Longrightarrow> (\<And>x. emits S (f x)) \<Longrightarrow> emits S (cleanup m d f)"
  unfolding cleanup_def by (intro emits_tryc emits_seqc emits_fail)

lemma emits_mono: "emits S m \<Longrightarrow> (\<And>c. S c \<Longrightarrow> T c) \<Longrightarrow> emits T m"
  unfolding emits_def list_all_iff by blast

lemma emitsD:
  "emits S m \<Longrightarrow> m s = (r, s') \<Longrightarrow> \<exists>cs. snd s' = snd s @ cs \<and> list_all S cs"
  unfolding emits_def by blast

text \<open>Programs that cannot return normally; what follows them is not run.\<close>

definition never_val :: "('c, 'w, 'a) io \<Rightarrow> bool" where
  "never_val m = (\<forall>s v. fst (m s) \<noteq> Val v)"

lemma never_val_fail [simp]: "never_val (fail e)"
  by (simp add: never_val_def fail_def)

lemma never_val_lift: "(\<And>v. r \<noteq> Val v) \<Longrightarrow> never_val (lift r)"
  by (simp add: never_val_def lift_def)

lemma never_val_seqc:
  assumes "never_val m \<or> (\<forall>x. never_val (f x))"
  shows "never_val (seqc m f)"
  unfolding never_val_def
proof (intro allI notI)
  fix s v
  assume run: "fst (seqc m f s) = Val v"
  obtain r0 s0 where m: "m s = (r0, s0)" by (cases "m s")
  with run obtain x where "r0 = Val x" "fst (f x s0) = Val v"
    by (cases r0) (auto simp: seqc_def)
  then show False using assms m unfolding never_val_def by (metis fst_conv)
qed

lemma emits_seqc_never:
  assumes "emits S m" "never_val m"
  shows "emits S (seqc m f)"
  unfolding emits_def
proof (intro allI impI)
  fix s r s'
  assume run: "seqc m f s = (r, s')"
  obtain r0 s0 where m: "m s = (r0, s0)" by (cases "m s")
  then have "\<And>x. r0 \<noteq> Val x" using assms(2) unfolding never_val_def by (metis fst_conv)
  with run m have "s' = s0" by (cases r0) (auto simp: seqc_def)
  then show "\<exists>cs. snd s' = snd s @ cs \<and> list_all S cs"
    using assms(1) m unfolding emits_def by blast
qed

text \<open>The calls that a normal return guarantees: \<open>issues C m\<close> says that whenever \<open>m\<close> returns a
  value, all calls of \<open>C\<close> have been issued.\<close>

definition issues :: "'c set \<Rightarrow> ('c, 'w, 'a) io \<Rightarrow> bool" where
  "issues C m = (\<forall>s x s'. m s = (Val x, s') \<longrightarrow> C \<subseteq> set (snd s'))"

abbreviation grows :: "('c, 'w, 'a) io \<Rightarrow> bool" where
  "grows m \<equiv> emits (\<lambda>_. True) m"

lemma grows_subset: "grows m \<Longrightarrow> m s = (r, s') \<Longrightarrow> set (snd s) \<subseteq> set (snd s')"
  by (drule emitsD) auto

lemma issues_call: "issues {c} (call c f)"
  by (auto simp: issues_def call_def split: prod.splits)

lemma issues_empty: "issues {} m"
  by (simp add: issues_def)

lemma issues_mono: "issues C m \<Longrightarrow> D \<subseteq> C \<Longrightarrow> issues D m"
  unfolding issues_def by blast

lemma issues_Un: "issues C m \<Longrightarrow> issues D m \<Longrightarrow> issues (C \<union> D) m"
  unfolding issues_def by blast

lemma seqc_Val: "seqc m f s = (Val y, s') \<Longrightarrow> \<exists>x s0. m s = (Val x, s0) \<and> f x s0 = (Val y, s')"
  unfolding seqc_def by (cases "m s") (auto split: res.splits)

lemma issuesD: "issues C m \<Longrightarrow> m s = (Val x, s') \<Longrightarrow> C \<subseteq> set (snd s')"
  unfolding issues_def by blast

lemma issuesI: "(\<And>s x s'. m s = (Val x, s') \<Longrightarrow> C \<subseteq> set (snd s')) \<Longrightarrow> issues C m"
  unfolding issues_def by blast

lemma issues_first:
  assumes "issues C m" "\<And>x. grows (f x)"
  shows "issues C (seqc m f)"
proof (rule issuesI)
  fix s y s'
  assume "seqc m f s = (Val y, s')"
  then obtain x s0 where "m s = (Val x, s0)" "f x s0 = (Val y, s')" using seqc_Val by fast
  with issuesD [OF assms(1)] grows_subset [OF assms(2)] show "C \<subseteq> set (snd s')"
    by (meson subset_trans)
qed

lemma issues_then:
  assumes "\<And>x. issues C (f x)"
  shows "issues C (seqc m f)"
proof (rule issuesI)
  fix s y s'
  assume "seqc m f s = (Val y, s')"
  then obtain x s0 where "f x s0 = (Val y, s')" using seqc_Val by fast
  with issuesD [OF assms] show "C \<subseteq> set (snd s')" by simp
qed

lemma issues_forM:
  assumes "\<And>x. x \<in> set xs \<Longrightarrow> issues (C x) (f x)" "\<And>x. grows (f x)"
  shows "issues (\<Union>x \<in> set xs. C x) (forM xs f)"
  using assms(1)
proof (induction xs)
  case Nil
  then show ?case by (simp add: issues_empty)
next
  case (Cons x xs)
  have "issues (C x) (forM (x # xs) f)"
    unfolding forM.simps by (rule issues_first) (simp_all add: Cons.prems emits_forM assms(2))
  moreover have "issues (\<Union>x \<in> set xs. C x) (forM (x # xs) f)"
    unfolding forM.simps by (rule issues_then) (simp add: Cons)
  ultimately show ?case using issues_Un by fastforce
qed

lemma cleanup_Val: "cleanup m d f s = (Val y, s') \<Longrightarrow> \<exists>x s0. m s = (Val x, s0) \<and> f x s0 = (Val y, s')"
proof -
  assume run: "cleanup m d f s = (Val y, s')"
  obtain r0 s0 where m: "m s = (r0, s0)" by (cases "m s")
  show ?thesis
  proof (cases r0)
    case (Err e)
    then have "seqc d (\<lambda>_. fail e) s0 = (Val y, s')" using run m by (simp add: cleanup_def tryc_def)
    from seqc_Val [OF this] show ?thesis by (simp add: fail_def)
  qed (use run m in \<open>auto simp: cleanup_def tryc_def\<close>)
qed

lemma issues_cleanup_first:
  assumes "issues C m" "\<And>x. grows (f x)"
  shows "issues C (cleanup m d f)"
proof (rule issuesI)
  fix s y s'
  assume "cleanup m d f s = (Val y, s')"
  then obtain x s0 where "m s = (Val x, s0)" "f x s0 = (Val y, s')" using cleanup_Val by fast
  with issuesD [OF assms(1)] grows_subset [OF assms(2)] show "C \<subseteq> set (snd s')"
    by (meson subset_trans)
qed

lemma issues_cleanup_then:
  assumes "\<And>x. issues C (f x)"
  shows "issues C (cleanup m d f)"
proof (rule issuesI)
  fix s y s'
  assume "cleanup m d f s = (Val y, s')"
  then obtain x s0 where "f x s0 = (Val y, s')" using cleanup_Val by fast
  with issuesD [OF assms] show "C \<subseteq> set (snd s')" by simp
qed

lemma issues_deferc:
  assumes "issues C m" "grows d"
  shows "issues C (deferc m d)"
proof (rule issuesI)
  fix s y s'
  assume run: "deferc m d s = (Val y, s')"
  obtain r0 s0 where m: "m s = (r0, s0)" by (cases "m s")
  obtain r1 s1 where d: "d s0 = (r1, s1)" by (cases "d s0")
  have "r0 = Val y" "s1 = s'" using run m d by (auto simp: deferc_def)
  with issuesD [OF assms(1)] m grows_subset [OF assms(2) d] show "C \<subseteq> set (snd s')" by blast
qed

text \<open>\<open>returns v m\<close>: a normal return of \<open>m\<close> gives \<open>v\<close>.\<close>

definition returns :: "'a \<Rightarrow> ('c, 'w, 'a) io \<Rightarrow> bool" where
  "returns v m = (\<forall>s x s'. m s = (Val x, s') \<longrightarrow> x = v)"

lemma returnsD: "returns v m \<Longrightarrow> m s = (Val x, s') \<Longrightarrow> x = v"
  unfolding returns_def by blast

lemma returnsI: "(\<And>s x s'. m s = (Val x, s') \<Longrightarrow> x = v) \<Longrightarrow> returns v m"
  unfolding returns_def by blast

lemma returns_ret: "returns v (ret v)"
  by (auto intro!: returnsI simp: ret_def)

lemma returns_seqc:
  assumes "\<And>x. returns v (f x)"
  shows "returns v (seqc m f)"
proof (rule returnsI)
  fix s y s'
  assume "seqc m f s = (Val y, s')"
  then obtain x s0 where "f x s0 = (Val y, s')" using seqc_Val by fast
  with returnsD [OF assms] show "y = v" by simp
qed

lemma returns_cleanup:
  assumes "\<And>x. returns v (f x)"
  shows "returns v (cleanup m d f)"
proof (rule returnsI)
  fix s y s'
  assume "cleanup m d f s = (Val y, s')"
  then obtain x s0 where "f x s0 = (Val y, s')" using cleanup_Val by fast
  with returnsD [OF assms] show "y = v" by simp
qed

lemma returns_cleanup_known:
  assumes "returns u m" "returns v (f u)"
  shows "returns v (cleanup m d f)"
proof (rule returnsI)
  fix s y s'
  assume "cleanup m d f s = (Val y, s')"
  then obtain x s0 where "m s = (Val x, s0)" "f x s0 = (Val y, s')" using cleanup_Val by fast
  with returnsD [OF assms(1)] returnsD [OF assms(2)] show "y = v" by simp
qed

lemma issues_known:
  assumes "returns v m" "issues C (f v)"
  shows "issues C (seqc m f)"
proof (rule issuesI)
  fix s y s'
  assume "seqc m f s = (Val y, s')"
  then obtain x s0 where "m s = (Val x, s0)" "f x s0 = (Val y, s')" using seqc_Val by fast
  with returnsD [OF assms(1)] issuesD [OF assms(2)] show "C \<subseteq> set (snd s')" by simp
qed

lemma issues_cleanup_known:
  assumes "returns v m" "issues C (f v)"
  shows "issues C (cleanup m d f)"
proof (rule issuesI)
  fix s y s'
  assume "cleanup m d f s = (Val y, s')"
  then obtain x s0 where "m s = (Val x, s0)" "f x s0 = (Val y, s')" using cleanup_Val by fast
  with returnsD [OF assms(1)] issuesD [OF assms(2)] show "C \<subseteq> set (snd s')" by simp
qed

section \<open>Traces\<close>

text \<open>\<open>traces T m\<close>: every run of \<open>m\<close>, whatever its outcome, adds a list of calls that \<open>T\<close>
  relates to the outcome. The rules compose such relations along a program.\<close>

definition traces :: "('a res \<Rightarrow> 'c list \<Rightarrow> bool) \<Rightarrow> ('c, 'w, 'a) io \<Rightarrow> bool" where
  "traces T m = (\<forall>s r s'. m s = (r, s') \<longrightarrow> (\<exists>cs. snd s' = snd s @ cs \<and> T r cs))"

lemma tracesD: "traces T m \<Longrightarrow> m s = (r, s') \<Longrightarrow> \<exists>cs. snd s' = snd s @ cs \<and> T r cs"
  unfolding traces_def by blast

lemma tracesI:
  "(\<And>s r s'. m s = (r, s') \<Longrightarrow> \<exists>cs. snd s' = snd s @ cs \<and> T r cs) \<Longrightarrow> traces T m"
  unfolding traces_def by blast

lemma traces_emits: "emits S m = traces (\<lambda>_ cs. list_all S cs) m"
  unfolding emits_def traces_def by blast

lemma traces_mono: "traces T m \<Longrightarrow> (\<And>r cs. T r cs \<Longrightarrow> U r cs) \<Longrightarrow> traces U m"
  unfolding traces_def by blast

lemma traces_conj:
  assumes "traces T m" "traces U m"
  shows "traces (\<lambda>r cs. T r cs \<and> U r cs) m"
proof (rule tracesI)
  fix s r s'
  assume run: "m s = (r, s')"
  obtain cs ds where "snd s' = snd s @ cs" "T r cs" "snd s' = snd s @ ds" "U r ds"
    using tracesD [OF assms(1) run] tracesD [OF assms(2) run] by blast
  then show "\<exists>cs. snd s' = snd s @ cs \<and> T r cs \<and> U r cs" by auto
qed

lemma traces_ret: "T (Val x) [] \<Longrightarrow> traces T (ret x)"
  and traces_fail: "T (Err e) [] \<Longrightarrow> traces T (fail e)"
  and traces_panic: "T (Panic p) [] \<Longrightarrow> traces T (panic p)"
  by (simp_all add: traces_def ret_def fail_def panic_def)

lemma traces_call:
  "(\<And>r w w'. f w = (r, w') \<Longrightarrow> T r [c]) \<Longrightarrow> traces T (call c f)"
  by (auto simp: traces_def call_def split: prod.splits)

lemma traces_if:
  "(b \<Longrightarrow> traces T m) \<Longrightarrow> (\<not> b \<Longrightarrow> traces T m') \<Longrightarrow> traces T (if b then m else m')"
  by simp

lemma traces_tryc:
  assumes m: "traces T m"
    and val: "\<And>x cs. T (Val x) cs \<Longrightarrow> traces (\<lambda>r ds. U r (cs @ ds)) (f x)"
    and err: "\<And>e cs. T (Err e) cs \<Longrightarrow> traces (\<lambda>r ds. U r (cs @ ds)) (h e)"
    and pan: "\<And>p cs. T (Panic p) cs \<Longrightarrow> U (Panic p) cs"
    and loop: "\<And>cs. T Looping cs \<Longrightarrow> U Looping cs"
  shows "traces U (tryc m f h)"
proof (rule tracesI)
  fix s r s'
  assume run: "tryc m f h s = (r, s')"
  obtain r0 s0 where m0: "m s = (r0, s0)" by (cases "m s")
  then obtain cs where cs: "snd s0 = snd s @ cs" "T r0 cs" using tracesD [OF m] by blast
  have ext: "\<exists>cs. snd s' = snd s @ cs \<and> U r cs"
    if g: "g s0 = (r, s')" "traces (\<lambda>r ds. U r (cs @ ds)) g" for g
    using tracesD [OF g(2,1)] cs(1) by auto
  show "\<exists>cs. snd s' = snd s @ cs \<and> U r cs"
  proof (cases r0)
    case (Val x)
    then have "f x s0 = (r, s')" using run m0 by (simp add: tryc_def)
    then show ?thesis using ext val cs(2) Val by blast
  next
    case (Err e)
    then have "h e s0 = (r, s')" using run m0 by (simp add: tryc_def)
    then show ?thesis using ext err cs(2) Err by blast
  next
    case (Panic p)
    then show ?thesis using run m0 cs pan by (auto simp: tryc_def)
  next
    case Looping
    then show ?thesis using run m0 cs loop by (auto simp: tryc_def)
  qed
qed

lemma seqc_tryc: "seqc m f = tryc m f fail"
  by (rule ext) (simp add: seqc_def tryc_def fail_def split: prod.splits res.splits)

lemma traces_seqc:
  assumes "traces T m"
    and "\<And>x cs. T (Val x) cs \<Longrightarrow> traces (\<lambda>r ds. U r (cs @ ds)) (f x)"
    and "\<And>e cs. T (Err e) cs \<Longrightarrow> U (Err e) cs"
    and "\<And>p cs. T (Panic p) cs \<Longrightarrow> U (Panic p) cs"
    and "\<And>cs. T Looping cs \<Longrightarrow> U Looping cs"
  shows "traces U (seqc m f)"
  unfolding seqc_tryc by (rule traces_tryc [OF assms(1)]) (simp_all add: assms traces_fail)

text \<open>Polling: an incomplete poll must leave the relation where it was.\<close>

lemma traces_poll:
  assumes step: "traces T cond"
    and "\<And>cs. T (Val True) cs \<Longrightarrow> U (Val ()) cs"
    and "\<And>cs r ds. T (Val False) cs \<Longrightarrow> U r ds \<Longrightarrow> U r (cs @ ds)"
    and "\<And>e cs. T (Err e) cs \<Longrightarrow> U (Err e) cs"
    and "\<And>p cs. T (Panic p) cs \<Longrightarrow> U (Panic p) cs"
    and "\<And>cs. T Looping cs \<Longrightarrow> U Looping cs"
    and "U (Err ErrWaitTimeout) []"
  shows "traces U (poll n cond)"
proof (induction n)
  case 0
  then show ?case by (simp add: traces_fail assms(7))
next
  case (Suc n)
  show ?case unfolding poll.simps
  proof (rule traces_seqc [OF step])
    fix b cs
    assume "T (Val b) cs"
    then show "traces (\<lambda>r ds. U r (cs @ ds)) (if b then ret () else poll n cond)"
      using assms(2,3) Suc by (cases b) (auto intro!: traces_ret elim: traces_mono)
  qed (use assms in auto)
qed

text \<open>\<open>performs g es m\<close>: among the calls that the view \<open>g\<close> shows, a normal return of \<open>m\<close> has issued
  exactly \<open>es\<close>, in this order, and any other end of \<open>m\<close> a prefix of them.\<close>

abbreviation events :: "('c \<Rightarrow> 'e option) \<Rightarrow> 'c list \<Rightarrow> 'e list" where
  "events g cs \<equiv> List.map_filter g cs"

lemma events_append [simp]: "events g (cs @ ds) = events g cs @ events g ds"
  by (simp add: List.map_filter_def)

lemma events_Nil [simp]: "events g [] = []"
  by (simp add: List.map_filter_def)

lemma events_Cons [simp]: "events g (c # cs) = (case g c of None \<Rightarrow> events g cs | Some e \<Rightarrow> e # events g cs)"
  by (simp add: List.map_filter_def split: option.splits)

lemma events_silent: "list_all (\<lambda>c. g c = None) cs \<Longrightarrow> events g cs = []"
  by (induction cs) auto

definition performs :: "('c \<Rightarrow> 'e option) \<Rightarrow> 'e list \<Rightarrow> ('c, 'w, 'a) io \<Rightarrow> bool" where
  "performs g es m = traces (\<lambda>r cs. prefix (events g cs) es \<and> ((\<exists>x. r = Val x) \<longrightarrow> events g cs = es)) m"

lemma performsD:
  "performs g es m \<Longrightarrow> m s = (r, s') \<Longrightarrow>
   \<exists>cs. snd s' = snd s @ cs \<and> prefix (events g cs) es \<and> ((\<exists>x. r = Val x) \<longrightarrow> events g cs = es)"
  unfolding performs_def by (rule tracesD)

lemma performs_silent: "emits (\<lambda>c. g c = None) m \<Longrightarrow> performs g [] m"
  unfolding performs_def traces_emits by (erule traces_mono) (simp add: events_silent)

lemma performs_call: "g c = Some e \<Longrightarrow> performs g [e] (call c f)"
  unfolding performs_def by (rule traces_call) simp

lemma performs_fail: "performs g es (fail e)"
  unfolding performs_def by (rule traces_fail) simp

lemma performs_panic: "performs g es (panic e)"
  unfolding performs_def by (rule traces_panic) simp

lemma performs_ret: "performs g [] (ret x)"
  unfolding performs_def by (rule traces_ret) simp

lemma performs_if:
  "(b \<Longrightarrow> performs g es m) \<Longrightarrow> (\<not> b \<Longrightarrow> performs g es m') \<Longrightarrow> performs g es (if b then m else m')"
  by simp

lemma performs_seqc:
  fixes f :: "'a \<Rightarrow> ('c, 'w, 'b) io"
  assumes "performs g as m" "\<And>x. performs g bs (f x)"
  shows "performs g (as @ bs) (seqc m f)"
  unfolding performs_def
proof (rule traces_seqc [OF assms(1) [unfolded performs_def]])
  fix x :: 'a and cs
  assume "prefix (events g cs) as \<and> ((\<exists>y. Val x = Val y) \<longrightarrow> events g cs = as)"
  then have cs: "events g cs = as" by auto
  show "traces (\<lambda>r ds. prefix (events g (cs @ ds)) (as @ bs) \<and>
      ((\<exists>x. r = Val x) \<longrightarrow> events g (cs @ ds) = as @ bs)) (f x)"
    by (rule traces_mono [OF assms(2) [of x, unfolded performs_def]]) (simp add: cs)
qed (auto intro: prefix_prefix)

lemma performs_after:
  assumes "emits (\<lambda>c. g c = None) m" "\<And>x. performs g es (f x)"
  shows "performs g es (seqc m f)"
  using performs_seqc [OF performs_silent [OF assms(1)] assms(2)] by simp

lemma performs_next:
  assumes "g c = Some e" "\<And>x. performs g es (f x)"
  shows "performs g (e # es) (seqc (call c h) f)"
  using performs_seqc [OF performs_call [of g, OF assms(1)] assms(2)] by simp

section \<open>Go maps\<close>

text \<open>A Go map is an association list with distinct keys; its order is the order in which
  a \<open>range\<close> over the map visits it.\<close>

abbreviation lookup :: "('k \<times> 'v) list \<Rightarrow> 'k \<Rightarrow> 'v option" where
  "lookup m k \<equiv> map_of m k"

abbreviation delete_key :: "'k \<Rightarrow> ('k \<times> 'v) list \<Rightarrow> ('k \<times> 'v) list" where
  "delete_key k m \<equiv> AList.delete k m"

abbreviation keys :: "('k \<times> 'v) list \<Rightarrow> 'k list" where
  "keys m \<equiv> map fst m"

lemma lookup_delete [simp]: "lookup (delete_key k m) k' = (if k' = k then None else lookup m k')"
  by (simp add: AList.delete_conv')

lemma lookup_update [simp]: "lookup (AList.update k v m) k' = (if k' = k then Some v else lookup m k')"
  by (simp add: update_conv')

lemma distinct_keys_update: "distinct (keys m) \<Longrightarrow> distinct (keys (AList.update k v m))"
  by (rule distinct_update)

lemma distinct_keys_delete: "distinct (keys m) \<Longrightarrow> distinct (keys (delete_key k m))"
  by (simp add: distinct_delete)

lemma distinct_keys_filter: "distinct (keys m) \<Longrightarrow> distinct (keys (filter P m))"
  by (simp add: distinct_map_filter)

lemma set_delete_key: "set (delete_key k m) = {x \<in> set m. fst x \<noteq> k}"
  by (auto simp: AList.delete_eq)

section \<open>Strings\<close>

text \<open>\<open>strings.HasPrefix\<close>, \<open>strings.Split\<close> with a one-character separator,
  \<open>strings.Join\<close>, \<open>strings.ReplaceAll\<close> of one character and \<open>strconv.Itoa\<close>.\<close>

fun HasPrefix :: "string \<Rightarrow> string \<Rightarrow> bool" where
  "HasPrefix s [] = True"
| "HasPrefix [] (p # ps) = False"
| "HasPrefix (c # s) (p # ps) = (c = p \<and> HasPrefix s ps)"

lemma HasPrefix_iff: "HasPrefix s p \<longleftrightarrow> (\<exists>t. s = p @ t)"
  by (induction s p rule: HasPrefix.induct) auto

definition HasSuffix :: "string \<Rightarrow> string \<Rightarrow> bool" where
  "HasSuffix s p = HasPrefix (rev s) (rev p)"

lemma HasSuffix_iff: "HasSuffix s p \<longleftrightarrow> (\<exists>t. s = t @ p)"
  by (auto simp: HasSuffix_def HasPrefix_iff) (metis rev_append rev_rev_ident)

fun Split :: "string \<Rightarrow> char \<Rightarrow> string list" where
  "Split [] d = [[]]"
| "Split (c # s) d = (if c = d then [] # Split s d
     else (case Split s d of [] \<Rightarrow> [[c]] | t # ts \<Rightarrow> (c # t) # ts))"

fun Join :: "string list \<Rightarrow> string \<Rightarrow> string" where
  "Join [] d = []"
| "Join [s] d = s"
| "Join (s # t # ts) d = s @ d @ Join (t # ts) d"

lemma Split_not_Nil [simp]: "Split s d \<noteq> []"
  by (induction s) (auto split: list.splits)

lemma Join_Cons: "ts \<noteq> [] \<Longrightarrow> Join (s # ts) d = s @ d @ Join ts d"
  by (cases ts) auto

lemma Join_Split [simp]: "Join (Split s d) [d] = s"
proof (induction s)
  case (Cons c s)
  obtain t ts where ts: "Split s d = t # ts"
    using Split_not_Nil by (meson neq_Nil_conv)
  with Cons show ?case by (cases ts) auto
qed simp

lemma Split_no_sep: "t \<in> set (Split s d) \<Longrightarrow> d \<notin> set t"
  by (induction s arbitrary: t) (auto split: list.splits if_splits)

lemma Split_single: "d \<notin> set s \<Longrightarrow> Split s d = [s]"
  by (induction s) auto

lemma Split_append: "d \<notin> set s \<Longrightarrow> Split (s @ d # t) d = s # Split t d"
  by (induction s) auto

definition ReplaceAll :: "string \<Rightarrow> char \<Rightarrow> string \<Rightarrow> string" where
  "ReplaceAll s c r = concat (map (\<lambda>x. if x = c then r else [x]) s)"

definition digit_char :: "nat \<Rightarrow> char" where
  "digit_char n = char_of (48 + n)"

function (sequential) Itoa :: "nat \<Rightarrow> string" where
  "Itoa n = (if n < 10 then [digit_char n] else Itoa (n div 10) @ [digit_char (n mod 10)])"
  by auto
termination by (relation "measure id") auto

declare Itoa.simps [simp del]

lemmas Itoa_code = Itoa.simps

definition Itoa_int :: "int \<Rightarrow> string" where
  "Itoa_int i = (if i < 0 then CHR ''-'' # Itoa (nat (- i)) else Itoa (nat i))"

text \<open>Substring test of \<open>strings.Contains\<close>.\<close>

fun Contains :: "string \<Rightarrow> string \<Rightarrow> bool" where
  "Contains [] t = (t = [])"
| "Contains (c # s) t = (HasPrefix (c # s) t \<or> Contains s t)"

lemma Contains_iff: "Contains s t \<longleftrightarrow> (\<exists>a b. s = a @ t @ b)"
proof (induction s)
  case (Cons c s)
  show ?case
  proof
    assume "Contains (c # s) t"
    then consider "HasPrefix (c # s) t" | "Contains s t" by auto
    then show "\<exists>a b. c # s = a @ t @ b"
    proof cases
      case 1
      then show ?thesis by (metis HasPrefix_iff append_Nil)
    next
      case 2
      then show ?thesis using Cons by (metis append_Cons)
    qed
  next
    assume "\<exists>a b. c # s = a @ t @ b"
    then obtain a b where ab: "c # s = a @ t @ b" by blast
    show "Contains (c # s) t"
    proof (cases a)
      case Nil
      with ab have "HasPrefix (c # s) t" by (auto simp: HasPrefix_iff)
      then show ?thesis by simp
    next
      case (Cons d a')
      with ab have "Contains s t" using \<open>Contains s t \<longleftrightarrow> _\<close> by auto
      then show ?thesis by simp
    qed
  qed
qed auto

text \<open>\<open>strings.ReplaceAll\<close> of a non-empty string, from left to right and without overlaps.\<close>

function (sequential) ReplaceStr :: "string \<Rightarrow> string \<Rightarrow> string \<Rightarrow> string" where
  "ReplaceStr [] old new = []"
| "ReplaceStr (c # s) old new =
     (if old \<noteq> [] \<and> HasPrefix (c # s) old then new @ ReplaceStr (drop (length old) (c # s)) old new
      else c # ReplaceStr s old new)"
  by pat_completeness auto
termination by (relation "measure (\<lambda>(s, old, new). length s)") auto

lemma ReplaceStr_absent: "\<not> Contains s old \<Longrightarrow> ReplaceStr s old new = s"
  by (induction s old new rule: ReplaceStr.induct) auto

end
