(* ===== verification/Utils.thy ===== *)
theory Utils
  imports Prelude "HOL-Library.Word"
begin

text \<open>The package \<open>pkg/utils\<close>: the MD5 digest as the websocket gateway and the
  secret clients use it (computed, with the block function of RFC 1321 over 32-bit words),
  hexadecimal encoding, list membership and the aggregation of errors.\<close>

unbundle bit_operations_syntax

type_synonym byte = "8 word"

definition bytes_of :: "string \<Rightarrow> byte list" where
  "bytes_of s = map (\<lambda>c. of_nat (of_char c)) s"

section \<open>Hexadecimal encoding\<close>

definition hex_digit :: "nat \<Rightarrow> char" where
  "hex_digit n = (if n < 10 then char_of (48 + n) else char_of (87 + n))"

definition hex_byte :: "byte \<Rightarrow> string" where
  "hex_byte b = [hex_digit (unat b div 16), hex_digit (unat b mod 16)]"

definition EncodeToString :: "byte list \<Rightarrow> string" where
  "EncodeToString bs = concat (map hex_byte bs)"

definition Hex :: "byte list \<Rightarrow> string" where
  "Hex data = EncodeToString data"

section \<open>The digest\<close>

definition md5_K :: "32 word list" where
  "md5_K = [3614090360, 3905402710, 606105819, 3250441966, 4118548399, 1200080426,
     2821735955, 4249261313, 1770035416, 2336552879, 4294925233, 2304563134,
     1804603682, 4254626195, 2792965006, 1236535329, 4129170786, 3225465664,
     643717713, 3921069994, 3593408605, 38016083, 3634488961, 3889429448,
     568446438, 3275163606, 4107603335, 1163531501, 2850285829, 4243563512,
     1735328473, 2368359562, 4294588738, 2272392833, 1839030562, 4259657740,
     2763975236, 1272893353, 4139469664, 3200236656, 681279174, 3936430074,
     3572445317, 76029189, 3654602809, 3873151461, 530742520, 3299628645,
     4096336452, 1126891415, 2878612391, 4237533241, 1700485571, 2399980690,
     4293915773, 2240044497, 1873313359, 4264355552, 2734768916, 1309151649,
     4149444226, 3174756917, 718787259, 3951481745]"

definition md5_S :: "nat list" where
  "md5_S = [7, 12, 17, 22, 7, 12, 17, 22, 7, 12, 17, 22, 7, 12, 17, 22,
     5, 9, 14, 20, 5, 9, 14, 20, 5, 9, 14, 20, 5, 9, 14, 20,
     4, 11, 16, 23, 4, 11, 16, 23, 4, 11, 16, 23, 4, 11, 16, 23,
     6, 10, 15, 21, 6, 10, 15, 21, 6, 10, 15, 21, 6, 10, 15, 21]"

definition rotl32 :: "nat \<Rightarrow> 32 word \<Rightarrow> 32 word" where
  "rotl32 n x = push_bit n x OR drop_bit (32 - n) x"

definition le_word :: "byte list \<Rightarrow> 32 word" where
  "le_word bs = foldr (\<lambda>b acc. acc * 256 + ucast b) bs 0"

definition le_bytes :: "nat \<Rightarrow> 'a::len word \<Rightarrow> byte list" where
  "le_bytes n x = map (\<lambda>i. ucast (drop_bit (8 * i) x)) [0..<n]"

fun chunks :: "nat \<Rightarrow> nat \<Rightarrow> 'a list \<Rightarrow> 'a list list" where
  "chunks 0 k xs = []"
| "chunks (Suc n) k xs = take k xs # chunks n k (drop k xs)"

definition md5_pad :: "byte list \<Rightarrow> byte list" where
  "md5_pad m = m @ [128] @ replicate ((119 - length m mod 64) mod 64) 0
     @ le_bytes 8 (of_nat (8 * length m) :: 64 word)"

type_synonym md5_state = "32 word \<times> 32 word \<times> 32 word \<times> 32 word"

fun md5_round :: "32 word list \<Rightarrow> md5_state \<Rightarrow> nat \<Rightarrow> md5_state" where
  "md5_round M (a, b, c, d) i =
     (let (f, g) =
        (if i < 16 then ((b AND c) OR (NOT b AND d), i)
         else if i < 32 then ((d AND b) OR (NOT d AND c), (5 * i + 1) mod 16)
         else if i < 48 then (b XOR c XOR d, (3 * i + 5) mod 16)
         else (c XOR (b OR NOT d), (7 * i) mod 16))
      in (d, b + rotl32 (md5_S ! i) (f + a + md5_K ! i + M ! g), b, c))"

fun md5_block :: "md5_state \<Rightarrow> byte list \<Rightarrow> md5_state" where
  "md5_block (a, b, c, d) blk =
     (case foldl (md5_round (map le_word (chunks 16 4 blk))) (a, b, c, d) [0..<64] of
        (a', b', c', d') \<Rightarrow> (a + a', b + b', c + c', d + d'))"

definition md5_init :: md5_state where
  "md5_init = (1732584193, 4023233417, 2562383102, 271733878)"

definition md5_Sum :: "byte list \<Rightarrow> byte list" where
  "md5_Sum m = (let p = md5_pad m in
     case foldl md5_block md5_init (chunks (length p div 64) 64 p) of
       (a, b, c, d) \<Rightarrow> concat (map (\<lambda>w. le_bytes 4 w) [a, b, c, d]))"

definition MD5 :: "string \<Rightarrow> string" where
  "MD5 s = EncodeToString (md5_Sum (bytes_of s))"

section \<open>Lists and errors\<close>

fun ListContains :: "'a list \<Rightarrow> 'a \<Rightarrow> bool" where
  "ListContains [] v = False"
| "ListContains (item # items) v = (if v = item then True else ListContains items v)"

lemma ListContains_iff [simp]: "ListContains items v \<longleftrightarrow> v \<in> set items"
  by (induction items) auto

text \<open>\<open>AggregateErrs\<close>: no error, the only error itself, or the messages each followed by
  a tab, without the last tab.\<close>

definition AggregateErrs :: "go_error list \<Rightarrow> go_error option" where
  "AggregateErrs errs = (case errs of
      [] \<Rightarrow> None
    | [e] \<Rightarrow> Some e
    | _ \<Rightarrow> (let errStr = concat (map (\<lambda>e. Error e @ [CHR 0x09]) errs)
           in Some (Failure (take (length errStr - 1) errStr))))"

lemma AggregateErrs_None_iff [simp]: "AggregateErrs errs = None \<longleftrightarrow> errs = []"
  by (auto simp: AggregateErrs_def Let_def split: list.splits)

lemma concat_tab: "es \<noteq> [] \<Longrightarrow>
  concat (map (\<lambda>e. Error e @ [t]) es) = Join (map Error es) [t] @ [t]"
proof (induction es)
  case (Cons e es)
  then show ?case by (cases es) auto
qed simp

lemma AggregateErrs_many:
  "AggregateErrs (a # b # es) = Some (Failure (Join (map Error (a # b # es)) [CHR 0x09]))"
  unfolding AggregateErrs_def Let_def using concat_tab [of "a # b # es" "CHR 0x09"] by simp

lemma MD5_length: "length (MD5 s) = 32"
proof -
  have enc: "length (EncodeToString bs) = 2 * length bs" for bs
    by (induction bs) (simp_all add: EncodeToString_def hex_byte_def)
  have "length (md5_Sum m) = 16" for m
    by (simp add: md5_Sum_def Let_def le_bytes_def split: prod.splits)
  then show ?thesis by (simp add: MD5_def enc)
qed

text \<open>A test vector of RFC 1321, evaluated in the kernel.\<close>

lemma MD5_a: "MD5 ''a'' = ''0cc175b9c0f1b6a831c399e269772661''"
  by code_simp

end
