(* ===== verification/Ws_Server.thy ===== *)
theory Ws_Server
  imports Utils
begin

text \<open>The websocket hub, \<open>pkg/ws\<close>: the values stored with a connection, the table of
  users and their connections, the filters that select connections, and the operations of the
  server on its three queues. A \<open>*Client\<close> is shared between the table and the goroutine
  that serves it, so clients live in a store addressed by numbers.\<close>

section \<open>Data (server.go, client.go, ws_types.go)\<close>

datatype json =
    JNull
  | JBool bool
  | JNum int
  | JStr string
  | JArr "json list"
  | JObj "(string \<times> json) list"

definition queueSize :: nat where "queueSize = 500"
definition expirationTicker :: int where "expirationTicker = 30"
definition expirationDuration :: int where "expirationDuration = 45"

definition TextMessage :: int where "TextMessage = 1"

definition ACTION_OPEN :: string where "ACTION_OPEN = ''open''"
definition ACTION_CLOSE :: string where "ACTION_CLOSE = ''close''"
definition ACTION_MESSAGE :: string where "ACTION_MESSAGE = ''message''"

record CloseMessage =
  cmConnIds :: "string list"
  cmTokens :: "string list"
  cmUsers :: "string list"
  cmUsersAccessType :: int

record ReadMessage =
  rmData :: json
  rmAction :: string
  rmCookie :: string
  rmUserName :: string
  rmConnId :: string
  rmToken :: string
  rmAccessPublic :: bool

record WriteMessage =
  wmMessageType :: int
  wmMessage :: json
  wmConnId :: string
  wmTokens :: "string list"
  wmUsers :: "string list"
  wmUsersAccessType :: int

text \<open>The \<open>Locals\<close> of a connection under the keys of \<open>pkg/constants\<close> that
  \<open>RequireHeader\<close> and \<open>setLocals\<close> fill; \<open>lExpired\<close> is absent until \<open>setLocals\<close>.\<close>

record Locals =
  lAccessPublic :: bool
  lUser :: string
  lConnId :: string
  lToken :: string
  lTokenOriginal :: string
  lUserAgent :: string
  lClientIp :: string
  lCookie :: string
  lClientAddr :: string
  lExpired :: "int option"

record Client =
  ctxDone :: bool
  conn :: "Locals option"

type_synonym ptr = nat

record User =
  uname :: string
  conns :: "(string \<times> ptr) list"

record Server =
  queue_read :: "ReadMessage list"
  queue_write :: "WriteMessage list"
  queue_close :: "CloseMessage list"
  users :: "(string \<times> User) list"
  heap :: "ptr \<Rightarrow> Client option"

definition NewWebSocketServer :: Server where
  "NewWebSocketServer = \<lparr>queue_read = [], queue_write = [], queue_close = [], users = [],
     heap = (\<lambda>_. None)\<rparr>"

section \<open>Clients (client.go)\<close>

text \<open>Every getter reads \<open>client.conn.Locals\<close>; a nil \<open>conn\<close> panics.\<close>

definition deref :: "Server \<Rightarrow> ptr \<Rightarrow> Locals res" where
  "deref server p = (case heap server p of
      None \<Rightarrow> Panic ''nil client''
    | Some c \<Rightarrow> (case conn c of None \<Rightarrow> Panic ''nil conn'' | Some l \<Rightarrow> Val l))"

definition setLocals :: "string \<Rightarrow> int \<Rightarrow> Locals \<Rightarrow> Locals" where
  "setLocals remoteAddr now l = l\<lparr>lClientAddr := remoteAddr, lExpired := Some now\<rparr>"

definition isExpired :: "int \<Rightarrow> Locals \<Rightarrow> bool" where
  "isExpired now l = (case lExpired l of
      None \<Rightarrow> True
    | Some expirationTime \<Rightarrow> expirationTime = 0 \<or> now - expirationTime > expirationDuration)"

definition updateExpiration :: "int \<Rightarrow> ptr \<Rightarrow> Server \<Rightarrow> Server" where
  "updateExpiration now p server = (case heap server p of
      None \<Rightarrow> server
    | Some c \<Rightarrow> server\<lparr>heap := (heap server)(p \<mapsto>
        c\<lparr>conn := map_option (\<lambda>l. l\<lparr>lExpired := Some now\<rparr>) (conn c)\<rparr>)\<rparr>)"

definition client_close :: "ptr \<Rightarrow> (ptr \<Rightarrow> Client option) \<Rightarrow> (ptr \<Rightarrow> Client option)" where
  "client_close p h = (case h p of None \<Rightarrow> h | Some c \<Rightarrow> h(p \<mapsto> c\<lparr>ctxDone := True\<rparr>))"

text \<open>\<open>md5\<close> of client.go: the empty input has the empty tag.\<close>

definition client_md5 :: "string \<Rightarrow> string" where
  "client_md5 b = (if b = [] then [] else MD5 b)"

text \<open>\<open>checkPingMessage\<close>: \<open>unmarshal\<close> stands for \<open>json.Unmarshal\<close> into a map; it gives
  the entries decoded and whether it reported an error.\<close>

type_synonym unmarshal = "string \<Rightarrow> (string \<times> json) list \<times> bool"

definition checkPingMessage :: "unmarshal \<Rightarrow> string \<Rightarrow> bool" where
  "checkPingMessage unmarshal msg = (case unmarshal msg of
      (data, err) \<Rightarrow> if err then False
        else (case lookup data ''event'' of Some (JStr m) \<Rightarrow> m = ''ping'' | _ \<Rightarrow> False))"

section \<open>Filters (filters.go)\<close>

record fields =
  fUser :: string
  fToken :: string
  fConnId :: string
  fPublic :: string
  fClient :: ptr

definition bool_str :: "bool \<Rightarrow> string" where
  "bool_str b = (if b then ''true'' else ''false'')"

definition conn_fields :: "string \<Rightarrow> string \<Rightarrow> ptr \<Rightarrow> Locals \<Rightarrow> fields" where
  "conn_fields userName connId p l = \<lparr>fUser = userName, fToken = lToken l, fConnId = connId,
     fPublic = bool_str (lAccessPublic l), fClient = p\<rparr>"

definition all_conns :: "Server \<Rightarrow> (string \<times> string \<times> ptr) list" where
  "all_conns server = concat (map (\<lambda>(userName, userConns).
     map (\<lambda>(connId, p). (userName, connId, p)) (conns userConns)) (users server))"

definition NewFilter :: "Server \<Rightarrow> fields list res" where
  "NewFilter server = mapR (\<lambda>(userName, connId, p).
     bindR (deref server p) (\<lambda>l. Val (conn_fields userName connId p l))) (all_conns server)"

definition Result :: "fields list \<Rightarrow> string list" where
  "Result data = remdups (map fConnId data)"

definition filter_fields :: "string list \<Rightarrow> (fields \<Rightarrow> string) \<Rightarrow> fields list \<Rightarrow> fields list" where
  "filter_fields list fieldValue data =
     (if list = [] then [] else filter (\<lambda>d. ListContains list (fieldValue d)) data)"

definition FilterByUsers :: "string list \<Rightarrow> fields list \<Rightarrow> fields list" where
  "FilterByUsers us = filter_fields us fUser"

definition FilterByUsersPublicsOnly :: "fields list \<Rightarrow> fields list" where
  "FilterByUsersPublicsOnly = filter_fields [''true''] fPublic"

definition FilterByUsersPrivatesOnly :: "fields list \<Rightarrow> fields list" where
  "FilterByUsersPrivatesOnly = filter_fields [''false''] fPublic"

definition FilterByTokens :: "string list \<Rightarrow> fields list \<Rightarrow> fields list" where
  "FilterByTokens tokens = filter_fields tokens fToken"

definition FilterByConnIds :: "string list \<Rightarrow> fields list \<Rightarrow> fields list" where
  "FilterByConnIds connIds = filter_fields connIds fConnId"

definition FilterByExpired :: "int \<Rightarrow> Server \<Rightarrow> fields list \<Rightarrow> fields list res" where
  "FilterByExpired now server data =
     bindR (mapR (\<lambda>d. bindR (deref server (fClient d)) (\<lambda>l. Val (d, isExpired now l))) data)
       (\<lambda>ds. Val (map fst (filter snd ds)))"

text \<open>The cascade of filters that \<open>closeConns\<close> and \<open>routineWrite\<close> both apply.\<close>

definition select_conns ::
  "string list \<Rightarrow> string list \<Rightarrow> string list \<Rightarrow> int \<Rightarrow> fields list \<Rightarrow> fields list" where
  "select_conns connIds tokens us usersAccessType data =
     (let data = (if us \<noteq> [] then
             (let data = FilterByUsers us data in
              if usersAccessType = 1 then FilterByUsersPrivatesOnly data
              else if usersAccessType = 2 then FilterByUsersPublicsOnly data
              else data)
           else data);
          data = (if tokens \<noteq> [] then FilterByTokens tokens data else data)
      in if connIds \<noteq> [] then FilterByConnIds connIds data else data)"

section \<open>The server's operations (server.go)\<close>

text \<open>A send on a queue of \<open>queueSize\<close> places blocks while the queue is full: the step is
  not taken then.\<close>

definition Close :: "string list \<Rightarrow> string list \<Rightarrow> string list \<Rightarrow> int \<Rightarrow> Server \<Rightarrow> Server" where
  "Close connIds tokens us usersAccessType server = server\<lparr>queue_close := queue_close server @
     [\<lparr>cmConnIds = connIds, cmTokens = tokens, cmUsers = us, cmUsersAccessType = usersAccessType\<rparr>]\<rparr>"

definition server_close :: "string \<Rightarrow> Server \<Rightarrow> Server" where
  "server_close connId server = server\<lparr>queue_close := queue_close server @
     [\<lparr>cmConnIds = [connId], cmTokens = [], cmUsers = [], cmUsersAccessType = 0\<rparr>]\<rparr>"

definition Push :: "string \<Rightarrow> string list \<Rightarrow> string list \<Rightarrow> int \<Rightarrow> json \<Rightarrow> Server \<Rightarrow> Server" where
  "Push connId tokens us usersAccessType message server = server\<lparr>queue_write := queue_write server @
     [\<lparr>wmMessageType = TextMessage, wmMessage = message, wmConnId = connId, wmTokens = tokens,
       wmUsers = us, wmUsersAccessType = usersAccessType\<rparr>]\<rparr>"

definition server_write :: "string \<Rightarrow> int \<Rightarrow> json \<Rightarrow> Server \<Rightarrow> Server" where
  "server_write connId msgType data server = server\<lparr>queue_write := queue_write server @
     [\<lparr>wmMessageType = msgType, wmMessage = data, wmConnId = connId, wmTokens = [],
       wmUsers = [], wmUsersAccessType = 0\<rparr>]\<rparr>"

definition server_read ::
  "bool \<Rightarrow> string \<Rightarrow> string \<Rightarrow> string \<Rightarrow> json \<Rightarrow> string \<Rightarrow> string \<Rightarrow> Server \<Rightarrow> Server" where
  "server_read accessPublic token connId userName message cookie action server =
     server\<lparr>queue_read := queue_read server @
       [\<lparr>rmData = message, rmAction = action, rmCookie = cookie, rmUserName = userName,
         rmConnId = connId, rmToken = token, rmAccessPublic = accessPublic\<rparr>]\<rparr>"

definition addClient :: "ptr \<Rightarrow> Server \<Rightarrow> Server res" where
  "addClient p server = bindR (deref server p) (\<lambda>l.
     let userName = lUser l; connId = lConnId l in
     case lookup (users server) userName of
       None \<Rightarrow> Val (server\<lparr>users := users server @
                 [(userName, \<lparr>uname = userName, conns = [(connId, p)]\<rparr>)]\<rparr>)
     | Some user \<Rightarrow> Val (server\<lparr>users := AList.update userName
                 (user\<lparr>conns := AList.update connId p (conns user)\<rparr>) (users server)\<rparr>))"

definition noticeConnected :: "ptr \<Rightarrow> Server \<Rightarrow> Server res" where
  "noticeConnected p server = bindR (deref server p) (\<lambda>l.
     Val (server_read (lAccessPublic l) (lTokenOriginal l) (lConnId l) (lUser l) (JObj [])
            (lCookie l) ACTION_OPEN server))"

text \<open>\<open>New\<close>: allocate the client, record it, announce it. \<open>l\<close> is what the middleware
  left in the connection.\<close>

definition New :: "ptr \<Rightarrow> string \<Rightarrow> int \<Rightarrow> Locals \<Rightarrow> Server \<Rightarrow> Server res" where
  "New p remoteAddr now l server =
     bindR (addClient p (server\<lparr>heap := (heap server)(p \<mapsto>
        \<lparr>ctxDone = False, conn = Some (setLocals remoteAddr now l)\<rparr>)\<rparr>)) (noticeConnected p)"

text \<open>\<open>List\<close>: per user the private and the public connections.\<close>

record ConnInfo =
  ciId :: string
  ciToken :: string
  ciUserAgent :: string
  ciUserAgentTag :: string

record UserInfo =
  uiName :: string
  uiConns :: "ConnInfo list"
  uiConnsNumber :: nat
  uiPublicConns :: "ConnInfo list"
  uiPublicConnsNumber :: nat

definition conn_info :: "Locals \<Rightarrow> ConnInfo" where
  "conn_info l = \<lparr>ciId = lConnId l, ciToken = lTokenOriginal l, ciUserAgent = lUserAgent l,
     ciUserAgentTag = client_md5 (lUserAgent l)\<rparr>"

definition user_info :: "Server \<Rightarrow> User \<Rightarrow> UserInfo res" where
  "user_info server z = bindR (mapR (\<lambda>(_, p). deref server p) (conns z)) (\<lambda>ls.
     let publics = map conn_info (filter lAccessPublic ls);
         ccs = map conn_info (filter (\<lambda>l. \<not> lAccessPublic l) ls) in
     Val \<lparr>uiName = uname z, uiConns = ccs, uiConnsNumber = length ccs,
          uiPublicConns = publics, uiPublicConnsNumber = length publics\<rparr>)"

definition List :: "Server \<Rightarrow> UserInfo list res" where
  "List server = mapR (\<lambda>(_, z). user_info server z) (users server)"

text \<open>\<open>closeConns\<close>: the inner loop over the selected ids of one user, the loop over the
  users, and the removal of users left without connections.\<close>

fun close_user :: "string list \<Rightarrow> (string \<times> ptr) list \<times> (ptr \<Rightarrow> Client option) \<Rightarrow>
    (string \<times> ptr) list \<times> (ptr \<Rightarrow> Client option)" where
  "close_user [] (cs, h) = (cs, h)"
| "close_user (connId # ids) (cs, h) = (case lookup cs connId of
     Some p \<Rightarrow> (case h p of
        Some c \<Rightarrow> if conn c \<noteq> None then close_user ids (delete_key connId cs, client_close p h)
                  else close_user ids (cs, h)
      | None \<Rightarrow> close_user ids (cs, h))
   | None \<Rightarrow> close_user ids (cs, h))"

fun close_users :: "string list \<Rightarrow> (string \<times> User) list \<Rightarrow> (ptr \<Rightarrow> Client option) \<Rightarrow>
    (string \<times> User) list \<times> string list \<times> (ptr \<Rightarrow> Client option)" where
  "close_users ids [] h = ([], [], h)"
| "close_users ids ((userName, u) # us) h =
     (let (cs, h') = close_user ids (conns u, h);
          (us', removeusers, h'') = close_users ids us h' in
      ((userName, u\<lparr>conns := cs\<rparr>) # us',
       (if cs = [] then userName # removeusers else removeusers), h''))"

definition closeConns ::
  "string list \<Rightarrow> string list \<Rightarrow> string list \<Rightarrow> int \<Rightarrow> Server \<Rightarrow> Server res" where
  "closeConns connIds tokens us usersAccessType server =
     bindR (NewFilter server) (\<lambda>data.
     let result = Result (select_conns connIds tokens us usersAccessType data) in
     if result = [] then Val server
     else (let (us', removeusers, h) = close_users result (users server) (heap server) in
       Val (server\<lparr>users := fold delete_key removeusers us', heap := h\<rparr>)))"

text \<open>One iteration of \<open>routineClose\<close>, \<open>routineRead\<close> and \<open>routineWrite\<close>. The handler
  receives the message read; \<open>marshal\<close> stands for \<open>json.Marshal\<close>; what is written is the
  list of connection, message type and bytes.\<close>

definition routineClose :: "Server \<Rightarrow> Server res" where
  "routineClose server = (case queue_close server of
      [] \<Rightarrow> Val server
    | elem # q \<Rightarrow> closeConns (cmConnIds elem) (cmTokens elem) (cmUsers elem)
        (cmUsersAccessType elem) (server\<lparr>queue_close := q\<rparr>))"

definition routineRead :: "Server \<Rightarrow> Server \<times> ReadMessage option" where
  "routineRead server = (case queue_read server of
      [] \<Rightarrow> (server, None)
    | elem # q \<Rightarrow> (server\<lparr>queue_read := q\<rparr>, Some elem))"

definition write_targets :: "string list \<Rightarrow> (string \<times> User) list \<Rightarrow> ptr list" where
  "write_targets result us = concat (map (\<lambda>(_, u).
     List.map_filter (\<lambda>connId. lookup (conns u) connId) result) us)"

definition routineWrite :: "(json \<Rightarrow> string option) \<Rightarrow> Server \<Rightarrow>
    (Server \<times> (ptr \<times> int \<times> string) list) res" where
  "routineWrite marshal server = (case queue_write server of
      [] \<Rightarrow> Val (server, [])
    | elem # q \<Rightarrow> (let server = server\<lparr>queue_write := q\<rparr> in
        case marshal (wmMessage elem) of
          None \<Rightarrow> Val (server, [])
        | Some msg \<Rightarrow> bindR (NewFilter server) (\<lambda>data.
            let result = Result (select_conns (if wmConnId elem \<noteq> [] then [wmConnId elem] else [])
                  (wmTokens elem) (wmUsers elem) (wmUsersAccessType elem) data)
            in Val (server, map (\<lambda>p. (p, wmMessageType elem, msg))
                      (write_targets result (users server))))))"

definition checkExpired :: "int \<Rightarrow> Server \<Rightarrow> Server res" where
  "checkExpired now server = bindR (NewFilter server) (\<lambda>data.
     bindR (FilterByExpired now server data) (\<lambda>expired.
     let result = Result expired in
     if length result > 0 then Val (Close result [] [] 0 server) else Val server))"

text \<open>One iteration of the loop of \<open>onConnection\<close>; \<open>inp\<close> is what \<open>conn.ReadMessage\<close>
  returns, \<open>None\<close> for an error.\<close>

datatype loop = Continue | Return

definition onConnection :: "unmarshal \<Rightarrow> int \<Rightarrow> ptr \<Rightarrow> (int \<times> string) option \<Rightarrow> Server \<Rightarrow>
    (loop \<times> Server) res" where
  "onConnection unmarshal now p inp server = bindR (deref server p) (\<lambda>l.
     let read = server_read (lAccessPublic l) (lTokenOriginal l) (lConnId l) (lUser l) in
     if (case heap server p of Some c \<Rightarrow> ctxDone c | None \<Rightarrow> False) then Val (Return, server)
     else (case inp of
        None \<Rightarrow> Val (Return, server_close (lConnId l)
                  (read (JObj []) (lCookie l) ACTION_CLOSE server))
      | Some (mt, msg) \<Rightarrow>
          if mt < 1 then Val (Return, server_close (lConnId l)
                  (read (JObj []) (lCookie l) ACTION_CLOSE server))
          else if checkPingMessage unmarshal msg then
            Val (Continue, updateExpiration now p
              (server_write (lConnId l) TextMessage (JObj [(''event'', JStr ''pong'')]) server))
          else Val (Continue, read (JObj (fst (unmarshal msg))) (lCookie l) ACTION_MESSAGE server)))"

end
