(* ===== verification/Ws_Server_Proofs.thy ===== *)
theory Ws_Server_Proofs
  imports Ws_Server "HOL-Library.Multiset"
begin

text \<open>Lemmas on the websocket hub: the contract of a field filter as a locale, the cascade
  of filters as one predicate, the table and the store after \<open>closeConns\<close>, the
  well-formedness invariant of the table and its preservation by every operation.\<close>

section \<open>Filters\<close>

text \<open>The contract of a filter by one field, as the comment at the head of filters.go
  states it: a non-empty list keeps the connections whose field is listed, the empty list
  clears the result set.\<close>

locale field_filter =
  fixes apply_filter :: "string list \<Rightarrow> fields list \<Rightarrow> fields list"
    and key :: "fields \<Rightarrow> string"
  assumes filter_keeps: "vs \<noteq> [] \<Longrightarrow> apply_filter vs data = filter (\<lambda>d. key d \<in> set vs) data"
    and filter_clears: "apply_filter [] data = []"
begin

lemma filter_guarded:
  "(if vs \<noteq> [] then apply_filter vs data else data)
     = filter (\<lambda>d. vs \<noteq> [] \<longrightarrow> key d \<in> set vs) data"
  by (simp add: filter_keeps)

lemma filter_subset: "set (apply_filter vs data) \<subseteq> set data"
  by (cases "vs = []") (auto simp: filter_keeps filter_clears)

lemma filter_idem: "apply_filter vs (apply_filter vs data) = apply_filter vs data"
  by (cases "vs = []") (auto simp: filter_keeps filter_clears)

lemma filter_mono: "vs \<noteq> [] \<Longrightarrow> set vs \<subseteq> set ws \<Longrightarrow>
    set (apply_filter vs data) \<subseteq> set (apply_filter ws data)"
  by (cases "ws = []") (auto simp: filter_keeps)

end

interpretation by_user: field_filter FilterByUsers fUser
  by unfold_locales (simp_all add: FilterByUsers_def filter_fields_def)

interpretation by_token: field_filter FilterByTokens fToken
  by unfold_locales (simp_all add: FilterByTokens_def filter_fields_def)

interpretation by_connId: field_filter FilterByConnIds fConnId
  by unfold_locales (simp_all add: FilterByConnIds_def filter_fields_def)

text \<open>What a close or a send request addresses, in one predicate.\<close>

definition addressed :: "string list \<Rightarrow> string list \<Rightarrow> string list \<Rightarrow> int \<Rightarrow> fields \<Rightarrow> bool" where
  "addressed connIds tokens us usersAccessType d \<longleftrightarrow>
     (us \<noteq> [] \<longrightarrow> fUser d \<in> set us \<and> (usersAccessType = 1 \<longrightarrow> fPublic d = ''false'')
                   \<and> (usersAccessType = 2 \<longrightarrow> fPublic d = ''true'')) \<and>
     (tokens \<noteq> [] \<longrightarrow> fToken d \<in> set tokens) \<and>
     (connIds \<noteq> [] \<longrightarrow> fConnId d \<in> set connIds)"

lemma select_conns_eq:
  "select_conns connIds tokens us at data = filter (addressed connIds tokens us at) data"
  unfolding select_conns_def Let_def by_token.filter_guarded by_connId.filter_guarded
  by (auto simp: by_user.filter_keeps FilterByUsersPrivatesOnly_def FilterByUsersPublicsOnly_def
      filter_fields_def addressed_def intro!: filter_cong)

section \<open>The table of connections\<close>

definition live :: "(ptr \<Rightarrow> Client option) \<Rightarrow> ptr \<Rightarrow> bool" where
  "live h p \<longleftrightarrow> (\<exists>c l. h p = Some c \<and> conn c = Some l)"

definition locals_of :: "Server \<Rightarrow> ptr \<Rightarrow> Locals" where
  "locals_of server p = the (conn (the (heap server p)))"

definition conn_ids :: "Server \<Rightarrow> string list" where
  "conn_ids server = map (\<lambda>(u, c, p). c) (all_conns server)"

definition ws_inv :: "Server \<Rightarrow> bool" where
  "ws_inv server \<longleftrightarrow>
     distinct (keys (users server)) \<and>
     (\<forall>(n, u) \<in> set (users server). uname u = n \<and> conns u \<noteq> []) \<and>
     (\<forall>(u, c, p) \<in> set (all_conns server). live (heap server) p \<and>
        lUser (locals_of server p) = u \<and> lConnId (locals_of server p) = c) \<and>
     distinct (conn_ids server) \<and>
     (\<forall>p c. heap server p = Some c \<longrightarrow> conn c \<noteq> None)"

lemma deref_live: "live (heap server) p \<Longrightarrow> deref server p = Val (locals_of server p)"
  by (auto simp: live_def deref_def locals_of_def)

definition fields_of :: "Server \<Rightarrow> (string \<times> string \<times> ptr) \<Rightarrow> fields" where
  "fields_of server x = (case x of (u, c, p) \<Rightarrow> conn_fields u c p (locals_of server p))"

lemma fields_of_connId [simp]: "fConnId (fields_of server (u, c, p)) = c"
  by (simp add: fields_of_def conn_fields_def)

lemma NewFilter_inv:
  "ws_inv server \<Longrightarrow> NewFilter server = Val (map (fields_of server) (all_conns server))"
  unfolding NewFilter_def
  by (rule mapR_all_Val) (auto simp: ws_inv_def fields_of_def deref_live)

lemma all_conns_iff:
  "(u, c, p) \<in> set (all_conns server) \<longleftrightarrow>
     (\<exists>U. (u, U) \<in> set (users server) \<and> (c, p) \<in> set (conns U))"
  by (force simp: all_conns_def)

lemma inv_conn:
  assumes "ws_inv server" "(u, c, p) \<in> set (all_conns server)"
  shows "live (heap server) p \<and> lUser (locals_of server p) = u \<and> lConnId (locals_of server p) = c"
  using assms unfolding ws_inv_def by blast

lemma conn_id_unique:
  assumes "ws_inv server" "(u, c, p) \<in> set (all_conns server)" "(u', c, p') \<in> set (all_conns server)"
  shows "u' = u \<and> p' = p"
proof -
  have "inj_on (\<lambda>(u, c, p). c) (set (all_conns server))"
    using assms(1) by (simp add: ws_inv_def conn_ids_def distinct_map)
  then show ?thesis using assms(2,3) unfolding inj_on_def by fastforce
qed

lemma ptr_unique:
  assumes "ws_inv server" "(u, c, p) \<in> set (all_conns server)" "(u', c', p) \<in> set (all_conns server)"
  shows "u' = u \<and> c' = c"
  using inv_conn [OF assms(1,2)] inv_conn [OF assms(1,3)] by simp

section \<open>\<open>closeConns\<close>\<close>

definition cancelled :: "ptr set \<Rightarrow> (ptr \<Rightarrow> Client option) \<Rightarrow> (ptr \<Rightarrow> Client option)" where
  "cancelled P h = (\<lambda>q. if q \<in> P then map_option (\<lambda>c. c\<lparr>ctxDone := True\<rparr>) (h q) else h q)"

lemma cancelled_empty [simp]: "cancelled {} h = h"
  by (simp add: cancelled_def)

lemma cancelled_cancelled: "cancelled Q (cancelled P h) = cancelled (P \<union> Q) h"
  by (auto simp: cancelled_def option.map_comp comp_def fun_eq_iff)

lemma client_close_cancelled: "client_close p h = cancelled {p} h"
  by (auto simp: client_close_def cancelled_def fun_eq_iff split: option.splits)

lemma live_cancelled [simp]: "live (cancelled P h) p = live h p"
  by (auto simp: live_def cancelled_def)

lemma locals_cancelled [simp]:
  "live (heap s) p \<Longrightarrow> heap s' = cancelled P (heap s) \<Longrightarrow> locals_of s' p = locals_of s p"
  by (auto simp: locals_of_def live_def cancelled_def)

lemma close_user_eq:
  assumes "distinct (keys cs)" "\<forall>(c, p) \<in> set cs. live h p"
  shows "close_user ids (cs, h) =
    (filter (\<lambda>(c, p). c \<notin> set ids) cs, cancelled {p. \<exists>c \<in> set ids. (c, p) \<in> set cs} h)"
  using assms
proof (induction ids arbitrary: cs h)
  case Nil
  then show ?case by (simp add: case_prod_unfold)
next
  case (Cons i ids)
  show ?case
  proof (cases "lookup cs i")
    case None
    then have "\<And>p. (i, p) \<notin> set cs" by (metis weak_map_of_SomeI option.distinct(1))
    moreover from this have "filter (\<lambda>(c, p). c \<notin> set (i # ids)) cs = filter (\<lambda>(c, p). c \<notin> set ids) cs"
      by (auto intro!: filter_cong)
    ultimately show ?thesis using Cons None by simp
  next
    case (Some p)
    then have ip: "(i, p) \<in> set cs" by (rule map_of_SomeD)
    then obtain c l where c: "h p = Some c" "conn c = Some l"
      using Cons.prems(2) by (auto simp: live_def)
    let ?cs = "delete_key i cs"
    have only: "(i, q) \<in> set cs \<Longrightarrow> q = p" for q
      using Some Cons.prems(1) by (metis map_of_eq_Some_iff option.inject)
    have "close_user (i # ids) (cs, h) = close_user ids (?cs, cancelled {p} h)"
      using Some c by (simp add: client_close_cancelled)
    also have "\<dots> = (filter (\<lambda>(c, p). c \<notin> set ids) ?cs,
        cancelled {p. \<exists>c \<in> set ids. (c, p) \<in> set ?cs} (cancelled {p} h))"
      by (rule Cons.IH) (use Cons.prems in \<open>auto simp: distinct_delete set_delete_key\<close>)
    also have "filter (\<lambda>(c, p). c \<notin> set ids) ?cs = filter (\<lambda>(c, p). c \<notin> set (i # ids)) cs"
      by (auto simp: AList.delete_eq intro!: filter_cong)
    also have "cancelled {p. \<exists>c \<in> set ids. (c, p) \<in> set ?cs} (cancelled {p} h)
        = cancelled {p. \<exists>c \<in> set (i # ids). (c, p) \<in> set cs} h"
    proof -
      have "{p} \<union> {p. \<exists>c \<in> set ids. (c, p) \<in> set ?cs} = {p. \<exists>c \<in> set (i # ids). (c, p) \<in> set cs}"
        by (auto simp: set_delete_key ip dest: only)
      then show ?thesis by (simp only: cancelled_cancelled)
    qed
    finally show ?thesis .
  qed
qed

definition keep_conns :: "string list \<Rightarrow> User \<Rightarrow> User" where
  "keep_conns ids u = u\<lparr>conns := filter (\<lambda>(c, p). c \<notin> set ids) (conns u)\<rparr>"

lemma close_users_eq:
  assumes "\<forall>(n, u) \<in> set us. distinct (keys (conns u)) \<and> (\<forall>(c, p) \<in> set (conns u). live h p)"
  shows "close_users ids us h =
    (map (\<lambda>(n, u). (n, keep_conns ids u)) us,
     map fst (filter (\<lambda>(n, u). conns (keep_conns ids u) = []) us),
     cancelled {p. \<exists>n u c. (n, u) \<in> set us \<and> (c, p) \<in> set (conns u) \<and> c \<in> set ids} h)"
  using assms
proof (induction us arbitrary: h)
  case (Cons x us)
  obtain n u where x: "x = (n, u)" by force
  let ?P = "{p. \<exists>c \<in> set ids. (c, p) \<in> set (conns u)}"
  have head: "close_user ids (conns u, h) =
      (filter (\<lambda>(c, p). c \<notin> set ids) (conns u), cancelled ?P h)"
    using Cons.prems by (intro close_user_eq) (auto simp: x)
  have "\<forall>(n, u) \<in> set us. distinct (keys (conns u)) \<and> (\<forall>(c, p) \<in> set (conns u). live (cancelled ?P h) p)"
    using Cons.prems by auto
  note tail = Cons.IH [OF this]
  have sets: "?P \<union> {p. \<exists>n u c. (n, u) \<in> set us \<and> (c, p) \<in> set (conns u) \<and> c \<in> set ids}
      = {p. \<exists>n' u' c. (n', u') \<in> set (x # us) \<and> (c, p) \<in> set (conns u') \<and> c \<in> set ids}"
    by (auto simp: x)
  show ?case
    unfolding sets [symmetric] cancelled_cancelled [symmetric]
    by (simp add: x head tail keep_conns_def)
qed simp

lemma fold_delete_key:
  "fold delete_key rs m = filter (\<lambda>(k, v). k \<notin> set rs) m"
proof (induction rs arbitrary: m)
  case Nil
  then show ?case by (simp add: case_prod_unfold)
next
  case (Cons r rs)
  then show ?case by (auto simp: AList.delete_eq intro!: filter_cong)
qed

lemma distinct_user_conns:
  assumes "ws_inv server" "(n, u) \<in> set (users server)"
  shows "distinct (keys (conns u))"
proof -
  have "conn_ids server = concat (map (\<lambda>(n, u). keys (conns u)) (users server))"
    unfolding conn_ids_def all_conns_def map_concat
    by (rule arg_cong [where f = concat]) (auto simp: comp_def case_prod_unfold)
  then show ?thesis
    using assms by (auto simp: ws_inv_def distinct_concat_iff)
qed

definition drop_users :: "string list \<Rightarrow> (string \<times> User) list \<Rightarrow> (string \<times> User) list" where
  "drop_users ids us = filter (\<lambda>(n, u). conns u \<noteq> []) (map (\<lambda>(n, u). (n, keep_conns ids u)) us)"

lemma filter_map_drop:
  assumes "distinct (keys us)"
  shows "filter (\<lambda>(k, v). k \<notin> set (map fst (filter (\<lambda>(n, u). conns (keep_conns ids u) = []) us)))
     (map (\<lambda>(n, u). (n, keep_conns ids u)) us) = drop_users ids us"
  unfolding drop_users_def
proof (rule filter_cong [OF refl])
  fix x
  assume "x \<in> set (map (\<lambda>(n, u). (n, keep_conns ids u)) us)"
  then obtain n u where nu: "(n, u) \<in> set us" "x = (n, keep_conns ids u)" by auto
  have uniq: "u' = u" if "(n, u') \<in> set us" for u'
    using assms that nu(1) by (metis eq_key_imp_eq_value)
  have "n \<in> set (map fst (filter (\<lambda>(n, u). conns (keep_conns ids u) = []) us))
      \<longleftrightarrow> conns (keep_conns ids u) = []"
    using nu(1) by (auto simp: image_iff dest: uniq)
  then show "(case x of (k, v) \<Rightarrow> k \<notin> set (map fst (filter (\<lambda>(n, u). conns (keep_conns ids u) = []) us)))
      = (case x of (n, u) \<Rightarrow> conns u \<noteq> [])"
    by (simp add: nu(2))
qed

text \<open>The state after closing the connections with the given ids.\<close>

definition closed :: "string list \<Rightarrow> Server \<Rightarrow> Server" where
  "closed ids server = server\<lparr>users := drop_users ids (users server),
     heap := cancelled {p. \<exists>u c. (u, c, p) \<in> set (all_conns server) \<and> c \<in> set ids} (heap server)\<rparr>"

lemma closed_Nil: "ws_inv server \<Longrightarrow> closed [] server = server"
proof -
  assume inv: "ws_inv server"
  have keep: "keep_conns [] u = u" for u
    by (simp add: keep_conns_def case_prod_unfold)
  have "drop_users [] (users server) = users server"
    using inv by (auto simp: drop_users_def keep ws_inv_def case_prod_unfold filter_id_conv)
  then show ?thesis by (simp add: closed_def)
qed

definition close_ids :: "string list \<Rightarrow> string list \<Rightarrow> string list \<Rightarrow> int \<Rightarrow> Server \<Rightarrow> string list" where
  "close_ids connIds tokens us at server =
     Result (select_conns connIds tokens us at (map (fields_of server) (all_conns server)))"

lemma closeConns_closed:
  assumes inv: "ws_inv server"
  shows "closeConns connIds tokens us at server
     = Val (closed (close_ids connIds tokens us at server) server)"
proof (cases "close_ids connIds tokens us at server = []")
  case True
  then show ?thesis
    by (simp add: closeConns_def NewFilter_inv [OF inv] close_ids_def closed_Nil [OF inv])
next
  case False
  let ?ids = "close_ids connIds tokens us at server"
  have wf: "\<forall>(n, u) \<in> set (users server). distinct (keys (conns u)) \<and>
      (\<forall>(c, p) \<in> set (conns u). live (heap server) p)"
    using inv distinct_user_conns [OF inv] inv_conn [OF inv] by (fastforce simp: all_conns_iff)
  have ptrs: "{p. \<exists>n u c. (n, u) \<in> set (users server) \<and> (c, p) \<in> set (conns u) \<and> c \<in> set ?ids}
      = {p. \<exists>u c. (u, c, p) \<in> set (all_conns server) \<and> c \<in> set ?ids}"
    by (auto simp: all_conns_iff)
  have "distinct (keys (users server))"
    using inv by (simp add: ws_inv_def)
  then show ?thesis
    using False unfolding closeConns_def NewFilter_inv [OF inv] bindR.simps Let_def
      close_ids_def [symmetric] close_users_eq [OF wf] prod.case fold_delete_key
    by (simp add: filter_map_drop [simplified] closed_def ptrs [simplified])
qed

lemma all_conns_closed:
  "all_conns (closed ids server) = filter (\<lambda>(u, c, p). c \<notin> set ids) (all_conns server)"
proof -
  have user: "filter (\<lambda>(u, c, p). c \<notin> set ids) (map (Pair n) (conns u))
      = map (Pair n) (conns (keep_conns ids u))" for n :: string and u
    by (simp add: keep_conns_def filter_map comp_def case_prod_unfold)
  have "concat (map (\<lambda>(n, u). map (\<lambda>(c, p). (n, c, p)) (conns u)) (drop_users ids us))
      = filter (\<lambda>(u, c, p). c \<notin> set ids)
          (concat (map (\<lambda>(n, u). map (\<lambda>(c, p). (n, c, p)) (conns u)) us))" for us
    by (induction us) (auto simp: drop_users_def user)
  then show ?thesis by (simp add: all_conns_def closed_def)
qed

lemma conn_ids_closed: "conn_ids (closed ids server) = filter (\<lambda>c. c \<notin> set ids) (conn_ids server)"
  by (simp add: conn_ids_def all_conns_closed filter_map comp_def case_prod_unfold)

lemma drop_users_wf:
  assumes "distinct (keys us)"
  shows "distinct (keys (drop_users ids us))"
  unfolding drop_users_def
  by (intro distinct_keys_filter) (use assms in \<open>simp add: comp_def case_prod_unfold\<close>)

lemma ws_inv_closed:
  assumes inv: "ws_inv server"
  shows "ws_inv (closed ids server)"
proof -
  let ?s = "closed ids server"
  have h: "heap ?s = cancelled {p. \<exists>u c. (u, c, p) \<in> set (all_conns server) \<and> c \<in> set ids} (heap server)"
    by (simp add: closed_def)
  have u: "distinct (keys (users ?s))" "\<forall>(n, u) \<in> set (users ?s). uname u = n \<and> conns u \<noteq> []"
    using inv drop_users_wf
    by (auto simp: closed_def ws_inv_def drop_users_def keep_conns_def)
  have c: "\<forall>(u, c, p) \<in> set (all_conns ?s). live (heap ?s) p \<and>
        lUser (locals_of ?s p) = u \<and> lConnId (locals_of ?s p) = c"
    using inv_conn [OF inv] by (auto simp: all_conns_closed h locals_cancelled [OF _ h])
  have "\<forall>p c. heap ?s p = Some c \<longrightarrow> conn c \<noteq> None"
    using inv unfolding h ws_inv_def cancelled_def by (auto split: if_splits)
  with u c show ?thesis
    using inv by (simp add: ws_inv_def conn_ids_closed)
qed

lemma close_ids_iff:
  assumes "ws_inv server" "(u, c, p) \<in> set (all_conns server)"
  shows "c \<in> set (close_ids connIds tokens us at server)
     \<longleftrightarrow> addressed connIds tokens us at (fields_of server (u, c, p))"
proof
  assume "c \<in> set (close_ids connIds tokens us at server)"
  then obtain u' p' where "(u', c, p') \<in> set (all_conns server)"
      "addressed connIds tokens us at (fields_of server (u', c, p'))"
    by (auto simp: close_ids_def Result_def select_conns_eq)
  with conn_id_unique [OF assms] show "addressed connIds tokens us at (fields_of server (u, c, p))"
    by blast
next
  assume "addressed connIds tokens us at (fields_of server (u, c, p))"
  then show "c \<in> set (close_ids connIds tokens us at server)"
    using assms(2) by (force simp: close_ids_def Result_def select_conns_eq)
qed

section \<open>The other operations\<close>

lemma ws_inv_cong:
  assumes "users s' = users s" "heap s' = heap s" "ws_inv s"
  shows "ws_inv s'"
  using assms by (simp add: ws_inv_def conn_ids_def all_conns_def locals_of_def)

lemma ws_inv_queues [simp]:
  "ws_inv (Close a b c d s) = ws_inv s"
  "ws_inv (server_close i s) = ws_inv s"
  "ws_inv (Push i b c d m s) = ws_inv s"
  "ws_inv (server_write i t j s) = ws_inv s"
  "ws_inv (server_read pu to i n m co ac s) = ws_inv s"
  "ws_inv (s\<lparr>queue_close := qc\<rparr>) = ws_inv s"
  "ws_inv (s\<lparr>queue_read := qr\<rparr>) = ws_inv s"
  "ws_inv (s\<lparr>queue_write := qw\<rparr>) = ws_inv s"
  by (auto simp: Close_def server_close_def Push_def server_write_def server_read_def
      elim!: ws_inv_cong [rotated 2])

lemma ws_inv_updateExpiration:
  assumes "ws_inv s"
  shows "ws_inv (updateExpiration now p s)"
proof (cases "heap s p")
  case None
  then show ?thesis using assms by (simp add: updateExpiration_def)
next
  case (Some c)
  let ?s = "updateExpiration now p s"
  have same: "all_conns ?s = all_conns s" "users ?s = users s"
    by (simp_all add: updateExpiration_def Some all_conns_def)
  have "live (heap ?s) q = live (heap s) q" for q
    by (simp add: updateExpiration_def Some live_def)
  moreover have "lUser (locals_of ?s q) = lUser (locals_of s q)"
      "lConnId (locals_of ?s q) = lConnId (locals_of s q)" if "live (heap s) q" for q
    using that by (auto simp: updateExpiration_def Some locals_of_def live_def)
  moreover have "\<forall>p c. heap ?s p = Some c \<longrightarrow> conn c \<noteq> None"
    using assms Some by (auto simp: ws_inv_def updateExpiration_def)
  ultimately show ?thesis
    using assms by (auto simp: ws_inv_def same conn_ids_def)
qed

text \<open>\<open>addClient\<close> adds one connection to the table, wherever its user stands.\<close>

lemma update_new_key: "k \<notin> set (keys m) \<Longrightarrow> AList.update k v m = m @ [(k, v)]"
  by (induction m) auto

lemma mset_conns_update:
  assumes "distinct (keys us)" "lookup us n = Some U" "c \<notin> set (keys (conns U))"
  shows "mset (concat (map (\<lambda>(n, u). map (Pair n) (conns u))
           (AList.update n (U\<lparr>conns := AList.update c p (conns U)\<rparr>) us)))
     = add_mset (n, c, p) (mset (concat (map (\<lambda>(n, u). map (Pair n) (conns u)) us)))"
  using assms
proof (induction us)
  case (Cons x us)
  obtain m u where x: "x = (m, u)" by force
  show ?case
  proof (cases "m = n")
    case True
    then have "u = U" using Cons.prems by (simp add: x)
    then show ?thesis using True Cons.prems(3) by (simp add: x update_new_key)
  next
    case False
    then show ?thesis using Cons by (simp add: x)
  qed
qed simp

lemma all_conns_Pair:
  "all_conns s = concat (map (\<lambda>(n, u). map (Pair n) (conns u)) (users s))"
  by (simp add: all_conns_def)

definition with_user :: "string \<Rightarrow> string \<Rightarrow> ptr \<Rightarrow> (string \<times> User) list \<Rightarrow> (string \<times> User) list" where
  "with_user n c p us = (case lookup us n of
      None \<Rightarrow> us @ [(n, \<lparr>uname = n, conns = [(c, p)]\<rparr>)]
    | Some U \<Rightarrow> AList.update n (U\<lparr>conns := AList.update c p (conns U)\<rparr>) us)"

definition with_client :: "ptr \<Rightarrow> Locals \<Rightarrow> Server \<Rightarrow> Server" where
  "with_client p l s = s\<lparr>heap := (heap s)(p \<mapsto> \<lparr>ctxDone = False, conn = Some l\<rparr>),
     users := with_user (lUser l) (lConnId l) p (users s)\<rparr>"

lemma New_eq:
  "New p addr now l s = (let l' = setLocals addr now l in
     Val (server_read (lAccessPublic l) (lTokenOriginal l) (lConnId l) (lUser l) (JObj [])
            (lCookie l) ACTION_OPEN (with_client p l' s)))"
  by (auto simp: New_def addClient_def noticeConnected_def deref_def with_client_def with_user_def
      setLocals_def Let_def split: option.splits)

lemma mset_with_client:
  assumes "ws_inv s" "lConnId l \<notin> set (conn_ids s)"
  shows "mset (all_conns (with_client p l s)) = add_mset (lUser l, lConnId l, p) (mset (all_conns s))"
proof (cases "lookup (users s) (lUser l)")
  case None
  then show ?thesis by (simp add: all_conns_Pair with_client_def with_user_def)
next
  case (Some U)
  then have "(lUser l, U) \<in> set (users s)" by (rule map_of_SomeD)
  then have "lConnId l \<notin> set (keys (conns U))"
    using assms(2) by (force simp: conn_ids_def all_conns_Pair)
  with Some show ?thesis
    using assms(1) by (simp add: all_conns_Pair with_client_def with_user_def mset_conns_update ws_inv_def)
qed

lemma with_user_wf:
  assumes "distinct (keys us)" "\<forall>(n, u) \<in> set us. uname u = n \<and> conns u \<noteq> []"
  shows "distinct (keys (with_user n c p us)) \<and> (\<forall>(n, u) \<in> set (with_user n c p us). uname u = n \<and> conns u \<noteq> [])"
proof (cases "lookup us n")
  case None
  then have "n \<notin> set (keys us)" by (simp add: map_of_eq_None_iff)
  with None show ?thesis using assms by (auto simp: with_user_def)
next
  case (Some U)
  have U: "(n, U) \<in> set us" using Some by (rule map_of_SomeD)
  have ne: "AList.update c p cs \<noteq> []" for cs :: "(string \<times> ptr) list"
    by (cases cs) auto
  have sub: "set (AList.update n V us) \<subseteq> insert (n, V) (set us)" for V
    by (induction us) auto
  have "\<forall>(n, u) \<in> set (AList.update n (U\<lparr>conns := AList.update c p (conns U)\<rparr>) us).
      uname u = n \<and> conns u \<noteq> []"
    using sub [of "U\<lparr>conns := AList.update c p (conns U)\<rparr>"] U assms(2) ne by fastforce
  with Some assms(1) show ?thesis by (simp add: with_user_def distinct_update)
qed

lemma ws_inv_with_client:
  assumes inv: "ws_inv s" and fresh: "heap s p = None" "lConnId l \<notin> set (conn_ids s)"
  shows "ws_inv (with_client p l s)"
proof -
  let ?s = "with_client p l s"
  have m: "mset (all_conns ?s) = add_mset (lUser l, lConnId l, p) (mset (all_conns s))"
    using inv fresh(2) by (rule mset_with_client)
  then have set: "set (all_conns ?s) = insert (lUser l, lConnId l, p) (set (all_conns s))"
    by (metis set_mset_add_mset_insert set_mset_mset)
  have "mset (conn_ids ?s) = add_mset (lConnId l) (mset (conn_ids s))"
    unfolding conn_ids_def mset_map m by simp
  then have "distinct (conn_ids ?s) = distinct (lConnId l # conn_ids s)"
    by (metis mset.simps(2) mset_eq_imp_distinct_iff)
  then have d: "distinct (conn_ids ?s)"
    using inv fresh(2) by (simp add: ws_inv_def)
  have h: "heap ?s = (heap s)(p \<mapsto> \<lparr>ctxDone = False, conn = Some l\<rparr>)"
    by (simp add: with_client_def)
  have old: "live (heap ?s) q \<and> locals_of ?s q = locals_of s q" if "live (heap s) q" for q
    using that fresh(1) by (auto simp: h live_def locals_of_def)
  have new: "live (heap ?s) p \<and> locals_of ?s p = l"
    by (auto simp: h live_def locals_of_def)
  have "\<forall>(u, c, q) \<in> set (all_conns ?s). live (heap ?s) q \<and>
      lUser (locals_of ?s q) = u \<and> lConnId (locals_of ?s q) = c"
    using old new inv_conn [OF inv] by (auto simp: set)
  moreover have "\<forall>p c. heap ?s p = Some c \<longrightarrow> conn c \<noteq> None"
    using inv by (auto simp: h ws_inv_def)
  moreover have "distinct (keys (users ?s)) \<and> (\<forall>(n, u) \<in> set (users ?s). uname u = n \<and> conns u \<noteq> [])"
    using with_user_wf [of "users s" "lUser l" "lConnId l" p] inv by (simp add: with_client_def ws_inv_def)
  ultimately show ?thesis using d by (simp add: ws_inv_def)
qed

lemma ws_inv_New:
  assumes "ws_inv s" "heap s p = None" "lConnId l \<notin> set (conn_ids s)" "New p addr now l s = Val s'"
  shows "ws_inv s'"
  using assms ws_inv_with_client [of s p "setLocals addr now l"]
  by (auto simp: New_eq Let_def setLocals_def)

lemma ws_inv_onConnection:
  assumes "ws_inv s" "onConnection unmarshal now p inp s = Val (r, s')"
  shows "ws_inv s'"
  using assms by (auto simp: onConnection_def Let_def ws_inv_updateExpiration
      split: if_splits option.splits prod.splits)

lemma ws_inv_routineClose:
  assumes "ws_inv s" "routineClose s = Val s'"
  shows "ws_inv s'"
  using assms by (auto simp: routineClose_def closeConns_closed ws_inv_closed split: list.splits)

text \<open>No operation panics in a well-formed state.\<close>

lemma routineClose_Val: "ws_inv s \<Longrightarrow> \<exists>s'. routineClose s = Val s'"
  by (cases "queue_close s") (simp_all add: routineClose_def closeConns_closed)

lemma routineWrite_Val: "ws_inv s \<Longrightarrow> \<exists>x. routineWrite marshal s = Val x"
  by (cases "queue_write s") (auto simp: routineWrite_def Let_def NewFilter_inv split: option.splits)

lemma FilterByExpired_inv:
  assumes "ws_inv s"
  shows "FilterByExpired now s (map (fields_of s) (all_conns s))
     = Val (map (fields_of s) (filter (\<lambda>(u, c, p). isExpired now (locals_of s p)) (all_conns s)))"
proof -
  have "mapR (\<lambda>d. bindR (deref s (fClient d)) (\<lambda>l. Val (d, isExpired now l))) (map (fields_of s) (all_conns s))
      = Val (map (\<lambda>d. (d, isExpired now (locals_of s (fClient d)))) (map (fields_of s) (all_conns s)))"
    using inv_conn [OF assms]
    by (intro mapR_all_Val) (auto simp: fields_of_def conn_fields_def deref_live)
  then show ?thesis
    by (simp add: FilterByExpired_def filter_map comp_def case_prod_unfold fields_of_def conn_fields_def)
qed

definition expired_ids :: "int \<Rightarrow> Server \<Rightarrow> string list" where
  "expired_ids now s = remdups (map (\<lambda>(u, c, p). c)
     (filter (\<lambda>(u, c, p). isExpired now (locals_of s p)) (all_conns s)))"

lemma expired_ids_iff:
  assumes "ws_inv s" "(u, c, p) \<in> set (all_conns s)"
  shows "c \<in> set (expired_ids now s) \<longleftrightarrow> isExpired now (locals_of s p)"
proof -
  have "c \<in> set (expired_ids now s)
      \<longleftrightarrow> (\<exists>u' p'. (u', c, p') \<in> set (all_conns s) \<and> isExpired now (locals_of s p'))"
    by (force simp: expired_ids_def)
  then show ?thesis using conn_id_unique [OF assms] assms(2) by blast
qed

lemma checkExpired_eq:
  "ws_inv s \<Longrightarrow> checkExpired now s = Val (if expired_ids now s = [] then s
     else Close (expired_ids now s) [] [] 0 s)"
  by (auto simp: checkExpired_def NewFilter_inv FilterByExpired_inv Let_def Result_def expired_ids_def
      comp_def case_prod_unfold fields_of_def conn_fields_def)

lemma List_Val: "ws_inv s \<Longrightarrow> \<exists>us. List s = Val us"
proof -
  assume inv: "ws_inv s"
  have "user_info s z = Val (the (case user_info s z of Val i \<Rightarrow> Some i | _ \<Rightarrow> None))"
    if "(n, z) \<in> set (users s)" for n z
  proof -
    have "mapR (\<lambda>(_, p). deref s p) (conns z) = Val (map (\<lambda>(_, p). locals_of s p) (conns z))"
      using that inv_conn [OF inv] by (intro mapR_all_Val) (force simp: all_conns_iff intro: deref_live)
    then show ?thesis by (simp add: user_info_def Let_def)
  qed
  then have "mapR (\<lambda>(_, z). user_info s z) (users s)
      = Val (map (\<lambda>(_, z). the (case user_info s z of Val i \<Rightarrow> Some i | _ \<Rightarrow> None)) (users s))"
    by (intro mapR_all_Val) auto
  then show ?thesis by (simp add: List_def)
qed

end
