(* ===== verification/Ws_Gateway.thy ===== *)
theory Ws_Gateway
  imports Ws_Server_Proofs
begin

text \<open>The websocket gateway: the middleware \<open>RequireHeader\<close> that admits a connection, the
  HTTP handlers of \<open>cmd/websocket/app\<close>, the hub as a step relation whose steps are the
  iterations of its goroutines and the requests of the handlers, and the properties of the
  whole.\<close>

section \<open>Admission (pkg/ws/middleware)\<close>

definition WsHeaderUserAgent :: string where "WsHeaderUserAgent = ''User-Agent''"
definition WsHeaderBflUser :: string where "WsHeaderBflUser = ''X-Bfl-User''"
definition WsHeaderForwardeFor :: string where "WsHeaderForwardeFor = ''X-Original-Forwarded-For''"
definition WsHeaderSecWebsocketProtocol :: string where
  "WsHeaderSecWebsocketProtocol = ''Sec-Websocket-Protocol''"
definition WsHeaderCookie :: string where "WsHeaderCookie = ''Cookie''"

text \<open>The request as the middleware reads it from fiber; \<open>rqHeaders\<close> is \<open>None\<close> for a
  nil map. A missing map entry reads as the empty string.\<close>

record Request =
  rqIsWebSocketUpgrade :: bool
  rqAuthToken :: string
  rqHeaders :: "(string \<times> string) list option"

definition header :: "(string \<times> string) list \<Rightarrow> string \<Rightarrow> string" where
  "header hs k = (case lookup hs k of Some v \<Rightarrow> v | None \<Rightarrow> [])"

definition ErrUpgradeRequired :: go_error where "ErrUpgradeRequired = Failure ''Upgrade Required''"
definition ErrBadRequest :: go_error where "ErrBadRequest = Failure ''Bad Request''"

text \<open>\<open>uuid1\<close> and \<open>uuid2\<close> are the two values of \<open>uuid.New()\<close>, in the order in which they
  are drawn. The second component is the response header that is set.\<close>

definition RequireHeader :: "string \<Rightarrow> string \<Rightarrow> Request \<Rightarrow> (Locals \<times> (string \<times> string) list) res" where
  "RequireHeader uuid1 uuid2 c =
     (if \<not> rqIsWebSocketUpgrade c then Err ErrUpgradeRequired
      else let (token, accessPublic) =
             (if rqAuthToken c = [] then (uuid1, True) else (rqAuthToken c, False)) in
        case rqHeaders c of
          None \<Rightarrow> Err ErrBadRequest
        | Some headers \<Rightarrow>
            Val (\<lparr>lAccessPublic = accessPublic,
                  lUser = header headers WsHeaderBflUser,
                  lConnId = uuid2,
                  lToken = MD5 token,
                  lTokenOriginal = token,
                  lUserAgent = header headers WsHeaderUserAgent,
                  lClientIp = header headers WsHeaderForwardeFor,
                  lCookie = header headers WsHeaderCookie,
                  lClientAddr = [], lExpired = None\<rparr>,
                 (case lookup headers WsHeaderSecWebsocketProtocol of
                    Some v \<Rightarrow> [(WsHeaderSecWebsocketProtocol, v)] | None \<Rightarrow> [])))"

section \<open>Handlers (cmd/websocket/app/handler.go)\<close>

record sendMesssageReq =
  smPayload :: json
  smUsers :: "string list"
  smUsersAccessType :: int
  smTokens :: "string list"
  smConnId :: string

record disConnectionReq =
  dcConns :: "string list"
  dcTokens :: "string list"
  dcUsers :: "string list"
  dcUsersAccessType :: int

record Reply =
  code :: nat
  message :: string

definition StatusBadRequest :: nat where "StatusBadRequest = 400"

definition success :: Reply where "success = \<lparr>code = 0, message = ''success''\<rparr>"

text \<open>The handlers take the body already decoded: \<open>Inl err\<close> is the error of
  \<open>json.Unmarshal\<close>.\<close>

definition ListConnection :: "Server \<Rightarrow> (Reply \<times> UserInfo list) res" where
  "ListConnection server = bindR (List server) (\<lambda>res. Val (success, res))"

definition CloseConnection :: "string + disConnectionReq \<Rightarrow> Server \<Rightarrow> Reply \<times> Server" where
  "CloseConnection body server = (case body of
      Inl err \<Rightarrow> (\<lparr>code = StatusBadRequest, message = ''receive data invalid, '' @ err\<rparr>, server)
    | Inr closeReq \<Rightarrow>
        (let tokens = map MD5 (filter (\<lambda>token. token \<noteq> []) (dcTokens closeReq)) in
         (success, Close (dcConns closeReq) tokens (dcUsers closeReq) (dcUsersAccessType closeReq) server)))"

definition SendMessage :: "string + sendMesssageReq \<Rightarrow> Server \<Rightarrow> Reply \<times> Server" where
  "SendMessage body server = (case body of
      Inl err \<Rightarrow> (\<lparr>code = StatusBadRequest, message = ''send data invalid, '' @ err\<rparr>, server)
    | Inr m \<Rightarrow>
        if smConnId m = [] \<and> smUsers m = [] \<and> smTokens m = []
        then (\<lparr>code = StatusBadRequest, message = ''send message target is nil''\<rparr>, server)
        else (success, Push (smConnId m) (map MD5 (smTokens m)) (smUsers m) (smUsersAccessType m)
                (smPayload m) server))"

definition DebugFunc :: "Server \<Rightarrow> Reply \<times> Server" where
  "DebugFunc server = (success, server)"

text \<open>\<open>handleWebSocketMessage\<close>: the post to the application behind the gateway, as the
  cookie header, the body and the address; errors of the post are only logged.\<close>

definition handleWebSocketMessage :: "string \<Rightarrow> ReadMessage \<Rightarrow> (string \<times> ReadMessage \<times> string) list" where
  "handleWebSocketMessage appPath data =
     (if appPath = [] then [] else [(rmCookie data, data, appPath)])"

text \<open>\<open>getEnvAppInfo\<close> with \<open>DEBUG\<close> false: the path stays empty unless both variables are set.\<close>

definition getEnvAppInfo :: "(string \<Rightarrow> string) \<Rightarrow> string" where
  "getEnvAppInfo Getenv =
     (let appPortName = Getenv ''WS_PORT'' in
      if appPortName = [] then []
      else let appUrlName = Getenv ''WS_URL'' in
        if appUrlName = [] then []
        else ''http://127.0.0.1:'' @ appPortName @ appUrlName)"

section \<open>The hub as a state machine\<close>

text \<open>One step is one iteration of a goroutine (\<open>routineClose\<close>, \<open>routineRead\<close>,
  \<open>routineWrite\<close>, the ticker of \<open>checkExpired\<close>, the loop of \<open>onConnection\<close>), the start of a
  connection, or a request of a handler. A step that sends on a queue is taken only while the
  queue has room. A new client is allocated at an unused address, and its connection id, a
  fresh UUID, differs from the ids in the table.\<close>

definition room :: "Server \<Rightarrow> bool" where
  "room s \<longleftrightarrow> length (queue_read s) < queueSize \<and> length (queue_write s) < queueSize \<and>
     length (queue_close s) < queueSize"

inductive ws_step :: "unmarshal \<Rightarrow> (json \<Rightarrow> string option) \<Rightarrow> Server \<Rightarrow> Server \<Rightarrow> bool"
  for unmarshal marshal where
  connect: "\<lbrakk>RequireHeader uuid1 uuid2 c = Val (l, hs); room s; heap s p = None;
     lConnId l \<notin> set (conn_ids s); New p addr now l s = Val s'\<rbrakk> \<Longrightarrow> ws_step unmarshal marshal s s'"
| serve: "\<lbrakk>room s; heap s p \<noteq> None; onConnection unmarshal now p inp s = Val (r, s')\<rbrakk>
     \<Longrightarrow> ws_step unmarshal marshal s s'"
| api_close: "\<lbrakk>room s; CloseConnection body s = (reply, s')\<rbrakk> \<Longrightarrow> ws_step unmarshal marshal s s'"
| api_send: "\<lbrakk>room s; SendMessage body s = (reply, s')\<rbrakk> \<Longrightarrow> ws_step unmarshal marshal s s'"
| close_iter: "routineClose s = Val s' \<Longrightarrow> ws_step unmarshal marshal s s'"
| read_iter: "routineRead s = (s', m) \<Longrightarrow> ws_step unmarshal marshal s s'"
| write_iter: "routineWrite marshal s = Val (s', out) \<Longrightarrow> ws_step unmarshal marshal s s'"
| expire_tick: "\<lbrakk>room s; checkExpired now s = Val s'\<rbrakk> \<Longrightarrow> ws_step unmarshal marshal s s'"

inductive_cases ws_stepE: "ws_step unmarshal marshal s s'"

inductive ws_reach :: "unmarshal \<Rightarrow> (json \<Rightarrow> string option) \<Rightarrow> Server \<Rightarrow> bool"
  for unmarshal marshal where
  start: "ws_reach unmarshal marshal NewWebSocketServer"
| more: "ws_reach unmarshal marshal s \<Longrightarrow> ws_step unmarshal marshal s s' \<Longrightarrow> ws_reach unmarshal marshal s'"

definition queues_bounded :: "Server \<Rightarrow> bool" where
  "queues_bounded s \<longleftrightarrow> length (queue_read s) \<le> queueSize \<and> length (queue_write s) \<le> queueSize \<and>
     length (queue_close s) \<le> queueSize"

lemma ws_inv_init: "ws_inv NewWebSocketServer"
  by (simp add: ws_inv_def NewWebSocketServer_def all_conns_def conn_ids_def)

lemma ws_inv_step:
  assumes "ws_step unmarshal marshal s s'" "ws_inv s"
  shows "ws_inv s'"
  using assms
proof cases
  case (connect uuid1 uuid2 c l hs p addr now)
  then show ?thesis using assms(2) ws_inv_New by blast
next
  case (serve p now inp r)
  then show ?thesis using assms(2) ws_inv_onConnection by blast
next
  case (write_iter out)
  then show ?thesis using assms(2)
    by (auto simp: routineWrite_def Let_def split: list.splits option.splits)
next
  case (expire_tick now)
  then show ?thesis using assms(2) by (auto simp: checkExpired_eq split: if_splits)
qed (use assms(2) in \<open>auto simp: CloseConnection_def SendMessage_def routineRead_def Let_def intro: ws_inv_routineClose
       split: sum.splits if_splits list.splits\<close>)

lemmas queue_ops = Close_def server_close_def Push_def server_write_def server_read_def

lemma closed_queues [simp]:
  "queue_read (closed ids s) = queue_read s" "queue_write (closed ids s) = queue_write s"
  "queue_close (closed ids s) = queue_close s"
  by (simp_all add: closed_def)

lemma updateExpiration_queues [simp]:
  "queue_read (updateExpiration now p s) = queue_read s"
  "queue_write (updateExpiration now p s) = queue_write s"
  "queue_close (updateExpiration now p s) = queue_close s"
  by (auto simp: updateExpiration_def split: option.splits)

lemma queues_bounded_step:
  assumes "ws_step unmarshal marshal s s'" "ws_inv s" "queues_bounded s"
  shows "queues_bounded s'"
  using assms
proof cases
  case (connect uuid1 uuid2 c l hs p addr now)
  then show ?thesis
    by (auto simp: New_eq Let_def queues_bounded_def room_def server_read_def with_client_def)
next
  case (serve p now inp r)
  then show ?thesis
    by (auto simp: onConnection_def Let_def queues_bounded_def room_def queue_ops
        split: if_splits option.splits prod.splits)
next
  case close_iter
  then show ?thesis using assms(2,3)
    by (auto simp: routineClose_def closeConns_closed queues_bounded_def split: list.splits)
next
  case (read_iter m)
  then show ?thesis using assms(3) by (auto simp: routineRead_def queues_bounded_def split: list.splits)
next
  case (write_iter out)
  then show ?thesis using assms(3)
    by (auto simp: routineWrite_def Let_def queues_bounded_def split: list.splits option.splits)
next
  case (expire_tick now)
  then show ?thesis using assms(2)
    by (auto simp: checkExpired_eq queues_bounded_def room_def queue_ops split: if_splits)
qed (auto simp: CloseConnection_def SendMessage_def queues_bounded_def room_def queue_ops Let_def
       split: sum.splits if_splits)

lemma ws_reach_inv: "ws_reach unmarshal marshal s \<Longrightarrow> ws_inv s \<and> queues_bounded s"
proof (induction rule: ws_reach.induct)
  case start
  then show ?case by (simp add: ws_inv_init) (simp add: queues_bounded_def NewWebSocketServer_def)
next
  case (more s s')
  then show ?case using ws_inv_step queues_bounded_step by blast
qed

section \<open>Delivery\<close>

definition conn_ptrs :: "(string \<times> User) list \<Rightarrow> ptr list" where
  "conn_ptrs us = concat (map (\<lambda>(n, u). map snd (conns u)) us)"

lemma conn_ptrs_all_conns: "map (\<lambda>(u, c, p). p) (all_conns s) = conn_ptrs (users s)"
  unfolding all_conns_def conn_ptrs_def map_concat
  by (rule arg_cong [where f = concat]) (auto simp: comp_def case_prod_unfold)

lemma conn_ptrs_distinct:
  assumes "ws_inv s"
  shows "distinct (conn_ptrs (users s))"
proof -
  have "conn_ids s = map (\<lambda>p. lConnId (locals_of s p)) (conn_ptrs (users s))"
    unfolding conn_ids_def conn_ptrs_all_conns [symmetric] map_map
    using inv_conn [OF assms] by (auto intro!: map_cong)
  then show ?thesis using assms by (simp add: ws_inv_def distinct_map)
qed

lemma set_write_targets:
  assumes "ws_inv s"
  shows "p \<in> set (write_targets ids (users s)) \<longleftrightarrow> (\<exists>u c. (u, c, p) \<in> set (all_conns s) \<and> c \<in> set ids)"
proof -
  have "lookup (conns U) c = Some p \<longleftrightarrow> (c, p) \<in> set (conns U)" if "(n, U) \<in> set (users s)" for n U c
    using distinct_user_conns [OF assms that] by (simp add: map_of_eq_Some_iff)
  then show ?thesis
    by (fastforce simp: write_targets_def List.map_filter_def all_conns_iff image_iff)
qed

lemma distinct_map_filter_inj:
  assumes "distinct xs" "\<And>x y z. f x = Some z \<Longrightarrow> f y = Some z \<Longrightarrow> x = y"
  shows "distinct (List.map_filter f xs)"
  using assms(1)
proof (induction xs)
  case (Cons x xs)
  then show ?case using assms(2)
    by (auto simp: List.map_filter_simps List.map_filter_def image_iff split: option.splits) (metis option.sel)
qed (simp add: List.map_filter_simps)

lemma map_of_inj_values:
  "distinct (map snd m) \<Longrightarrow> lookup m x = Some z \<Longrightarrow> lookup m y = Some z \<Longrightarrow> x = y"
  by (metis distinct_map inj_onD map_of_SomeD prod.inject snd_conv)

lemma distinct_write_targets:
  assumes "distinct ids" "distinct (conn_ptrs us)"
  shows "distinct (write_targets ids us) \<and> set (write_targets ids us) \<subseteq> set (conn_ptrs us)"
  using assms(2)
proof (induction us)
  case Nil
  then show ?case by (simp add: write_targets_def)
next
  case (Cons x us)
  obtain n u where x: "x = (n, u)" by force
  have split: "conn_ptrs (x # us) = map snd (conns u) @ conn_ptrs us"
    "write_targets ids (x # us) = List.map_filter (lookup (conns u)) ids @ write_targets ids us"
    by (simp_all add: conn_ptrs_def write_targets_def x)
  have sub: "set (List.map_filter (lookup (conns u)) ids) \<subseteq> snd ` set (conns u)"
    by (force simp: List.map_filter_def dest: map_of_SomeD)
  have vals: "distinct (map snd (conns u))"
    using Cons.prems by (simp add: split)
  have "distinct (List.map_filter (lookup (conns u)) ids)"
    using assms(1) map_of_inj_values [OF vals] by (rule distinct_map_filter_inj)
  then show ?case using Cons sub unfolding split by fastforce
qed

section \<open>Properties\<close>

text \<open>A small table for the witnesses: two users, one of them with a public and a private
  connection.\<close>

definition demo_locals :: "string \<Rightarrow> string \<Rightarrow> string \<Rightarrow> bool \<Rightarrow> int \<Rightarrow> Locals" where
  "demo_locals u c t pub exp = \<lparr>lAccessPublic = pub, lUser = u, lConnId = c, lToken = t,
     lTokenOriginal = t, lUserAgent = [], lClientIp = [], lCookie = [], lClientAddr = [],
     lExpired = Some exp\<rparr>"

definition demo_client :: "string \<Rightarrow> string \<Rightarrow> string \<Rightarrow> bool \<Rightarrow> int \<Rightarrow> Client" where
  "demo_client u c t pub exp = \<lparr>ctxDone = False, conn = Some (demo_locals u c t pub exp)\<rparr>"

definition demo :: Server where
  "demo = \<lparr>queue_read = [], queue_write = [], queue_close = [],
     users = [(''alice'', \<lparr>uname = ''alice'', conns = [(''c1'', 2), (''c2'', 3)]\<rparr>),
              (''bob'', \<lparr>uname = ''bob'', conns = [(''c3'', 4)]\<rparr>)],
     heap = [2 \<mapsto> demo_client ''alice'' ''c1'' ''t1'' False 100,
             3 \<mapsto> demo_client ''alice'' ''c2'' ''t2'' True 10,
             4 \<mapsto> demo_client ''bob'' ''c3'' ''t3'' False 90]\<rparr>"

lemmas demo_defs = demo_def demo_client_def demo_locals_def

lemma demo_conns: "all_conns demo = [(''alice'', ''c1'', 2), (''alice'', ''c2'', 3), (''bob'', ''c3'', 4)]"
  by (simp add: demo_def all_conns_def)

lemma demo_inv: "ws_inv demo"
  unfolding ws_inv_def conn_ids_def demo_conns
  by (auto simp: demo_defs live_def locals_of_def split: if_splits)

lemma demo_fields:
  "fields_of demo (''alice'', ''c1'', 2) = \<lparr>fUser = ''alice'', fToken = ''t1'', fConnId = ''c1'', fPublic = ''false'', fClient = 2\<rparr>"
  "fields_of demo (''alice'', ''c2'', 3) = \<lparr>fUser = ''alice'', fToken = ''t2'', fConnId = ''c2'', fPublic = ''true'', fClient = 3\<rparr>"
  "fields_of demo (''bob'', ''c3'', 4) = \<lparr>fUser = ''bob'', fToken = ''t3'', fConnId = ''c3'', fPublic = ''false'', fClient = 4\<rparr>"
  by (simp_all add: fields_of_def conn_fields_def locals_of_def bool_str_def demo_defs)

text \<open>C1. Closing connections is exact: in a well-formed state \<open>closeConns\<close> succeeds, removes
  from the table precisely the connections that the request addresses (by user and access
  type, by token, by connection id), cancels precisely their clients, leaves every other
  client as it was, and keeps the table well formed (no user without connections stays).\<close>

theorem closeConns_exact:
  assumes "ws_inv s"
  shows "\<exists>s'. closeConns connIds tokens us at s = Val s' \<and>
     all_conns s' = filter (\<lambda>x. \<not> addressed connIds tokens us at (fields_of s x)) (all_conns s) \<and>
     (\<forall>p. heap s' p = (if \<exists>u c. (u, c, p) \<in> set (all_conns s) \<and> addressed connIds tokens us at (fields_of s (u, c, p))
                       then map_option (\<lambda>c. c\<lparr>ctxDone := True\<rparr>) (heap s p) else heap s p)) \<and>
     ws_inv s'"
proof -
  let ?ids = "close_ids connIds tokens us at s"
  have ids: "c \<in> set ?ids \<longleftrightarrow> addressed connIds tokens us at (fields_of s (u, c, p))"
    if "(u, c, p) \<in> set (all_conns s)" for u c p
    using assms that by (rule close_ids_iff)
  have "all_conns (closed ?ids s) = filter (\<lambda>x. \<not> addressed connIds tokens us at (fields_of s x)) (all_conns s)"
    unfolding all_conns_closed by (rule filter_cong) (auto simp: ids)
  moreover have "heap (closed ?ids s) p = (if \<exists>u c. (u, c, p) \<in> set (all_conns s) \<and> addressed connIds tokens us at (fields_of s (u, c, p))
      then map_option (\<lambda>c. c\<lparr>ctxDone := True\<rparr>) (heap s p) else heap s p)" for p
    by (simp add: closed_def cancelled_def) (metis ids)
  ultimately show ?thesis
    using closeConns_closed [OF assms] ws_inv_closed [OF assms] by blast
qed

theorem closeConns_exact_witness:
  "\<exists>s'. closeConns [] [] [''alice''] 1 demo = Val s' \<and>
     all_conns s' = [(''alice'', ''c2'', 3), (''bob'', ''c3'', 4)]"
proof -
  have "filter (\<lambda>x. \<not> addressed [] [] [''alice''] 1 (fields_of demo x)) (all_conns demo)
      = [(''alice'', ''c2'', 3), (''bob'', ''c3'', 4)]"
    by (simp add: demo_conns addressed_def demo_fields)
  then show ?thesis using closeConns_exact [OF demo_inv, of "[]" "[]" "[''alice'']" 1] by metis
qed



text \<open>C3. Delivery is exact: a queued message that can be encoded is written once to each
  connection that its connection id, tokens, users and access type address, and to no other.\<close>

theorem routineWrite_exact:
  assumes "ws_inv s" "queue_write s = m # q" "marshal (wmMessage m) = Some msg"
  shows "\<exists>out. routineWrite marshal s = Val (s\<lparr>queue_write := q\<rparr>, out) \<and> distinct out \<and>
     set out = {(p, wmMessageType m, msg) | p. \<exists>u c. (u, c, p) \<in> set (all_conns s) \<and>
        addressed (if wmConnId m = [] then [] else [wmConnId m]) (wmTokens m) (wmUsers m)
          (wmUsersAccessType m) (fields_of s (u, c, p))}"
proof -
  let ?s = "s\<lparr>queue_write := q\<rparr>"
  let ?ids = "close_ids (if wmConnId m = [] then [] else [wmConnId m]) (wmTokens m) (wmUsers m)
      (wmUsersAccessType m) ?s"
  let ?out = "map (\<lambda>p. (p, wmMessageType m, msg)) (write_targets ?ids (users ?s))"
  have inv: "ws_inv ?s" using assms(1) by simp
  have same: "all_conns ?s = all_conns s" "fields_of ?s = fields_of s"
    by (auto simp: all_conns_def fields_of_def locals_of_def)
  have run: "routineWrite marshal s = Val (?s, ?out)"
    using assms(2,3) by (auto simp: routineWrite_def Let_def NewFilter_inv [OF inv] close_ids_def)
  have "distinct ?ids" by (simp add: close_ids_def Result_def)
  then have dist: "distinct ?out"
    using distinct_write_targets conn_ptrs_distinct [OF inv] by (auto simp: distinct_map inj_on_def)
  have "p \<in> set (write_targets ?ids (users ?s)) \<longleftrightarrow> (\<exists>u c. (u, c, p) \<in> set (all_conns s) \<and>
      addressed (if wmConnId m = [] then [] else [wmConnId m]) (wmTokens m) (wmUsers m)
          (wmUsersAccessType m) (fields_of s (u, c, p)))" for p
    unfolding set_write_targets [OF inv] using close_ids_iff [OF inv] unfolding same by blast
  then have "set ?out = {(p, wmMessageType m, msg) | p. \<exists>u c. (u, c, p) \<in> set (all_conns s) \<and>
        addressed (if wmConnId m = [] then [] else [wmConnId m]) (wmTokens m) (wmUsers m)
          (wmUsersAccessType m) (fields_of s (u, c, p))}"
    unfolding set_map by blast
  with run dist show ?thesis by blast
qed

theorem routineWrite_exact_witness:
  "\<exists>out. routineWrite (\<lambda>_. Some ''null'') (Push [] [] [''alice''] 2 JNull demo) = Val (demo, out) \<and>
     set out = {(3, 1, ''null'')}"
proof -
  let ?m = "\<lparr>wmMessageType = TextMessage, wmMessage = JNull, wmConnId = [], wmTokens = [],
     wmUsers = [''alice''], wmUsersAccessType = 2\<rparr>"
  let ?s = "Push [] [] [''alice''] 2 JNull demo"
  have inv: "ws_inv ?s" by (simp add: demo_inv)
  have q: "queue_write ?s = [?m]" by (simp add: Push_def demo_def)
  have same: "all_conns ?s = all_conns demo" "fields_of ?s = fields_of demo" "?s\<lparr>queue_write := []\<rparr> = demo"
    by (auto simp: all_conns_def fields_of_def locals_of_def Push_def demo_def)
  have "{(p, TextMessage, ''null'') | p. \<exists>u c. (u, c, p) \<in> set (all_conns demo) \<and>
      addressed [] [] [''alice''] 2 (fields_of demo (u, c, p))} = {(3, 1, ''null'')}"
    by (auto simp: demo_conns demo_fields addressed_def TextMessage_def)
  then show ?thesis
    using routineWrite_exact [OF inv q, of "\<lambda>_. Some ''null''" "''null''"] unfolding same by auto
qed

text \<open>C4. The expiry check closes exactly the stale connections: the tick followed by the
  processing of the close request it queued leaves the connections whose last ping is at most
  45 seconds old, and no other.\<close>

theorem checkExpired_closes_stale:
  assumes "ws_inv s" "queue_close s = []"
  shows "\<exists>s1 s2. checkExpired now s = Val s1 \<and> routineClose s1 = Val s2 \<and>
     all_conns s2 = filter (\<lambda>(u, c, p). \<not> isExpired now (locals_of s p)) (all_conns s)"
proof (cases "expired_ids now s = []")
  case True
  then have "\<forall>(u, c, p) \<in> set (all_conns s). \<not> isExpired now (locals_of s p)"
    by (auto simp: expired_ids_def filter_empty_conv)
  then have "filter (\<lambda>(u, c, p). \<not> isExpired now (locals_of s p)) (all_conns s) = all_conns s"
    by (auto simp: filter_id_conv)
  then show ?thesis
    using True assms by (simp add: checkExpired_eq routineClose_def)
next
  case False
  let ?ids = "expired_ids now s"
  let ?m = "\<lparr>cmConnIds = ?ids, cmTokens = [], cmUsers = [], cmUsersAccessType = 0\<rparr>"
  have q: "Close ?ids [] [] 0 s = s\<lparr>queue_close := [?m]\<rparr>"
    by (simp add: Close_def assms(2))
  have restore: "s\<lparr>queue_close := []\<rparr> = s" using assms(2) by simp
  have ids: "c \<in> set (close_ids ?ids [] [] 0 s) \<longleftrightarrow> isExpired now (locals_of s p)"
    if c: "(u, c, p) \<in> set (all_conns s)" for u c p
  proof -
    have "c \<in> set (close_ids ?ids [] [] 0 s) \<longleftrightarrow> c \<in> set ?ids"
      using False c by (simp add: close_ids_iff [OF assms(1) c] addressed_def)
    also have "\<dots> \<longleftrightarrow> isExpired now (locals_of s p)"
      using assms(1) c by (rule expired_ids_iff)
    finally show ?thesis .
  qed
  have "routineClose (Close ?ids [] [] 0 s) = Val (closed (close_ids ?ids [] [] 0 s) s)"
    unfolding q by (simp add: routineClose_def restore closeConns_closed [OF assms(1)])
  moreover have "all_conns (closed (close_ids ?ids [] [] 0 s) s)
      = filter (\<lambda>(u, c, p). \<not> isExpired now (locals_of s p)) (all_conns s)"
    unfolding all_conns_closed by (rule filter_cong) (auto simp: ids)
  ultimately show ?thesis
    using False checkExpired_eq [OF assms(1), of now] by simp
qed

theorem checkExpired_closes_stale_witness:
  "\<exists>s1 s2. checkExpired 136 demo = Val s1 \<and> routineClose s1 = Val s2 \<and>
     all_conns s2 = [(''alice'', ''c1'', 2)]"
proof -
  have "queue_close demo = []" by (simp add: demo_def)
  moreover have "filter (\<lambda>(u, c, p). \<not> isExpired 136 (locals_of demo p)) (all_conns demo)
      = [(''alice'', ''c1'', 2)]"
    unfolding demo_conns by (simp add: isExpired_def locals_of_def demo_defs expirationDuration_def)
  ultimately show ?thesis using checkExpired_closes_stale [OF demo_inv, of 136] by simp
qed

text \<open>C5. A ping is answered and keeps its connection alive: a client that is not cancelled
  and sends the ping message gets one pong queued for its own connection id, nothing is
  forwarded to the application, and at any later time up to 45 seconds the expiry check does
  not count the connection as expired.\<close>

theorem ping_keeps_alive:
  assumes "heap s p = Some \<lparr>ctxDone = False, conn = Some l\<rparr>" "mt \<ge> 1"
    and "checkPingMessage unmarshal msg" "now \<noteq> 0" "later - now \<le> 45"
  shows "\<exists>s'. onConnection unmarshal now p (Some (mt, msg)) s = Val (Continue, s') \<and>
     queue_write s' = queue_write s @ [\<lparr>wmMessageType = 1, wmMessage = JObj [(''event'', JStr ''pong'')],
        wmConnId = lConnId l, wmTokens = [], wmUsers = [], wmUsersAccessType = 0\<rparr>] \<and>
     queue_read s' = queue_read s \<and> \<not> isExpired later (locals_of s' p)"
  using assms
  by (simp add: onConnection_def deref_def Let_def updateExpiration_def server_write_def TextMessage_def
      locals_of_def isExpired_def expirationDuration_def)

theorem ping_keeps_alive_witness:
  "\<exists>s'. onConnection (\<lambda>_. ([(''event'', JStr ''ping'')], False)) 1000 3 (Some (1, ''p'')) demo
       = Val (Continue, s') \<and> \<not> isExpired 1045 (locals_of s' 3)"
proof -
  have "heap demo 3 = Some \<lparr>ctxDone = False, conn = Some (demo_locals ''alice'' ''c2'' ''t2'' True 10)\<rparr>"
    by (simp add: demo_def demo_client_def)
  moreover have "checkPingMessage (\<lambda>_. ([(''event'', JStr ''ping'')], False)) ''p''"
    by (simp add: checkPingMessage_def)
  ultimately show ?thesis
    using ping_keeps_alive [of demo 3 _ 1 "\<lambda>_. ([(''event'', JStr ''ping'')], False)" "''p''" 1000 1045]
    by fastforce
qed



text \<open>C7. The two write endpoints treat a request without a target differently. A send that
  names no connection, no user and no token is refused and queues nothing; a close whose
  criteria are all empty (or whose tokens are all the empty string) is accepted, and processing
  it empties the table: every connection of every user is closed.\<close>

theorem empty_target_requests:
  assumes "ws_inv s" "queue_close s = []"
    and "smConnId m = []" "smUsers m = []" "smTokens m = []"
    and "dcConns d = []" "dcUsers d = []" "set (dcTokens d) \<subseteq> {[]}"
  shows "SendMessage (Inr m) s = (\<lparr>code = 400, message = ''send message target is nil''\<rparr>, s) \<and>
     (\<exists>s1 s2. CloseConnection (Inr d) s = (success, s1) \<and> routineClose s1 = Val s2 \<and> all_conns s2 = [])"
proof -
  have "filter (\<lambda>token. token \<noteq> []) (dcTokens d) = []"
    using assms(8) by (auto simp: filter_empty_conv)
  then have close: "CloseConnection (Inr d) s = (success, Close [] [] [] (dcUsersAccessType d) s)"
    using assms(6,7) by (simp add: CloseConnection_def)
  let ?ids = "close_ids [] [] [] (dcUsersAccessType d) s"
  have restore: "s\<lparr>queue_close := []\<rparr> = s" using assms(2) by simp
  have "routineClose (Close [] [] [] (dcUsersAccessType d) s) = Val (closed ?ids s)"
    by (simp add: routineClose_def Close_def assms(2) restore closeConns_closed [OF assms(1)])
  moreover have "all_conns (closed ?ids s) = []"
    using close_ids_iff [OF assms(1)] by (auto simp: all_conns_closed filter_empty_conv addressed_def)
  ultimately show ?thesis
    using close assms(3-5) by (simp add: SendMessage_def StatusBadRequest_def)
qed

theorem empty_target_requests_witness:
  "\<exists>s1 s2. CloseConnection (Inr \<lparr>dcConns = [], dcTokens = [''''], dcUsers = [], dcUsersAccessType = 2\<rparr>) demo
       = (success, s1) \<and> routineClose s1 = Val s2 \<and> all_conns s2 = []"
proof -
  have "queue_close demo = []" by (simp add: demo_def)
  from empty_target_requests [OF demo_inv this, of "\<lparr>smPayload = JNull, smUsers = [], smUsersAccessType = 0,
      smTokens = [], smConnId = []\<rparr>" "\<lparr>dcConns = [], dcTokens = [''''], dcUsers = [], dcUsersAccessType = 2\<rparr>"]
  show ?thesis by simp
qed

end
