(* ===== verification/Api_Types.thy ===== *)
theory Api_Types
  imports Utils
begin

text \<open>The custom resources of \<open>pkg/apis/apr/v1alpha1\<close>: PostgreSQL clusters, middleware
  requests, redix clusters, backups and restores. A pointer is an option, a time is an
  optional number, and a string type with named constants is a datatype whose last constructor
  holds every other string.\<close>

section \<open>Metadata\<close>

record ObjectMeta =
  metaName :: string
  metaNamespace :: string
  metaUID :: string
  metaResourceVersion :: string
  metaLabels :: "(string \<times> string) list"
  metaAnnotations :: "(string \<times> string) list"

section \<open>Passwords and clusters (types.go)\<close>

record SecretKeySelector =
  skName :: string
  skKey :: string

record PasswordVarSource =
  SecretKeyRef :: "SecretKeySelector option"

record PasswordVar =
  pwValue :: string
  pwValueFrom :: "PasswordVarSource option"

record PGClusterStatus =
  pgsState :: string
  pgsUpdateTime :: "int option"
  pgsStatusTime :: "int option"

record PGClusterSpec =
  pgReplicas :: int
  pgAdminUser :: string
  pgCitusImage :: string
  pgPassword :: PasswordVar
  pgOwner :: string
  pgBackupStorage :: string

record PGCluster =
  pgMeta :: ObjectMeta
  pgSpec :: PGClusterSpec
  pgStatus :: PGClusterStatus

section \<open>Middleware requests (types.go)\<close>

datatype MiddlewareType =
    TypePostgreSQL
  | TypeMongoDB
  | TypeRedis
  | TypeZinc
  | TypeNats
  | TypeMinio
  | TypeRabbitMQ
  | TypeElasticsearch
  | TypeMariaDB
  | TypeMysql
  | TypeOther string

record Redis =
  redisPassword :: PasswordVar
  redisNamespace :: string

record MongoDatabase =
  mongoDbName :: string
  mongoDbScripts :: "string list"

record MongoDB =
  mongoPassword :: PasswordVar
  mongoDatabases :: "MongoDatabase list"
  mongoUser :: string

record CitusDatabase =
  cdbName :: string
  cdbExtensions :: "string list"
  cdbScripts :: "string list"
  cdbDistributed :: "bool option"

record PostgreSQL =
  psqlPassword :: PasswordVar
  psqlDatabases :: "CitusDatabase list"
  psqlUser :: string

record Permission =
  permAppName :: string
  permPub :: string
  permSub :: string

record Subject =
  subjName :: string
  subjPermission :: Permission
  subjExport :: "Permission list"

record RefSubject =
  rsName :: string
  rsPerm :: "string list"

record Ref =
  refAppName :: string
  refAppNamespace :: string
  refSubjects :: "RefSubject list"

text \<open>An index of Zinc is given by the name of its config map.\<close>

record Zinc =
  zincUser :: string
  zincPassword :: PasswordVar
  zincIndexes :: "string list"

record Nats =
  natsUser :: string
  natsPassword :: PasswordVar
  natsSubjects :: "Subject list"
  natsRefs :: "Ref list"

record Minio =
  minioUser :: string
  minioPassword :: PasswordVar
  minioBuckets :: "string list"
  minioAllowNamespaceBuckets :: bool

record RabbitMQ =
  rabbitUser :: string
  rabbitPassword :: PasswordVar
  rabbitVhosts :: "string list"

record Elasticsearch =
  esUser :: string
  esPassword :: PasswordVar
  esIndexes :: "string list"
  esAllowNamespaceIndexes :: bool

record MariaDB =
  mariaUser :: string
  mariaPassword :: PasswordVar
  mariaDatabases :: "string list"

record Mysql =
  mysqlUser :: string
  mysqlPassword :: PasswordVar
  mysqlDatabases :: "string list"

record MiddlewareSpec =
  mwApp :: string
  mwAppNamespace :: string
  mwMiddleware :: MiddlewareType
  mwRedis :: Redis
  mwMongoDB :: MongoDB
  mwPostgreSQL :: PostgreSQL
  mwNats :: Nats
  mwMinio :: Minio
  mwRabbitMQ :: RabbitMQ
  mwElasticsearch :: Elasticsearch
  mwMariaDB :: MariaDB
  mwMysql :: Mysql
  mwZinc :: Zinc

record MiddlewareRequest =
  mrMeta :: ObjectMeta
  mrSpec :: MiddlewareSpec

text \<open>\<open>IsDistributed\<close>: a nil pointer counts as false.\<close>

definition IsDistributed :: "CitusDatabase \<Rightarrow> bool" where
  "IsDistributed c = (case cdbDistributed c of Some b \<Rightarrow> b | None \<Rightarrow> False)"

section \<open>Backups and restores (backup_restore.go, redix.go)\<close>

datatype BackupState =
    BackupStateNew
  | BackupStateWaiting
  | BackupStateRequested
  | BackupStateRejected
  | BackupStateRunning
  | BackupStateError
  | BackupStateReady
  | BackupStateOther string

datatype RestoreState =
    RestoreStateNew
  | RestoreStateWaiting
  | RestoreStateRequested
  | RestoreStateRejected
  | RestoreStateRunning
  | RestoreStateError
  | RestoreStateReady
  | RestoreStateOther string

text \<open>A \<open>corev1.Volume\<close> as far as the backup job uses one.\<close>

record Volume =
  volName :: string
  volHostPath :: "string option"

record PGClusterBackupSpec =
  pbClusterName :: string
  pbVolumeSpec :: "Volume option"

record PGClusterBackupStatus =
  pbState :: BackupState
  pbStartAt :: "int option"
  pbCompletedAt :: "int option"
  pbError :: string
  pbBackupPath :: string

record PGClusterBackup =
  pbMeta :: ObjectMeta
  pbSpec :: PGClusterBackupSpec
  pbStatus :: PGClusterBackupStatus

record PGClusterRestoreSpec =
  prClusterName :: string
  prBackupName :: string

record PGClusterRestoreStatus =
  prState :: RestoreState
  prStartAt :: "int option"
  prCompletedAt :: "int option"
  prError :: string

record PGClusterRestore =
  prMeta :: ObjectMeta
  prSpec :: PGClusterRestoreSpec
  prStatus :: PGClusterRestoreStatus

datatype RedixType = RedisCluster | RedisServer | KVRocks | KVRocksCluster | RedixOther string

text \<open>\<open>corev1.ResourceRequirements\<close>, copied as a whole.\<close>

type_synonym ResourceRequirements = "(string \<times> string) list"

record KVRocksSpec =
  kvPassword :: PasswordVar
  kvOwner :: string
  kvBackupStorage :: "string option"
  kvImage :: string
  kvImagePullPolicy :: string
  kvResources :: "ResourceRequirements option"
  kvKVRocksConfig :: "(string \<times> string) list"

record RedixClusterSpec =
  rxType :: RedixType
  rxKVRocks :: "KVRocksSpec option"

record RedixCluster =
  rxMeta :: ObjectMeta
  rxSpec :: RedixClusterSpec

record KVRocksBackupSpec =
  kbClusterName :: string

record KVRocksBackupStatus =
  kbState :: BackupState
  kbStartAt :: "int option"
  kbCompletedAt :: "int option"
  kbError :: string
  kbBackupPath :: string

record KVRocksBackup =
  kbMeta :: ObjectMeta
  kbSpec :: KVRocksBackupSpec
  kbStatus :: KVRocksBackupStatus

record KVRocksRestoreSpec =
  krClusterName :: string
  krBackupStorage :: string

record KVRocksRestoreStatus =
  krState :: RestoreState
  krStartAt :: "int option"
  krCompletedAt :: "int option"
  krError :: string

record KVRocksRestore =
  krMeta :: ObjectMeta
  krSpec :: KVRocksRestoreSpec
  krStatus :: KVRocksRestoreStatus

end
