(* ===== verification/World.thy ===== *)
theory World
  imports Api_Types
begin

text \<open>The world outside the repository: the Kubernetes API, the clients of the custom
  resources, the file system and the database connections. Each is a record of operations on
  a state \<open>'w\<close> that the models take as an argument and never look into; each operation that a
  model performs is entered in its list of calls.\<close>

section \<open>Objects\<close>

text \<open>Kubernetes objects with the fields that the sources read or write. Affinity rules and the
  parameters of the probes, which the templates set and nothing reads, are left out.\<close>

type_synonym secret_data = "(string \<times> string) list"

record EnvVar =
  envName :: string
  envValue :: string
  envValueFrom :: "SecretKeySelector option"
  envFieldRef :: "string option"

record VolumeMount =
  vmName :: string
  vmMountPath :: string
  vmSubPath :: string

record Container =
  ctrName :: string
  ctrImage :: string
  ctrImagePullPolicy :: string
  ctrCommand :: "string list"
  ctrArgs :: "string list"
  ctrEnv :: "EnvVar list"
  ctrResources :: ResourceRequirements
  ctrPorts :: "nat list"
  ctrRunAsUser :: "int option"
  ctrVolumeMounts :: "VolumeMount list"

record StatefulSet =
  stsName :: string
  stsNamespace :: string
  stsLabels :: "(string \<times> string) list"
  stsAnnotations :: "(string \<times> string) list"
  stsSelector :: "(string \<times> string) list"
  stsServiceName :: string
  stsReplicas :: "int option"
  stsPodLabels :: "(string \<times> string) list"
  stsInitContainers :: "Container list"
  stsContainers :: "Container list"
  stsVolumes :: "Volume list"
  stsPriorityClassName :: string

record Scale =
  scName :: string
  scNamespace :: string
  scReplicas :: int

record Job =
  jobName :: string
  jobNamespace :: string
  jobUID :: string
  jobTTLSeconds :: int
  jobRestartPolicy :: string
  jobContainerName :: string
  jobImage :: string
  jobImagePullPolicy :: string
  jobCommand :: "string list"
  jobEnv :: "(string \<times> string) list"
  jobVolumes :: "Volume list"
  jobVolumeMounts :: "VolumeMount list"
  jobActive :: int
  jobSucceeded :: int
  jobFailed :: int

record Pod =
  podName :: string
  podNamespace :: string
  podOwnerUIDs :: "string list"
  podPhase :: string
  podContainerReady :: "(string \<times> bool) list"
  podIP :: string

record Service =
  svcPorts :: "(string \<times> int) list"
  svcSelector :: "(string \<times> string) list"

text \<open>Resources that the sources read as unstructured data: redis clusters and their backups, the
  MongoDB clusters of Percona with their backups and restores, the backups of the system, and the
  users of the platform. Of each, the fields that are read or written.\<close>

record RedisClusterBackup =
  rbName :: string
  rbNamespace :: string
  rbPath :: string
  rbPhase :: string
  rbReason :: string

record DistributedRedisCluster =
  drcName :: string
  drcNamespace :: string
  drcMasterSize :: int
  drcInit :: "(string \<times> string) option option"
  drcStatus :: string
  drcReason :: string
  drcNodes :: nat
  drcRestorePhase :: string
  drcRestoreBackup :: "RedisClusterBackup option"

datatype psmdb_state =
    PsNew | PsWaiting | PsRequested | PsRejected | PsRunning | PsError | PsReady | PsOther string

record PSMDB =
  psName :: string
  psNamespace :: string
  psReplsetSizes :: "int list"
  psMongosReady :: "bool option"
  psReplsetsReady :: "(string \<times> int) list"

record PSMDBBackup =
  pmbName :: string
  pmbNamespace :: string
  pmbState :: psmdb_state
  pmbError :: string
  pmbPBMname :: string

record PSMDBRestore =
  pmrName :: string
  pmrNamespace :: string
  pmrState :: psmdb_state
  pmrError :: string

record SysBackup =
  sbName :: string
  sbNamespace :: string
  sbAnnotations :: "(string \<times> string) list"
  sbPhase :: "string option"
  sbMiddleWarePhase :: "string option"
  sbMiddleWareFailedMessage :: "string option"

text \<open>A user of the platform; its mail address is known once the data has been converted.\<close>

record KSUser =
  ksEmail :: "string res"
  ksAnnotations :: "(string \<times> string) list"

text \<open>A KubeBlocks cluster of a listing, with its labels (\<open>None\<close> for a nil map) and the replicas of its components.\<close>

record KBItem =
  kbiName :: string
  kbiNamespace :: string
  kbiLabels :: "(string \<times> string) list option"
  kbiReplicas :: "int list"

section \<open>Calls\<close>

datatype k8s_call =
    GetSecret string string
  | CreateSecret string string
  | GetStatefulSet string string
  | CreateStatefulSet StatefulSet
  | UpdateStatefulSet StatefulSet
  | DeleteStatefulSet string string
  | GetScale string string
  | UpdateScale string string int
  | GetService string string
  | CreateService string string
  | DeleteService string string
  | GetPVC string string
  | GetPV string
  | GetPod string string
  | ListPods string string
  | DeletePod string string
  | GetJob string string
  | CreateJob Job
  | DeleteJob string string
  | GetNow

datatype apr_call =
    GetPGCluster string string
  | GetRedixCluster string string
  | ListMiddlewareRequests string
  | GetPGBackup string string
  | ListPGBackups string
  | CreatePGBackup PGClusterBackup
  | DeletePGBackup string string
  | UpdatePGBackupStatus PGClusterBackup
  | GetPGRestore string string
  | ListPGRestores string
  | CreatePGRestore PGClusterRestore
  | DeletePGRestore string string
  | UpdatePGRestoreStatus PGClusterRestore
  | GetKVBackup string string
  | ListKVBackups string
  | CreateKVBackup KVRocksBackup
  | DeleteKVBackup string string
  | UpdateKVBackupStatus KVRocksBackup
  | GetKVRestore string string
  | ListKVRestores string
  | CreateKVRestore KVRocksRestore
  | DeleteKVRestore string string
  | UpdateKVRestoreStatus KVRocksRestore

datatype fs_call =
    Stat string
  | MkdirAll string
  | WriteFile string string
  | RemoveAll string
  | RemoveFile string
  | Rename string string
  | Mkdir string
  | Setenv string string

datatype sql_call =
    Connect string
  | Exec string string
  | NamedQuery string string "(string \<times> string) list"
  | NamedExec string string "(string \<times> string) list"
  | Query string string
  | Begin string
  | Commit string
  | Rollback string
  | CloseDB string

datatype misc_call =
    BcryptGenerate string
  | RandomBytes nat
  | KubeConfig
  | NewClientset
  | NewAprClient
  | NatsParseFile string
  | NatsDecode string
  | NatsConnect string string string
  | NatsDrain
  | JetstreamNew
  | JsCreateStream string "string list" int
  | JsDeleteStream string
  | RedisPing string string
  | RedisDo "string list"
  | RedisBgSave
  | RedisConfigRewrite
  | RedisClose

text \<open>The services behind the other kinds of middleware. A statement of a bucket policy has its
  actions as one string or as a list.\<close>

datatype actions = OneAction string | Actions "string list"

record policy_statement =
  psEffect :: string
  psAction :: actions
  psResource :: "string list"

datatype cluster_call =
    ListRedixClusters string
  | ListDistributedRedisClusters string
  | GetConfigMap string string
  | UpdateConfigMap string string "(string \<times> string) list"
  | GetDeployment string string
  | UpdateDeployment string string "(string \<times> string) list"
  | GetKBCluster string string

datatype mongo_call =
    MongoConnect string
  | MongoPing
  | MongoDisconnect
  | MongoFindUser string "string option"
  | MongoCreateUser string string string "string list"
  | MongoUpdateUser string string string "string list"
  | MongoDropUser string string
  | MongoDropDatabase string
  | RunMongosh "string list"

datatype minio_call =
    MinioNew string string
  | MadminNew string string
  | MakeBucket string
  | BucketExists string
  | RemoveBucket string
  | ListBuckets
  | ListObjects string
  | RemoveObject string string
  | AddUser string string
  | ListMinioUsers
  | RemoveUser string
  | AddCannedPolicy string "policy_statement list"
  | RemoveCannedPolicy string
  | SetPolicy string string

datatype rabbit_call =
    RabbitNewClient string string
  | PutUser string string
  | PutVhost string
  | UpdatePermissionsIn string string
  | ClearPermissionsIn string string
  | DeleteRabbitUser string
  | DeleteVhost string

datatype es_call =
    EsNewClient string string
  | IndicesExists string
  | IndicesCreate string
  | IndicesDelete string
  | CatIndices string
  | SecurityPutRole string string
  | SecurityDeleteRole string
  | SecurityPutUser string string
  | SecurityDeleteUser string

datatype dyn_call =
    ListPGClusters string
  | UpdatePGCluster PGCluster
  | GetDRC string string
  | ListDRC string
  | UpdateDRC DistributedRedisCluster
  | UpdateDRCStatus DistributedRedisCluster
  | GetRedisBackup string string
  | ListRedisBackups
  | CreateRedisBackup RedisClusterBackup
  | DeleteRedisBackup string string
  | ListStatefulSets string string
  | GetPSMDB string string
  | UpdatePSMDB PSMDB
  | GetPSMDBBackup string string
  | ListPSMDBBackups
  | CreatePSMDBBackup PSMDBBackup
  | DeletePSMDBBackup string string
  | GetPSMDBRestore string string
  | ListPSMDBRestores
  | CreatePSMDBRestore PSMDBRestore
  | DeletePSMDBRestore string string
  | GetSysBackup string string
  | UpdateSysBackup SysBackup
  | ListKBClusters
  | GetKSUser string
  | WatchBackups string
  | WatchRestores string
  | StopBackupWatch
  | StopRestoreWatch
  | SelectWatch

text \<open>The vault: requests over HTTP (with the bearer token of their header), inserts into its
  database, and what it asks of the system.\<close>

datatype body_value = BodyString string | BodyObject "(string \<times> string) list"

record http_request =
  hrMethod :: string
  hrUrl :: string
  hrToken :: string
  hrQuery :: "(string \<times> string) list"
  hrBody :: "(string \<times> body_value) list"

datatype db_value = DbString string | DbBool bool | DbInt int | DbTime int | DbStrings "string list" | DbNull | DbObjectId string

datatype vault_call =
    Http http_request
  | InsertRow string string "(string \<times> db_value) list"
  | UuidNew
  | BoxGenerateKey
  | RunNode "string list"
  | ListAppPerms string
  | FindDocument string string string
  | InsertDocument string string "(string \<times> db_value) list"

text \<open>The policies of an application (\<open>pkg/terminus/types.go\<close>), and the calls of the uploader.\<close>

record SubPolicy =
  spURI :: string
  spPolicy :: string
  spOneTime :: bool
  spDuration :: int

record SettingsPolicy =
  stDefaultPolicy :: string
  stSubPolicies :: "SubPolicy list"
  stOneTime :: bool
  stDuration :: int

datatype upload_call =
    VerifyToken string string
  | SaveUpload string
  | GetPolicy string string
  | PostPolicy string string SettingsPolicy

text \<open>The requests to the Zinc server.\<close>

datatype zinc_body =
    ZincNothing
  | ZincIndex string string
  | ZincUser string string string
  | ZincRole string "string list"

datatype zinc_call = ZincSend string string string zinc_body

datatype svc_call =
    Cluster cluster_call
  | Dyn dyn_call
  | Mongo mongo_call
  | Minio_svc minio_call
  | Rabbit rabbit_call
  | Es es_call
  | Vault vault_call
  | Upload upload_call
  | Zinc_svc zinc_call

datatype call =
    K8s k8s_call
  | Apr apr_call
  | Fs fs_call
  | Sql sql_call
  | Misc misc_call
  | Svc svc_call

type_synonym ('w, 'a) prog = "(call, 'w, 'a) io"

section \<open>Operations\<close>

text \<open>Kubernetes. The second argument of \<open>listPods\<close> is the label selector.\<close>

record 'w k8s =
  getSecret :: "string \<Rightarrow> string \<Rightarrow> ('w, secret_data) op"
  createSecret :: "string \<Rightarrow> string \<Rightarrow> secret_data \<Rightarrow> ('w, unit) op"
  getStatefulSet :: "string \<Rightarrow> string \<Rightarrow> ('w, StatefulSet) op"
  createStatefulSet :: "StatefulSet \<Rightarrow> ('w, StatefulSet) op"
  updateStatefulSet :: "StatefulSet \<Rightarrow> ('w, StatefulSet) op"
  deleteStatefulSet :: "string \<Rightarrow> string \<Rightarrow> ('w, unit) op"
  getScale :: "string \<Rightarrow> string \<Rightarrow> ('w, Scale) op"
  updateScale :: "string \<Rightarrow> string \<Rightarrow> Scale \<Rightarrow> ('w, Scale) op"
  getService :: "string \<Rightarrow> string \<Rightarrow> ('w, Service) op"
  createService :: "string \<Rightarrow> string \<Rightarrow> ('w, unit) op"
  deleteService :: "string \<Rightarrow> string \<Rightarrow> ('w, unit) op"
  getPVC :: "string \<Rightarrow> string \<Rightarrow> ('w, string) op"
  getPV :: "string \<Rightarrow> ('w, string option) op"
  getPod :: "string \<Rightarrow> string \<Rightarrow> ('w, Pod) op"
  listPods :: "string \<Rightarrow> string \<Rightarrow> ('w, Pod list) op"
  deletePod :: "string \<Rightarrow> string \<Rightarrow> ('w, unit) op"
  getJob :: "string \<Rightarrow> string \<Rightarrow> ('w, Job) op"
  createJob :: "Job \<Rightarrow> ('w, Job) op"
  deleteJob :: "string \<Rightarrow> string \<Rightarrow> ('w, unit) op"
  getNow :: "('w, int) op"

text \<open>The clients of the custom resources.\<close>

record 'w apr =
  getPGCluster :: "string \<Rightarrow> string \<Rightarrow> ('w, PGCluster) op"
  getRedixCluster :: "string \<Rightarrow> string \<Rightarrow> ('w, RedixCluster) op"
  listMiddlewareRequests :: "string \<Rightarrow> ('w, MiddlewareRequest list) op"
  getPGBackup :: "string \<Rightarrow> string \<Rightarrow> ('w, PGClusterBackup) op"
  listPGBackups :: "string \<Rightarrow> ('w, PGClusterBackup list) op"
  createPGBackup :: "PGClusterBackup \<Rightarrow> ('w, unit) op"
  deletePGBackup :: "string \<Rightarrow> string \<Rightarrow> ('w, unit) op"
  updatePGBackupStatus :: "PGClusterBackup \<Rightarrow> ('w, PGClusterBackup) op"
  getPGRestore :: "string \<Rightarrow> string \<Rightarrow> ('w, PGClusterRestore) op"
  listPGRestores :: "string \<Rightarrow> ('w, PGClusterRestore list) op"
  createPGRestore :: "PGClusterRestore \<Rightarrow> ('w, unit) op"
  deletePGRestore :: "string \<Rightarrow> string \<Rightarrow> ('w, unit) op"
  updatePGRestoreStatus :: "PGClusterRestore \<Rightarrow> ('w, PGClusterRestore) op"

record 'w kvapr =
  getKVBackup :: "string \<Rightarrow> string \<Rightarrow> ('w, KVRocksBackup) op"
  listKVBackups :: "string \<Rightarrow> ('w, KVRocksBackup list) op"
  createKVBackup :: "KVRocksBackup \<Rightarrow> ('w, unit) op"
  deleteKVBackup :: "string \<Rightarrow> string \<Rightarrow> ('w, unit) op"
  updateKVBackupStatus :: "KVRocksBackup \<Rightarrow> ('w, KVRocksBackup) op"
  getKVRestore :: "string \<Rightarrow> string \<Rightarrow> ('w, KVRocksRestore) op"
  listKVRestores :: "string \<Rightarrow> ('w, KVRocksRestore list) op"
  createKVRestore :: "KVRocksRestore \<Rightarrow> ('w, unit) op"
  deleteKVRestore :: "string \<Rightarrow> string \<Rightarrow> ('w, unit) op"
  updateKVRestoreStatus :: "KVRocksRestore \<Rightarrow> ('w, KVRocksRestore) op"

text \<open>The file system and the process environment; \<open>fsStat\<close> tells whether the path is a
  directory, and \<open>NotFound\<close> is the error for which \<open>os.IsNotExist\<close> holds.\<close>

record 'w fs =
  fsStat :: "string \<Rightarrow> ('w, bool) op"
  fsMkdirAll :: "string \<Rightarrow> ('w, unit) op"
  fsWriteFile :: "string \<Rightarrow> string \<Rightarrow> ('w, unit) op"
  fsRemoveAll :: "string \<Rightarrow> ('w, unit) op"
  fsRemove :: "string \<Rightarrow> ('w, unit) op"
  fsRename :: "string \<Rightarrow> string \<Rightarrow> ('w, unit) op"
  fsMkdir :: "string \<Rightarrow> ('w, unit) op"
  osSetenv :: "string \<Rightarrow> string \<Rightarrow> ('w, unit) op"

text \<open>Database connections, named by the data source they were opened with. A query gives the
  rows, each the outcome of scanning its only column (a process id as its decimal digits);
  \<open>None\<close> is a nil \<open>*Rows\<close>.\<close>

type_synonym rows = "string res list"

record 'w sql =
  sqlConnect :: "string \<Rightarrow> ('w, unit) op"
  sqlExec :: "string \<Rightarrow> string \<Rightarrow> ('w, unit) op"
  sqlNamedQuery :: "string \<Rightarrow> string \<Rightarrow> (string \<times> string) list \<Rightarrow> ('w, rows option) op"
  sqlNamedExec :: "string \<Rightarrow> string \<Rightarrow> (string \<times> string) list \<Rightarrow> ('w, unit) op"
  sqlQuery :: "string \<Rightarrow> string \<Rightarrow> ('w, rows) op"
  sqlBegin :: "string \<Rightarrow> ('w, unit) op"
  sqlCommit :: "string \<Rightarrow> ('w, unit) op"
  sqlRollback :: "string \<Rightarrow> ('w, unit) op"
  sqlClose :: "string \<Rightarrow> ('w, unit) op"

section \<open>Services\<close>

text \<open>Config maps, deployments and the clusters of other operators. A deployment is the labels
  of its pod template, \<open>None\<close> for a nil map; of a distributed redis cluster the namespace is read,
  of a KubeBlocks cluster its name, namespace and phase.\<close>

record KBCluster =
  kbcName :: string
  kbcNamespace :: string
  kbcPhase :: string

record 'w clusters =
  listRedixClusters :: "string \<Rightarrow> ('w, RedixCluster list) op"
  listDistributedRedisClusters :: "string \<Rightarrow> ('w, string list) op"
  getConfigMap :: "string \<Rightarrow> string \<Rightarrow> ('w, (string \<times> string) list) op"
  updateConfigMap :: "string \<Rightarrow> string \<Rightarrow> (string \<times> string) list \<Rightarrow> ('w, unit) op"
  getDeployment :: "string \<Rightarrow> string \<Rightarrow> ('w, (string \<times> string) list option) op"
  updateDeployment :: "string \<Rightarrow> string \<Rightarrow> (string \<times> string) list \<Rightarrow> ('w, unit) op"
  getKBCluster :: "string \<Rightarrow> string \<Rightarrow> ('w, KBCluster) op"

text \<open>Unstructured resources. What a read delivers has still to be converted to its type, which may
  fail: it is the outcome of that conversion. The conversion to unstructured data before a write is
  taken to succeed. A listing of stateful sets is their number.\<close>

record 'w dyn =
  listPGClusters :: "string \<Rightarrow> ('w, PGCluster list) op"
  updatePGCluster :: "PGCluster \<Rightarrow> ('w, unit) op"
  getDRC :: "string \<Rightarrow> string \<Rightarrow> ('w, DistributedRedisCluster res) op"
  listDRC :: "string \<Rightarrow> ('w, DistributedRedisCluster res list) op"
  updateDRC :: "DistributedRedisCluster \<Rightarrow> ('w, DistributedRedisCluster res) op"
  updateDRCStatus :: "DistributedRedisCluster \<Rightarrow> ('w, DistributedRedisCluster res) op"
  getRedisBackup :: "string \<Rightarrow> string \<Rightarrow> ('w, RedisClusterBackup res) op"
  listRedisBackups :: "('w, RedisClusterBackup res list) op"
  createRedisBackup :: "RedisClusterBackup \<Rightarrow> ('w, unit) op"
  deleteRedisBackup :: "string \<Rightarrow> string \<Rightarrow> ('w, unit) op"
  listStatefulSets :: "string \<Rightarrow> string \<Rightarrow> ('w, nat) op"
  getPSMDB :: "string \<Rightarrow> string \<Rightarrow> ('w, PSMDB res) op"
  updatePSMDB :: "PSMDB \<Rightarrow> ('w, unit) op"
  getPSMDBBackup :: "string \<Rightarrow> string \<Rightarrow> ('w, PSMDBBackup res) op"
  listPSMDBBackups :: "('w, PSMDBBackup res list) op"
  createPSMDBBackup :: "PSMDBBackup \<Rightarrow> ('w, unit) op"
  deletePSMDBBackup :: "string \<Rightarrow> string \<Rightarrow> ('w, unit) op"
  getPSMDBRestore :: "string \<Rightarrow> string \<Rightarrow> ('w, PSMDBRestore res) op"
  listPSMDBRestores :: "('w, PSMDBRestore res list) op"
  createPSMDBRestore :: "PSMDBRestore \<Rightarrow> ('w, unit) op"
  deletePSMDBRestore :: "string \<Rightarrow> string \<Rightarrow> ('w, unit) op"
  getSysBackup :: "string \<Rightarrow> string \<Rightarrow> ('w, SysBackup res) op"
  updateSysBackup :: "SysBackup \<Rightarrow> ('w, unit) op"
  listKBClusters :: "('w, KBItem list) op"
  getKSUser :: "string \<Rightarrow> ('w, KSUser) op"

text \<open>The two watches of the backup watcher. A received value is \<open>None\<close> when the channel is closed; the
  object of an event is \<open>None\<close> when it has another type than expected.\<close>

datatype event_type = Added | Modified | Deleted | OtherEvent string

datatype selected =
    CtxDone
  | BackupEvent "(event_type \<times> SysBackup res option) option"
  | RestoreEvent "(event_type \<times> bool) option"

record 'w watch =
  watchBackups :: "string \<Rightarrow> ('w, unit) op"
  watchRestores :: "string \<Rightarrow> ('w, unit) op"
  stopBackups :: "'w \<Rightarrow> 'w"
  stopRestores :: "'w \<Rightarrow> 'w"
  selectEvent :: "'w \<Rightarrow> selected \<times> 'w"

definition dyn :: "dyn_call \<Rightarrow> ('w, 'a) op \<Rightarrow> ('w, 'a) prog" where
  "dyn c = call (Svc (Dyn c))"

text \<open>MongoDB. \<open>mongoFindUser\<close> tells whether there is such a user (\<open>false\<close> is \<open>ErrNoDocuments\<close>).
  An answer to a command is decoded into the field \<open>ok\<close> and the error message, either of which may be
  missing or of another type.\<close>

datatype ok_field = NoOk | OkFloat bool | OkOther

record mongo_reply =
  replyOk :: ok_field
  replyErrmsg :: "string option"

record 'w mongo_ops =
  mongoConnect :: "string \<Rightarrow> ('w, unit) op"
  mongoPing :: "('w, unit) op"
  mongoDisconnect :: "('w, unit) op"
  mongoFindUser :: "string \<Rightarrow> string option \<Rightarrow> ('w, bool) op"
  mongoRun :: "mongo_call \<Rightarrow> ('w, mongo_reply res) op"
  mongoDropDatabase :: "string \<Rightarrow> ('w, unit) op"
  mongosh :: "string list \<Rightarrow> ('w, unit) op"

text \<open>MinIO. Each object that a listing delivers is a key or an error.\<close>

record 'w minio_ops =
  minioNew :: "string \<Rightarrow> string \<Rightarrow> ('w, unit) op"
  madminNew :: "string \<Rightarrow> string \<Rightarrow> ('w, unit) op"
  makeBucket :: "string \<Rightarrow> ('w, unit) op"
  bucketExists :: "string \<Rightarrow> ('w, bool) op"
  removeBucket :: "string \<Rightarrow> ('w, unit) op"
  listBuckets :: "('w, string list) op"
  listObjects :: "string \<Rightarrow> 'w \<Rightarrow> string res list \<times> 'w"
  removeObject :: "string \<Rightarrow> string \<Rightarrow> ('w, unit) op"
  addUser :: "string \<Rightarrow> string \<Rightarrow> ('w, unit) op"
  listMinioUsers :: "('w, string list) op"
  removeUser :: "string \<Rightarrow> ('w, unit) op"
  addCannedPolicy :: "string \<Rightarrow> policy_statement list \<Rightarrow> ('w, unit) op"
  removeCannedPolicy :: "string \<Rightarrow> ('w, unit) op"
  setPolicy :: "string \<Rightarrow> string \<Rightarrow> ('w, unit) op"

text \<open>RabbitMQ: every request is answered by a status code and a body.\<close>

record 'w rabbit_ops =
  rabbitNewClient :: "string \<Rightarrow> string \<Rightarrow> ('w, unit) op"
  rabbitDo :: "rabbit_call \<Rightarrow> ('w, nat \<times> string) op"

text \<open>Elasticsearch: a response has a status, the library's verdict whether it is an error, a text
  and, for a listing, the outcome of decoding the index names.\<close>

record es_response =
  esStatusCode :: nat
  esIsError :: bool
  esString :: string
  esDecoded :: "string list res"

record 'w es_ops =
  esNewClient :: "string \<Rightarrow> string \<Rightarrow> ('w, unit) op"
  esDo :: "es_call \<Rightarrow> ('w, es_response) op"

section \<open>Secrets and passwords\<close>

definition Secrets_Get :: "'w k8s \<Rightarrow> string \<Rightarrow> string \<Rightarrow> ('w, secret_data) prog" where
  "Secrets_Get k namespace name = call (K8s (GetSecret namespace name)) (getSecret k namespace name)"

text \<open>A key that is missing from the data reads as the empty string.\<close>

definition secret_value :: "secret_data \<Rightarrow> string \<Rightarrow> string" where
  "secret_value data key = (case lookup data key of Some v \<Rightarrow> v | None \<Rightarrow> [])"

definition GetVarValue :: "'w k8s \<Rightarrow> PasswordVar \<Rightarrow> string \<Rightarrow> ('w, string) prog" where
  "GetVarValue k p namespace =
     (if pwValue p \<noteq> [] then ret (pwValue p)
      else case pwValueFrom p of
        None \<Rightarrow> fail (Failure ''password is not defined'')
      | Some src \<Rightarrow> (case SecretKeyRef src of
          None \<Rightarrow> panic ''nil SecretKeyRef''
        | Some sel \<Rightarrow> seqc (Secrets_Get k namespace (skName sel)) (\<lambda>data.
            ret (secret_value data (skKey sel)))))"

text \<open>A value given in the resource itself wins and costs no call; otherwise one secret of
  the given namespace is read, and nothing else happens.\<close>

lemma emits_GetVarValue [emits_intros]:
  "(\<And>n. S (K8s (GetSecret namespace n))) \<Longrightarrow> emits S (GetVarValue k p namespace)"
  unfolding GetVarValue_def Secrets_Get_def
  by (auto intro!: emits_intros split: option.splits)

lemma GetVarValue_value: "pwValue p \<noteq> [] \<Longrightarrow> GetVarValue k p namespace = ret (pwValue p)"
  by (simp add: GetVarValue_def)

text \<open>\<open>GetUserDBPVCName\<close> of \<open>pkg/workload/utils\<close>: the annotation of the user's \<open>bfl\<close>.\<close>

definition StatefulSets_Get :: "'w k8s \<Rightarrow> string \<Rightarrow> string \<Rightarrow> ('w, StatefulSet) prog" where
  "StatefulSets_Get k namespace name =
     call (K8s (GetStatefulSet namespace name)) (getStatefulSet k namespace name)"

definition UserDBDataPVC :: string where "UserDBDataPVC = ''dbdata_hostpath''"

definition GetUserDBPVCName :: "'w k8s \<Rightarrow> string \<Rightarrow> ('w, string) prog" where
  "GetUserDBPVCName k namespace =
     seqc (StatefulSets_Get k namespace ''bfl'') (\<lambda>bflSts.
     case lookup (stsAnnotations bflSts) UserDBDataPVC of
       None \<Rightarrow> fail (Failure (''cannot find user db data pvc, '' @ UserDBDataPVC))
     | Some pvc \<Rightarrow> ret pvc)"

section \<open>Idle environments\<close>

text \<open>Concrete environments over the one-point state, for the witnesses: every operation is
  refused (the database accepts everything and has no rows); a witness overrides what it needs.\<close>

definition denied :: "'a \<Rightarrow> 'w \<Rightarrow> 'b res \<times> 'w" where
  "denied x w = (Err (Failure ''denied''), w)"

definition ok :: "'b \<Rightarrow> 'a \<Rightarrow> 'w \<Rightarrow> 'b res \<times> 'w" where
  "ok v x w = (Val v, w)"

definition idle_k8s :: "'w k8s" where
  "idle_k8s = \<lparr>getSecret = (\<lambda>a. denied), createSecret = (\<lambda>a b. denied), getStatefulSet = (\<lambda>a. denied),
     createStatefulSet = denied, updateStatefulSet = denied, deleteStatefulSet = (\<lambda>a. denied), getScale = (\<lambda>a. denied),
     updateScale = (\<lambda>a b. denied), getService = (\<lambda>a. denied), createService = (\<lambda>a. denied),
     deleteService = (\<lambda>a. denied), getPVC = (\<lambda>a. denied), getPV = denied, getPod = (\<lambda>a. denied),
     listPods = (\<lambda>a. denied), deletePod = (\<lambda>a. denied), getJob = (\<lambda>a. denied), createJob = denied,
     deleteJob = (\<lambda>a. denied), getNow = (\<lambda>w. (Val 1, w))\<rparr>"

definition idle_apr :: "unit apr" where
  "idle_apr = \<lparr>getPGCluster = (\<lambda>a. denied), getRedixCluster = (\<lambda>a. denied),
     listMiddlewareRequests = denied, getPGBackup = (\<lambda>a. denied), listPGBackups = denied,
     createPGBackup = denied, deletePGBackup = (\<lambda>a. denied), updatePGBackupStatus = denied,
     getPGRestore = (\<lambda>a. denied), listPGRestores = denied, createPGRestore = denied,
     deletePGRestore = (\<lambda>a. denied), updatePGRestoreStatus = denied\<rparr>"

definition idle_kvapr :: "unit kvapr" where
  "idle_kvapr = \<lparr>getKVBackup = (\<lambda>a. denied), listKVBackups = denied, createKVBackup = denied,
     deleteKVBackup = (\<lambda>a. denied), updateKVBackupStatus = denied, getKVRestore = (\<lambda>a. denied),
     listKVRestores = denied, createKVRestore = denied, deleteKVRestore = (\<lambda>a. denied),
     updateKVRestoreStatus = denied\<rparr>"

definition idle_fs :: "unit fs" where
  "idle_fs = \<lparr>fsStat = denied, fsMkdirAll = ok (), fsWriteFile = (\<lambda>p. ok ()), fsRemoveAll = ok (),
     fsRemove = ok (), fsRename = (\<lambda>a. ok ()), fsMkdir = ok (), osSetenv = (\<lambda>a. ok ())\<rparr>"

definition idle_sql :: "unit sql" where
  "idle_sql = \<lparr>sqlConnect = ok (), sqlExec = (\<lambda>a. ok ()), sqlNamedQuery = (\<lambda>a b. ok (Some [])),
     sqlNamedExec = (\<lambda>a b. ok ()), sqlQuery = (\<lambda>a. ok []), sqlBegin = ok (), sqlCommit = ok (),
     sqlRollback = ok (), sqlClose = ok ()\<rparr>"

definition idle_dyn :: "'w dyn" where
  "idle_dyn = \<lparr>listPGClusters = denied, updatePGCluster = denied, getDRC = (\<lambda>a. denied), listDRC = denied,
     updateDRC = denied, updateDRCStatus = denied, getRedisBackup = (\<lambda>a. denied), listRedisBackups = denied (),
     createRedisBackup = denied, deleteRedisBackup = (\<lambda>a. denied), listStatefulSets = (\<lambda>a. denied),
     getPSMDB = (\<lambda>a. denied), updatePSMDB = denied, getPSMDBBackup = (\<lambda>a. denied), listPSMDBBackups = denied (),
     createPSMDBBackup = denied, deletePSMDBBackup = (\<lambda>a. denied), getPSMDBRestore = (\<lambda>a. denied),
     listPSMDBRestores = denied (), createPSMDBRestore = denied, deletePSMDBRestore = (\<lambda>a. denied),
     getSysBackup = (\<lambda>a. denied), updateSysBackup = denied, listKBClusters = denied (), getKSUser = denied\<rparr>"

lemmas idle_defs = idle_k8s_def idle_apr_def idle_kvapr_def idle_fs_def idle_sql_def denied_def ok_def

text \<open>Requests for the witnesses.\<close>

definition plain_password :: PasswordVar where
  "plain_password = \<lparr>pwValue = ''pw'', pwValueFrom = None\<rparr>"

definition plain_meta :: "string \<Rightarrow> string \<Rightarrow> ObjectMeta" where
  "plain_meta name ns = \<lparr>metaName = name, metaNamespace = ns, metaUID = ''1'', metaResourceVersion = ''1'',
     metaLabels = [], metaAnnotations = []\<rparr>"

definition plain_spec :: "string \<Rightarrow> string \<Rightarrow> MiddlewareType \<Rightarrow> MiddlewareSpec" where
  "plain_spec app ns t = \<lparr>mwApp = app, mwAppNamespace = ns, mwMiddleware = t,
     mwRedis = \<lparr>redisPassword = plain_password, redisNamespace = []\<rparr>,
     mwMongoDB = \<lparr>mongoPassword = plain_password, mongoDatabases = [], mongoUser = []\<rparr>,
     mwPostgreSQL = \<lparr>psqlPassword = plain_password, psqlDatabases = [], psqlUser = app\<rparr>,
     mwNats = \<lparr>natsUser = app, natsPassword = plain_password, natsSubjects = [], natsRefs = []\<rparr>,
     mwMinio = \<lparr>minioUser = [], minioPassword = plain_password, minioBuckets = [], minioAllowNamespaceBuckets = False\<rparr>,
     mwRabbitMQ = \<lparr>rabbitUser = [], rabbitPassword = plain_password, rabbitVhosts = []\<rparr>,
     mwElasticsearch = \<lparr>esUser = [], esPassword = plain_password, esIndexes = [], esAllowNamespaceIndexes = False\<rparr>,
     mwMariaDB = \<lparr>mariaUser = [], mariaPassword = plain_password, mariaDatabases = []\<rparr>,
     mwMysql = \<lparr>mysqlUser = [], mysqlPassword = plain_password, mysqlDatabases = []\<rparr>,
     mwZinc = \<lparr>zincUser = [], zincPassword = plain_password, zincIndexes = []\<rparr>\<rparr>"

definition plain_request :: "string \<Rightarrow> string \<Rightarrow> MiddlewareType \<Rightarrow> MiddlewareRequest" where
  "plain_request app ns t = \<lparr>mrMeta = plain_meta app ns, mrSpec = plain_spec app ns t\<rparr>"

lemmas plain_defs = plain_password_def plain_meta_def plain_spec_def plain_request_def

end
