(* ===== verification/Nats.thy ===== *)
theory Nats
  imports World
begin

text \<open>The NATS side of a middleware request, \<open>pkg/workload/nats\<close> and \<open>handler_nats.go\<close>:
  subject names, the subjects a request may publish and subscribe, the table of users in the
  server's configuration file, the rendering of that file, streams, and the controller that
  seeds the file from a config map.\<close>

section \<open>Configuration (types.go)\<close>

record Jetstream =
  jsMaxFileStore :: int
  jsMaxMemoryStore :: int
  jsStoreDir :: string

record Permissions =
  publishAllow :: "string list"
  subscribeAllow :: "string list"

record NatsUser =
  nuUsername :: string
  nuPassword :: string
  nuPermissions :: Permissions

record Terminus =
  tmJetstream :: string
  tmUsers :: "NatsUser list"

record Config =
  cfgHTTPPort :: int
  cfgJetstream :: Jetstream
  cfgTerminus :: Terminus
  cfgPort :: int
  cfgPidFile :: string
  cfgServerName :: string

definition config_users :: "Config \<Rightarrow> NatsUser list" where
  "config_users config = tmUsers (cfgTerminus config)"

definition with_users :: "NatsUser list \<Rightarrow> Config \<Rightarrow> Config" where
  "with_users us config = config\<lparr>cfgTerminus := (cfgTerminus config)\<lparr>tmUsers := us\<rparr>\<rparr>"

lemma config_users_with [simp]: "config_users (with_users us c) = us"
  by (simp add: config_users_def with_users_def)

section \<open>The outside of this component\<close>

record 'w nats_ops =
  ctrlGetConfig :: "('w, unit) op"
  newForConfig :: "('w, unit) op"
  aprNewForConfig :: "('w, unit) op"
  bcryptGenerate :: "string \<Rightarrow> ('w, string) op"
  confParseFile :: "string \<Rightarrow> ('w, string) op"
  mapDecode :: "string \<Rightarrow> ('w, Config) op"
  natsConnect :: "string \<Rightarrow> string \<Rightarrow> string \<Rightarrow> ('w, unit) op"
  natsDrain :: "('w, unit) op"
  jetstreamNew :: "('w, unit) op"
  jsCreateStream :: "string \<Rightarrow> string list \<Rightarrow> int \<Rightarrow> ('w, unit) op"
  jsDeleteStream :: "string \<Rightarrow> ('w, unit) op"

definition PlatformNamespace :: string where "PlatformNamespace = ''os-platform''"

definition ConfPath :: string where "ConfPath = ''/dbdata/nats_data/config/nats.conf''"

definition Allow :: string where "Allow = ''allow''"

definition defaultPubPerm :: "string list" where
  "defaultPubPerm = [''$JS.API.INFO'', ''$JS.API.STREAM.NAMES'', ''$JS.API.CONSUMER.CREATE.>'',
     ''_INBOX.>'', ''$JS.ACK.>'', ''$SYS.ACCOUNT.*.CONNECT'', ''$SYS.ACCOUNT.*.DISCONNECT'', ''$JS.FC.>'',
     ''$SYS._INBOX_.>'', ''$SYS.SERVER.*.CLIENT.AUTH.ERR'', ''$SYS.REQ.SERVER.PING.>'']"

definition defaultSubPerm :: "string list" where
  "defaultSubPerm = [''$JS.API.STREAM.NAMES'', ''$JS.API.CONSUMER.CREATE.>'', ''_INBOX.>'',
     ''$SYS.ACCOUNT.*.CONNECT'', ''$SYS.ACCOUNT.*.DISCONNECT'', ''$JS.FC.>'', ''$SYS._INBOX_.>'',
     ''$SYS.SERVER.*.CLIENT.AUTH.ERR'', ''$SYS.REQ.SERVER.PING.>'']"

section \<open>Names\<close>

definition MakeRealSubjectName :: "string \<Rightarrow> string \<Rightarrow> string" where
  "MakeRealSubjectName subject appNamespace = appNamespace @ ''.'' @ subject"

definition MakeRealNameForRefSubjectName :: "string \<Rightarrow> string \<Rightarrow> string \<Rightarrow> string \<Rightarrow> string" where
  "MakeRealNameForRefSubjectName refNamespace app subject ownerName =
     (let refAppNs = (if HasPrefix refNamespace ''user-space'' then ''user-space-'' @ ownerName
                      else if HasPrefix refNamespace ''user-system'' then ''user-system-'' @ ownerName
                      else refNamespace)
      in refAppNs @ ''.'' @ subject)"

definition GetOwnerNameFromNs :: "string \<Rightarrow> string" where
  "GetOwnerNameFromNs ns = (let nsSplict = Split ns CHR ''-'' in nsSplict ! (length nsSplict - 1))"

text \<open>\<open>GetOriginSubjectName\<close>: the regular expression drops three segments, each up to and
  with its dot; its last group does not match a newline.\<close>

fun drop_segment :: "string \<Rightarrow> string option" where
  "drop_segment [] = None"
| "drop_segment (c # s) = (if c = CHR ''.'' then Some s else drop_segment s)"

definition GetOriginSubjectName :: "string \<Rightarrow> string" where
  "GetOriginSubjectName subjectName =
     (case Option.bind (Option.bind (drop_segment subjectName) drop_segment) drop_segment of
        Some rest \<Rightarrow> if CHR 0x0A \<in> set rest then [] else rest
      | None \<Rightarrow> [])"

section \<open>Rendering (conf.go)\<close>

definition quoteOrNot :: "string \<Rightarrow> string" where
  "quoteOrNot s = (if HasPrefix s ''$2a'' then s
     else if s \<noteq> [] \<and> s ! 0 = CHR ''$'' then s
     else [CHR 0x22] @ s @ [CHR 0x22])"

definition line :: "nat \<Rightarrow> string \<Rightarrow> string" where
  "line indent s = CHR 0x0A # replicate indent (CHR '' '') @ s"

definition quoted :: "string \<Rightarrow> string" where
  "quoted s = [CHR 0x22] @ s @ [CHR 0x22]"

text \<open>One user of the template; \<open>index\<close> decides about the comma before it.\<close>

definition render_user :: "nat \<Rightarrow> NatsUser \<Rightarrow> string" where
  "render_user index user =
     (if index = 0 then [] else '','') @ line 8 ''{'' @
     line 10 (quoted ''user'' @ '': '' @ quoted (nuUsername user) @ '','') @
     line 10 [] @
     (if nuUsername user = ''admin''
      then line 10 (quoted ''password'' @ '': $ADMIN_PASSWORD,'') @ line 10 []
      else line 10 (quoted ''password'' @ '': '' @ quoteOrNot (nuPassword user) @ '','') @ line 10 []) @
     line 10 (quoted ''permissions'' @ '': {'') @
     line 12 (quoted ''publish'' @ '': {'') @
     line 14 (quoted ''allow'' @ '': ['' @ Join (map quoted (publishAllow (nuPermissions user))) '', '' @ '']'') @
     line 12 ''},'' @
     line 12 (quoted ''subscribe'' @ '': {'') @
     line 14 (quoted ''allow'' @ '': ['' @ Join (map quoted (subscribeAllow (nuPermissions user))) '', '' @ '']'') @
     line 12 ''}'' @
     line 10 ''}'' @
     line 8 ''}''"

definition renderConfigFile :: "Config \<Rightarrow> string" where
  "renderConfigFile config =
     ''{'' @
     line 2 (quoted ''http_port'' @ '': '' @ Itoa_int (cfgHTTPPort config) @ '','') @
     line 2 (quoted ''jetstream'' @ '': {'') @
     line 4 (quoted ''max_file_store'' @ '': '' @ Itoa_int (jsMaxFileStore (cfgJetstream config)) @ '','') @
     line 4 (quoted ''max_memory_store'' @ '': '' @ Itoa_int (jsMaxMemoryStore (cfgJetstream config)) @ '','') @
     line 4 (quoted ''store_dir'' @ '': '' @ quoted (jsStoreDir (cfgJetstream config))) @
     line 2 ''},'' @
     line 2 (quoted ''accounts'' @ '': {'') @
     line 4 (quoted ''terminus'' @ '': {'') @
     line 6 (quoted ''jetstream'' @ '': enabled,'') @
     line 6 (quoted ''users'' @ '': ['') @
     concat (map (\<lambda>(i, u). render_user i u) (enumerate 0 (config_users config))) @
     line 6 '']'' @
     line 4 ''}'' @
     line 2 ''},'' @
     line 2 (quoted ''port'' @ '': '' @ Itoa_int (cfgPort config) @ '','') @
     line 2 (quoted ''pid_file'' @ '': '' @ quoted (cfgPidFile config)) @
     line 2 (quoted ''server_name'' @ '': '' @ quoted (cfgServerName config)) @
     line 0 ''}''"

definition RenderConfigFile :: "'w fs \<Rightarrow> Config \<Rightarrow> ('w, unit) prog" where
  "RenderConfigFile fs config =
     call (Fs (WriteFile ConfPath (renderConfigFile config))) (fsWriteFile fs ConfPath (renderConfigFile config))"

definition ParseFile :: "'w nats_ops \<Rightarrow> string \<Rightarrow> ('w, Config) prog" where
  "ParseFile n fp = seqc (call (Misc (NatsParseFile fp)) (confParseFile n fp)) (\<lambda>m.
     call (Misc (NatsDecode m)) (mapDecode n m))"

section \<open>Access to the cluster\<close>

definition newClientSet :: "'w nats_ops \<Rightarrow> ('w, unit) prog" where
  "newClientSet n = seqc (call (Misc KubeConfig) (ctrlGetConfig n)) (\<lambda>_.
     call (Misc NewClientset) (newForConfig n))"

text \<open>A secret without the key is logged, and the nil error of the \<open>Get\<close> is returned with an
  empty password.\<close>

definition getAdminPassword :: "'w k8s \<Rightarrow> 'w nats_ops \<Rightarrow> ('w, string) prog" where
  "getAdminPassword k n = seqc (newClientSet n) (\<lambda>_.
     seqc (Secrets_Get k PlatformNamespace ''nats-secrets'') (\<lambda>secret.
     case lookup secret ''nats_password'' of
       None \<Rightarrow> ret []
     | Some password \<Rightarrow> ret password))"

definition FindNatsAdminUser :: "'w k8s \<Rightarrow> ('w, string \<times> string) prog" where
  "FindNatsAdminUser k = seqc (Secrets_Get k PlatformNamespace ''nats-secrets'') (\<lambda>secret.
     ret (''admin'', secret_value secret ''nats_password''))"

definition loadConf :: "'w k8s \<Rightarrow> 'w fs \<Rightarrow> 'w nats_ops \<Rightarrow> ('w, Config) prog" where
  "loadConf k fs n = seqc (getAdminPassword k n) (\<lambda>password.
     seqc (call (Fs (Setenv ''ADMIN_PASSWORD'' password)) (osSetenv fs ''ADMIN_PASSWORD'' password)) (\<lambda>_.
     ParseFile n ConfPath))"

definition encryptPassword :: "'w nats_ops \<Rightarrow> string \<Rightarrow> ('w, string) prog" where
  "encryptPassword n password = call (Misc (BcryptGenerate password)) (bcryptGenerate n password)"

section \<open>Permissions (getAllowPubSubSubjectFromMR)\<close>

record export =
  exSubjectName :: string
  exAppName :: string
  exPub :: string
  exSub :: string

definition exports_of :: "MiddlewareRequest \<Rightarrow> export list" where
  "exports_of mr = (if mwMiddleware (mrSpec mr) \<noteq> TypeNats then []
     else concat (map (\<lambda>s. map (\<lambda>e.
       \<lparr>exSubjectName = MakeRealSubjectName (subjName s) (mwAppNamespace (mrSpec mr)),
        exAppName = permAppName e, exPub = permPub e, exSub = permSub e\<rparr>) (subjExport s))
       (natsSubjects (mwNats (mrSpec mr)))))"

text \<open>The entry of \<open>appExportMap\<close> for an application; \<open>[]\<close> when the map has no such key.\<close>

definition appExports :: "MiddlewareRequest list \<Rightarrow> string \<Rightarrow> export list" where
  "appExports mrs app = filter (\<lambda>e. exAppName e = app) (concat (map exports_of mrs))"

text \<open>One subject of a reference: \<open>granted\<close> collects one copy per matching export, and no
  match is an error.\<close>

definition grant :: "(export \<Rightarrow> string) \<Rightarrow> export list \<Rightarrow> string \<Rightarrow> string list \<Rightarrow> string list res" where
  "grant dir ep name allowed =
     (let hits = filter (\<lambda>e. name = exSubjectName e \<and> dir e = Allow) ep in
      if hits = [] then Err (Failure (''not found export permission for subject '' @ name))
      else Val (allowed @ map (\<lambda>_. name) hits))"

definition ref_subject :: "export list \<Rightarrow> string \<times> string list \<Rightarrow>
    string list \<times> string list \<Rightarrow> (string list \<times> string list) res" where
  "ref_subject ep subject acc = (case (subject, acc) of ((name, perm), (pub, sub)) \<Rightarrow>
     if ep = [] then Err (Failure ''not found export permission'')
     else bindR (if ListContains perm ''pub'' then grant exPub ep name pub else Val pub) (\<lambda>pub'.
          bindR (if ListContains perm ''sub'' then grant exSub ep name sub else Val sub) (\<lambda>sub'.
          Val (pub', sub'))))"

fun ref_loop :: "export list \<Rightarrow> (string \<times> string list) list \<Rightarrow>
    string list \<times> string list \<Rightarrow> (string list \<times> string list) res" where
  "ref_loop ep [] acc = Val acc"
| "ref_loop ep (r # rs) acc = bindR (ref_subject ep r acc) (ref_loop ep rs)"

definition real_refs :: "MiddlewareRequest \<Rightarrow> (string \<times> string list) list" where
  "real_refs request = concat (map (\<lambda>ref. map (\<lambda>s.
     (MakeRealNameForRefSubjectName (refAppNamespace ref) (refAppName ref) (rsName s)
        (GetOwnerNameFromNs (metaNamespace (mrMeta request))), rsPerm s)) (refSubjects ref))
     (natsRefs (mwNats (mrSpec request))))"

definition own_subjects :: "(Permission \<Rightarrow> string) \<Rightarrow> MiddlewareRequest \<Rightarrow> string list" where
  "own_subjects dir request = map (\<lambda>s. MakeRealSubjectName (subjName s) (mwAppNamespace (mrSpec request)))
     (filter (\<lambda>s. dir (subjPermission s) = Allow) (natsSubjects (mwNats (mrSpec request))))"

text \<open>The part after the list of requests was read; on an error the Go function also returns
  the subjects collected so far, which its caller drops.\<close>

definition allowed_subjects :: "MiddlewareRequest list \<Rightarrow> MiddlewareRequest \<Rightarrow>
    (string list \<times> string list) res" where
  "allowed_subjects mrs request =
     bindR (ref_loop (appExports mrs (mwApp (mrSpec request))) (real_refs request)
              (own_subjects permPub request, own_subjects permSub request)) (\<lambda>(pub, sub).
     Val ((if pub \<noteq> [] then pub @ defaultPubPerm else pub),
          (if sub \<noteq> [] then sub @ defaultSubPerm else sub)))"

definition getAllowPubSubSubjectFromMR :: "'w apr \<Rightarrow> 'w nats_ops \<Rightarrow> MiddlewareRequest \<Rightarrow>
    ('w, string list \<times> string list) prog" where
  "getAllowPubSubSubjectFromMR a n request =
     seqc (call (Misc KubeConfig) (ctrlGetConfig n)) (\<lambda>_.
     seqc (call (Misc NewAprClient) (aprNewForConfig n)) (\<lambda>_.
     seqc (call (Apr (ListMiddlewareRequests [])) (listMiddlewareRequests a [])) (\<lambda>mrs.
     lift (allowed_subjects mrs request))))"

section \<open>Users (helper.go)\<close>

definition put_user :: "NatsUser \<Rightarrow> NatsUser list \<Rightarrow> NatsUser list" where
  "put_user user us =
     (if \<exists>c \<in> set us. nuUsername c = nuUsername user
      then map (\<lambda>c. if nuUsername c = nuUsername user then user else c) us
      else us @ [user])"

definition createOrUpdateUser :: "'w apr \<Rightarrow> 'w nats_ops \<Rightarrow> MiddlewareRequest \<Rightarrow> string \<Rightarrow>
    ('w, Config) prog \<Rightarrow> ('w, Config) prog" where
  "createOrUpdateUser a n request password loadConfig =
     seqc (encryptPassword n password) (\<lambda>encryptedPassword.
     seqc (getAllowPubSubSubjectFromMR a n request) (\<lambda>(allowPubSubject, allowSubSubject).
     let user = \<lparr>nuUsername = natsUser (mwNats (mrSpec request)), nuPassword = encryptedPassword,
           nuPermissions = \<lparr>publishAllow = allowPubSubject, subscribeAllow = allowSubSubject\<rparr>\<rparr> in
     seqc loadConfig (\<lambda>config.
     ret (with_users (put_user user (config_users config)) config))))"

definition CreateOrUpdateUser :: "'w k8s \<Rightarrow> 'w apr \<Rightarrow> 'w fs \<Rightarrow> 'w nats_ops \<Rightarrow> MiddlewareRequest \<Rightarrow>
    string \<Rightarrow> ('w, Config) prog" where
  "CreateOrUpdateUser k a fs n request password =
     seqc (createOrUpdateUser a n request password (loadConf k fs n)) (\<lambda>config.
     seqc (RenderConfigFile fs config) (\<lambda>_. ret config))"

text \<open>The loop of \<open>DeleteUser\<close> ranges over the slice as it was, while the body removes an
  element from the shared array and shortens \<open>config\<close>'s slice: \<open>arr\<close> is the array, \<open>len\<close> the
  current length of the slice. Slicing past the length panics.\<close>

fun delete_loop :: "string \<Rightarrow> nat list \<Rightarrow> NatsUser list \<times> nat \<Rightarrow> NatsUser list res" where
  "delete_loop username [] (arr, len) = Val (take len arr)"
| "delete_loop username (i # is) (arr, len) =
     (if nuUsername (arr ! i) = username
      then if len < i + 1 then Panic ''slice bounds out of range''
           else delete_loop username is (take i arr @ take (len - (i + 1)) (drop (i + 1) arr) @ drop (len - 1) arr, len - 1)
      else delete_loop username is (arr, len))"

definition delete_user :: "string \<Rightarrow> NatsUser list \<Rightarrow> NatsUser list res" where
  "delete_user username us = delete_loop username [0..<length us] (us, length us)"

definition DeleteUser :: "'w k8s \<Rightarrow> 'w fs \<Rightarrow> 'w nats_ops \<Rightarrow> string \<Rightarrow> ('w, unit) prog" where
  "DeleteUser k fs n username =
     seqc (loadConf k fs n) (\<lambda>config.
     seqc (lift (delete_user username (config_users config))) (\<lambda>us.
     RenderConfigFile fs (with_users us config)))"

section \<open>Streams\<close>

definition with_jetstream :: "'w k8s \<Rightarrow> 'w nats_ops \<Rightarrow> ('w, 'a) prog \<Rightarrow> ('w, 'a) prog" where
  "with_jetstream k n body =
     seqc (getAdminPassword k n) (\<lambda>adminPassword.
     let url = ''nats://nats.'' @ PlatformNamespace in
     seqc (call (Misc (NatsConnect url ''admin'' adminPassword)) (natsConnect n url ''admin'' adminPassword)) (\<lambda>_.
     deferc (seqc (call (Misc JetstreamNew) (jetstreamNew n)) (\<lambda>_. body))
            (call (Misc NatsDrain) (natsDrain n))))"

definition CreateOrUpdateStream :: "'w k8s \<Rightarrow> 'w nats_ops \<Rightarrow> string \<Rightarrow> string \<Rightarrow> ('w, unit) prog" where
  "CreateOrUpdateStream k n appNamespace app = with_jetstream k n
     (tryc (call (Misc (JsCreateStream ''os-stream'' [''os.>''] 86400)) (jsCreateStream n ''os-stream'' [''os.>''] 86400))
        ret (\<lambda>err. case err of AlreadyExists _ \<Rightarrow> ret () | _ \<Rightarrow> fail err))"

text \<open>As written, \<open>DeleteStream\<close> reports the stream that was not found and drops every other
  error.\<close>

definition DeleteStream :: "'w k8s \<Rightarrow> 'w nats_ops \<Rightarrow> string \<Rightarrow> string \<Rightarrow> ('w, unit) prog" where
  "DeleteStream k n appNamespace app = (let name = appNamespace @ ''-'' @ app in with_jetstream k n
     (tryc (call (Misc (JsDeleteStream name)) (jsDeleteStream n name))
        ret (\<lambda>err. if IsNotFound err then fail err else ret ())))"

section \<open>Handlers (handler_nats.go, controller_config.go)\<close>

definition createOrUpdateNatsUser :: "'w k8s \<Rightarrow> 'w apr \<Rightarrow> 'w fs \<Rightarrow> 'w nats_ops \<Rightarrow> MiddlewareRequest \<Rightarrow>
    ('w, unit) prog" where
  "createOrUpdateNatsUser k a fs n req =
     (if natsUser (mwNats (mrSpec req)) = [] then fail (Failure ''nats user is empty'')
      else seqc (GetVarValue k (natsPassword (mwNats (mrSpec req))) (metaNamespace (mrMeta req))) (\<lambda>password.
        seqc (CreateOrUpdateUser k a fs n req password) (\<lambda>_.
        CreateOrUpdateStream k n (mwAppNamespace (mrSpec req)) (mwApp (mrSpec req)))))"

definition deleteNatsUserAndStream :: "'w k8s \<Rightarrow> 'w fs \<Rightarrow> 'w nats_ops \<Rightarrow> MiddlewareRequest \<Rightarrow>
    ('w, unit) prog" where
  "deleteNatsUserAndStream k fs n req =
     seqc (DeleteUser k fs n (natsUser (mwNats (mrSpec req)))) (\<lambda>_.
     DeleteStream k n (mwAppNamespace (mrSpec req)) (mwApp (mrSpec req)))"

text \<open>The handler of the config map controller; the file is written only when it is absent.\<close>

definition configmap_handler :: "'w fs \<Rightarrow> (string \<times> string) list \<Rightarrow> ('w, unit) prog" where
  "configmap_handler fs data =
     tryc (call (Fs (Stat ConfPath)) (fsStat fs ConfPath)) (\<lambda>_. ret ()) (\<lambda>_.
     case lookup data ''nats.conf'' of
       None \<Rightarrow> fail (Failure ''nats.conf not found in configmap data'')
     | Some natsConf \<Rightarrow>
         seqc (call (Fs (MkdirAll ''/dbdata/nats_data/config'')) (fsMkdirAll fs ''/dbdata/nats_data/config'')) (\<lambda>_.
         call (Fs (WriteFile ConfPath natsConf)) (fsWriteFile fs ConfPath natsConf)))"

end
