(* ===== verification/Nats_Proofs.thy ===== *)
theory Nats_Proofs
  imports Nats
begin

text \<open>Lemmas and properties of the NATS component: which subjects a request is granted, the
  table of users as an interface, and what the handlers write to the configuration file.\<close>

section \<open>Grants\<close>

definition exported :: "(export \<Rightarrow> string) \<Rightarrow> MiddlewareRequest list \<Rightarrow> string \<Rightarrow> string \<Rightarrow> bool" where
  "exported dir mrs app name \<longleftrightarrow>
     (\<exists>e \<in> set (appExports mrs app). exSubjectName e = name \<and> dir e = Allow)"

definition satisfiable :: "MiddlewareRequest list \<Rightarrow> string \<Rightarrow> string \<times> string list \<Rightarrow> bool" where
  "satisfiable mrs app r = (case r of (name, perm) \<Rightarrow> appExports mrs app \<noteq> [] \<and>
     (''pub'' \<in> set perm \<longrightarrow> exported exPub mrs app name) \<and>
     (''sub'' \<in> set perm \<longrightarrow> exported exSub mrs app name))"

lemma grant_Val:
  "grant dir (appExports mrs app) name allowed = Val out \<longleftrightarrow>
     exported dir mrs app name \<and>
     out = allowed @ map (\<lambda>_. name) (filter (\<lambda>e. name = exSubjectName e \<and> dir e = Allow) (appExports mrs app))"
  by (auto simp: grant_def exported_def Let_def filter_empty_conv)

lemma set_grant:
  "grant dir (appExports mrs app) name allowed = Val out \<Longrightarrow> set out = insert name (set allowed)"
  by (auto simp: grant_Val exported_def)

lemma exported_grant: "exported dir mrs app name \<Longrightarrow> \<exists>out. grant dir (appExports mrs app) name allowed = Val out"
  by (simp add: grant_Val)

lemma ref_subject_Val:
  assumes "ref_subject (appExports mrs app) r (pub, sub) = Val (pub', sub')"
  shows "satisfiable mrs app r" "set pub' = set pub \<union> {n. n = fst r \<and> ''pub'' \<in> set (snd r)}"
    "set sub' = set sub \<union> {n. n = fst r \<and> ''sub'' \<in> set (snd r)}"
proof -
  obtain name perm where r: "r = (name, perm)" by force
  let ?ep = "appExports mrs app"
  have steps: "?ep \<noteq> []"
      "(if ''pub'' \<in> set perm then grant exPub ?ep name pub else Val pub) = Val pub'"
      "(if ''sub'' \<in> set perm then grant exSub ?ep name sub else Val sub) = Val sub'"
    using assms by (simp_all add: ref_subject_def r split: if_split_asm)
  have e: "''pub'' \<in> set perm \<longrightarrow> exported exPub mrs app name" "''sub'' \<in> set perm \<longrightarrow> exported exSub mrs app name"
    using steps grant_Val by (metis (full_types))+
  show "satisfiable mrs app r" using steps(1) e by (simp add: satisfiable_def r)
  show "set pub' = set pub \<union> {n. n = fst r \<and> ''pub'' \<in> set (snd r)}"
    using steps(2) set_grant [of exPub mrs app name pub pub'] by (cases "''pub'' \<in> set perm") (simp_all add: r)
  show "set sub' = set sub \<union> {n. n = fst r \<and> ''sub'' \<in> set (snd r)}"
    using steps(3) set_grant [of exSub mrs app name sub sub'] by (cases "''sub'' \<in> set perm") (simp_all add: r)
qed

lemma ref_subject_complete:
  assumes "satisfiable mrs app r"
  shows "\<exists>acc'. ref_subject (appExports mrs app) r acc = Val acc'"
  using assms exported_grant [of exPub mrs app] exported_grant [of exSub mrs app]
  by (cases r, cases acc) (auto simp: ref_subject_def satisfiable_def)

definition asked :: "string \<Rightarrow> (string \<times> string list) list \<Rightarrow> string set" where
  "asked perm rs = {n. \<exists>p. (n, p) \<in> set rs \<and> perm \<in> set p}"

lemma asked_Cons: "asked perm (r # rs) = {n. n = fst r \<and> perm \<in> set (snd r)} \<union> asked perm rs"
  by (cases r) (auto simp: asked_def)

lemma ref_loop_Val:
  "ref_loop (appExports mrs app) rs (pub, sub) = Val (pub', sub') \<Longrightarrow>
     (\<forall>r \<in> set rs. satisfiable mrs app r) \<and>
     set pub' = set pub \<union> asked ''pub'' rs \<and> set sub' = set sub \<union> asked ''sub'' rs"
proof (induction rs arbitrary: pub sub)
  case Nil
  then show ?case by (simp add: asked_def)
next
  case (Cons r rs)
  then obtain p1 s1 where r: "ref_subject (appExports mrs app) r (pub, sub) = Val (p1, s1)"
      and rs: "ref_loop (appExports mrs app) rs (p1, s1) = Val (pub', sub')"
    by auto
  show ?case
    using Cons.IH [OF rs] ref_subject_Val [OF r] by (auto simp: asked_Cons)
qed

lemma ref_loop_complete:
  "(\<forall>r \<in> set rs. satisfiable mrs app r) \<Longrightarrow> \<exists>out. ref_loop (appExports mrs app) rs acc = Val out"
proof (induction rs arbitrary: acc)
  case (Cons r rs)
  obtain acc' where "ref_subject (appExports mrs app) r acc = Val acc'"
    using ref_subject_complete Cons.prems by fastforce
  then show ?case using Cons by simp
qed simp

section \<open>The table of users\<close>

text \<open>What the handlers rely on when they edit the users of the configuration file: an
  insertion replaces or appends exactly its own entry, a deletion removes exactly its own.\<close>

locale user_table =
  fixes put :: "'u \<Rightarrow> 'u list \<Rightarrow> 'u list"
    and del :: "string \<Rightarrow> 'u list \<Rightarrow> 'u list res"
    and name :: "'u \<Rightarrow> string"
  assumes put_others: "filter (\<lambda>v. name v \<noteq> name u) (put u us) = filter (\<lambda>v. name v \<noteq> name u) us"
    and put_own: "distinct (map name us) \<Longrightarrow> filter (\<lambda>v. name v = name u) (put u us) = [u]"
    and put_names: "distinct (map name us) \<Longrightarrow> distinct (map name (put u us))"
    and del_exact: "distinct (map name us) \<Longrightarrow> del n us = Val (filter (\<lambda>v. name v \<noteq> n) us)"
begin

lemma put_del: "distinct (map name us) \<Longrightarrow> del (name u) (put u us) = Val (filter (\<lambda>v. name v \<noteq> name u) us)"
  by (simp add: del_exact put_names put_others)

lemma put_put: "distinct (map name us) \<Longrightarrow> name u = name u' \<Longrightarrow>
    filter (\<lambda>v. name v = name u') (put u' (put u us)) = [u']"
  by (simp add: put_own put_names)

lemma del_names: "distinct (map name us) \<Longrightarrow> del n us = Val vs \<Longrightarrow> distinct (map name vs) \<and> n \<notin> name ` set vs"
  by (auto simp: del_exact distinct_map_filter)

lemma put_mem: "distinct (map name us) \<Longrightarrow> u \<in> set (put u us)"
proof -
  assume "distinct (map name us)"
  then have "u \<in> set (filter (\<lambda>v. name v = name u) (put u us))" by (simp add: put_own)
  then show ?thesis by simp
qed

end

lemma put_user_names: "map nuUsername (put_user u us) =
    (if nuUsername u \<in> nuUsername ` set us then map nuUsername us else map nuUsername us @ [nuUsername u])"
  by (auto simp: put_user_def image_iff eq_commute [of "nuUsername u"])

lemma put_user_others:
  "filter (\<lambda>v. nuUsername v \<noteq> nuUsername u) (put_user u us) = filter (\<lambda>v. nuUsername v \<noteq> nuUsername u) us"
proof -
  have "filter (\<lambda>v. nuUsername v \<noteq> nuUsername u) (map (\<lambda>c. if nuUsername c = nuUsername u then u else c) us)
      = filter (\<lambda>v. nuUsername v \<noteq> nuUsername u) us"
    by (induction us) auto
  then show ?thesis by (simp add: put_user_def)
qed

lemma put_user_own:
  "distinct (map nuUsername us) \<Longrightarrow> filter (\<lambda>v. nuUsername v = nuUsername u) (put_user u us) = [u]"
proof (induction us)
  case (Cons v us)
  show ?case
  proof (cases "nuUsername v = nuUsername u")
    case True
    then have "\<forall>w \<in> set us. nuUsername w \<noteq> nuUsername u" using Cons.prems by (auto simp: image_iff)
    then have "map (\<lambda>c. if nuUsername c = nuUsername u then u else c) us = us" by (simp add: map_idI)
    with True \<open>\<forall>w \<in> set us. nuUsername w \<noteq> nuUsername u\<close> show ?thesis by (simp add: put_user_def)
  next
    case False
    then show ?thesis using Cons by (auto simp: put_user_def split: if_splits)
  qed
qed (simp add: put_user_def)

text \<open>Without a match the deletion loop does nothing; past the only match the array still
  shows no other entry of that name.\<close>

lemma delete_loop_none:
  "(\<forall>i \<in> set is. nuUsername (arr ! i) \<noteq> n) \<Longrightarrow> delete_loop n is (arr, len) = Val (take len arr)"
  by (induction "is") auto

lemma delete_loop_skip:
  "(\<forall>i \<in> set is. nuUsername (arr ! i) \<noteq> n) \<Longrightarrow>
     delete_loop n (is @ js) (arr, len) = delete_loop n js (arr, len)"
  by (induction "is") auto

lemma delete_user_exact:
  assumes "distinct (map nuUsername us)"
  shows "delete_user n us = Val (filter (\<lambda>v. nuUsername v \<noteq> n) us)"
proof (cases "n \<in> nuUsername ` set us")
  case False
  then have no: "\<forall>v \<in> set us. nuUsername v \<noteq> n" by auto
  then have "delete_user n us = Val (take (length us) us)"
    unfolding delete_user_def by (intro delete_loop_none) simp
  then show ?thesis using no by (simp add: filter_id_conv)
next
  case True
  then obtain a v b where us: "us = a @ v # b" and v: "nuUsername v = n"
    by (metis image_iff split_list)
  have a: "\<forall>w \<in> set a. nuUsername w \<noteq> n" and b: "\<forall>w \<in> set b. nuUsername w \<noteq> n"
    using assms v unfolding us by (auto simp: image_iff)
  let ?i = "length a"
  let ?arr = "a @ b @ drop (length a + length b) us"
  have split: "[0..<length us] = [0..<?i] @ ?i # [Suc ?i..<length us]"
    by (metis append_Cons_eq_iff le_add1 length_append length_Cons less_add_Suc1 upt_conv_Cons
        upt_add_eq_append us add_Suc_right le0 append_eq_appendI plus_nat.add_0)
  have "delete_user n us = delete_loop n (?i # [Suc ?i..<length us]) (us, length us)"
    unfolding delete_user_def split using a by (intro delete_loop_skip) (simp add: us nth_append)
  also have "\<dots> = delete_loop n [Suc ?i..<length us] (?arr, length us - 1)"
    using v by (simp add: us)
  also have "\<dots> = Val (take (length us - 1) ?arr)"
  proof (rule delete_loop_none, intro ballI)
    fix j assume j: "j \<in> set [Suc ?i..<length us]"
    define m where "m = j - Suc ?i"
    have m: "j = ?i + Suc m" "m < length b" using j by (auto simp: m_def us)
    have "?arr ! j \<in> set b"
    proof (cases "Suc m < length b")
      case True
      then show ?thesis by (simp add: m nth_append)
    next
      case False
      then have "Suc m = length b" using m by simp
      moreover from this obtain b' w where "b = b' @ [w]"
        by (metis list.size(3) nat.distinct(1) rev_exhaust)
      ultimately show ?thesis by (simp add: m us nth_append)
    qed
    then show "nuUsername (?arr ! j) \<noteq> n" using b by blast
  qed
  also have "take (length us - 1) ?arr = filter (\<lambda>v. nuUsername v \<noteq> n) us"
    using a b v by (simp add: us filter_id_conv)
  finally show ?thesis .
qed

interpretation nats_users: user_table put_user delete_user nuUsername
  by unfold_locales (simp_all add: put_user_own put_user_others put_user_names delete_user_exact)

section \<open>Properties\<close>

text \<open>Requests for the witnesses: \<open>wise\<close> owns a subject and exports it to \<open>desktop\<close> for
  subscribing; \<open>desktop\<close> refers to it.\<close>

definition nats_request :: "string \<Rightarrow> string \<Rightarrow> Subject list \<Rightarrow> Ref list \<Rightarrow> MiddlewareRequest" where
  "nats_request app ns subjects refs = (plain_request app ns TypeNats)
     \<lparr>mrSpec := (plain_spec app ns TypeNats)\<lparr>mwNats := \<lparr>natsUser = app, natsPassword = plain_password,
        natsSubjects = subjects, natsRefs = refs\<rparr>\<rparr>\<rparr>"

definition wise :: MiddlewareRequest where
  "wise = nats_request ''wise'' ''user-space-bob'' [\<lparr>subjName = ''news'',
     subjPermission = \<lparr>permAppName = [], permPub = ''allow'', permSub = ''deny''\<rparr>,
     subjExport = [\<lparr>permAppName = ''desktop'', permPub = ''deny'', permSub = ''allow''\<rparr>]\<rparr>] []"

definition desktop :: "string list \<Rightarrow> MiddlewareRequest" where
  "desktop perm = nats_request ''desktop'' ''user-space-bob'' [] [\<lparr>refAppName = ''wise'',
     refAppNamespace = ''user-space'', refSubjects = [\<lparr>rsName = ''news'', rsPerm = perm\<rparr>]\<rparr>]"

lemmas nats_demo = wise_def desktop_def nats_request_def plain_defs

text \<open>C8. Grants are exact. A request is accepted if and only if every subject it refers to
  is exported to its application, by some NATS request, for the direction asked; and then the
  subjects it may publish (subscribe) are its own subjects with that permission, the referred
  subjects asked with that permission, and, if there is any, the default subjects, nothing else.\<close>

theorem allowed_subjects_exact:
  "((\<exists>out. allowed_subjects mrs request = Val out) \<longleftrightarrow>
      (\<forall>r \<in> set (real_refs request). satisfiable mrs (mwApp (mrSpec request)) r)) \<and>
   (\<forall>pub sub. allowed_subjects mrs request = Val (pub, sub) \<longrightarrow>
      set pub = set (own_subjects permPub request) \<union> asked ''pub'' (real_refs request) \<union>
        (if own_subjects permPub request = [] \<and> asked ''pub'' (real_refs request) = {} then {} else set defaultPubPerm) \<and>
      set sub = set (own_subjects permSub request) \<union> asked ''sub'' (real_refs request) \<union>
        (if own_subjects permSub request = [] \<and> asked ''sub'' (real_refs request) = {} then {} else set defaultSubPerm))"
proof (intro conjI allI impI iffI)
  let ?app = "mwApp (mrSpec request)"
  let ?loop = "ref_loop (appExports mrs ?app) (real_refs request)
      (own_subjects permPub request, own_subjects permSub request)"
  have run: "allowed_subjects mrs request = bindR ?loop (\<lambda>(pub, sub).
     Val ((if pub \<noteq> [] then pub @ defaultPubPerm else pub), (if sub \<noteq> [] then sub @ defaultSubPerm else sub)))"
    by (simp add: allowed_subjects_def)
  show "\<forall>r \<in> set (real_refs request). satisfiable mrs ?app r" if "\<exists>out. allowed_subjects mrs request = Val out"
  proof -
    from that obtain p s where "?loop = Val (p, s)" unfolding run by auto
    then show ?thesis using ref_loop_Val by blast
  qed
  show "\<exists>out. allowed_subjects mrs request = Val out" if "\<forall>r \<in> set (real_refs request). satisfiable mrs ?app r"
    using ref_loop_complete [OF that, of "(own_subjects permPub request, own_subjects permSub request)"]
    unfolding run by auto
  fix pub sub
  assume "allowed_subjects mrs request = Val (pub, sub)"
  then obtain p s where loop: "?loop = Val (p, s)"
      and out: "pub = (if p \<noteq> [] then p @ defaultPubPerm else p)" "sub = (if s \<noteq> [] then s @ defaultSubPerm else s)"
    unfolding run by auto
  have sets: "set p = set (own_subjects permPub request) \<union> asked ''pub'' (real_refs request)"
      "set s = set (own_subjects permSub request) \<union> asked ''sub'' (real_refs request)"
    using ref_loop_Val [OF loop] by auto
  then have "p = [] \<longleftrightarrow> own_subjects permPub request = [] \<and> asked ''pub'' (real_refs request) = {}"
      "s = [] \<longleftrightarrow> own_subjects permSub request = [] \<and> asked ''sub'' (real_refs request) = {}"
    by (metis Un_empty set_empty)+
  with sets out show "set pub = set (own_subjects permPub request) \<union> asked ''pub'' (real_refs request) \<union>
        (if own_subjects permPub request = [] \<and> asked ''pub'' (real_refs request) = {} then {} else set defaultPubPerm)"
    and "set sub = set (own_subjects permSub request) \<union> asked ''sub'' (real_refs request) \<union>
        (if own_subjects permSub request = [] \<and> asked ''sub'' (real_refs request) = {} then {} else set defaultSubPerm)"
    by auto
qed

lemma desktop_refs: "real_refs (desktop perm) = [(''user-space-bob.news'', perm)]"
  by (simp add: real_refs_def nats_demo MakeRealNameForRefSubjectName_def GetOwnerNameFromNs_def Let_def)

lemma wise_exports: "appExports [wise] ''desktop'' = [\<lparr>exSubjectName = ''user-space-bob.news'',
    exAppName = ''desktop'', exPub = ''deny'', exSub = ''allow''\<rparr>]"
  by (simp add: appExports_def exports_of_def nats_demo MakeRealSubjectName_def)

theorem allowed_subjects_exact_witness:
  "(\<exists>out. allowed_subjects [wise] (desktop [''sub'']) = Val out) \<and>
   \<not> (\<exists>out. allowed_subjects [wise] (desktop [''pub'']) = Val out)"
proof -
  have app: "mwApp (mrSpec (desktop perm)) = ''desktop''" for perm by (simp add: nats_demo)
  have sat: "satisfiable [wise] ''desktop'' (''user-space-bob.news'', perm) \<longleftrightarrow> ''pub'' \<notin> set perm" for perm
    by (auto simp: satisfiable_def wise_exports exported_def Allow_def)
  show ?thesis
    using allowed_subjects_exact [of "[wise]" "desktop [''sub'']"] allowed_subjects_exact [of "[wise]" "desktop [''pub'']"]
    by (simp add: desktop_refs sat app)
qed

text \<open>C9. Adding and removing a user are inverse on the table of users, for every table
  whose names are distinct: the new user is present exactly once and keeps the names distinct,
  everybody else is untouched, and deleting the name gives back the table without it.\<close>

theorem nats_user_roundtrip:
  assumes "distinct (map nuUsername us)"
  shows "filter (\<lambda>v. nuUsername v = nuUsername u) (put_user u us) = [u] \<and>
     distinct (map nuUsername (put_user u us)) \<and>
     filter (\<lambda>v. nuUsername v \<noteq> nuUsername u) (put_user u us) = filter (\<lambda>v. nuUsername v \<noteq> nuUsername u) us \<and>
     delete_user (nuUsername u) (put_user u us) = Val (filter (\<lambda>v. nuUsername v \<noteq> nuUsername u) us)"
  using assms nats_users.put_own nats_users.put_names nats_users.put_others nats_users.put_del by auto

definition demo_user :: "string \<Rightarrow> NatsUser" where
  "demo_user n = \<lparr>nuUsername = n, nuPassword = ''x'', nuPermissions = \<lparr>publishAllow = [], subscribeAllow = []\<rparr>\<rparr>"

theorem nats_user_roundtrip_witness:
  "delete_user ''b'' (put_user (demo_user ''b'') [demo_user ''a'', demo_user ''b'', demo_user ''c''])
     = Val [demo_user ''a'', demo_user ''c'']"
  using nats_user_roundtrip [of "[demo_user ''a'', demo_user ''b'', demo_user ''c'']" "demo_user ''b''"]
  by (simp add: demo_user_def)

text \<open>Deleting a name that occurs twice, next to each other at the end of the table,
  panics: the loop runs over the old length while it shortens the slice it cuts.\<close>

lemma delete_user_duplicate_panics:
  "delete_user n [\<lparr>nuUsername = n, nuPassword = p, nuPermissions = q\<rparr>, \<lparr>nuUsername = n, nuPassword = p', nuPermissions = q'\<rparr>]
     = Panic ''slice bounds out of range''"
  by (simp add: delete_user_def upt_rec)

definition no_write :: "call \<Rightarrow> bool" where
  "no_write c = (case c of Fs (WriteFile _ _) \<Rightarrow> False | _ \<Rightarrow> True)"

lemma no_write_simps [simp]:
  "no_write (K8s a)" "no_write (Apr b)" "no_write (Misc m)" "no_write (Sql q)"
  "no_write (Fs (Setenv x y))" "no_write (Fs (Stat x))" "no_write (Fs (MkdirAll x))" "\<not> no_write (Fs (WriteFile x y))"
  by (simp_all add: no_write_def)

lemma emits_read_conf: "emits no_write (getAllowPubSubSubjectFromMR a n req)"
    "emits no_write (encryptPassword n pw)" "emits no_write (loadConf k fs n)"
  unfolding getAllowPubSubSubjectFromMR_def encryptPassword_def loadConf_def getAdminPassword_def newClientSet_def
    Secrets_Get_def ParseFile_def
  by (auto intro!: emits_intros split: option.splits)

lemma getAllow_denied:
  assumes "\<And>w. fst (listMiddlewareRequests a [] w) = Val mrs" "\<And>v. allowed_subjects mrs req \<noteq> Val v"
  shows "never_val (getAllowPubSubSubjectFromMR a n req)"
proof -
  have "never_val (seqc (call (Apr (ListMiddlewareRequests [])) (listMiddlewareRequests a []))
      (\<lambda>mrs. lift (allowed_subjects mrs req) :: (call, 'a, string list \<times> string list) io))"
    using assms(1) unfolding never_val_def seqc_def call_def lift_def
    by (auto split: prod.splits res.splits) (metis assms(2) fst_conv res.inject(1))
  then show ?thesis
    unfolding getAllowPubSubSubjectFromMR_def by (simp add: never_val_seqc)
qed

text \<open>C11. A request that is not entitled to a subject changes nothing: when the requests the
  API lists do not export what the request refers to, the handler does not succeed and writes
  no file, whatever else the environment answers.\<close>

theorem denied_request_writes_nothing:
  assumes "\<And>w. fst (listMiddlewareRequests a [] w) = Val mrs"
    and "\<exists>r \<in> set (real_refs req). \<not> satisfiable mrs (mwApp (mrSpec req)) r"
    and "createOrUpdateNatsUser k a fs n req s = (r, s')"
  shows "(\<forall>v. r \<noteq> Val v) \<and> (\<exists>cs. snd s' = snd s @ cs \<and> list_all no_write cs)"
proof -
  have "allowed_subjects mrs req \<noteq> Val v" for v
    using assms(2) ref_loop_Val unfolding allowed_subjects_def by fastforce
  note denied = getAllow_denied [OF assms(1) this]
  have user: "never_val (createOrUpdateUser a n req pw (loadConf k fs n))"
      "emits no_write (createOrUpdateUser a n req pw (loadConf k fs n))" for pw
    unfolding createOrUpdateUser_def Let_def
    by (intro never_val_seqc disjI2 allI disjI1 denied, intro emits_seqc emits_seqc_never denied emits_read_conf)
  have main: "never_val (CreateOrUpdateUser k a fs n req pw)" "emits no_write (CreateOrUpdateUser k a fs n req pw)" for pw
    unfolding CreateOrUpdateUser_def
    by (intro never_val_seqc disjI1 user, intro emits_seqc_never user)
  have "never_val (createOrUpdateNatsUser k a fs n req)"
    unfolding createOrUpdateNatsUser_def
    by (simp add: never_val_seqc main)
  moreover have "emits no_write (createOrUpdateNatsUser k a fs n req)"
    unfolding createOrUpdateNatsUser_def
    by (intro emits_if emits_fail emits_seqc emits_GetVarValue emits_seqc_never main) simp
  ultimately show ?thesis
    using assms(3) emitsD unfolding never_val_def by (metis fst_conv)
qed

text \<open>Removing a stream reports the wrong error: with the connection up, a stream that does
  not exist makes \<open>DeleteStream\<close> fail, while any other failure of the removal is dropped and the
  stream counts as deleted.\<close>

lemma DeleteStream_errors:
  assumes "\<And>w. fst (ctrlGetConfig n w) = Val ()" "\<And>w. fst (newForConfig n w) = Val ()"
    and "\<And>ns name w. fst (getSecret k ns name w) = Val data"
    and "\<And>url u pw w. fst (natsConnect n url u pw w) = Val ()" "\<And>w. fst (jetstreamNew n w) = Val ()"
    and "\<And>w. fst (jsDeleteStream n (ns @ ''-'' @ app) w) = Err e"
  shows "fst (DeleteStream k n ns app s) = (if IsNotFound e then Err e else Val ())"
proof -
  have "wp (DeleteStream k n ns app) (\<lambda>r s'. r = (if IsNotFound e then Err e else Val ())) s"
    unfolding DeleteStream_def with_jetstream_def getAdminPassword_def newClientSet_def Secrets_Get_def Let_def
    by (simp add: wp_simps case_prod_unfold assms [simplified] split: option.split)
  then show ?thesis by (simp add: wp_def case_prod_unfold)
qed

text \<open>An environment for the witnesses: every operation of the component succeeds except the
  removal of a stream, which times out.\<close>

definition demo_nats :: "unit nats_ops" where
  "demo_nats = \<lparr>ctrlGetConfig = (\<lambda>w. (Val (), w)), newForConfig = (\<lambda>w. (Val (), w)),
     aprNewForConfig = (\<lambda>w. (Val (), w)), bcryptGenerate = (\<lambda>p w. (Val (''$2a'' @ p), w)),
     confParseFile = (\<lambda>p w. (Val p, w)), mapDecode = (\<lambda>m w. (Err (Failure m), w)),
     natsConnect = (\<lambda>url u p w. (Val (), w)), natsDrain = (\<lambda>w. (Val (), w)), jetstreamNew = (\<lambda>w. (Val (), w)),
     jsCreateStream = (\<lambda>n s t w. (Val (), w)), jsDeleteStream = (\<lambda>n w. (Err (Failure ''timeout''), w))\<rparr>"

definition demo_k8s :: "unit k8s" where
  "demo_k8s = idle_k8s\<lparr>getSecret := (\<lambda>ns. ok [(''nats_password'', ''secret'')])\<rparr>"

definition demo_apr :: "unit apr" where
  "demo_apr = idle_apr\<lparr>listMiddlewareRequests := ok [wise]\<rparr>"

theorem denied_request_writes_nothing_witness:
  "\<exists>cs. snd (snd (createOrUpdateNatsUser demo_k8s demo_apr idle_fs demo_nats (desktop [''pub'']) ((), [])))
     = [] @ cs \<and> list_all no_write cs"
proof -
  have "\<not> satisfiable [wise] (mwApp (mrSpec (desktop [''pub'']))) (''user-space-bob.news'', [''pub''])"
  proof -
    have "mwApp (mrSpec (desktop [''pub''])) = ''desktop''" by (simp add: nats_demo)
    then show ?thesis by (simp add: satisfiable_def wise_exports exported_def Allow_def)
  qed
  then have "\<exists>r \<in> set (real_refs (desktop [''pub''])). \<not> satisfiable [wise] (mwApp (mrSpec (desktop [''pub'']))) r"
    unfolding desktop_refs by simp
  moreover have "fst (listMiddlewareRequests demo_apr [] w) = Val [wise]" for w
    by (simp add: demo_apr_def idle_defs)
  ultimately show ?thesis
    using denied_request_writes_nothing [of demo_apr "[wise]" "desktop [''pub'']" demo_k8s idle_fs demo_nats "((), [])"]
    by (metis prod.collapse snd_conv)
qed

lemma DeleteStream_errors_witness:
  "fst (DeleteStream demo_k8s demo_nats ''ns'' ''app'' ((), [])) = Val ()"
  using DeleteStream_errors [of demo_nats demo_k8s "[(''nats_password'', ''secret'')]" "''ns''" "''app''"
      "Failure ''timeout''" "((), [])"]
  by (simp add: demo_nats_def demo_k8s_def idle_defs)

end
