(* ===== verification/Postgres.thy ===== *)
theory Postgres
  imports World
begin

text \<open>The PostgreSQL client of \<open>pkg/postgres/client.go\<close>, with the statements it sends, and the
  handlers of a PostgreSQL middleware request in \<open>handler_pg.go\<close>, over the nodes of the citus
  cluster.\<close>

section \<open>The client (client.go)\<close>

definition PG_PORT :: nat where "PG_PORT = 5432"
definition PG_MASTER_HOST :: string where "PG_MASTER_HOST = ''citus-0.citus-headless''"

definition extensionMap :: "(string \<times> string) list" where
  "extensionMap = [(''pgvector'', ''vector''), (''vector'', ''vector''), (''vectors'', ''vectors''),
     (''pgvecto.rs'', ''vectors'')]"

record clientBuilder =
  cbUser :: string
  cbPassword :: string
  cbHost :: string
  cbPort :: nat
  cbDatabase :: string

text \<open>A client is the data source its connection was opened with, and its builder.\<close>

record pgclient =
  clDB :: string
  clBuilder :: clientBuilder

definition NewClientBuidler :: "string \<Rightarrow> string \<Rightarrow> string \<Rightarrow> nat \<Rightarrow> clientBuilder" where
  "NewClientBuidler user password host port = \<lparr>cbUser = user, cbPassword = password, cbHost = host,
     cbPort = port, cbDatabase = ''postgres''\<rparr>"

definition WithDatabase :: "clientBuilder \<Rightarrow> string \<Rightarrow> clientBuilder" where
  "WithDatabase cb db = cb\<lparr>cbDatabase := db\<rparr>"

definition DSN :: "string \<Rightarrow> string \<Rightarrow> string \<Rightarrow> nat \<Rightarrow> string \<Rightarrow> string" where
  "DSN user password host port database =
     ''postgres://'' @ user @ '':'' @ password @ ''@'' @ host @ '':'' @ Itoa port @ ''/'' @ database @ ''?sslmode=disable''"

definition newClient :: "'w sql \<Rightarrow> string \<Rightarrow> clientBuilder \<Rightarrow> ('w, pgclient) prog" where
  "newClient q dsn builder = seqc (call (Sql (Connect dsn)) (sqlConnect q dsn)) (\<lambda>_.
     ret \<lparr>clDB = dsn, clBuilder = builder\<rparr>)"

definition Build :: "'w sql \<Rightarrow> clientBuilder \<Rightarrow> ('w, pgclient) prog" where
  "Build q cb = newClient q (DSN (cbUser cb) (cbPassword cb) (cbHost cb) (cbPort cb) (cbDatabase cb)) cb"

definition ExecContext :: "'w sql \<Rightarrow> pgclient \<Rightarrow> string \<Rightarrow> ('w, unit) prog" where
  "ExecContext q c query = call (Sql (Exec (clDB c) query)) (sqlExec q (clDB c) query)"

definition NamedQueryContext :: "'w sql \<Rightarrow> pgclient \<Rightarrow> string \<Rightarrow> (string \<times> string) list \<Rightarrow> ('w, rows option) prog" where
  "NamedQueryContext q c query arg =
     call (Sql (NamedQuery (clDB c) query arg)) (sqlNamedQuery q (clDB c) query arg)"

definition NamedExecContext :: "'w sql \<Rightarrow> pgclient \<Rightarrow> string \<Rightarrow> (string \<times> string) list \<Rightarrow> ('w, unit) prog" where
  "NamedExecContext q c query arg =
     call (Sql (NamedExec (clDB c) query arg)) (sqlNamedExec q (clDB c) query arg)"

definition QueryContext :: "'w sql \<Rightarrow> pgclient \<Rightarrow> string \<Rightarrow> ('w, rows) prog" where
  "QueryContext q c query = call (Sql (Query (clDB c) query)) (sqlQuery q (clDB c) query)"

text \<open>\<open>Close\<close> only logs an error.\<close>

definition Close_client :: "'w sql \<Rightarrow> pgclient \<Rightarrow> ('w, unit) prog" where
  "Close_client q c = ignorec (call (Sql (CloseDB (clDB c))) (sqlClose q (clDB c)))"

definition SwitchDatabase :: "'w sql \<Rightarrow> pgclient \<Rightarrow> string \<Rightarrow> ('w, pgclient) prog" where
  "SwitchDatabase q c db = seqc (Close_client q c) (\<lambda>_. Build q (WithDatabase (clBuilder c) db))"

text \<open>A nil \<open>*Rows\<close> is tested for in \<open>findDatabase\<close> only; elsewhere its use panics.\<close>

definition rows_of :: "rows option \<Rightarrow> ('w, rows) prog" where
  "rows_of r = (case r of None \<Rightarrow> panic ''nil rows'' | Some rs \<Rightarrow> ret rs)"

definition findDatabase :: "'w sql \<Rightarrow> pgclient \<Rightarrow> string \<Rightarrow> ('w, string option) prog" where
  "findDatabase q c databaseName =
     (if databaseName = [] then fail (Failure ''databaseName is empty'')
      else seqc (NamedQueryContext q c
             ''select datname as name from pg_catalog.pg_database where datname=:name ORDER BY 1''
             [(''name'', databaseName)]) (\<lambda>rows.
        case rows of None \<Rightarrow> ret None
        | Some [] \<Rightarrow> ret None
        | Some (row # _) \<Rightarrow> seqc (lift row) (\<lambda>name. ret (Some name))))"

definition CreateDatabaseIfNotExists :: "'w sql \<Rightarrow> pgclient \<Rightarrow> string \<Rightarrow> string \<Rightarrow> ('w, unit) prog" where
  "CreateDatabaseIfNotExists q c db owner =
     seqc (findDatabase q c db) (\<lambda>database.
     if database = Some db then ret ()
     else ExecContext q c (''create database '' @ db @ (if owner \<noteq> [] then '' owner '' @ owner else [])))"

definition CreateCitus :: "'w sql \<Rightarrow> pgclient \<Rightarrow> ('w, unit) prog" where
  "CreateCitus q c = ExecContext q c ''create extension if not exists citus''"

definition extension_name :: "string \<Rightarrow> string" where
  "extension_name e = (case lookup extensionMap e of Some x \<Rightarrow> x | None \<Rightarrow> e)"

text \<open>Every extension is tried; the errors are collected and reported together.\<close>

fun create_extensions :: "'w sql \<Rightarrow> pgclient \<Rightarrow> string list \<Rightarrow> go_error list \<Rightarrow> ('w, go_error list) prog" where
  "create_extensions q c [] errs = ret errs"
| "create_extensions q c (e # es) errs =
     tryc (ExecContext q c (''create extension if not exists '' @ extension_name e @ '' cascade;''))
       (\<lambda>_. create_extensions q c es errs) (\<lambda>err. create_extensions q c es (errs @ [err]))"

definition CreateExtensions :: "'w sql \<Rightarrow> pgclient \<Rightarrow> string list \<Rightarrow> ('w, unit) prog" where
  "CreateExtensions q c extensions = seqc (create_extensions q c extensions []) (\<lambda>errs.
     case AggregateErrs errs of None \<Rightarrow> ret () | Some e \<Rightarrow> fail e)"

definition script_command :: "string \<Rightarrow> string \<Rightarrow> string \<Rightarrow> string" where
  "script_command databaseName dbUsername cmd =
     (let cmd = ReplaceStr cmd ''$databasename'' databaseName;
          cmd = ReplaceStr cmd ''$dbusername'' dbUsername
      in cmd @ (if HasSuffix cmd '';'' then [] else '';''))"

definition ExecuteScript :: "'w sql \<Rightarrow> pgclient \<Rightarrow> string \<Rightarrow> string \<Rightarrow> string list \<Rightarrow> ('w, unit) prog" where
  "ExecuteScript q c databaseName dbUsername scripts =
     ExecContext q c (concat (map (script_command databaseName dbUsername) scripts))"

definition AddWorkerNode :: "'w sql \<Rightarrow> pgclient \<Rightarrow> string \<Rightarrow> nat \<Rightarrow> ('w, unit) prog" where
  "AddWorkerNode q c nodeAddr port =
     seqc (NamedQueryContext q c ''SELECT * from citus_add_node(:node_addr, :node_port);''
             [(''node_addr'', nodeAddr), (''node_port'', Itoa port)]) (\<lambda>_. ret ())"

definition SetMasterNode :: "'w sql \<Rightarrow> pgclient \<Rightarrow> string \<Rightarrow> nat \<Rightarrow> ('w, unit) prog" where
  "SetMasterNode q c nodeAddr port =
     seqc (NamedQueryContext q c ''SELECT citus_set_coordinator_host(:node_addr, :node_port);''
             [(''node_addr'', nodeAddr), (''node_port'', Itoa port)]) (\<lambda>_. ret ())"

definition Rebalance :: "'w sql \<Rightarrow> pgclient \<Rightarrow> ('w, unit) prog" where
  "Rebalance q c = ExecContext q c ''select citus_rebalance_start()''"

definition ChangeAdminUser :: "'w sql \<Rightarrow> pgclient \<Rightarrow> string \<Rightarrow> string \<Rightarrow> string \<Rightarrow> ('w, unit) prog" where
  "ChangeAdminUser q c olduser newuser newpwd =
     seqc (NamedQueryContext q c ''select rolname from pg_catalog.pg_roles where rolname=:role''
             [(''role'', newuser)]) (\<lambda>roles.
     seqc (rows_of roles) (\<lambda>roles.
     seqc (ExecContext q c (if roles = []
             then ''create role '' @ newuser @ '' with superuser login password '' @ [CHR 0x27] @ newpwd @ [CHR 0x27]
             else ''alter role '' @ newuser @ '' with superuser password '' @ [CHR 0x27] @ newpwd @ [CHR 0x27])) (\<lambda>_.
     if olduser \<noteq> newuser then ExecContext q c (''alter role '' @ olduser @ '' with nosuperuser'')
     else ret ())))"

definition CreateOrUpdateUser_pg :: "'w sql \<Rightarrow> pgclient \<Rightarrow> string \<Rightarrow> string \<Rightarrow> ('w, unit) prog" where
  "CreateOrUpdateUser_pg q c user pwd =
     seqc (NamedQueryContext q c ''select usename from pg_catalog.pg_user where usename=:user'' [(''user'', user)]) (\<lambda>res.
     seqc (rows_of res) (\<lambda>res.
     seqc (ExecContext q c (if res \<noteq> []
             then ''alter role '' @ user @ '' with password '' @ [CHR 0x27] @ pwd @ [CHR 0x27]
             else ''create role '' @ user @ '' with login password '' @ [CHR 0x27] @ pwd @ [CHR 0x27])) (\<lambda>_.
     seqc (ExecContext q c (''alter role '' @ user @ '' connection limit 30'')) (\<lambda>_.
     ExecContext q c (''grant pg_write_server_files, pg_read_server_files to '' @ user)))))"

definition ListDatabaseByOwner :: "'w sql \<Rightarrow> pgclient \<Rightarrow> string \<Rightarrow> ('w, string list) prog" where
  "ListDatabaseByOwner q c owner =
     seqc (NamedQueryContext q c
       ''select datname as name from pg_catalog.pg_database where pg_catalog.pg_get_userbyid(datdba)=:owner''
       [(''owner'', owner)]) (\<lambda>rows.
     seqc (rows_of rows) (\<lambda>rows. lift (mapR (\<lambda>r. r) rows)))"

text \<open>\<open>DropDatabase\<close>: the backends are terminated one row after the other before the drop.\<close>

definition DropDatabase :: "'w sql \<Rightarrow> pgclient \<Rightarrow> string \<Rightarrow> ('w, unit) prog" where
  "DropDatabase q c db =
     seqc (NamedQueryContext q c ''SELECT pid from pg_stat_activity where datname=:db'' [(''db'', db)]) (\<lambda>rows.
     seqc (rows_of rows) (\<lambda>rows.
     seqc (forM rows (\<lambda>row. seqc (lift row) (\<lambda>pid.
             ExecContext q c (''SELECT pg_terminate_backend('' @ pid @ '')'')))) (\<lambda>_.
     ExecContext q c (''drop database if exists '' @ db))))"

definition DeleteUser_pg :: "'w sql \<Rightarrow> pgclient \<Rightarrow> string \<Rightarrow> ('w, unit) prog" where
  "DeleteUser_pg q c user = seqc (QueryContext q c (''drop role if exists '' @ user)) (\<lambda>_. ret ())"

section \<open>Names of the cluster (pkg/workload/citus)\<close>

definition PGClusterName :: string where "PGClusterName = ''citus''"
definition PGClusterNamespace :: string where "PGClusterNamespace = ''os-platform''"
definition CitusImage :: string where "CitusImage = ''beclab/citus:11.3''"
definition CitusAdminSecretName :: string where "CitusAdminSecretName = ''pgcluster-admin''"

definition GetDatabaseName :: "string \<Rightarrow> string \<Rightarrow> string" where
  "GetDatabaseName namespace db = ReplaceAll (namespace @ ''_'' @ db) (CHR ''-'') ''_''"

definition node_host :: "StatefulSet \<Rightarrow> nat \<Rightarrow> string" where
  "node_host sts index = stsName sts @ ''-'' @ Itoa index @ ''.citus-headless.'' @ stsNamespace sts"

text \<open>The default administrator is read from the secret when the resource names none.\<close>

definition default_admin :: "'w k8s \<Rightarrow> string \<Rightarrow> PGClusterSpec \<Rightarrow> ('w, PGClusterSpec) prog" where
  "default_admin k namespace spec =
     (if pgAdminUser spec = [] then
        seqc (Secrets_Get k namespace CitusAdminSecretName) (\<lambda>secret.
        ret (spec\<lparr>pgPassword := \<lparr>pwValue = secret_value secret ''password'', pwValueFrom = None\<rparr>,
                   pgAdminUser := secret_value secret ''user''\<rparr>))
      else ret spec)"

definition PGClusters_Get :: "'w apr \<Rightarrow> string \<Rightarrow> string \<Rightarrow> ('w, PGCluster) prog" where
  "PGClusters_Get a namespace name = call (Apr (GetPGCluster namespace name)) (getPGCluster a namespace name)"

definition GetPGClusterAdminUserAndPassword :: "'w k8s \<Rightarrow> 'w apr \<Rightarrow> string \<Rightarrow> ('w, string \<times> string) prog" where
  "GetPGClusterAdminUserAndPassword k a namespace =
     seqc (PGClusters_Get a namespace PGClusterName) (\<lambda>cluster.
     seqc (default_admin k namespace (pgSpec cluster)) (\<lambda>spec.
     seqc (GetVarValue k (pgPassword spec) namespace) (\<lambda>pwd.
     ret (pgAdminUser spec, pwd))))"

section \<open>The request handlers (handler_pg.go)\<close>

definition findClusterWorkloadAndAdminuserAndPassword ::
  "'w k8s \<Rightarrow> 'w apr \<Rightarrow> ('w, StatefulSet \<times> string \<times> string) prog" where
  "findClusterWorkloadAndAdminuserAndPassword k a =
     seqc (StatefulSets_Get k PGClusterNamespace PGClusterName) (\<lambda>sts.
     seqc (GetPGClusterAdminUserAndPassword k a PGClusterNamespace) (\<lambda>(adminUser, adminPwd).
     ret (sts, adminUser, adminPwd)))"

text \<open>\<open>for index < *sts.Spec.Replicas\<close>: the indices from \<open>from\<close> on; a nil pointer panics.\<close>

definition replica_indices :: "nat \<Rightarrow> StatefulSet \<Rightarrow> ('w, nat list) prog" where
  "replica_indices from sts = (case stsReplicas sts of
      None \<Rightarrow> panic ''nil Replicas''
    | Some n \<Rightarrow> ret [from..<nat n])"

text \<open>One database on one node. The client in scope when a step fails is closed by the
  deferred \<open>Close\<close>; \<open>SwitchDatabase\<close> replaces it.\<close>

definition node_database :: "'w sql \<Rightarrow> MiddlewareRequest \<Rightarrow> nat \<Rightarrow> string \<Rightarrow> CitusDatabase \<Rightarrow> pgclient \<Rightarrow>
    ('w, pgclient) prog" where
  "node_database q req index nodeHost db cl =
     (let user = psqlUser (mwPostgreSQL (mrSpec req));
          dbRealName = GetDatabaseName (mwAppNamespace (mrSpec req)) (cdbName db) in
      if IsDistributed db \<or> index = 0 then
        cleanup (CreateDatabaseIfNotExists q cl dbRealName user) (Close_client q cl) (\<lambda>_.
        cleanup (SwitchDatabase q cl dbRealName) (Close_client q cl) (\<lambda>cl'.
        cleanup (if IsDistributed db then seqc (CreateCitus q cl') (\<lambda>_.
                   if index = 0 then SetMasterNode q cl' nodeHost PG_PORT else ret ()) else ret ())
                (Close_client q cl') (\<lambda>_.
        cleanup (if cdbExtensions db \<noteq> [] then CreateExtensions q cl' (cdbExtensions db) else ret ())
                (Close_client q cl') (\<lambda>_.
        cleanup (if cdbScripts db \<noteq> [] then ExecuteScript q cl' dbRealName user (cdbScripts db) else ret ())
                (Close_client q cl') (\<lambda>_.
        ret cl')))))
      else ret cl)"

fun node_databases :: "'w sql \<Rightarrow> MiddlewareRequest \<Rightarrow> nat \<Rightarrow> string \<Rightarrow> CitusDatabase list \<Rightarrow> pgclient \<Rightarrow>
    ('w, unit) prog" where
  "node_databases q req index nodeHost [] cl = Close_client q cl"
| "node_databases q req index nodeHost (db # dbs) cl =
     seqc (node_database q req index nodeHost db cl) (node_databases q req index nodeHost dbs)"

definition create_on_node :: "'w k8s \<Rightarrow> 'w sql \<Rightarrow> MiddlewareRequest \<Rightarrow> StatefulSet \<Rightarrow> string \<Rightarrow> string \<Rightarrow> nat \<Rightarrow>
    ('w, unit) prog" where
  "create_on_node k q req sts adminUser adminPwd index =
     (let nodeHost = node_host sts index; pg = mwPostgreSQL (mrSpec req) in
      seqc (Build q (NewClientBuidler adminUser adminPwd nodeHost PG_PORT)) (\<lambda>cl.
      cleanup (GetVarValue k (psqlPassword pg) (metaNamespace (mrMeta req))) (Close_client q cl) (\<lambda>pwd.
      cleanup (CreateOrUpdateUser_pg q cl (psqlUser pg) pwd) (Close_client q cl) (\<lambda>_.
      node_databases q req index nodeHost (psqlDatabases pg) cl))))"

definition addWorkerNode :: "'w k8s \<Rightarrow> 'w apr \<Rightarrow> 'w sql \<Rightarrow> MiddlewareRequest \<Rightarrow> ('w, unit) prog" where
  "addWorkerNode k a q req =
     seqc (findClusterWorkloadAndAdminuserAndPassword k a) (\<lambda>(sts, adminUser, adminPwd).
     let builder = NewClientBuidler adminUser adminPwd (node_host sts 0) PG_PORT in
     seqc (replica_indices 1 sts) (\<lambda>indices.
     forM indices (\<lambda>index.
     forM (filter IsDistributed (psqlDatabases (mwPostgreSQL (mrSpec req)))) (\<lambda>db.
     seqc (Build q (WithDatabase builder (GetDatabaseName (mwAppNamespace (mrSpec req)) (cdbName db)))) (\<lambda>cl.
     cleanup (AddWorkerNode q cl (node_host sts index) PG_PORT) (Close_client q cl) (\<lambda>_.
     Close_client q cl))))))"

definition createOrUpdatePGRequest :: "'w k8s \<Rightarrow> 'w apr \<Rightarrow> 'w sql \<Rightarrow> MiddlewareRequest \<Rightarrow> ('w, unit) prog" where
  "createOrUpdatePGRequest k a q req =
     seqc (findClusterWorkloadAndAdminuserAndPassword k a) (\<lambda>(sts, adminUser, adminPwd).
     seqc (replica_indices 0 sts) (\<lambda>indices.
     seqc (forM indices (create_on_node k q req sts adminUser adminPwd)) (\<lambda>_.
     addWorkerNode k a q req)))"

text \<open>\<open>PGClusterRecreated\<close> reconciles every listed request, whatever its type; errors are
  logged.\<close>

definition PGClusterRecreated :: "'w k8s \<Rightarrow> 'w apr \<Rightarrow> 'w sql \<Rightarrow> ('w, unit) prog" where
  "PGClusterRecreated k a q =
     tryc (call (Apr (ListMiddlewareRequests [])) (listMiddlewareRequests a []))
       (\<lambda>reqs. forM reqs (\<lambda>r. ignorec (createOrUpdatePGRequest k a q r)))
       (\<lambda>_. ret ())"

definition requested_db :: "MiddlewareRequest \<Rightarrow> string \<Rightarrow> bool" where
  "requested_db req db \<longleftrightarrow> db \<in> (\<lambda>rdb. GetDatabaseName (mwAppNamespace (mrSpec req)) (cdbName rdb)) `
     set (psqlDatabases (mwPostgreSQL (mrSpec req)))"

definition drop_on_node :: "'w sql \<Rightarrow> StatefulSet \<Rightarrow> string \<Rightarrow> string \<Rightarrow> string \<Rightarrow> nat \<Rightarrow> ('w, unit) prog" where
  "drop_on_node q sts adminUser adminPwd db index =
     seqc (Build q (NewClientBuidler adminUser adminPwd (node_host sts index) PG_PORT)) (\<lambda>cl.
     cleanup (DropDatabase q cl db) (Close_client q cl) (\<lambda>_. Close_client q cl))"

definition deleteDatabaseIfNotExists :: "'w k8s \<Rightarrow> 'w apr \<Rightarrow> 'w sql \<Rightarrow> MiddlewareRequest \<Rightarrow> ('w, unit) prog" where
  "deleteDatabaseIfNotExists k a q req =
     seqc (findClusterWorkloadAndAdminuserAndPassword k a) (\<lambda>(sts, adminUser, adminPwd).
     seqc (Build q (NewClientBuidler adminUser adminPwd (node_host sts 0) PG_PORT)) (\<lambda>cl.
     cleanup (ListDatabaseByOwner q cl (psqlUser (mwPostgreSQL (mrSpec req)))) (Close_client q cl) (\<lambda>dbs.
     seqc (Close_client q cl) (\<lambda>_.
     forM (filter (\<lambda>db. \<not> requested_db req db) dbs) (\<lambda>db.
     seqc (replica_indices 0 sts) (\<lambda>indices.
     forM indices (drop_on_node q sts adminUser adminPwd db)))))))"

definition delete_on_node :: "'w sql \<Rightarrow> MiddlewareRequest \<Rightarrow> StatefulSet \<Rightarrow> string \<Rightarrow> string \<Rightarrow> nat \<Rightarrow> ('w, unit) prog" where
  "delete_on_node q req sts adminUser adminPwd index =
     (let pg = mwPostgreSQL (mrSpec req) in
      seqc (Build q (NewClientBuidler adminUser adminPwd (node_host sts index) PG_PORT)) (\<lambda>cl.
      deferc
        (seqc (forM (filter (\<lambda>db. IsDistributed db \<or> index = 0) (psqlDatabases pg)) (\<lambda>db.
                 DropDatabase q cl (GetDatabaseName (mwAppNamespace (mrSpec req)) (cdbName db)))) (\<lambda>_.
         seqc (ListDatabaseByOwner q cl (psqlUser pg)) (\<lambda>dbs.
         seqc (forM dbs (DropDatabase q cl)) (\<lambda>_.
         DeleteUser_pg q cl (psqlUser pg)))))
        (Close_client q cl)))"

definition deletePGAll :: "'w k8s \<Rightarrow> 'w apr \<Rightarrow> 'w sql \<Rightarrow> MiddlewareRequest \<Rightarrow> ('w, unit) prog" where
  "deletePGAll k a q req =
     seqc (findClusterWorkloadAndAdminuserAndPassword k a) (\<lambda>(sts, adminUser, adminPwd).
     seqc (replica_indices 0 sts) (\<lambda>indices.
     forM indices (delete_on_node q req sts adminUser adminPwd)))"

end
