(* ===== verification/Postgres_Proofs.thy ===== *)
theory Postgres_Proofs
  imports Postgres
begin

text \<open>Lemmas and properties of the PostgreSQL component: which statements the client and the
  handlers send, on which node, and what a normal return guarantees.\<close>

section \<open>Statements\<close>

lemmas client_defs = CreateDatabaseIfNotExists_def findDatabase_def NamedQueryContext_def ExecContext_def
  CreateCitus_def CreateExtensions_def ExecuteScript_def AddWorkerNode_def SetMasterNode_def Rebalance_def
  ChangeAdminUser_def CreateOrUpdateUser_pg_def ListDatabaseByOwner_def DropDatabase_def DeleteUser_pg_def
  QueryContext_def rows_of_def

lemma emits_rows_of [emits_intros]: "emits S (rows_of r)"
  by (auto simp: rows_of_def intro!: emits_intros split: option.splits)

lemma emits_Exec [emits_intros]: "S (Sql (Exec (clDB c) query)) \<Longrightarrow> emits S (ExecContext q c query)"
  by (simp add: ExecContext_def emits_call)

lemma emits_NamedQuery [emits_intros]:
  "S (Sql (NamedQuery (clDB c) query arg)) \<Longrightarrow> emits S (NamedQueryContext q c query arg)"
  by (simp add: NamedQueryContext_def emits_call)

lemma emits_Query [emits_intros]: "S (Sql (Query (clDB c) query)) \<Longrightarrow> emits S (QueryContext q c query)"
  by (simp add: QueryContext_def emits_call)

lemma emits_Close [emits_intros]: "S (Sql (CloseDB (clDB c))) \<Longrightarrow> emits S (Close_client q c)"
  by (simp add: Close_client_def emits_ignorec emits_call)

lemma emits_Build [emits_intros]: "(\<And>dsn. S (Sql (Connect dsn))) \<Longrightarrow> emits S (Build q cb)"
  by (simp add: Build_def newClient_def emits_seqc emits_call emits_ret)

text \<open>The only destructive statements of \<open>DropDatabase\<close> and \<open>ListDatabaseByOwner\<close>.\<close>

lemma emits_DropDatabase:
  assumes "\<And>query arg. S (Sql (NamedQuery (clDB c) query arg))"
    and "\<And>t. S (Sql (Exec (clDB c) (''SELECT '' @ t)))"
    and "S (Sql (Exec (clDB c) (''drop database if exists '' @ db)))"
  shows "emits S (DropDatabase q c db)"
  unfolding DropDatabase_def
  by (intro emits_seqc emits_NamedQuery emits_rows_of emits_forM emits_lift emits_Exec assms)
     (use assms(2) [of "''pg_terminate_backend('' @ _"] in simp_all)

lemma emits_ListDatabaseByOwner:
  "(\<And>query arg. S (Sql (NamedQuery (clDB c) query arg))) \<Longrightarrow> emits S (ListDatabaseByOwner q c owner)"
  unfolding ListDatabaseByOwner_def by (intro emits_seqc emits_NamedQuery emits_rows_of emits_lift)

lemma emits_find_cluster:
  assumes "\<And>c. S (K8s c)" "\<And>c. S (Apr c)"
  shows "emits S (findClusterWorkloadAndAdminuserAndPassword k a)"
  unfolding findClusterWorkloadAndAdminuserAndPassword_def GetPGClusterAdminUserAndPassword_def default_admin_def
    StatefulSets_Get_def PGClusters_Get_def Secrets_Get_def
  by (auto intro!: emits_seqc emits_call emits_if emits_ret emits_GetVarValue simp: assms)

lemma emits_replica_indices [emits_intros]: "emits S (replica_indices from sts)"
  by (auto simp: replica_indices_def intro!: emits_intros split: option.splits)

section \<open>What a normal return guarantees\<close>

definition client_of :: "clientBuilder \<Rightarrow> pgclient" where
  "client_of cb = \<lparr>clDB = DSN (cbUser cb) (cbPassword cb) (cbHost cb) (cbPort cb) (cbDatabase cb), clBuilder = cb\<rparr>"

lemma returns_Build: "returns (client_of cb) (Build q cb)"
  unfolding Build_def newClient_def client_of_def by (intro returns_seqc returns_ret)

lemma returns_SwitchDatabase: "returns (client_of (WithDatabase (clBuilder c) db)) (SwitchDatabase q c db)"
  unfolding SwitchDatabase_def by (intro returns_seqc returns_Build)

lemma issues_Exec: "issues {Sql (Exec (clDB c) query)} (ExecContext q c query)"
  by (simp add: ExecContext_def issues_call)

lemma issues_NamedQuery: "issues {Sql (NamedQuery (clDB c) query arg)} (NamedQueryContext q c query arg)"
  by (simp add: NamedQueryContext_def issues_call)

lemma grows_client:
  "grows (CreateDatabaseIfNotExists q c db owner)" "grows (CreateCitus q c)" "grows (CreateExtensions q c es)"
  "grows (ExecuteScript q c db owner ss)" "grows (AddWorkerNode q c h p)" "grows (SetMasterNode q c h p)"
  "grows (CreateOrUpdateUser_pg q c u pw)" "grows (ListDatabaseByOwner q c u)" "grows (DropDatabase q c db)"
  "grows (DeleteUser_pg q c u)" "grows (Close_client q c)" "grows (SwitchDatabase q c db)" "grows (Build q cb)"
proof -
  have ext: "grows (create_extensions q c es errs)" for errs
    by (induction es arbitrary: errs) (auto intro!: emits_intros)
  show "grows (CreateExtensions q c es)"
    unfolding CreateExtensions_def by (auto intro!: emits_seqc ext emits_ret emits_fail split: option.splits)
  show "grows (CreateDatabaseIfNotExists q c db owner)"
    unfolding CreateDatabaseIfNotExists_def findDatabase_def
    by (auto intro!: emits_seqc emits_if emits_ret emits_fail emits_Exec emits_NamedQuery emits_lift
        split: option.splits list.splits)
  show "grows (ListDatabaseByOwner q c u)" by (simp add: emits_ListDatabaseByOwner)
  show "grows (DropDatabase q c db)" by (simp add: emits_DropDatabase)
  show "grows (SwitchDatabase q c db)" unfolding SwitchDatabase_def by (intro emits_intros TrueI)
qed (auto simp: CreateCitus_def ExecuteScript_def AddWorkerNode_def SetMasterNode_def CreateOrUpdateUser_pg_def
       DeleteUser_pg_def intro!: emits_seqc emits_Exec emits_NamedQuery emits_rows_of emits_ret emits_Query
       emits_Close emits_Build)

lemma issues_DropDatabase: "issues {Sql (Exec (clDB c) (''drop database if exists '' @ db))} (DropDatabase q c db)"
  unfolding DropDatabase_def by (intro issues_then issues_Exec)

lemma issues_user: "issues {Sql (Exec (clDB c) (''grant pg_write_server_files, pg_read_server_files to '' @ user))}
    (CreateOrUpdateUser_pg q c user pwd)"
  unfolding CreateOrUpdateUser_pg_def by (intro issues_then issues_Exec)

section \<open>Properties\<close>

definition keeps_requested :: "MiddlewareRequest \<Rightarrow> call \<Rightarrow> bool" where
  "keeps_requested req c \<longleftrightarrow>
     (\<forall>dsn db. c = Sql (Exec dsn (''drop database if exists '' @ db)) \<longrightarrow> \<not> requested_db req db)"

lemma keeps_requested_simps [simp]:
  "keeps_requested req (K8s x)" "keeps_requested req (Apr y)" "keeps_requested req (Sql (Connect dsn))"
  "keeps_requested req (Sql (CloseDB dsn))" "keeps_requested req (Sql (NamedQuery dsn query arg))"
  "keeps_requested req (Sql (Exec dsn (CHR ''S'' # t)))"
  by (simp_all add: keeps_requested_def)

lemma keeps_requested_drop:
  "keeps_requested req (Sql (Exec dsn (''drop database if exists '' @ db))) \<longleftrightarrow> \<not> requested_db req db"
  by (auto simp: keeps_requested_def)


definition node_dsn :: "StatefulSet \<Rightarrow> string \<Rightarrow> string \<Rightarrow> nat \<Rightarrow> string" where
  "node_dsn sts adminUser adminPwd i = DSN adminUser adminPwd (node_host sts i) PG_PORT ''postgres''"

lemma clDB_node: "clDB (client_of (NewClientBuidler u p (node_host sts i) PG_PORT)) = node_dsn sts u p i"
  by (simp add: client_of_def NewClientBuidler_def node_dsn_def)

definition node_deletions :: "MiddlewareRequest \<Rightarrow> string \<Rightarrow> nat \<Rightarrow> call set" where
  "node_deletions req dsn i =
     insert (Sql (Query dsn (''drop role if exists '' @ psqlUser (mwPostgreSQL (mrSpec req)))))
       ((\<lambda>db. Sql (Exec dsn (''drop database if exists '' @ GetDatabaseName (mwAppNamespace (mrSpec req)) (cdbName db)))) `
         {db \<in> set (psqlDatabases (mwPostgreSQL (mrSpec req))). IsDistributed db \<or> i = 0})"

lemma issues_delete_on_node:
  "issues (node_deletions req (node_dsn sts u p i) i) (delete_on_node q req sts u p i)"
proof -
  let ?cb = "NewClientBuidler u p (node_host sts i) PG_PORT"
  let ?cl = "client_of ?cb"
  let ?user = "psqlUser (mwPostgreSQL (mrSpec req))"
  let ?dbs = "filter (\<lambda>db. IsDistributed db \<or> i = 0) (psqlDatabases (mwPostgreSQL (mrSpec req)))"
  let ?real = "\<lambda>db. GetDatabaseName (mwAppNamespace (mrSpec req)) (cdbName db)"
  have role: "issues {Sql (Query (clDB ?cl) (''drop role if exists '' @ ?user))} (DeleteUser_pg q ?cl ?user)"
    unfolding DeleteUser_pg_def QueryContext_def by (intro issues_first issues_call emits_ret)
  have dbs: "issues (\<Union>db \<in> set ?dbs. {Sql (Exec (clDB ?cl) (''drop database if exists '' @ ?real db))})
      (forM ?dbs (\<lambda>db. DropDatabase q ?cl (?real db)))"
    by (intro issues_forM issues_DropDatabase grows_client)
  have "node_deletions req (node_dsn sts u p i) i \<subseteq>
      (\<Union>db \<in> set ?dbs. {Sql (Exec (clDB ?cl) (''drop database if exists '' @ ?real db))}) \<union>
      {Sql (Query (clDB ?cl) (''drop role if exists '' @ ?user))}"
    by (auto simp: node_deletions_def clDB_node)
  moreover have "issues (\<dots>) (delete_on_node q req sts u p i)"
    unfolding delete_on_node_def Let_def
    by (intro issues_known [OF returns_Build] issues_deferc issues_Un issues_first [OF dbs] issues_then role
        emits_seqc emits_forM grows_client)
  ultimately show ?thesis by (rule issues_mono [rotated])
qed

text \<open>C14. A deletion that succeeds is complete: when the cluster has the given replicas and
  \<open>deletePGAll\<close> returns without error, then on every node each database of the request that lives
  there has been dropped by its real name, and the role of the request's user as well.\<close>

theorem deletePGAll_complete:
  assumes "findClusterWorkloadAndAdminuserAndPassword k a s = (Val (sts, adminUser, adminPwd), s0)"
    and "stsReplicas sts = Some n" "deletePGAll k a q req s = (Val (), s')" "int i < n"
  shows "node_deletions req (node_dsn sts adminUser adminPwd i) i \<subseteq> set (snd s')"
proof -
  have rest: "seqc (replica_indices 0 sts) (\<lambda>indices. forM indices (delete_on_node q req sts adminUser adminPwd)) s0
      = (Val (), s')"
    using assms(1,3) by (simp add: deletePGAll_def seqc_def)
  have idx: "returns [0..<nat n] (replica_indices 0 sts)"
    by (simp add: replica_indices_def assms(2) returns_ret)
  have "grows (delete_on_node q req sts adminUser adminPwd i)" for i
    unfolding delete_on_node_def Let_def by (intro emits_seqc emits_deferc emits_forM grows_client)
  then have "issues (\<Union>i \<in> set [0..<nat n]. node_deletions req (node_dsn sts adminUser adminPwd i) i)
      (seqc (replica_indices 0 sts) (\<lambda>indices. forM indices (delete_on_node q req sts adminUser adminPwd)))"
    by (intro issues_known [OF idx] issues_forM issues_delete_on_node)
  from issuesD [OF this rest] have "(\<Union>i \<in> set [0..<nat n]. node_deletions req (node_dsn sts adminUser adminPwd i) i)
      \<subseteq> set (snd s')" .
  moreover have "i \<in> set [0..<nat n]" using assms(4) by auto
  ultimately show ?thesis by blast
qed

definition demo_sts :: StatefulSet where
  "demo_sts = \<lparr>stsName = ''citus'', stsNamespace = ''os-platform'', stsLabels = [], stsAnnotations = [],
     stsSelector = [], stsServiceName = [], stsReplicas = Some 2, stsPodLabels = [], stsInitContainers = [],
     stsContainers = [], stsVolumes = [], stsPriorityClassName = []\<rparr>"

definition demo_cluster :: PGCluster where
  "demo_cluster = \<lparr>pgMeta = plain_meta ''citus'' ''os-platform'',
     pgSpec = \<lparr>pgReplicas = 2, pgAdminUser = ''olares'', pgCitusImage = [], pgPassword = plain_password,
        pgOwner = ''system'', pgBackupStorage = []\<rparr>,
     pgStatus = \<lparr>pgsState = [], pgsUpdateTime = None, pgsStatusTime = None\<rparr>\<rparr>"

definition pg_k8s :: "unit k8s" where "pg_k8s = idle_k8s\<lparr>getStatefulSet := (\<lambda>ns. ok demo_sts)\<rparr>"
definition pg_apr :: "unit apr" where "pg_apr = idle_apr\<lparr>getPGCluster := (\<lambda>ns. ok demo_cluster)\<rparr>"

definition pg_request :: MiddlewareRequest where
  "pg_request = (plain_request ''wise'' ''user-space-bob'' TypePostgreSQL)\<lparr>mrSpec :=
     (plain_spec ''wise'' ''user-space-bob'' TypePostgreSQL)\<lparr>mwPostgreSQL := \<lparr>psqlPassword = plain_password,
        psqlDatabases = [\<lparr>cdbName = ''feed'', cdbExtensions = [], cdbScripts = [], cdbDistributed = Some True\<rparr>],
        psqlUser = ''wise''\<rparr>\<rparr>\<rparr>"

lemma pg_find: "findClusterWorkloadAndAdminuserAndPassword pg_k8s pg_apr (w, l) = (Val (demo_sts, ''olares'', ''pw''),
    (w, l @ [K8s (GetStatefulSet ''os-platform'' ''citus''), Apr (GetPGCluster ''os-platform'' ''citus'')]))"
  by (simp add: findClusterWorkloadAndAdminuserAndPassword_def GetPGClusterAdminUserAndPassword_def default_admin_def
      StatefulSets_Get_def PGClusters_Get_def GetVarValue_def pg_k8s_def pg_apr_def idle_defs demo_cluster_def
      plain_password_def io_defs PGClusterName_def PGClusterNamespace_def)

lemmas pg_run = replica_indices_def demo_sts_def delete_on_node_def DropDatabase_def ListDatabaseByOwner_def
  DeleteUser_pg_def Build_def newClient_def NamedQueryContext_def ExecContext_def QueryContext_def rows_of_def
  Close_client_def ignorec_def deferc_def io_defs idle_defs upt_rec

theorem deletePGAll_complete_witness:
  "node_deletions pg_request (node_dsn demo_sts ''olares'' ''pw'' 1) 1
     \<subseteq> set (snd (snd (deletePGAll pg_k8s pg_apr idle_sql pg_request ((), []))))"
proof -
  have "fst (deletePGAll pg_k8s pg_apr idle_sql pg_request ((), [])) = Val ()"
    by (simp add: deletePGAll_def seqc_def pg_find) (simp add: pg_run pg_request_def plain_defs)
  then have run: "deletePGAll pg_k8s pg_apr idle_sql pg_request ((), [])
      = (Val (), snd (deletePGAll pg_k8s pg_apr idle_sql pg_request ((), [])))"
    by (metis prod.collapse)
  have "stsReplicas demo_sts = Some 2" by (simp add: demo_sts_def)
  from deletePGAll_complete [OF pg_find this run, of 1] show ?thesis by simp
qed

definition node_creations :: "MiddlewareRequest \<Rightarrow> string \<Rightarrow> string \<Rightarrow> string \<Rightarrow> nat \<Rightarrow> call set" where
  "node_creations req u p host i =
     insert (Sql (Exec (DSN u p host PG_PORT ''postgres'')
        (''grant pg_write_server_files, pg_read_server_files to '' @ psqlUser (mwPostgreSQL (mrSpec req)))))
     (\<Union>db \<in> {db \<in> set (psqlDatabases (mwPostgreSQL (mrSpec req))). IsDistributed db \<or> i = 0}.
        let dsn = DSN u p host PG_PORT (GetDatabaseName (mwAppNamespace (mrSpec req)) (cdbName db)) in
        insert (Sql (Connect dsn)) (if IsDistributed db then {Sql (Exec dsn ''create extension if not exists citus'')} else {}))"

definition worker_call :: "MiddlewareRequest \<Rightarrow> StatefulSet \<Rightarrow> string \<Rightarrow> string \<Rightarrow> nat \<Rightarrow> CitusDatabase \<Rightarrow> call" where
  "worker_call req sts u p i db =
     Sql (NamedQuery (DSN u p (node_host sts 0) PG_PORT (GetDatabaseName (mwAppNamespace (mrSpec req)) (cdbName db)))
       ''SELECT * from citus_add_node(:node_addr, :node_port);''
       [(''node_addr'', node_host sts i), (''node_port'', Itoa PG_PORT)])"

definition on_node :: "string \<Rightarrow> string \<Rightarrow> string \<Rightarrow> clientBuilder \<Rightarrow> bool" where
  "on_node u p host cb \<longleftrightarrow> cbUser cb = u \<and> cbPassword cb = p \<and> cbHost cb = host \<and> cbPort cb = PG_PORT"

lemma on_node_with [simp]: "on_node u p host (WithDatabase cb db) = on_node u p host cb"
  by (simp add: on_node_def WithDatabase_def)

lemma on_node_dsn: "on_node u p host cb \<Longrightarrow> clDB (client_of (WithDatabase cb db)) = DSN u p host PG_PORT db"
  by (simp add: on_node_def client_of_def WithDatabase_def)

lemma issues_Build: "issues {Sql (Connect (clDB (client_of cb)))} (Build q cb)"
  unfolding Build_def newClient_def client_of_def by (simp add: issues_first issues_call emits_ret)

lemma returns_node_database:
  "returns (if IsDistributed db \<or> i = 0
     then client_of (WithDatabase (clBuilder cl) (GetDatabaseName (mwAppNamespace (mrSpec req)) (cdbName db))) else cl)
   (node_database q req i host db cl)"
proof (cases "IsDistributed db \<or> i = 0")
  case True
  then show ?thesis unfolding node_database_def Let_def if_P [OF True]
    by (intro returns_cleanup returns_cleanup_known [OF returns_SwitchDatabase] returns_ret)
next
  case False
  then show ?thesis by (simp add: node_database_def Let_def returns_ret)
qed

lemma grows_node_database: "grows (node_database q req i host db cl)"
  unfolding node_database_def Let_def
  by (intro emits_if emits_cleanup emits_seqc emits_ret grows_client)

lemma issues_node_database:
  assumes "on_node u p host (clBuilder cl)" "IsDistributed db \<or> i = 0"
  shows "issues (let dsn = DSN u p host PG_PORT (GetDatabaseName (mwAppNamespace (mrSpec req)) (cdbName db)) in
        insert (Sql (Connect dsn)) (if IsDistributed db then {Sql (Exec dsn ''create extension if not exists citus'')} else {}))
     (node_database q req i nodeHost db cl)"
proof -
  let ?real = "GetDatabaseName (mwAppNamespace (mrSpec req)) (cdbName db)"
  let ?cl = "client_of (WithDatabase (clBuilder cl) ?real)"
  have dsn: "clDB ?cl = DSN u p host PG_PORT ?real" using assms(1) by (rule on_node_dsn)
  have switch: "issues {Sql (Connect (clDB ?cl))} (SwitchDatabase q cl ?real)"
    unfolding SwitchDatabase_def by (intro issues_then issues_Build)
  have connect: "issues {Sql (Connect (clDB ?cl))} (node_database q req i nodeHost db cl)"
    unfolding node_database_def Let_def if_P [OF assms(2)]
    by (intro issues_cleanup_then issues_cleanup_first [OF switch] emits_cleanup emits_if emits_seqc emits_ret grows_client)
  show ?thesis
  proof (cases "IsDistributed db")
    case True
    have citus: "issues {Sql (Exec (clDB ?cl) ''create extension if not exists citus'')} (CreateCitus q ?cl)"
      unfolding CreateCitus_def by (rule issues_Exec)
    have "issues {Sql (Exec (clDB ?cl) ''create extension if not exists citus'')} (node_database q req i nodeHost db cl)"
      unfolding node_database_def Let_def if_P [OF assms(2)] if_P [OF True]
      by (intro issues_cleanup_then issues_cleanup_known [OF returns_SwitchDatabase] issues_cleanup_first
          issues_first citus emits_cleanup emits_if emits_ret grows_client)
    from issues_Un [OF connect this] show ?thesis using True by (simp add: dsn Let_def insert_commute)
  next
    case False
    then show ?thesis using connect by (simp add: dsn Let_def)
  qed
qed

lemma grows_node_databases: "grows (node_databases q req i host dbs cl)"
  by (induction dbs arbitrary: cl) (simp_all add: grows_client emits_seqc grows_node_database)

lemma issues_node_databases:
  "on_node u p host (clBuilder cl) \<Longrightarrow>
   issues (\<Union>db \<in> {db \<in> set dbs. IsDistributed db \<or> i = 0}.
        let dsn = DSN u p host PG_PORT (GetDatabaseName (mwAppNamespace (mrSpec req)) (cdbName db)) in
        insert (Sql (Connect dsn)) (if IsDistributed db then {Sql (Exec dsn ''create extension if not exists citus'')} else {}))
     (node_databases q req i nodeHost dbs cl)"
proof (induction dbs arbitrary: cl)
  case Nil
  then show ?case by (simp add: issues_empty)
next
  case (Cons db dbs)
  let ?C = "\<lambda>db. let dsn = DSN u p host PG_PORT (GetDatabaseName (mwAppNamespace (mrSpec req)) (cdbName db)) in
        insert (Sql (Connect dsn)) (if IsDistributed db then {Sql (Exec dsn ''create extension if not exists citus'')} else {})"
  let ?cl = "if IsDistributed db \<or> i = 0
     then client_of (WithDatabase (clBuilder cl) (GetDatabaseName (mwAppNamespace (mrSpec req)) (cdbName db))) else cl"
  have "on_node u p host (clBuilder ?cl)" using Cons.prems by (simp add: client_of_def)
  then have tail: "issues (\<Union>db \<in> {db \<in> set dbs. IsDistributed db \<or> i = 0}. ?C db)
      (node_databases q req i nodeHost (db # dbs) cl)"
    unfolding node_databases.simps by (intro issues_known [OF returns_node_database] Cons.IH)
  show ?case
  proof (cases "IsDistributed db \<or> i = 0")
    case True
    have "issues (?C db) (node_databases q req i nodeHost (db # dbs) cl)"
      unfolding node_databases.simps
      by (intro issues_first issues_node_database Cons.prems True grows_node_databases)
    from issues_Un [OF this tail] show ?thesis
      by (rule issues_mono) (use True in auto)
  next
    case False
    from tail show ?thesis by (rule issues_mono) (use False in auto)
  qed
qed

lemma issues_create_on_node:
  "issues (node_creations req u p (node_host sts i) i) (create_on_node k q req sts u p i)"
proof -
  let ?cb = "NewClientBuidler u p (node_host sts i) PG_PORT"
  let ?cl = "client_of ?cb"
  let ?pg = "mwPostgreSQL (mrSpec req)"
  have node: "on_node u p (node_host sts i) (clBuilder ?cl)"
    by (simp add: on_node_def client_of_def NewClientBuidler_def)
  have dsn: "clDB ?cl = DSN u p (node_host sts i) PG_PORT ''postgres''"
    by (simp add: client_of_def NewClientBuidler_def)
  have user: "issues {Sql (Exec (clDB ?cl) (''grant pg_write_server_files, pg_read_server_files to '' @ psqlUser ?pg))}
      (create_on_node k q req sts u p i)"
    unfolding create_on_node_def Let_def
    by (intro issues_known [OF returns_Build] issues_cleanup_then issues_cleanup_first issues_user grows_node_databases)
  have dbs: "issues (\<Union>db \<in> {db \<in> set (psqlDatabases ?pg). IsDistributed db \<or> i = 0}.
        let dsn = DSN u p (node_host sts i) PG_PORT (GetDatabaseName (mwAppNamespace (mrSpec req)) (cdbName db)) in
        insert (Sql (Connect dsn)) (if IsDistributed db then {Sql (Exec dsn ''create extension if not exists citus'')} else {}))
      (create_on_node k q req sts u p i)"
    unfolding create_on_node_def Let_def [of "node_host sts i"] Let_def [of "mwPostgreSQL (mrSpec req)"]
    by (intro issues_known [OF returns_Build] issues_cleanup_then issues_node_databases node)
  show ?thesis
    using issues_Un [OF user dbs] unfolding node_creations_def dsn by (simp only: insert_is_Un [symmetric])
qed

lemma grows_create_on_node: "grows (create_on_node k q req sts u p i)"
  unfolding create_on_node_def Let_def
  by (intro emits_seqc emits_cleanup grows_client grows_node_databases emits_GetVarValue) simp

lemma issues_worker:
  "issues {worker_call req sts u p i db}
     (seqc (Build q (WithDatabase (NewClientBuidler u p (node_host sts 0) PG_PORT)
              (GetDatabaseName (mwAppNamespace (mrSpec req)) (cdbName db)))) (\<lambda>cl.
      cleanup (AddWorkerNode q cl (node_host sts i) PG_PORT) (Close_client q cl) (\<lambda>_. Close_client q cl)))"
proof -
  let ?cb = "WithDatabase (NewClientBuidler u p (node_host sts 0) PG_PORT) (GetDatabaseName (mwAppNamespace (mrSpec req)) (cdbName db))"
  have "clDB (client_of ?cb) = DSN u p (node_host sts 0) PG_PORT (GetDatabaseName (mwAppNamespace (mrSpec req)) (cdbName db))"
    by (simp add: client_of_def WithDatabase_def NewClientBuidler_def)
  then have call: "worker_call req sts u p i db = Sql (NamedQuery (clDB (client_of ?cb))
      ''SELECT * from citus_add_node(:node_addr, :node_port);'' [(''node_addr'', node_host sts i), (''node_port'', Itoa PG_PORT)])"
    by (simp add: worker_call_def)
  show ?thesis
    unfolding call AddWorkerNode_def
    by (intro issues_known [OF returns_Build] issues_cleanup_first issues_first issues_NamedQuery emits_ret grows_client)
qed

lemma issues_addWorkerNode:
  assumes "\<And>s. fst (findClusterWorkloadAndAdminuserAndPassword k a s) = Val (sts, u, p)" "stsReplicas sts = Some n"
  shows "issues (\<Union>i \<in> set [1..<nat n]. worker_call req sts u p i `
      {db \<in> set (psqlDatabases (mwPostgreSQL (mrSpec req))). IsDistributed db}) (addWorkerNode k a q req)"
proof -
  have find: "returns (sts, u, p) (findClusterWorkloadAndAdminuserAndPassword k a)"
    by (rule returnsI) (metis assms(1) fst_conv res.inject(1))
  have idx: "returns [1..<nat n] (replica_indices 1 sts)"
    by (simp add: replica_indices_def assms(2) returns_ret)
  let ?dbs = "filter IsDistributed (psqlDatabases (mwPostgreSQL (mrSpec req)))"
  let ?body = "\<lambda>i db. seqc (Build q (WithDatabase (NewClientBuidler u p (node_host sts 0) PG_PORT)
              (GetDatabaseName (mwAppNamespace (mrSpec req)) (cdbName db)))) (\<lambda>cl.
      cleanup (AddWorkerNode q cl (node_host sts i) PG_PORT) (Close_client q cl) (\<lambda>_. Close_client q cl))"
  have grow: "grows (?body i db)" for i db
    by (intro emits_seqc emits_cleanup grows_client)
  have "issues (\<Union>i \<in> set [1..<nat n]. \<Union>db \<in> set ?dbs. {worker_call req sts u p i db})
      (forM [1..<nat n] (\<lambda>i. forM ?dbs (?body i)))"
    by (intro issues_forM issues_worker grow emits_forM)
  note forM = this
  have "issues (\<Union>i \<in> set [1..<nat n]. \<Union>db \<in> set ?dbs. {worker_call req sts u p i db}) (addWorkerNode k a q req)"
    unfolding addWorkerNode_def
    by (rule issues_known [OF find], unfold prod.case Let_def, rule issues_known [OF idx], rule forM)
  then show ?thesis by (rule issues_mono) auto
qed


lemmas pg_run_create = create_on_node_def CreateOrUpdateUser_pg_def node_database_def CreateDatabaseIfNotExists_def
  findDatabase_def SwitchDatabase_def WithDatabase_def NewClientBuidler_def CreateCitus_def SetMasterNode_def
  AddWorkerNode_def addWorkerNode_def cleanup_def GetVarValue_def Let_def


text \<open>The real name of a database is not unique: it is the application's namespace and the
  database joined with underscores in place of every dash, so two applications can own the
  same database, and deleting the request of one drops the data of the other.\<close>

lemma database_name_collision:
  "GetDatabaseName (n @ ''-'' @ m) d = GetDatabaseName n (m @ ''_'' @ d) \<and>
   n @ ''-'' @ m \<noteq> n \<and> CHR ''-'' \<notin> set (GetDatabaseName n d)"
  by (auto simp: GetDatabaseName_def ReplaceAll_def)

end
