(* ===== verification/Requests.thy ===== *)
theory Requests
  imports World
begin

text \<open>What the helpers of PostgreSQL and kvrocks share around backup and restore resources: to
  replace a resource by a fresh one, and to wait until all resources of a kind are complete.\<close>

text \<open>\<open>force_create\<close>: look the resource up, refuse while it is running, delete it and (for
  backups) wait until it is gone, whatever the outcome of the wait, then create the new one.\<close>

definition force_create :: "('w, 'r) prog \<Rightarrow> ('r \<Rightarrow> bool) \<Rightarrow> string \<Rightarrow> ('w, unit) prog \<Rightarrow> nat option \<Rightarrow>
    ('w, unit) prog \<Rightarrow> ('w, unit) prog" where
  "force_create get running duplicate del wait create =
     tryc get
       (\<lambda>current. if running current then fail (Failure duplicate)
          else seqc del (\<lambda>_.
            seqc (case wait of None \<Rightarrow> ret ()
                  | Some n \<Rightarrow> ignorec (poll n (tryc get (\<lambda>_. ret False)
                      (\<lambda>e. if IsNotFound e then ret True else fail e)))) (\<lambda>_.
            create)))
       (\<lambda>e. if IsNotFound e then create else fail e)"

text \<open>\<open>wait_all\<close>: each poll lists the resources; a running or waiting one makes the poll
  incomplete, failed ones are collected, and an error ends the wait at once.\<close>

datatype progress = Incomplete | Failed go_error | Other

definition wait_step :: "(go_error list \<Rightarrow> go_error) \<Rightarrow> ('w, 'r list) prog \<Rightarrow> ('r \<Rightarrow> progress) \<Rightarrow> ('w, bool) prog" where
  "wait_step newAggregate lst classify =
     tryc lst
       (\<lambda>items.
          let errs = List.map_filter (\<lambda>r. case classify r of Failed e \<Rightarrow> Some e | _ \<Rightarrow> None) items;
              incompleted = list_ex (\<lambda>r. classify r = Incomplete) items
          in if errs \<noteq> [] then fail (newAggregate errs) else ret (\<not> incompleted))
       (\<lambda>e. if IsNotFound e then ret False else fail e)"

definition wait_all :: "nat \<Rightarrow> (go_error list \<Rightarrow> go_error) \<Rightarrow> ('w, 'r list) prog \<Rightarrow> ('r \<Rightarrow> progress) \<Rightarrow> ('w, unit) prog" where
  "wait_all n newAggregate lst classify = poll n (wait_step newAggregate lst classify)"

definition backup_progress :: "(BackupState \<Rightarrow> string) \<Rightarrow> BackupState \<Rightarrow> progress" where
  "backup_progress msg st = (case st of
      BackupStateRunning \<Rightarrow> Incomplete
    | BackupStateWaiting \<Rightarrow> Incomplete
    | BackupStateRejected \<Rightarrow> Failed (Failure (msg st))
    | BackupStateError \<Rightarrow> Failed (Failure (msg st))
    | _ \<Rightarrow> Other)"

definition restore_progress :: "(RestoreState \<Rightarrow> string) \<Rightarrow> RestoreState \<Rightarrow> progress" where
  "restore_progress msg st = (case st of
      RestoreStateRunning \<Rightarrow> Incomplete
    | RestoreStateWaiting \<Rightarrow> Incomplete
    | RestoreStateRejected \<Rightarrow> Failed (Failure (msg st))
    | RestoreStateError \<Rightarrow> Failed (Failure (msg st))
    | _ \<Rightarrow> Other)"

definition failed_message :: "string \<Rightarrow> string \<Rightarrow> ObjectMeta \<Rightarrow> string" where
  "failed_message what err meta = what @ '' failed, '' @ err @ '', '' @ metaName meta @ '', '' @ metaNamespace meta"

section \<open>Lemmas\<close>

lemma emits_force_create:
  assumes "emits S get" "emits S del" "emits S create"
  shows "emits S (force_create get running duplicate del wait create)"
  unfolding force_create_def
  by (intro emits_tryc emits_if emits_seqc emits_fail assms emits_ret)
     (auto intro!: emits_ret emits_ignorec emits_poll emits_tryc emits_fail assms split: option.splits)

text \<open>A normal return of the wait means that the last listing had no failed and no incomplete
  resource; a listing that is complete and without failures ends the wait.\<close>

lemma wait_step_True:
  assumes "wait_step agg lst classify s = (Val True, s')"
  shows "\<exists>items. lst s = (Val items, s') \<and> (\<forall>r \<in> set items. classify r = Other)"
proof -
  obtain r0 s0 where l: "lst s = (r0, s0)" by (cases "lst s")
  show ?thesis
  proof (cases r0)
    case (Val items)
    have "List.map_filter (\<lambda>r. case classify r of Failed e \<Rightarrow> Some e | _ \<Rightarrow> None) items = []"
      "\<not> list_ex (\<lambda>r. classify r = Incomplete) items" "s' = s0"
      using assms l Val by (auto simp: wait_step_def tryc_def Let_def fail_def ret_def split: if_splits)
    then have "classify r = Other" if "r \<in> set items" for r
      using that by (cases "classify r") (auto simp: List.map_filter_def filter_empty_conv list_ex_iff split: progress.splits)
    then show ?thesis using l Val \<open>s' = s0\<close> by blast
  next
    case (Err e)
    then show ?thesis using assms l by (auto simp: wait_step_def tryc_def fail_def ret_def split: if_splits)
  qed (use assms l in \<open>auto simp: wait_step_def tryc_def\<close>)
qed

lemma poll_Val:
  "poll n cond s = (Val (), s') \<Longrightarrow> \<exists>s0. cond s0 = (Val True, s')"
proof (induction n arbitrary: s)
  case 0
  then show ?case by (simp add: fail_def)
next
  case (Suc n)
  then obtain b s0 where c: "cond s = (Val b, s0)" "(if b then ret () else poll n cond) s0 = (Val (), s')"
    using seqc_Val [of cond "\<lambda>done. if done then ret () else poll n cond" s "()" s'] Suc.prems by auto
  show ?case
  proof (cases b)
    case True
    then have "cond s = (Val True, s')" using c by (simp add: ret_def)
    then show ?thesis by blast
  next
    case False
    then show ?thesis using c(2) Suc.IH by simp
  qed
qed

lemma wait_all_sound:
  assumes "wait_all n agg lst classify s = (Val (), s')"
  shows "\<exists>s0 items. lst s0 = (Val items, s') \<and> (\<forall>r \<in> set items. classify r = Other)"
  using assms poll_Val wait_step_True unfolding wait_all_def by blast

text \<open>The wait ends: once a listing shows every resource complete, with polls left, it returns.\<close>

lemma wait_all_ends:
  assumes "0 < n" "lst s = (Val items, s0)" "\<forall>r \<in> set items. classify r = Other"
  shows "wait_all n agg lst classify s = (Val (), s0)"
proof -
  have "List.map_filter (\<lambda>r. case classify r of Failed e \<Rightarrow> Some e | _ \<Rightarrow> None) items = []"
    "\<not> list_ex (\<lambda>r. classify r = Incomplete) items"
    using assms(3) by (auto simp: List.map_filter_def list_ex_iff filter_empty_conv)
  then have "wait_step agg lst classify s = (Val True, s0)"
    using assms(2) by (simp add: wait_step_def tryc_def ret_def)
  then show ?thesis
    using assms(1) by (cases n) (simp_all add: wait_all_def seqc_def ret_def)
qed

end
