(* ===== verification/Kvrocks.thy ===== *)
theory Kvrocks
  imports Requests
begin

text \<open>The kvrocks helper of \<open>pkg/workload/kvrocks\<close>: the workload derived from a redix cluster, its
  creation, update and removal, backup and restore through the file system, and the
  namespace commands; and the handler of the redix cluster controller.\<close>

section \<open>Templates and constants (templates.go)\<close>

definition DefaultKVRocksName :: string where "DefaultKVRocksName = ''kvrocks''"
definition DefaultKVRocksImage :: string where "DefaultKVRocksImage = ''beclab/kvrocks:0.1.1''"
definition KVRocksVolumeName :: string where "KVRocksVolumeName = ''kvrdata''"
definition KVRocksBackupVolumeName :: string where "KVRocksBackupVolumeName = ''kvrbackup''"
definition KVRocksBackupDir :: string where "KVRocksBackupDir = ''/backup''"
definition KVRocksDataDir :: string where "KVRocksDataDir = ''/var/lib/kvrocks-data''"
definition KVRocksConfDir :: string where "KVRocksConfDir = ''/var/lib/kvrocks''"

definition kvrocks_init :: Container where
  "kvrocks_init = \<lparr>ctrName = ''init-kvrocks-cfg'', ctrImage = DefaultKVRocksImage, ctrImagePullPolicy = ''IfNotPresent'',
     ctrCommand = [''sh'', ''-c'', ''test -f '' @ KVRocksDataDir @ ''/kvrocks.conf || cp -f '' @ KVRocksConfDir @
       ''/kvrocks.conf '' @ KVRocksDataDir @ ''/kvrocks.conf''],
     ctrArgs = [], ctrEnv = [], ctrResources = [], ctrPorts = [], ctrRunAsUser = Some 0,
     ctrVolumeMounts = [\<lparr>vmName = KVRocksVolumeName, vmMountPath = KVRocksDataDir, vmSubPath = []\<rparr>]\<rparr>"

definition kvrocks_container :: Container where
  "kvrocks_container = \<lparr>ctrName = ''kvrocks'', ctrImage = DefaultKVRocksImage, ctrImagePullPolicy = ''IfNotPresent'',
     ctrCommand = [''kvrocks'', ''-c'', KVRocksDataDir @ ''/kvrocks.conf'', ''--dir'', KVRocksDataDir,
       ''--backup-dir'', KVRocksBackupDir, ''--pidfile'', ''/var/run/kvrocks/kvrocks.pid'', ''--bind'', ''0.0.0.0''],
     ctrArgs = [],
     ctrEnv = [\<lparr>envName = ''POD_NAME'', envValue = [], envValueFrom = None, envFieldRef = Some ''metadata.name''\<rparr>],
     ctrResources = [], ctrPorts = [6666], ctrRunAsUser = Some 0,
     ctrVolumeMounts = [\<lparr>vmName = KVRocksVolumeName, vmMountPath = KVRocksDataDir, vmSubPath = []\<rparr>,
       \<lparr>vmName = KVRocksBackupVolumeName, vmMountPath = KVRocksBackupDir, vmSubPath = []\<rparr>]\<rparr>"

definition KVRocksStatefulSet :: StatefulSet where
  "KVRocksStatefulSet = \<lparr>stsName = DefaultKVRocksName, stsNamespace = [],
     stsLabels = [(''managed-by'', ''kvrocks-operator'')], stsAnnotations = [],
     stsSelector = [(''app'', ''kvrocks''), (''app.kubernetes.io/name'', ''kvrocks'')],
     stsServiceName = [], stsReplicas = Some 1,
     stsPodLabels = [(''app'', ''kvrocks''), (''app.kubernetes.io/name'', ''kvrocks''),
       (''app.bytetrade.io/middleware'', ''true''), (''pod-template-version'', ''v1.1'')],
     stsInitContainers = [kvrocks_init],
     stsContainers = [kvrocks_container],
     stsVolumes = [\<lparr>volName = KVRocksVolumeName, volHostPath = Some []\<rparr>,
                   \<lparr>volName = KVRocksBackupVolumeName, volHostPath = Some []\<rparr>],
     stsPriorityClassName = []\<rparr>"

text \<open>The label that tells the versions of the template apart; a missing label reads as empty.\<close>

definition template_version :: "StatefulSet \<Rightarrow> string" where
  "template_version sts = (case lookup (stsPodLabels sts) ''pod-template-version'' of Some v \<Rightarrow> v | None \<Rightarrow> [])"

definition KVRocksService_Port :: nat where "KVRocksService_Port = 6379"

definition getServiceName :: "string \<Rightarrow> string" where
  "getServiceName _ = ''redis-cluster-proxy''"

section \<open>The workload (helper.go)\<close>

text \<open>The directory behind the volumes: the volume of the claim for the system user, and the
  annotated path of the user otherwise. A persistent volume without a host path panics.\<close>

definition data_path :: "'w k8s \<Rightarrow> string \<Rightarrow> string \<Rightarrow> string \<Rightarrow> ('w, string) prog" where
  "data_path k claim user namespace =
     (if user = ''system'' then
        seqc (call (K8s (GetPVC namespace claim)) (getPVC k namespace claim)) (\<lambda>volume.
        seqc (call (K8s (GetPV volume)) (getPV k volume)) (\<lambda>hostPath.
        case hostPath of None \<Rightarrow> panic ''nil HostPath'' | Some p \<Rightarrow> ret p))
      else GetUserDBPVCName k (''user-space-'' @ user))"

text \<open>Only the first container named \<open>kvrocks\<close> is changed (the loop breaks).\<close>

fun patch_container :: "KVRocksSpec \<Rightarrow> Container list \<Rightarrow> Container list" where
  "patch_container spec [] = []"
| "patch_container spec (c # cs) =
     (if ctrName c = ''kvrocks'' then
        (let c = (if kvImage spec \<noteq> [] then c\<lparr>ctrImage := kvImage spec\<rparr> else c);
             c = (if kvImagePullPolicy spec \<noteq> [] then c\<lparr>ctrImagePullPolicy := kvImagePullPolicy spec\<rparr> else c);
             c = (case kvResources spec of Some r \<Rightarrow> c\<lparr>ctrResources := r\<rparr> | None \<Rightarrow> c)
         in c # cs)
      else c # patch_container spec cs)"

definition patch_volume :: "string \<Rightarrow> KVRocksSpec \<Rightarrow> Volume \<Rightarrow> Volume" where
  "patch_volume pvc spec vol =
     (let vol = (if volName vol = KVRocksVolumeName then vol\<lparr>volHostPath := Some (pvc @ ''/kvrdata'')\<rparr> else vol)
      in if volName vol = KVRocksBackupVolumeName
         then vol\<lparr>volHostPath := Some (case kvBackupStorage spec of
                Some b \<Rightarrow> if b \<noteq> [] then b else pvc @ ''/kvrbackup'' | None \<Rightarrow> pvc @ ''/kvrbackup'')\<rparr>
         else vol)"

definition append_command :: "string list \<Rightarrow> StatefulSet \<Rightarrow> StatefulSet" where
  "append_command args sts = sts\<lparr>stsContainers := (case stsContainers sts of
      [] \<Rightarrow> [] | c # cs \<Rightarrow> c\<lparr>ctrCommand := ctrCommand c @ args\<rparr> # cs)\<rparr>"

definition GetKVRocksDefineByUser :: "'w k8s \<Rightarrow> string \<Rightarrow> string \<Rightarrow> RedixCluster \<Rightarrow> ('w, StatefulSet) prog" where
  "GetKVRocksDefineByUser k user namespace def =
     (if user = [] then fail (Failure ''user name is empty'')
      else if rxType (rxSpec def) \<noteq> KVRocks then fail (Failure ''wrong redix cluster type'')
      else seqc (data_path k ''kvrocks-data-pvc'' user namespace) (\<lambda>pvc.
        case rxKVRocks (rxSpec def) of None \<Rightarrow> panic ''nil KVRocks''
        | Some spec \<Rightarrow>
          let sts = KVRocksStatefulSet\<lparr>stsNamespace := namespace, stsName := metaName (rxMeta def)\<rparr>;
              sts = sts\<lparr>stsContainers := patch_container spec (stsContainers sts)\<rparr>;
              sts = sts\<lparr>stsVolumes := map (patch_volume pvc spec) (stsVolumes sts)\<rparr>;
              sts = append_command (concat (map (\<lambda>(k, v). [''--'' @ k, v]) (kvKVRocksConfig spec))) sts
          in seqc (GetVarValue k (kvPassword spec) (metaNamespace (rxMeta def))) (\<lambda>password.
             ret (if password \<noteq> [] then append_command [''--requirepass'', password] sts else sts))))"

definition StatefulSets_Create :: "'w k8s \<Rightarrow> StatefulSet \<Rightarrow> ('w, StatefulSet) prog" where
  "StatefulSets_Create k sts = call (K8s (CreateStatefulSet sts)) (createStatefulSet k sts)"

text \<open>\<open>clusterDef.Spec.KVRocks.Owner\<close>: a nil pointer panics.\<close>

definition kv_owner :: "RedixCluster \<Rightarrow> ('w, string) prog" where
  "kv_owner def = (case rxKVRocks (rxSpec def) of None \<Rightarrow> panic ''nil KVRocks'' | Some spec \<Rightarrow> ret (kvOwner spec))"

definition createKVRocks :: "'w k8s \<Rightarrow> RedixCluster \<Rightarrow> ('w, StatefulSet) prog" where
  "createKVRocks k def =
     (let ns = metaNamespace (rxMeta def); name = metaName (rxMeta def) in
      tryc (StatefulSets_Get k ns name) ret
        (\<lambda>err. if \<not> IsNotFound err then fail err
          else seqc (kv_owner def) (\<lambda>owner.
            seqc (GetKVRocksDefineByUser k owner ns def) (\<lambda>sts. StatefulSets_Create k sts))))"

definition createKVRocksService :: "'w k8s \<Rightarrow> string \<Rightarrow> string \<Rightarrow> ('w, unit) prog" where
  "createKVRocksService k clusterName namespace =
     (let svcName = getServiceName clusterName in
      tryc (call (K8s (GetService namespace svcName)) (getService k namespace svcName)) (\<lambda>_. ret ())
        (\<lambda>err. if \<not> IsNotFound err then fail err
          else call (K8s (CreateService namespace svcName)) (createService k namespace svcName)))"

text \<open>One poll of \<open>WaitForPodRunning\<close>, with the IP once the pod runs and its container is ready.\<close>

definition pod_step :: "'w k8s \<Rightarrow> string \<Rightarrow> string \<Rightarrow> string \<Rightarrow> bool \<Rightarrow> ('w, string option) prog" where
  "pod_step k container namespace podname tolerateNotFound =
     tryc (call (K8s (GetPod namespace podname)) (getPod k namespace podname))
       (\<lambda>pod. if podPhase pod \<noteq> ''Running'' then ret None
          else if (container, False) \<in> set (podContainerReady pod) then ret None
          else ret (Some (podIP pod)))
       (\<lambda>err. if tolerateNotFound \<and> IsNotFound err then ret None else fail err)"

fun poll_value :: "nat \<Rightarrow> ('w, 'a option) prog \<Rightarrow> ('w, 'a) prog" where
  "poll_value 0 step = fail ErrWaitTimeout"
| "poll_value (Suc n) step = seqc step (\<lambda>r. case r of Some v \<Rightarrow> ret v | None \<Rightarrow> poll_value n step)"

definition WaitForPodRunning_kv :: "nat \<Rightarrow> 'w k8s \<Rightarrow> string \<Rightarrow> string \<Rightarrow> ('w, string) prog" where
  "WaitForPodRunning_kv n k namespace podname = poll_value n (pod_step k ''kvrocks'' namespace podname True)"

text \<open>\<open>CreateOrUpdateKVRocks\<close>. The typed client returns an empty object next to a not-found
  error (\<open>zeroOnError\<close>), so the second \<open>if\<close> is entered after a creation too.\<close>

definition zero_sts :: StatefulSet where
  "zero_sts = \<lparr>stsName = [], stsNamespace = [], stsLabels = [], stsAnnotations = [], stsSelector = [], stsServiceName = [],
     stsReplicas = None, stsPodLabels = [], stsInitContainers = [], stsContainers = [], stsVolumes = [],
     stsPriorityClassName = []\<rparr>"

definition update_template :: "StatefulSet \<Rightarrow> StatefulSet \<Rightarrow> StatefulSet" where
  "update_template sts new = sts\<lparr>stsPodLabels := stsPodLabels new, stsInitContainers := stsInitContainers new,
     stsContainers := stsContainers new, stsVolumes := stsVolumes new, stsPriorityClassName := stsPriorityClassName new\<rparr>"

definition updateKVRocks :: "nat \<Rightarrow> 'w k8s \<Rightarrow> RedixCluster \<Rightarrow> ('w, StatefulSet) prog" where
  "updateKVRocks steps k def =
     (let ns = metaNamespace (rxMeta def); name = metaName (rxMeta def) in
      retryOnConflict steps
        (seqc (StatefulSets_Get k ns name) (\<lambda>sts.
         seqc (kv_owner def) (\<lambda>owner.
         seqc (GetKVRocksDefineByUser k owner ns def) (\<lambda>updateSts.
         let sts = update_template sts updateSts in
         call (K8s (UpdateStatefulSet sts)) (updateStatefulSet k sts))))))"

definition CreateOrUpdateKVRocks :: "bool \<Rightarrow> nat \<Rightarrow> 'w k8s \<Rightarrow> RedixCluster \<Rightarrow> bool \<Rightarrow> ('w, StatefulSet option) prog" where
  "CreateOrUpdateKVRocks zeroOnError steps k def isUpdated =
     (let ns = metaNamespace (rxMeta def); name = metaName (rxMeta def) in
      seqc (tryc (StatefulSets_Get k ns name) (\<lambda>sts. ret (None, Some sts))
             (\<lambda>err. if \<not> IsNotFound err then fail err
                else seqc (createKVRocks k def) (\<lambda>sts. ret (Some sts, if zeroOnError then Some zero_sts else None))))
        (\<lambda>(retSts, oldSts).
      seqc (case oldSts of
              None \<Rightarrow> ret retSts
            | Some old \<Rightarrow> if isUpdated \<or> template_version old \<noteq> template_version KVRocksStatefulSet
                then seqc (updateKVRocks steps k def) (\<lambda>sts. ret (Some sts))
                else ret (Some old)) (\<lambda>retSts.
      seqc (createKVRocksService k name ns) (\<lambda>_. ret retSts))))"

definition DeleteKVRocks :: "'w k8s \<Rightarrow> RedixCluster \<Rightarrow> ('w, unit) prog" where
  "DeleteKVRocks k def =
     (let ns = metaNamespace (rxMeta def); name = metaName (rxMeta def); svcName = getServiceName name in
      tryc (call (K8s (DeleteService ns svcName)) (deleteService k ns svcName))
        (\<lambda>_. call (K8s (DeleteStatefulSet ns name)) (deleteStatefulSet k ns name))
        (\<lambda>err. if \<not> IsNotFound err then fail err
           else call (K8s (DeleteStatefulSet ns name)) (deleteStatefulSet k ns name)))"

section \<open>Commands\<close>

record 'w redis_ops =
  redisPing :: "string \<Rightarrow> string \<Rightarrow> ('w, unit) op"
  redisDo :: "string list \<Rightarrow> ('w, string list) op"
  redisBgSave :: "('w, unit) op"
  redisConfigRewrite :: "('w, unit) op"
  redisClose :: "('w, unit) op"

definition Close_redis :: "'w redis_ops \<Rightarrow> ('w, unit) prog" where
  "Close_redis r = ignorec (call (Misc RedisClose) (redisClose r))"

definition GetKVRocksClient :: "'w k8s \<Rightarrow> 'w redis_ops \<Rightarrow> RedixCluster \<Rightarrow> ('w, unit) prog" where
  "GetKVRocksClient k r def = (case rxKVRocks (rxSpec def) of None \<Rightarrow> panic ''nil KVRocks''
     | Some spec \<Rightarrow>
       seqc (GetVarValue k (kvPassword spec) (metaNamespace (rxMeta def))) (\<lambda>password.
       let addr = getServiceName (metaName (rxMeta def)) @ '':'' @ Itoa KVRocksService_Port in
       tryc (call (Misc (RedisPing addr password)) (redisPing r addr password)) ret
         (\<lambda>err. seqc (Close_redis r) (\<lambda>_. fail (Failure (''kvrocks connection error: '' @ Error err))))))"

definition Namespace_cmd :: "'w redis_ops \<Rightarrow> string list \<Rightarrow> ('w, string list) prog" where
  "Namespace_cmd r arg = call (Misc (RedisDo (''namespace'' # arg))) (redisDo r (''namespace'' # arg))"

definition ConfigRewrite :: "'w redis_ops \<Rightarrow> ('w, unit) prog" where
  "ConfigRewrite r = call (Misc RedisConfigRewrite) (redisConfigRewrite r)"

definition AddNamespace :: "'w redis_ops \<Rightarrow> string \<Rightarrow> string \<Rightarrow> ('w, unit) prog" where
  "AddNamespace r namespace token = seqc (Namespace_cmd r [''add'', namespace, token]) (\<lambda>_. ConfigRewrite r)"

text \<open>\<open>GetNamespace\<close> stores the \<open>String\<close> of the command, a rendering that belongs to the client
  library (\<open>cmdString\<close>, of the arguments and the reply).\<close>

definition GetNamespace :: "(string list \<Rightarrow> string list \<Rightarrow> string) \<Rightarrow> 'w redis_ops \<Rightarrow> string \<Rightarrow>
    ('w, (string \<times> string) option) prog" where
  "GetNamespace cmdString r namespace =
     tryc (Namespace_cmd r [''get'', namespace])
       (\<lambda>reply. ret (Some (namespace, cmdString [''namespace'', ''get'', namespace] reply)))
       (\<lambda>err. if IsNotFound err then ret None else fail err)"

definition UpdateNamespace :: "'w redis_ops \<Rightarrow> string \<Rightarrow> string \<Rightarrow> ('w, unit) prog" where
  "UpdateNamespace r namespace token = seqc (Namespace_cmd r [''set'', namespace, token]) (\<lambda>_. ConfigRewrite r)"

definition DeleteNamespace :: "'w redis_ops \<Rightarrow> string \<Rightarrow> ('w, unit) prog" where
  "DeleteNamespace r namespace = seqc (Namespace_cmd r [''del'', namespace]) (\<lambda>_. ConfigRewrite r)"

text \<open>\<open>ListNamespace\<close>: the reply alternates names and tokens; the name \<open>__namespace\<close> is skipped,
  and a name without a token indexes past the end. \<open>redis.Nil\<close> is the not-found error.\<close>

fun namespace_pairs :: "string list \<Rightarrow> (string \<times> string) list res" where
  "namespace_pairs [] = Val []"
| "namespace_pairs [name] = (if name \<noteq> ''__namespace'' then Panic ''index out of range'' else Val [])"
| "namespace_pairs (name # token # rest) =
     bindR (namespace_pairs rest) (\<lambda>ns. Val (if name \<noteq> ''__namespace'' then (name, token) # ns else ns))"

definition ListNamespace :: "'w redis_ops \<Rightarrow> ('w, (string \<times> string) list) prog" where
  "ListNamespace r = tryc (Namespace_cmd r [''get'', ''*'']) (\<lambda>slice. lift (namespace_pairs slice))
     (\<lambda>err. if IsNotFound err then ret [] else fail err)"

section \<open>Backup and restore\<close>

definition backup_dir :: string where "backup_dir = KVRocksBackupDir @ ''/backup''"
definition db_dir :: string where "db_dir = KVRocksDataDir @ ''/db''"

definition Stat_fs :: "'w fs \<Rightarrow> string \<Rightarrow> ('w, bool) prog" where
  "Stat_fs fs p = call (Fs (Stat p)) (fsStat fs p)"

definition RemoveAll_fs :: "'w fs \<Rightarrow> string \<Rightarrow> ('w, unit) prog" where
  "RemoveAll_fs fs p = call (Fs (RemoveAll p)) (fsRemoveAll fs p)"

text \<open>\<open>BackupKVRocks\<close>: an old backup is removed first, then the save command is sent and the
  directory awaited (at most \<open>n\<close> polls). The path is written into the resource.\<close>

definition BackupKVRocks :: "nat \<Rightarrow> 'w k8s \<Rightarrow> 'w fs \<Rightarrow> 'w redis_ops \<Rightarrow> RedixCluster \<Rightarrow> KVRocksBackup \<Rightarrow>
    ('w, KVRocksBackup) prog" where
  "BackupKVRocks n k fs r def backup =
     (if kbClusterName (kbSpec backup) \<noteq> metaName (rxMeta def)
      then fail (Failure (''backup request is mismatch, '' @ kbClusterName (kbSpec backup) @ '' , '' @ metaName (rxMeta def)))
      else seqc (GetKVRocksClient k r def) (\<lambda>_.
        deferc
          (seqc (tryc (Stat_fs fs backup_dir)
                  (\<lambda>isDir. if isDir then RemoveAll_fs fs backup_dir
                     else call (Fs (RemoveFile backup_dir)) (fsRemove fs backup_dir))
                  (\<lambda>err. if \<not> IsNotFound err then fail err else ret ())) (\<lambda>_.
           seqc (tryc (call (Misc RedisBgSave) (redisBgSave r)) ret
                  (\<lambda>err. fail (Failure (''kvrocks backup error: '' @ Error err)))) (\<lambda>_.
           seqc (poll n (tryc (Stat_fs fs backup_dir) (\<lambda>_. ret True)
                  (\<lambda>err. if \<not> IsNotFound err then fail err else ret False))) (\<lambda>_.
           ret (backup\<lparr>kbStatus := (kbStatus backup)\<lparr>kbBackupPath := backup_dir\<rparr>\<rparr>)))))
          (Close_redis r)))"

definition scale_to :: "'w k8s \<Rightarrow> RedixCluster \<Rightarrow> int \<Rightarrow> ('w, Scale) prog" where
  "scale_to k def replicas =
     (let ns = metaNamespace (rxMeta def); name = metaName (rxMeta def) in
      seqc (call (K8s (GetScale ns name)) (getScale k ns name)) (\<lambda>sts.
      let sts = sts\<lparr>scReplicas := replicas\<rparr> in
      call (K8s (UpdateScale (scNamespace sts) (scName sts) replicas))
        (updateScale k (scNamespace sts) (scName sts) sts)))"

definition poll_pods :: "nat \<Rightarrow> 'w k8s \<Rightarrow> string \<Rightarrow> (Pod list \<Rightarrow> bool) \<Rightarrow> ('w, unit) prog" where
  "poll_pods n k namespace done = poll n
     (tryc (call (K8s (ListPods namespace ''app=kvrocks'')) (listPods k namespace ''app=kvrocks''))
        (\<lambda>pods. ret (done pods)) (\<lambda>_. ret False))"

text \<open>\<open>RestoreKVRocks\<close>: stop the workload, wait until its pods are gone, replace the database
  directory by the backup, start the workload again and wait for a pod.\<close>

definition RestoreKVRocks :: "nat \<Rightarrow> 'w k8s \<Rightarrow> 'w fs \<Rightarrow> RedixCluster \<Rightarrow> ('w, unit) prog" where
  "RestoreKVRocks n k fs def =
     seqc (Stat_fs fs backup_dir) (\<lambda>isDir.
     if \<not> isDir then fail (Failure ''invalid backup files'')
     else seqc (scale_to k def 0) (\<lambda>sts.
       seqc (poll_pods n k (scNamespace sts) (\<lambda>pods. length pods = 0)) (\<lambda>_.
       seqc (Stat_fs fs db_dir) (\<lambda>_.
       seqc (RemoveAll_fs fs db_dir) (\<lambda>_.
       seqc (call (Fs (Rename backup_dir db_dir)) (fsRename fs backup_dir db_dir)) (\<lambda>_.
       seqc (scale_to k def 1) (\<lambda>sts.
       poll_pods n k (scNamespace sts) (\<lambda>pods. length pods > 0))))))))"

section \<open>Requests\<close>

definition ForceCreateNewKVRocksBackup :: "nat \<Rightarrow> 'w kvapr \<Rightarrow> KVRocksBackup \<Rightarrow> ('w, unit) prog" where
  "ForceCreateNewKVRocksBackup n a backup =
     (let ns = metaNamespace (kbMeta backup); name = metaName (kbMeta backup);
          new = backup\<lparr>kbStatus := (kbStatus backup)\<lparr>kbState := BackupStateNew\<rparr>\<rparr> in
      force_create (call (Apr (GetKVBackup ns name)) (getKVBackup a ns name))
        (\<lambda>b. kbState (kbStatus b) = BackupStateRunning) ''duplicate kvrocks backup job''
        (call (Apr (DeleteKVBackup ns name)) (deleteKVBackup a ns name)) (Some n)
        (call (Apr (CreateKVBackup new)) (createKVBackup a new)))"

definition ForceCreateNewKVRocksRestore :: "'w kvapr \<Rightarrow> KVRocksRestore \<Rightarrow> ('w, unit) prog" where
  "ForceCreateNewKVRocksRestore a restore =
     (let ns = metaNamespace (krMeta restore); name = metaName (krMeta restore);
          new = restore\<lparr>krStatus := (krStatus restore)\<lparr>krState := RestoreStateNew\<rparr>\<rparr> in
      force_create (call (Apr (GetKVRestore ns name)) (getKVRestore a ns name))
        (\<lambda>r. krState (krStatus r) = RestoreStateRunning) ''duplicate restore job''
        (call (Apr (DeleteKVRestore ns name)) (deleteKVRestore a ns name)) None
        (call (Apr (CreateKVRestore new)) (createKVRestore a new)))"

definition WaitForAllBackupComplete_kv :: "nat \<Rightarrow> (go_error list \<Rightarrow> go_error) \<Rightarrow> 'w kvapr \<Rightarrow> ('w, unit) prog" where
  "WaitForAllBackupComplete_kv n agg a =
     wait_all n agg (call (Apr (ListKVBackups [])) (listKVBackups a []))
       (\<lambda>b. backup_progress (\<lambda>_. failed_message ''backup kvrocks'' (kbError (kbStatus b)) (kbMeta b)) (kbState (kbStatus b)))"

definition WaitForAllRestoreComplete_kv :: "nat \<Rightarrow> (go_error list \<Rightarrow> go_error) \<Rightarrow> 'w kvapr \<Rightarrow> ('w, unit) prog" where
  "WaitForAllRestoreComplete_kv n agg a =
     wait_all n agg (call (Apr (ListKVRestores [])) (listKVRestores a []))
       (\<lambda>r. restore_progress (\<lambda>_. failed_message ''restore kvrocks'' (krError (krStatus r)) (krMeta r)) (krState (krStatus r)))"

section \<open>The redix cluster controller (redixcluster/handler.go)\<close>

datatype Action = UNKNOWN | ADD | UPDATE | DELETE

definition redixcluster_handler :: "bool \<Rightarrow> nat \<Rightarrow> nat \<Rightarrow> 'w k8s \<Rightarrow> Action \<Rightarrow> RedixCluster \<Rightarrow> ('w, unit) prog" where
  "redixcluster_handler zeroOnError steps n k action cluster =
     (if rxType (rxSpec cluster) \<noteq> KVRocks then ret ()
      else case action of
        ADD \<Rightarrow> seqc (CreateOrUpdateKVRocks zeroOnError steps k cluster False) (\<lambda>sts.
          case sts of None \<Rightarrow> ret ()
          | Some sts \<Rightarrow> seqc (WaitForPodRunning_kv n k (stsNamespace sts) (stsName sts @ ''-0'')) (\<lambda>_. ret ()))
      | UPDATE \<Rightarrow> seqc (CreateOrUpdateKVRocks zeroOnError steps k cluster True) (\<lambda>_. ret ())
      | DELETE \<Rightarrow> DeleteKVRocks k cluster
      | UNKNOWN \<Rightarrow> ret ())"

end
