(* ===== verification/Backup_Jobs.thy ===== *)
theory Backup_Jobs
  imports Kvrocks Postgres
begin

text \<open>The four controllers of backup and restore resources: \<open>pgcluster-backup\<close>,
  \<open>pgcluster-restore\<close>, \<open>kvrocks-bakcup\<close> and \<open>kvrocks-restore\<close>. Each resource is a small state
  machine in its status; the PostgreSQL ones run a Kubernetes job, the kvrocks ones act
  themselves.\<close>

section \<open>Status updates\<close>

fun backup_finished :: "BackupState \<Rightarrow> bool" where
  "backup_finished BackupStateError = True"
| "backup_finished BackupStateRejected = True"
| "backup_finished BackupStateReady = True"
| "backup_finished _ = False"

fun restore_finished :: "RestoreState \<Rightarrow> bool" where
  "restore_finished RestoreStateError = True"
| "restore_finished RestoreStateRejected = True"
| "restore_finished RestoreStateReady = True"
| "restore_finished _ = False"

text \<open>The in-place part of each \<open>updateStatus\<close>: state, error message, and the time of completion
  or of the start.\<close>

definition pb_set :: "BackupState \<Rightarrow> go_error option \<Rightarrow> int \<Rightarrow> PGClusterBackup \<Rightarrow> PGClusterBackup" where
  "pb_set state errMsg now backup =
     (let st = (pbStatus backup)\<lparr>pbState := state\<rparr>;
          st = (case errMsg of Some e \<Rightarrow> st\<lparr>pbError := Error e\<rparr> | None \<Rightarrow> st);
          st = (if backup_finished state then st\<lparr>pbCompletedAt := Some now\<rparr>
                else if state = BackupStateRunning then st\<lparr>pbStartAt := Some now\<rparr> else st)
      in backup\<lparr>pbStatus := st\<rparr>)"

definition pr_set :: "RestoreState \<Rightarrow> go_error option \<Rightarrow> int \<Rightarrow> PGClusterRestore \<Rightarrow> PGClusterRestore" where
  "pr_set state errMsg now restore =
     (let st = (prStatus restore)\<lparr>prState := state\<rparr>;
          st = (case errMsg of Some e \<Rightarrow> st\<lparr>prError := Error e\<rparr> | None \<Rightarrow> st);
          st = (if restore_finished state then st\<lparr>prCompletedAt := Some now\<rparr>
                else if state = RestoreStateRunning then st\<lparr>prStartAt := Some now\<rparr> else st)
      in restore\<lparr>prStatus := st\<rparr>)"

definition kb_set :: "BackupState \<Rightarrow> go_error option \<Rightarrow> int \<Rightarrow> KVRocksBackup \<Rightarrow> KVRocksBackup" where
  "kb_set state errMsg now backup =
     (let st = (kbStatus backup)\<lparr>kbState := state\<rparr>;
          st = (case errMsg of Some e \<Rightarrow> st\<lparr>kbError := Error e\<rparr> | None \<Rightarrow> st);
          st = (if backup_finished state then st\<lparr>kbCompletedAt := Some now\<rparr>
                else if state = BackupStateRunning then st\<lparr>kbStartAt := Some now\<rparr> else st)
      in backup\<lparr>kbStatus := st\<rparr>)"

definition kr_set :: "RestoreState \<Rightarrow> go_error option \<Rightarrow> int \<Rightarrow> KVRocksRestore \<Rightarrow> KVRocksRestore" where
  "kr_set state errMsg now restore =
     (let st = (krStatus restore)\<lparr>krState := state\<rparr>;
          st = (case errMsg of Some e \<Rightarrow> st\<lparr>krError := Error e\<rparr> | None \<Rightarrow> st);
          st = (if restore_finished state then st\<lparr>krCompletedAt := Some now\<rparr>
                else if state = RestoreStateRunning then st\<lparr>krStartAt := Some now\<rparr> else st)
      in restore\<lparr>krStatus := st\<rparr>)"

definition Now :: "'w k8s \<Rightarrow> ('w, int) prog" where
  "Now k = call (K8s GetNow) (getNow k)"

definition updateStatus_pb :: "'w k8s \<Rightarrow> 'w apr \<Rightarrow> PGClusterBackup \<Rightarrow> BackupState \<Rightarrow> go_error option \<Rightarrow>
    ('w, PGClusterBackup) prog" where
  "updateStatus_pb k a backup state errMsg = seqc (Now k) (\<lambda>now.
     let b = pb_set state errMsg now backup in call (Apr (UpdatePGBackupStatus b)) (updatePGBackupStatus a b))"

definition updateStatus_pr :: "'w k8s \<Rightarrow> 'w apr \<Rightarrow> PGClusterRestore \<Rightarrow> RestoreState \<Rightarrow> go_error option \<Rightarrow>
    ('w, PGClusterRestore) prog" where
  "updateStatus_pr k a restore state errMsg = seqc (Now k) (\<lambda>now.
     let r = pr_set state errMsg now restore in call (Apr (UpdatePGRestoreStatus r)) (updatePGRestoreStatus a r))"

definition updateStatus_kb :: "'w k8s \<Rightarrow> 'w kvapr \<Rightarrow> KVRocksBackup \<Rightarrow> BackupState \<Rightarrow> go_error option \<Rightarrow>
    ('w, KVRocksBackup) prog" where
  "updateStatus_kb k a backup state errMsg = seqc (Now k) (\<lambda>now.
     let b = kb_set state errMsg now backup in call (Apr (UpdateKVBackupStatus b)) (updateKVBackupStatus a b))"

definition updateStatus_kr :: "'w k8s \<Rightarrow> 'w kvapr \<Rightarrow> KVRocksRestore \<Rightarrow> RestoreState \<Rightarrow> go_error option \<Rightarrow>
    ('w, KVRocksRestore) prog" where
  "updateStatus_kr k a restore state errMsg = seqc (Now k) (\<lambda>now.
     let r = kr_set state errMsg now restore in call (Apr (UpdateKVRestoreStatus r)) (updateKVRestoreStatus a r))"

section \<open>Jobs (citus/templates.go, pgcluster-backup, pgcluster-restore)\<close>


definition BackupJob :: Job where
  "BackupJob = \<lparr>jobName = ''pgc-backup-job'', jobNamespace = [], jobUID = [], jobTTLSeconds = 300, jobRestartPolicy = ''Never'',
     jobContainerName = ''backup'', jobImage = CitusImage, jobImagePullPolicy = ''IfNotPresent'',
     jobCommand = [''sh'', ''-c'', ''pg_dumpall -U ${PGUSER} -h ${PG_HOST} -p ${PG_PORT} -f ${BACKUP_FILENAME}''],
     jobEnv = [(''PG_HOST'', ''citus-0.citus-headless''), (''PG_PORT'', ''5432'')],
     jobVolumes = [], jobVolumeMounts = [], jobActive = 0, jobSucceeded = 0, jobFailed = 0\<rparr>"

definition RestoreJob :: Job where
  "RestoreJob = \<lparr>jobName = ''pgc-restore-job'', jobNamespace = [], jobUID = [], jobTTLSeconds = 300, jobRestartPolicy = ''Never'',
     jobContainerName = ''restore'', jobImage = CitusImage, jobImagePullPolicy = ''IfNotPresent'',
     jobCommand = [''sh'', ''-c'', ''psql -U ${PGUSER} -h ${PG_HOST} -p ${PG_PORT} -f ${BACKUP_FILENAME}''],
     jobEnv = [(''PG_HOST'', ''citus-0.citus-headless''), (''PG_PORT'', ''5432'')],
     jobVolumes = [], jobVolumeMounts = [], jobActive = 0, jobSucceeded = 0, jobFailed = 0\<rparr>"

definition Jobs_Get :: "'w k8s \<Rightarrow> string \<Rightarrow> string \<Rightarrow> ('w, Job) prog" where
  "Jobs_Get k ns name = call (K8s (GetJob ns name)) (getJob k ns name)"

definition Jobs_Create :: "'w k8s \<Rightarrow> Job \<Rightarrow> ('w, Job) prog" where
  "Jobs_Create k job = call (K8s (CreateJob job)) (createJob k job)"

definition Jobs_Delete :: "'w k8s \<Rightarrow> string \<Rightarrow> string \<Rightarrow> ('w, unit) prog" where
  "Jobs_Delete k ns name = call (K8s (DeleteJob ns name)) (deleteJob k ns name)"

text \<open>The administrator of the cluster that a job connects with; the secret is read in the
  namespace of the cluster, the password in that of the resource.\<close>

definition job_admin :: "'w k8s \<Rightarrow> 'w apr \<Rightarrow> string \<Rightarrow> string \<Rightarrow> ('w, string \<times> string) prog" where
  "job_admin k a namespace clusterName =
     seqc (PGClusters_Get a namespace clusterName) (\<lambda>cluster.
     seqc (default_admin k (metaNamespace (pgMeta cluster)) (pgSpec cluster)) (\<lambda>spec.
     seqc (GetVarValue k (pgPassword spec) namespace) (\<lambda>password.
     ret (pgAdminUser spec, password))))"

text \<open>One poll of \<open>waitForJobComplete\<close>.\<close>

definition job_step_pb :: "'w k8s \<Rightarrow> 'w apr \<Rightarrow> PGClusterBackup \<Rightarrow> Job \<Rightarrow> ('w, bool) prog" where
  "job_step_pb k a backup job = seqc (Jobs_Get k (jobNamespace job) (jobName job)) (\<lambda>j.
     if jobActive j > 0 then ret False
     else if jobActive j = 0 \<and> jobSucceeded j > 0 then
       seqc (updateStatus_pb k a backup BackupStateReady None) (\<lambda>_. ret True)
     else if jobActive j = 0 \<and> jobFailed j > 0 then
       seqc (updateStatus_pb k a backup BackupStateError (Some (Failure ''backup job failed''))) (\<lambda>_. ret True)
     else ret False)"

definition waitForJobComplete_pb :: "nat \<Rightarrow> 'w k8s \<Rightarrow> 'w apr \<Rightarrow> PGClusterBackup \<Rightarrow> Job \<Rightarrow> ('w, unit) prog" where
  "waitForJobComplete_pb n k a backup job = poll n (job_step_pb k a backup job)"

definition job_step_pr :: "'w k8s \<Rightarrow> 'w apr \<Rightarrow> PGClusterRestore \<Rightarrow> Job \<Rightarrow> ('w, bool) prog" where
  "job_step_pr k a restore job = seqc (Jobs_Get k (jobNamespace job) (jobName job)) (\<lambda>j.
     if jobActive j > 0 then ret False
     else if jobActive j = 0 \<and> jobSucceeded j > 0 then
       seqc (updateStatus_pr k a restore RestoreStateReady None) (\<lambda>_. ret True)
     else if jobActive j = 0 \<and> jobFailed j > 0 then
       seqc (updateStatus_pr k a restore RestoreStateError (Some (Failure ''restore job failed''))) (\<lambda>_. ret True)
     else ret False)"

definition waitForJobComplete_pr :: "nat \<Rightarrow> 'w k8s \<Rightarrow> 'w apr \<Rightarrow> PGClusterRestore \<Rightarrow> Job \<Rightarrow> ('w, unit) prog" where
  "waitForJobComplete_pr n k a restore job = poll n (job_step_pr k a restore job)"

text \<open>The watch goroutine, over the items its watch channels deliver in order (the end of the
  list is the cancelled context).\<close>

datatype watch_item =
    WatchError
  | ChanClosed
  | DeletedEvent "(string \<times> string) option"
  | OtherEvent

definition clean_pods :: "'w k8s \<Rightarrow> Job \<Rightarrow> ('w, unit) prog" where
  "clean_pods k job =
     tryc (call (K8s (ListPods (jobNamespace job) [])) (listPods k (jobNamespace job) []))
       (\<lambda>pods. forM pods (\<lambda>pod. forM (podOwnerUIDs pod) (\<lambda>uid.
          if uid = jobUID job
          then ignorec (call (K8s (DeletePod (podNamespace pod) (podName pod))) (deletePod k (podNamespace pod) (podName pod)))
          else ret ())))
       (\<lambda>_. ret ())"

fun watchJobDelete_pb :: "'w k8s \<Rightarrow> Job \<Rightarrow> watch_item list \<Rightarrow> ('w, unit) prog" where
  "watchJobDelete_pb k job [] = ret ()"
| "watchJobDelete_pb k job (WatchError # items) = ret ()"
| "watchJobDelete_pb k job (ChanClosed # items) = watchJobDelete_pb k job items"
| "watchJobDelete_pb k job (OtherEvent # items) = watchJobDelete_pb k job items"
| "watchJobDelete_pb k job (DeletedEvent None # items) = watchJobDelete_pb k job items"
| "watchJobDelete_pb k job (DeletedEvent (Some (name, namespace)) # items) =
     (if name \<noteq> jobName job \<or> namespace \<noteq> jobNamespace job then watchJobDelete_pb k job items
      else clean_pods k job)"

fun watchJobDelete_pr :: "'w k8s \<Rightarrow> Job \<Rightarrow> watch_item list \<Rightarrow> ('w, unit) prog" where
  "watchJobDelete_pr k job [] = ret ()"
| "watchJobDelete_pr k job (WatchError # items) = ret ()"
| "watchJobDelete_pr k job (ChanClosed # items) = watchJobDelete_pr k job items"
| "watchJobDelete_pr k job (OtherEvent # items) = watchJobDelete_pr k job items"
| "watchJobDelete_pr k job (DeletedEvent None # items) = watchJobDelete_pr k job items"
| "watchJobDelete_pr k job (DeletedEvent (Some (name, namespace)) # items) =
     (if name \<noteq> jobName job \<or> namespace \<noteq> jobNamespace job then watchJobDelete_pr k job items
      else clean_pods k job)"

section \<open>PostgreSQL backup (pgcluster-backup/handler.go)\<close>

definition pg_job_env :: "string \<Rightarrow> string \<Rightarrow> (string \<times> string) list" where
  "pg_job_env admin password = [(''PG_HOST'', ''citus-0.citus-headless''), (''PG_PORT'', ''5432''),
     (''PGUSER'', admin), (''PGPASSWORD'', password)]"

text \<open>The job and the resource with its path, when the resource names a volume; \<open>subPath\<close> is
  the formatted time of \<open>getBackupSubPath\<close>.\<close>

definition backup_job :: "string \<Rightarrow> string \<Rightarrow> string \<Rightarrow> PGClusterBackup \<Rightarrow> Job \<times> PGClusterBackup" where
  "backup_job subPath admin password backup =
     (let job = BackupJob\<lparr>jobNamespace := metaNamespace (pbMeta backup)\<rparr> in
      case pbVolumeSpec (pbSpec backup) of
        None \<Rightarrow> (job\<lparr>jobEnv := pg_job_env admin password\<rparr>, backup)
      | Some vol \<Rightarrow>
          (let volumeMountSubPath = ''backup/'' @ subPath; volumeMountPath = ''/'' @ volumeMountSubPath;
               backupFilePath = volumeMountPath @ ''/all.sql'' in
           (job\<lparr>jobVolumes := [vol\<lparr>volName := ''backup-data''\<rparr>],
                jobVolumeMounts := [\<lparr>vmName = ''backup-data'', vmMountPath = volumeMountPath, vmSubPath = volumeMountSubPath\<rparr>],
                jobEnv := pg_job_env admin password @ [(''BACKUP_FILENAME'', backupFilePath)]\<rparr>,
            backup\<lparr>pbStatus := (pbStatus backup)\<lparr>pbBackupPath := backupFilePath\<rparr>\<rparr>)))"

text \<open>The handler from the creation of the job on; the result is the job whose deletion is
  then watched.\<close>

definition start_backup :: "nat \<Rightarrow> 'w k8s \<Rightarrow> 'w apr \<Rightarrow> Job \<Rightarrow> PGClusterBackup \<Rightarrow> ('w, Job option) prog" where
  "start_backup n k a job backup =
     tryc (Jobs_Create k job)
       (\<lambda>_. seqc (updateStatus_pb k a backup BackupStateRunning None) (\<lambda>b.
            seqc (waitForJobComplete_pb n k a b job) (\<lambda>_. ret (Some job))))
       (\<lambda>err. seqc (ignorec (updateStatus_pb k a backup BackupStateError (Some err))) (\<lambda>_. fail err))"

text \<open>A running job of the same name rejects the request, a finished one is deleted and its end
  awaited (at most \<open>m\<close> polls). The rejected resource is the one before the path was set.\<close>

definition wait_job_deleted :: "nat \<Rightarrow> 'w k8s \<Rightarrow> Job \<Rightarrow> Job \<Rightarrow> ('w, unit) prog" where
  "wait_job_deleted m k job current =
     poll m (tryc (Jobs_Get k (jobNamespace job) (jobName current)) (\<lambda>_. ret False)
       (\<lambda>e. if IsNotFound e then ret True else fail e))"

definition admit_backup :: "nat \<Rightarrow> nat \<Rightarrow> 'w k8s \<Rightarrow> 'w apr \<Rightarrow> Job \<Rightarrow> PGClusterBackup \<Rightarrow> PGClusterBackup \<Rightarrow>
    ('w, Job option) prog" where
  "admit_backup m n k a job backup backup' =
     tryc (Jobs_Get k (jobNamespace job) (jobName job))
       (\<lambda>current.
          if jobActive current > 0 then
            seqc (updateStatus_pb k a backup BackupStateRejected (Some (Failure ''duplicate backup request''))) (\<lambda>_. ret None)
          else if jobSucceeded current > 0 \<or> jobFailed current > 0 then
            seqc (Jobs_Delete k (jobNamespace current) (jobName current)) (\<lambda>_.
            seqc (wait_job_deleted m k job current) (\<lambda>_.
            start_backup n k a job backup'))
          else start_backup n k a job backup')
       (\<lambda>err. if IsNotFound err then start_backup n k a job backup' else fail err)"

definition pgbackup_add :: "nat \<Rightarrow> nat \<Rightarrow> string \<Rightarrow> 'w k8s \<Rightarrow> 'w apr \<Rightarrow> PGClusterBackup \<Rightarrow> ('w, Job option) prog" where
  "pgbackup_add m n subPath k a backup =
     (if backup_finished (pbState (pbStatus backup)) then ret None
      else if pbClusterName (pbSpec backup) = [] then
        (let err = Failure ''pg backup cluster name is empty'' in
         seqc (ignorec (updateStatus_pb k a backup BackupStateError (Some err))) (\<lambda>_. fail err))
      else
        seqc (job_admin k a (metaNamespace (pbMeta backup)) (pbClusterName (pbSpec backup))) (\<lambda>(admin, password).
        let (job, backup') = backup_job subPath admin password backup in
        admit_backup m n k a job backup backup'))"

definition pgbackup_handler :: "nat \<Rightarrow> nat \<Rightarrow> string \<Rightarrow> 'w k8s \<Rightarrow> 'w apr \<Rightarrow> 'w fs \<Rightarrow> Action \<Rightarrow> PGClusterBackup \<Rightarrow>
    ('w, Job option) prog" where
  "pgbackup_handler m n subPath k a fs action backup = (case action of
      ADD \<Rightarrow> pgbackup_add m n subPath k a backup
    | DELETE \<Rightarrow> if pbBackupPath (pbStatus backup) \<noteq> []
        then seqc (RemoveAll_fs fs (pbBackupPath (pbStatus backup))) (\<lambda>_. ret None) else ret None
    | _ \<Rightarrow> ret None)"

section \<open>PostgreSQL restore (pgcluster-restore/handler.go)\<close>

definition restore_job :: "string \<Rightarrow> string \<Rightarrow> PGClusterRestore \<Rightarrow> PGClusterBackup \<Rightarrow> Job" where
  "restore_job admin password restore backup =
     (let job = RestoreJob\<lparr>jobNamespace := metaNamespace (prMeta restore),
            jobEnv := pg_job_env admin password @ [(''BACKUP_FILENAME'', ''/restore'' @ pbBackupPath (pbStatus backup))]\<rparr> in
      case pbVolumeSpec (pbSpec backup) of
        None \<Rightarrow> job
      | Some vol \<Rightarrow> job\<lparr>jobVolumes := [vol\<lparr>volName := ''backup-data''\<rparr>],
          jobVolumeMounts := [\<lparr>vmName = ''backup-data'', vmMountPath = ''/restore'', vmSubPath = []\<rparr>]\<rparr>)"

definition start_restore :: "nat \<Rightarrow> 'w k8s \<Rightarrow> 'w apr \<Rightarrow> Job \<Rightarrow> PGClusterRestore \<Rightarrow> ('w, Job option) prog" where
  "start_restore n k a job restore =
     tryc (Jobs_Create k job)
       (\<lambda>_. seqc (updateStatus_pr k a restore RestoreStateRunning None) (\<lambda>r.
            seqc (waitForJobComplete_pr n k a r job) (\<lambda>_. ret (Some job))))
       (\<lambda>err. seqc (ignorec (updateStatus_pr k a restore RestoreStateError (Some err))) (\<lambda>_. fail err))"

definition admit_restore :: "nat \<Rightarrow> 'w k8s \<Rightarrow> 'w apr \<Rightarrow> Job \<Rightarrow> PGClusterRestore \<Rightarrow> ('w, Job option) prog" where
  "admit_restore n k a job restore =
     tryc (Jobs_Get k (jobNamespace job) (jobName job))
       (\<lambda>current.
          if jobActive current > 0 then
            seqc (updateStatus_pr k a restore RestoreStateRejected (Some (Failure ''duplicate restore request''))) (\<lambda>_. ret None)
          else if jobSucceeded current > 0 \<or> jobFailed current > 0 then
            seqc (Jobs_Delete k (jobNamespace current) (jobName current)) (\<lambda>_. start_restore n k a job restore)
          else start_restore n k a job restore)
       (\<lambda>err. if IsNotFound err then start_restore n k a job restore else fail err)"

definition pgrestore_add :: "nat \<Rightarrow> 'w k8s \<Rightarrow> 'w apr \<Rightarrow> PGClusterRestore \<Rightarrow> ('w, Job option) prog" where
  "pgrestore_add n k a restore =
     (if restore_finished (prState (prStatus restore)) then ret None
      else if prClusterName (prSpec restore) = [] then
        (let err = Failure ''pg restore cluster name is empty'' in
         seqc (ignorec (updateStatus_pr k a restore RestoreStateError (Some err))) (\<lambda>_. fail err))
      else let ns = metaNamespace (prMeta restore) in
        seqc (job_admin k a ns (prClusterName (prSpec restore))) (\<lambda>(admin, password).
        seqc (call (Apr (GetPGBackup ns (prBackupName (prSpec restore)))) (getPGBackup a ns (prBackupName (prSpec restore)))) (\<lambda>backup.
        if pbState (pbStatus backup) \<noteq> BackupStateReady then fail (Failure ''cluster's backup is not ready for restore'')
        else if pbBackupPath (pbStatus backup) = [] then
          (let err = Failure ''cluster's backup file is empty'' in
           seqc (ignorec (updateStatus_pr k a restore RestoreStateRejected (Some err))) (\<lambda>_. fail err))
        else admit_restore n k a (restore_job admin password restore backup) restore)))"

definition pgrestore_handler :: "nat \<Rightarrow> 'w k8s \<Rightarrow> 'w apr \<Rightarrow> Action \<Rightarrow> PGClusterRestore \<Rightarrow> ('w, Job option) prog" where
  "pgrestore_handler n k a action restore = (case action of
      ADD \<Rightarrow> pgrestore_add n k a restore
    | _ \<Rightarrow> ret None)"

section \<open>kvrocks backup and restore\<close>

definition RedixClusters_Get :: "'w apr \<Rightarrow> string \<Rightarrow> string \<Rightarrow> ('w, RedixCluster) prog" where
  "RedixClusters_Get a ns name = call (Apr (GetRedixCluster ns name)) (getRedixCluster a ns name)"

definition kvbackup_handler :: "nat \<Rightarrow> 'w k8s \<Rightarrow> 'w apr \<Rightarrow> 'w kvapr \<Rightarrow> 'w fs \<Rightarrow> 'w redis_ops \<Rightarrow> Action \<Rightarrow>
    KVRocksBackup \<Rightarrow> ('w, unit) prog" where
  "kvbackup_handler n k a kv fs r action backup = (case action of
      ADD \<Rightarrow>
        if backup_finished (kbState (kbStatus backup)) then ret ()
        else if kbClusterName (kbSpec backup) = [] then
          (let err = Failure ''kvrocks backup cluster name is empty'' in
           seqc (ignorec (updateStatus_kb k kv backup BackupStateError (Some err))) (\<lambda>_. fail err))
        else seqc (RedixClusters_Get a (metaNamespace (kbMeta backup)) (kbClusterName (kbSpec backup))) (\<lambda>cluster.
          if rxType (rxSpec cluster) \<noteq> KVRocks then ret ()
          else seqc (updateStatus_kb k kv backup BackupStateRunning None) (\<lambda>backup.
            tryc (BackupKVRocks n k fs r cluster backup)
              (\<lambda>backup. ignorec (updateStatus_kb k kv backup BackupStateReady None))
              (\<lambda>err. seqc (ignorec (updateStatus_kb k kv backup BackupStateError None)) (\<lambda>_. fail err))))
    | DELETE \<Rightarrow> if kbBackupPath (kbStatus backup) \<noteq> []
        then ignorec (RemoveAll_fs fs (kbBackupPath (kbStatus backup))) else ret ()
    | _ \<Rightarrow> ret ())"

definition kvrestore_handler :: "nat \<Rightarrow> 'w k8s \<Rightarrow> 'w apr \<Rightarrow> 'w kvapr \<Rightarrow> 'w fs \<Rightarrow> Action \<Rightarrow>
    KVRocksRestore \<Rightarrow> ('w, unit) prog" where
  "kvrestore_handler n k a kv fs action restore = (case action of
      ADD \<Rightarrow>
        if restore_finished (krState (krStatus restore)) then ret ()
        else if krClusterName (krSpec restore) = [] then
          (let err = Failure ''kvrocks restore cluster name is empty'' in
           seqc (ignorec (updateStatus_kr k kv restore RestoreStateError (Some err))) (\<lambda>_. fail err))
        else seqc (RedixClusters_Get a (metaNamespace (krMeta restore)) (krClusterName (krSpec restore))) (\<lambda>cluster.
          if rxType (rxSpec cluster) \<noteq> KVRocks then ret ()
          else seqc (updateStatus_kr k kv restore RestoreStateRunning None) (\<lambda>restore.
            tryc (RestoreKVRocks n k fs cluster)
              (\<lambda>_. ignorec (updateStatus_kr k kv restore RestoreStateReady None))
              (\<lambda>err. seqc (ignorec (updateStatus_kr k kv restore RestoreStateError None)) (\<lambda>_. fail err))))
    | _ \<Rightarrow> ret ())"

end
