(* ===== verification/Kvrocks_Proofs.thy ===== *)
theory Kvrocks_Proofs
  imports Kvrocks
begin

text \<open>Properties of the kvrocks helper: the order in which a restore touches the workload and
  the database directory, what a backup leaves behind, and the replies of the namespace command.\<close>

section \<open>Restore\<close>

definition touches_db :: "call \<Rightarrow> bool" where
  "touches_db c = (case c of Fs (RemoveAll _) \<Rightarrow> True | Fs (Rename _ _) \<Rightarrow> True | _ \<Rightarrow> False)"

lemma touches_db_simps [simp]:
  "\<not> touches_db (K8s c)" "\<not> touches_db (Fs (Stat p))" "\<not> touches_db (Misc m)"
  by (simp_all add: touches_db_def)

lemma emits_scale_to:
  "(\<And>ns name. S (K8s (GetScale ns name))) \<Longrightarrow> (\<And>ns name. S (K8s (UpdateScale ns name r))) \<Longrightarrow>
   emits S (scale_to k def r)"
  unfolding scale_to_def Let_def by (auto intro!: emits_intros)

lemma emits_poll_pods:
  "S (K8s (ListPods ns ''app=kvrocks'')) \<Longrightarrow> emits S (poll_pods n k ns done)"
  unfolding poll_pods_def by (auto intro!: emits_intros)

text \<open>While the selector finds pods the wait for their end does not return normally.\<close>

lemma never_val_poll:
  assumes "\<And>s s'. cond s \<noteq> (Val True, s')"
  shows "never_val (poll n cond)"
proof (induction n)
  case 0
  then show ?case by simp
next
  case (Suc n)
  show ?case unfolding never_val_def
  proof (intro allI notI)
    fix s v
    assume "fst (poll (Suc n) cond s) = Val v"
    then obtain s' where "seqc cond (\<lambda>done. if done then ret () else poll n cond) s = (Val v, s')"
      by (metis poll.simps(2) prod.collapse)
    then obtain b s0 where c: "cond s = (Val b, s0)" "(if b then ret () else poll n cond) s0 = (Val v, s')"
      using seqc_Val by fast
    have "\<not> b" using assms [of s s0] c(1) by auto
    with c Suc show False unfolding never_val_def by (metis fst_conv)
  qed
qed

lemma never_val_pods_gone:
  assumes "\<And>w. fst (listPods k ns ''app=kvrocks'' w) \<noteq> Val []"
  shows "never_val (poll_pods n k ns (\<lambda>pods. length pods = 0))"
  unfolding poll_pods_def
proof (rule never_val_poll)
  fix s :: "(call, 'a) st" and s'
  obtain r w where l: "listPods k ns ''app=kvrocks'' (fst s) = (r, w)"
    by (cases "listPods k ns ''app=kvrocks'' (fst s)")
  with assms [of "fst s"] have "r \<noteq> Val []" by simp
  then show "tryc (call (K8s (ListPods ns ''app=kvrocks'')) (listPods k ns ''app=kvrocks''))
      (\<lambda>pods. ret (length pods = 0)) (\<lambda>_. ret False) s \<noteq> (Val True, s')"
    using l by (cases r) (auto simp: tryc_def call_def ret_def)
qed

text \<open>C17. The database directory is never touched while the workload still has pods: if no
  listing of the pods is ever empty, a restore neither removes nor renames anything, and it
  does not report success.\<close>

theorem RestoreKVRocks_waits_for_pods:
  assumes "\<And>ns w. fst (listPods k ns ''app=kvrocks'' w) \<noteq> Val []"
    and "RestoreKVRocks n k fs def s = (r, s')"
  shows "r \<noteq> Val () \<and> (\<exists>cs. snd s' = snd s @ cs \<and> (\<forall>c \<in> set cs. \<not> touches_db c))"
proof -
  let ?S = "\<lambda>c. \<not> touches_db c"
  have never: "never_val (poll_pods n k ns (\<lambda>pods. length pods = 0))" for ns
    by (rule never_val_pods_gone) (rule assms(1))
  have "emits ?S (RestoreKVRocks n k fs def)"
    unfolding RestoreKVRocks_def Stat_fs_def
    by (intro emits_seqc emits_call emits_if emits_fail emits_scale_to emits_seqc_never
        emits_poll_pods never) simp_all
  moreover have "never_val (RestoreKVRocks n k fs def)"
    unfolding RestoreKVRocks_def
    by (rule never_val_seqc, rule disjI2, intro allI, split if_split, intro conjI impI)
       (simp, rule never_val_seqc, rule disjI2, intro allI, rule never_val_seqc, rule disjI1, rule never)
  ultimately show ?thesis
    using assms(2) emitsD [of ?S "RestoreKVRocks n k fs def" s r s']
    by (metis (no_types, lifting) fst_conv list_all_iff never_val_def)
qed

definition stuck_pod :: Pod where
  "stuck_pod = \<lparr>podName = ''kvrocks-0'', podNamespace = ''os'', podOwnerUIDs = [''7''],
     podPhase = ''Running'', podContainerReady = [], podIP = []\<rparr>"

definition plain_redix :: RedixCluster where
  "plain_redix = \<lparr>rxMeta = plain_meta ''kvrocks'' ''os'', rxSpec = \<lparr>rxType = KVRocks, rxKVRocks = None\<rparr>\<rparr>"

definition busy_k8s :: "unit k8s" where
  "busy_k8s = idle_k8s\<lparr>listPods := (\<lambda>_. ok [stuck_pod]),
     getScale := (\<lambda>ns n w. (Val \<lparr>scName = n, scNamespace = ns, scReplicas = 1\<rparr>, w)),
     updateScale := (\<lambda>ns n sc w. (Val sc, w))\<rparr>"

theorem RestoreKVRocks_waits_for_pods_witness:
  "fst (RestoreKVRocks 2 busy_k8s (idle_fs\<lparr>fsStat := ok True\<rparr>) plain_redix ((), [])) \<noteq> Val ()"
proof -
  have pods: "\<And>ns w. fst (listPods busy_k8s ns ''app=kvrocks'' w) \<noteq> Val []"
    by (simp add: busy_k8s_def ok_def)
  obtain r s' where run: "RestoreKVRocks 2 busy_k8s (idle_fs\<lparr>fsStat := ok True\<rparr>) plain_redix ((), []) = (r, s')"
    by (cases "RestoreKVRocks 2 busy_k8s (idle_fs\<lparr>fsStat := ok True\<rparr>) plain_redix ((), [])")
  show ?thesis using RestoreKVRocks_waits_for_pods [OF pods run] run by simp
qed

text \<open>What a restore does to the workload and to the database directory, as events.\<close>

datatype restore_event = ScaleTo int | Removed string | Moved string string

fun restore_view :: "call \<Rightarrow> restore_event option" where
  "restore_view (K8s (UpdateScale ns name r)) = Some (ScaleTo r)"
| "restore_view (Fs (RemoveAll p)) = Some (Removed p)"
| "restore_view (Fs (Rename p q)) = Some (Moved p q)"
| "restore_view _ = None"

lemma performs_scale_to: "performs restore_view [ScaleTo r] (scale_to k def r)"
  unfolding scale_to_def Let_def
  by (intro performs_after performs_call emits_call) simp_all

text \<open>C18. A restore acts in one order, whatever the environment answers: it scales the workload to
  zero, removes the database directory, moves the backup into its place and scales the workload
  to one. A restore that reports success has done all four, any other restore the first few.\<close>

theorem RestoreKVRocks_order:
  assumes "RestoreKVRocks n k fs def s = (r, s')"
  shows "\<exists>cs. snd s' = snd s @ cs \<and>
    prefix (events restore_view cs) [ScaleTo 0, Removed db_dir, Moved backup_dir db_dir, ScaleTo 1] \<and>
    (r = Val () \<longrightarrow> events restore_view cs = [ScaleTo 0, Removed db_dir, Moved backup_dir db_dir, ScaleTo 1])"
proof -
  let ?es = "[Removed db_dir, Moved backup_dir db_dir, ScaleTo 1]"
  have up: "performs restore_view [ScaleTo 1]
      (seqc (scale_to k def 1) (\<lambda>sts. poll_pods n k (scNamespace sts) (\<lambda>pods. length pods > 0)))"
    using performs_seqc [OF performs_scale_to performs_silent [OF emits_poll_pods]] by fastforce
  have swap: "performs restore_view ?es
      (seqc (poll_pods n k ns (\<lambda>pods. length pods = 0)) (\<lambda>_. seqc (Stat_fs fs db_dir) (\<lambda>_.
       seqc (RemoveAll_fs fs db_dir) (\<lambda>_. seqc (call (Fs (Rename backup_dir db_dir)) (fsRename fs backup_dir db_dir)) (\<lambda>_.
       seqc (scale_to k def 1) (\<lambda>sts. poll_pods n k (scNamespace sts) (\<lambda>pods. length pods > 0)))))))" for ns
    unfolding Stat_fs_def RemoveAll_fs_def
    by (intro performs_after performs_next emits_poll_pods emits_call up) simp_all
  have "performs restore_view (ScaleTo 0 # ?es) (RestoreKVRocks n k fs def)"
    unfolding RestoreKVRocks_def Stat_fs_def [of fs backup_dir]
    by (rule performs_after, rule emits_call, simp)
       (simp add: performs_fail performs_seqc [OF performs_scale_to swap, simplified])
  from performsD [OF this assms] show ?thesis by auto
qed

theorem RestoreKVRocks_order_witness:
  "\<exists>cs. prefix (events restore_view cs) [ScaleTo 0, Removed db_dir, Moved backup_dir db_dir, ScaleTo 1]
     \<and> snd (snd (RestoreKVRocks 1 busy_k8s idle_fs plain_redix ((), []))) = cs"
  using RestoreKVRocks_order [of 1 busy_k8s idle_fs plain_redix "((), [])"]
  by (cases "RestoreKVRocks 1 busy_k8s idle_fs plain_redix ((), [])") auto

section \<open>Backup\<close>

text \<open>A deferred call ends the list of calls.\<close>

lemma traces_deferc_call:
  assumes "traces T m" "\<And>r cs. T r cs \<Longrightarrow> U r (cs @ [c])" "\<And>cs. T Looping cs \<Longrightarrow> U Looping cs"
  shows "traces U (deferc m (ignorec (call c f)))"
proof (rule tracesI)
  fix s r s'
  assume run: "deferc m (ignorec (call c f)) s = (r, s')"
  obtain r0 s0 where m: "m s = (r0, s0)" by (cases "m s")
  obtain r1 w1 where d: "f (fst s0) = (r1, w1)" by (cases "f (fst s0)")
  have "r = r0" "if r = Looping then s' = s0 else snd s' = snd s0 @ [c]"
    using run m d by (auto simp: deferc_def ignorec_def tryc_def call_def ret_def split: res.splits prod.splits)
  with tracesD [OF assms(1) m] assms(2,3) show "\<exists>cs. snd s' = snd s @ cs \<and> U r cs" by (auto split: if_splits)
qed

definition ended :: "'a res \<Rightarrow> bool" where
  "ended r = (case r of Val _ \<Rightarrow> True | Err _ \<Rightarrow> True | _ \<Rightarrow> False)"

lemma ended_simps [simp]: "ended (Val x)" "ended (Err e)" "\<not> ended (Panic p)" "\<not> ended Looping"
  by (simp_all add: ended_def)

definition pinged :: "call list \<Rightarrow> bool" where
  "pinged cs = list_ex (\<lambda>c. case c of Misc (RedisPing _ _) \<Rightarrow> True | _ \<Rightarrow> False) cs"

lemma pinged_simps [simp]:
  "\<not> pinged []" "pinged (cs @ ds) \<longleftrightarrow> pinged cs \<or> pinged ds" "pinged [Misc (RedisPing a p)]"
  by (simp_all add: pinged_def)

lemma traces_silent:
  "emits S m \<Longrightarrow> (\<And>r cs. list_all S cs \<Longrightarrow> T r cs) \<Longrightarrow> traces T m"
  unfolding traces_emits by (erule traces_mono) simp

text \<open>A failed ping closes the client again.\<close>

lemma traces_GetKVRocksClient:
  "traces (\<lambda>r cs. ended r \<and> pinged cs \<longrightarrow> (\<exists>x. r = Val x) \<or> (\<exists>ds. cs = ds @ [Misc RedisClose]))
     (GetKVRocksClient k r def)"
proof (cases "rxKVRocks (rxSpec def)")
  case None
  then show ?thesis by (simp add: GetKVRocksClient_def traces_panic)
next
  case (Some spec)
  let ?ns = "metaNamespace (rxMeta def)"
  have secret: "traces (\<lambda>_ cs. \<not> pinged cs) (GetVarValue k (kvPassword spec) ?ns)"
    by (rule traces_silent [OF emits_GetVarValue [of "\<lambda>c. \<not> pinged [c]"]])
       (auto simp: pinged_def list_ex_iff list_all_iff)
  have close: "traces (\<lambda>_ cs. cs = [Misc RedisClose]) (Close_redis r)"
    by (auto intro!: tracesI simp: Close_redis_def ignorec_def tryc_def call_def ret_def split: res.splits prod.splits)
  show ?thesis
    unfolding GetKVRocksClient_def Some option.case Let_def
  proof (rule traces_seqc [OF secret])
    fix pw cs
    assume "\<not> pinged cs"
    show "traces (\<lambda>r ds. ended r \<and> pinged (cs @ ds) \<longrightarrow> (\<exists>x. r = Val x) \<or> (\<exists>es. cs @ ds = es @ [Misc RedisClose]))
      (tryc (call (Misc (RedisPing (getServiceName (metaName (rxMeta def)) @ '':'' @ Itoa KVRocksService_Port) pw))
         (redisPing r (getServiceName (metaName (rxMeta def)) @ '':'' @ Itoa KVRocksService_Port) pw)) ret
       (\<lambda>err. seqc (Close_redis r) (\<lambda>_. fail (Failure (''kvrocks connection error: '' @ Error err)))))"
      by (rule traces_tryc [where T = "\<lambda>_ _. True"], rule traces_call)
         (auto intro!: traces_ret traces_seqc [OF close] traces_fail)
  qed auto
qed

lemma BackupKVRocks_result:
  assumes "BackupKVRocks n k fs r def backup s = (res, s')"
  shows "\<exists>cs. snd s' = snd s @ cs \<and>
    (ended res \<and> pinged cs \<longrightarrow> (\<exists>ds. cs = ds @ [Misc RedisClose])) \<and>
    (\<forall>b. res = Val b \<longrightarrow> Misc RedisBgSave \<in> set cs \<and>
       b = backup\<lparr>kbStatus := (kbStatus backup)\<lparr>kbBackupPath := backup_dir\<rparr>\<rparr>)"
proof -
  let ?b = "backup\<lparr>kbStatus := (kbStatus backup)\<lparr>kbBackupPath := backup_dir\<rparr>\<rparr>"
  let ?U = "\<lambda>res cs. (ended res \<and> pinged cs \<longrightarrow> (\<exists>ds. cs = ds @ [Misc RedisClose])) \<and>
      (\<forall>b. res = Val b \<longrightarrow> Misc RedisBgSave \<in> set cs \<and> b = ?b)"
  let ?save = "tryc (call (Misc RedisBgSave) (redisBgSave r)) ret
      (\<lambda>err. fail (Failure (''kvrocks backup error: '' @ Error err)))"
  have any: "traces (\<lambda>_ _. True) m" if "grows m" for m :: "('a, 'x) prog"
    using that unfolding traces_emits by (rule traces_mono) simp
  have save: "traces (\<lambda>_ cs. Misc RedisBgSave \<in> set cs) ?save"
    by (rule traces_tryc [where T = "\<lambda>_ cs. cs = [Misc RedisBgSave]"], rule traces_call)
       (auto intro!: traces_ret traces_fail)
  have body: "traces (\<lambda>res cs. \<forall>b. res = Val b \<longrightarrow> Misc RedisBgSave \<in> set cs \<and> b = ?b)
      (seqc m (\<lambda>_. seqc ?save (\<lambda>_. seqc p (\<lambda>_. ret ?b))))"
    if "grows m" "grows p" for m p :: "('a, unit) prog"
    by (rule traces_seqc [OF any [OF that(1)]], rule traces_seqc [OF save], rule traces_seqc [OF any [OF that(2)]])
       (auto intro!: traces_ret)
  have "traces ?U (BackupKVRocks n k fs r def backup)"
  proof (cases "kbClusterName (kbSpec backup) \<noteq> metaName (rxMeta def)")
    case True
    then show ?thesis by (simp add: BackupKVRocks_def traces_fail)
  next
    case False
    show ?thesis
      unfolding BackupKVRocks_def if_not_P [OF False] Close_redis_def
      by (rule traces_seqc [OF traces_GetKVRocksClient],
          rule traces_deferc_call, rule body)
         (auto intro!: emits_intros simp: Stat_fs_def RemoveAll_fs_def)
  qed
  from tracesD [OF this assms] show ?thesis by blast
qed

text \<open>A backup never leaks its connection: every run that reached the server and came to an
  end, in success or in an error, has closed the connection as its last call. A backup that
  succeeds has sent the save command and returns the resource with nothing but the path changed.\<close>

lemma BackupKVRocks_closes:
  assumes "BackupKVRocks n k fs r def backup s = (res, s')"
  shows "\<exists>cs. snd s' = snd s @ cs \<and>
    (ended res \<and> pinged cs \<longrightarrow> (\<exists>ds. cs = ds @ [Misc RedisClose])) \<and>
    (\<forall>b. res = Val b \<longrightarrow> Misc RedisBgSave \<in> set cs \<and>
       b = backup\<lparr>kbStatus := (kbStatus backup)\<lparr>kbBackupPath := backup_dir\<rparr>\<rparr>)"
  using BackupKVRocks_result [OF assms] .

definition plain_kb :: KVRocksBackup where
  "plain_kb = \<lparr>kbMeta = plain_meta ''b'' ''os'', kbSpec = \<lparr>kbClusterName = ''kvrocks''\<rparr>,
     kbStatus = \<lparr>kbState = BackupStateNew, kbStartAt = None, kbCompletedAt = None, kbError = [], kbBackupPath = []\<rparr>\<rparr>"

definition plain_redis :: "unit redis_ops" where
  "plain_redis = \<lparr>redisPing = (\<lambda>a. ok ()), redisDo = ok [], redisBgSave = (\<lambda>w. (Val (), w)),
     redisConfigRewrite = (\<lambda>w. (Val (), w)), redisClose = (\<lambda>w. (Val (), w))\<rparr>"

definition kv_cluster :: RedixCluster where
  "kv_cluster = plain_redix\<lparr>rxSpec := \<lparr>rxType = KVRocks, rxKVRocks = Some \<lparr>kvPassword = plain_password, kvOwner = ''system'',
     kvBackupStorage = None, kvImage = [], kvImagePullPolicy = [], kvResources = None, kvKVRocksConfig = []\<rparr>\<rparr>\<rparr>"

lemmas kv_plain_defs = plain_redix_def kv_cluster_def plain_kb_def plain_redis_def

lemma BackupKVRocks_closes_witness:
  "\<exists>cs. snd (BackupKVRocks 1 idle_k8s (idle_fs\<lparr>fsStat := ok True\<rparr>) plain_redis kv_cluster plain_kb ((), []))
     = ((), cs @ [Misc RedisClose])"
proof -
  obtain res s' where run: "BackupKVRocks 1 idle_k8s (idle_fs\<lparr>fsStat := ok True\<rparr>) plain_redis kv_cluster plain_kb ((), [])
      = (res, s')" by (rule prod.exhaust)
  have "res = Val (plain_kb\<lparr>kbStatus := (kbStatus plain_kb)\<lparr>kbBackupPath := backup_dir\<rparr>\<rparr>)" "pinged (snd s')"
    using run by (auto simp: BackupKVRocks_def GetKVRocksClient_def GetVarValue_def Let_def Stat_fs_def
        RemoveAll_fs_def Close_redis_def ignorec_def deferc_def seqc_def tryc_def call_def ret_def
        kv_plain_defs plain_defs idle_defs pinged_def)
  then show ?thesis using BackupKVRocks_closes [OF run] run by (cases s') auto
qed

section \<open>The workload definition\<close>

definition reads_only :: "call \<Rightarrow> bool" where
  "reads_only c = (case c of K8s (GetSecret _ _) \<Rightarrow> True | K8s (GetStatefulSet _ _) \<Rightarrow> True
     | K8s (GetPVC _ _) \<Rightarrow> True | K8s (GetPV _) \<Rightarrow> True | K8s (GetService _ _) \<Rightarrow> True | _ \<Rightarrow> False)"

lemma reads_only_simps [simp]:
  "reads_only (K8s (GetSecret a b))" "reads_only (K8s (GetStatefulSet a b))" "reads_only (K8s (GetPVC a b))"
  "reads_only (K8s (GetPV a))" "reads_only (K8s (GetService a b))"
  by (simp_all add: reads_only_def)

lemma emits_data_path: "emits reads_only (data_path k claim user ns)"
  unfolding data_path_def GetUserDBPVCName_def StatefulSets_Get_def
  by (auto intro!: emits_intros split: option.splits)

definition command_of :: "KVRocksSpec \<Rightarrow> string \<Rightarrow> string list" where
  "command_of spec pw = concat (map ctrCommand (stsContainers KVRocksStatefulSet)) @
     concat (map (\<lambda>(k, v). [''--'' @ k, v]) (kvKVRocksConfig spec)) @
     (if pw \<noteq> [] then [''--requirepass'', pw] else [])"

lemma patch_kvrocks_container:
  obtains c where "patch_container spec [kvrocks_container] = [c]" "ctrCommand c = ctrCommand kvrocks_container"
    "ctrImage c = (if kvImage spec \<noteq> [] then kvImage spec else DefaultKVRocksImage)"
  by (cases "kvResources spec") (auto simp: kvrocks_container_def Let_def)

text \<open>The workload that is derived from a redix cluster: only for a cluster of type kvrocks
  with an owner; it has the name of the cluster in the given namespace, the image of the
  resource or else the default, the data and the backup directory under the path of the owner
  (the backup directory of the resource wins), and one container whose command is that of the
  template, the configured flags in order, and the password when there is one. Deriving it
  changes nothing.\<close>

lemma GetKVRocksDefineByUser_spec:
  assumes "GetKVRocksDefineByUser k user ns def s = (Val sts, s')"
  shows "user \<noteq> [] \<and> rxType (rxSpec def) = KVRocks \<and>
    (\<exists>spec path pw. rxKVRocks (rxSpec def) = Some spec \<and>
       stsName sts = metaName (rxMeta def) \<and> stsNamespace sts = ns \<and> stsReplicas sts = Some 1 \<and>
       map ctrCommand (stsContainers sts) = [command_of spec pw] \<and>
       map ctrImage (stsContainers sts) = [if kvImage spec \<noteq> [] then kvImage spec else DefaultKVRocksImage] \<and>
       map volHostPath (stsVolumes sts) = [Some (path @ ''/kvrdata''),
         Some (case kvBackupStorage spec of Some b \<Rightarrow> if b \<noteq> [] then b else path @ ''/kvrbackup''
               | None \<Rightarrow> path @ ''/kvrbackup'')]) \<and>
    (\<exists>cs. snd s' = snd s @ cs \<and> list_all reads_only cs)"
proof -
  have emits: "emits reads_only (GetKVRocksDefineByUser k user ns def)"
    unfolding GetKVRocksDefineByUser_def Let_def
    by (auto intro!: emits_intros emits_data_path split: option.splits)
  have guards: "user \<noteq> []" "rxType (rxSpec def) = KVRocks"
    using assms by (auto simp: GetKVRocksDefineByUser_def fail_def split: if_splits)
  obtain path s0 where path: "data_path k ''kvrocks-data-pvc'' user ns s = (Val path, s0)"
    and rest: "(case rxKVRocks (rxSpec def) of None \<Rightarrow> panic ''nil KVRocks''
        | Some spec \<Rightarrow>
          let sts = KVRocksStatefulSet\<lparr>stsNamespace := ns, stsName := metaName (rxMeta def)\<rparr>;
              sts = sts\<lparr>stsContainers := patch_container spec (stsContainers sts)\<rparr>;
              sts = sts\<lparr>stsVolumes := map (patch_volume path spec) (stsVolumes sts)\<rparr>;
              sts = append_command (concat (map (\<lambda>(k, v). [''--'' @ k, v]) (kvKVRocksConfig spec))) sts
          in seqc (GetVarValue k (kvPassword spec) (metaNamespace (rxMeta def))) (\<lambda>password.
             ret (if password \<noteq> [] then append_command [''--requirepass'', password] sts else sts))) s0 = (Val sts, s')"
    using assms guards seqc_Val unfolding GetKVRocksDefineByUser_def by fastforce
  then obtain spec where spec: "rxKVRocks (rxSpec def) = Some spec"
    by (cases "rxKVRocks (rxSpec def)") (auto simp: panic_def)
  let ?sts = "append_command (concat (map (\<lambda>(k, v). [''--'' @ k, v]) (kvKVRocksConfig spec)))
     (KVRocksStatefulSet\<lparr>stsNamespace := ns, stsName := metaName (rxMeta def),
        stsContainers := patch_container spec (stsContainers KVRocksStatefulSet),
        stsVolumes := map (patch_volume path spec) (stsVolumes KVRocksStatefulSet)\<rparr>)"
  have "seqc (GetVarValue k (kvPassword spec) (metaNamespace (rxMeta def))) (\<lambda>password.
      ret (if password \<noteq> [] then append_command [''--requirepass'', password] ?sts else ?sts)) s0 = (Val sts, s')"
    using rest spec by (simp add: Let_def cong: if_cong)
  then obtain pw s1 where "ret (if pw \<noteq> [] then append_command [''--requirepass'', pw] ?sts else ?sts) s1 = (Val sts, s')"
    using seqc_Val by fast
  then have sts: "sts = (if pw \<noteq> [] then append_command [''--requirepass'', pw] ?sts else ?sts)"
    by (simp add: ret_def)
  obtain c where c: "patch_container spec [kvrocks_container] = [c]" "ctrCommand c = ctrCommand kvrocks_container"
    "ctrImage c = (if kvImage spec \<noteq> [] then kvImage spec else DefaultKVRocksImage)"
    by (rule patch_kvrocks_container)
  have "stsName sts = metaName (rxMeta def)" "stsNamespace sts = ns" "stsReplicas sts = Some 1"
    "map ctrCommand (stsContainers sts) = [command_of spec pw]"
    "map ctrImage (stsContainers sts) = [if kvImage spec \<noteq> [] then kvImage spec else DefaultKVRocksImage]"
    "map volHostPath (stsVolumes sts) = [Some (path @ ''/kvrdata''),
         Some (case kvBackupStorage spec of Some b \<Rightarrow> if b \<noteq> [] then b else path @ ''/kvrbackup''
               | None \<Rightarrow> path @ ''/kvrbackup'')]"
    unfolding sts by (simp_all add: append_command_def KVRocksStatefulSet_def c command_of_def patch_volume_def
        KVRocksVolumeName_def KVRocksBackupVolumeName_def Let_def del: patch_container.simps)
  with guards spec emitsD [OF emits assms] show ?thesis
    by (intro conjI exI [of _ spec] exI [of _ path] exI [of _ pw]) assumption+
qed

lemma GetKVRocksDefineByUser_spec_witness:
  "\<exists>sts s'. GetKVRocksDefineByUser (idle_k8s\<lparr>getPVC := (\<lambda>_. ok ''pv''), getPV := ok (Some ''/data'')\<rparr>) ''system'' ''os''
     kv_cluster ((), []) = (Val sts, s') \<and> stsName sts = ''kvrocks''"
proof -
  let ?k = "idle_k8s\<lparr>getPVC := (\<lambda>_. ok ''pv''), getPV := ok (Some ''/data'')\<rparr>"
  have "\<exists>sts s'. GetKVRocksDefineByUser ?k ''system'' ''os'' kv_cluster ((), []) = (Val sts, s')"
    by (simp add: GetKVRocksDefineByUser_def data_path_def GetVarValue_def Let_def seqc_def call_def ret_def
        kv_plain_defs plain_defs ok_def)
  then obtain sts s' where run: "GetKVRocksDefineByUser ?k ''system'' ''os'' kv_cluster ((), []) = (Val sts, s')"
    by blast
  from GetKVRocksDefineByUser_spec [OF run] have "stsName sts = ''kvrocks''"
    by (auto simp: kv_cluster_def plain_redix_def plain_meta_def)
  with run show ?thesis by blast
qed

text \<open>C21. Reconciling a kvrocks cluster whose workload already has the current template and whose
  service exists reads both and changes nothing.\<close>

theorem CreateOrUpdateKVRocks_idempotent:
  assumes "getStatefulSet k (metaNamespace (rxMeta def)) (metaName (rxMeta def)) (fst s) = (Val sts, w)"
    and "template_version sts = template_version KVRocksStatefulSet"
    and "getService k (metaNamespace (rxMeta def)) (getServiceName (metaName (rxMeta def))) w = (Val svc, w')"
  shows "CreateOrUpdateKVRocks z steps k def False s =
    (Val (Some sts), w', snd s @ [K8s (GetStatefulSet (metaNamespace (rxMeta def)) (metaName (rxMeta def))),
       K8s (GetService (metaNamespace (rxMeta def)) ''redis-cluster-proxy'')])"
  using assms by (simp add: CreateOrUpdateKVRocks_def createKVRocksService_def StatefulSets_Get_def
      Let_def seqc_def tryc_def call_def ret_def getServiceName_def)

theorem CreateOrUpdateKVRocks_idempotent_witness:
  "CreateOrUpdateKVRocks True 5 (idle_k8s\<lparr>getStatefulSet := (\<lambda>_. ok KVRocksStatefulSet), getService := (\<lambda>_. ok \<lparr>svcPorts = [], svcSelector = []\<rparr>)\<rparr>)
     plain_redix False ((), [])
   = (Val (Some KVRocksStatefulSet), (), [K8s (GetStatefulSet ''os'' ''kvrocks''), K8s (GetService ''os'' ''redis-cluster-proxy'')])"
  using CreateOrUpdateKVRocks_idempotent
    [of "idle_k8s\<lparr>getStatefulSet := (\<lambda>_. ok KVRocksStatefulSet), getService := (\<lambda>_. ok \<lparr>svcPorts = [], svcSelector = []\<rparr>)\<rparr>"
      plain_redix "((), [])" KVRocksStatefulSet "()" "\<lparr>svcPorts = [], svcSelector = []\<rparr>" "()" True 5]
  by (simp add: plain_redix_def plain_meta_def ok_def)

section \<open>Namespaces\<close>

text \<open>The reply to a listing of namespaces is a flat list of names and tokens: it is read back
  as the pairs it was made from, less the server's own entry; a reply with a name and no token
  panics.\<close>

lemma namespace_pairs_reply:
  "namespace_pairs (concat (map (\<lambda>(n, t). [n, t]) ps)) = Val (filter (\<lambda>(n, t). n \<noteq> ''__namespace'') ps) \<and>
   namespace_pairs (concat (map (\<lambda>(n, t). [n, t]) ps) @ [name]) =
     (if name \<noteq> ''__namespace'' then Panic ''index out of range''
      else Val (filter (\<lambda>(n, t). n \<noteq> ''__namespace'') ps))"
  by (induction ps) (simp_all add: case_prod_beta cong: if_cong)

end
