(* ===== verification/Backup_Proofs.thy ===== *)
theory Backup_Proofs
  imports Backup_Jobs Kvrocks_Proofs
begin

text \<open>Properties of the four backup and restore controllers. The two interfaces they share are
  locales: the status update of a resource, and the run of a job for a resource. Both are
  interpreted on the controllers' own definitions.\<close>

section \<open>The status of a resource\<close>

locale status_update =
  fixes put :: "'st \<Rightarrow> go_error option \<Rightarrow> int \<Rightarrow> 'r \<Rightarrow> 'r"
    and state :: "'r \<Rightarrow> 'st"
    and errmsg :: "'r \<Rightarrow> string"
    and startAt :: "'r \<Rightarrow> int option"
    and completedAt :: "'r \<Rightarrow> int option"
    and finished :: "'st \<Rightarrow> bool"
    and running :: 'st
  assumes state_put: "state (put st e now r) = st"
    and errmsg_put: "errmsg (put st e now r) = (case e of Some x \<Rightarrow> Error x | None \<Rightarrow> errmsg r)"
    and completedAt_put: "completedAt (put st e now r) = (if finished st then Some now else completedAt r)"
    and startAt_put: "startAt (put st e now r) = (if st = running then Some now else startAt r)"
    and running_open: "\<not> finished running"
begin

text \<open>A finished resource has its time of completion, whatever was written before.\<close>

definition timed :: "'r \<Rightarrow> bool" where
  "timed r = (finished (state r) \<longrightarrow> completedAt r \<noteq> None)"

lemma timed_put: "timed (put st e now r)"
  by (simp add: timed_def state_put completedAt_put)

text \<open>Run and finish: both times are those of the two updates, and the message is that of the
  last update that had one.\<close>

lemma life_cycle:
  assumes "finished st"
  shows "state (put st e t1 (put running None t0 r)) = st"
    and "startAt (put st e t1 (put running None t0 r)) = Some t0"
    and "completedAt (put st e t1 (put running None t0 r)) = Some t1"
    and "errmsg (put st e t1 (put running None t0 r)) = (case e of Some x \<Rightarrow> Error x | None \<Rightarrow> errmsg r)"
  using assms running_open
  by (auto simp: state_put startAt_put completedAt_put errmsg_put split: option.splits)

lemma clock: "finished st \<Longrightarrow> t0 \<le> t1 \<Longrightarrow>
  (\<exists>a b. startAt (put st e t1 (put running None t0 r)) = Some a \<and>
         completedAt (put st e t1 (put running None t0 r)) = Some b \<and> a \<le> b)"
  by (simp add: life_cycle)

end

interpretation pb_status: status_update pb_set "\<lambda>b. pbState (pbStatus b)" "\<lambda>b. pbError (pbStatus b)"
  "\<lambda>b. pbStartAt (pbStatus b)" "\<lambda>b. pbCompletedAt (pbStatus b)" backup_finished BackupStateRunning
  by unfold_locales (auto simp: pb_set_def Let_def split: option.splits)

interpretation pr_status: status_update pr_set "\<lambda>b. prState (prStatus b)" "\<lambda>b. prError (prStatus b)"
  "\<lambda>b. prStartAt (prStatus b)" "\<lambda>b. prCompletedAt (prStatus b)" restore_finished RestoreStateRunning
  by unfold_locales (auto simp: pr_set_def Let_def split: option.splits)

interpretation kb_status: status_update kb_set "\<lambda>b. kbState (kbStatus b)" "\<lambda>b. kbError (kbStatus b)"
  "\<lambda>b. kbStartAt (kbStatus b)" "\<lambda>b. kbCompletedAt (kbStatus b)" backup_finished BackupStateRunning
  by unfold_locales (auto simp: kb_set_def Let_def split: option.splits)

interpretation kr_status: status_update kr_set "\<lambda>b. krState (krStatus b)" "\<lambda>b. krError (krStatus b)"
  "\<lambda>b. krStartAt (krStatus b)" "\<lambda>b. krCompletedAt (krStatus b)" restore_finished RestoreStateRunning
  by unfold_locales (auto simp: kr_set_def Let_def split: option.splits)

text \<open>A resource that was set to running at one time and to a finished state later has that
  state, the first time as its start and the second as its completion; the error message is that
  of the second update, and without one the old message stays. This holds of all four resources.\<close>

lemma status_life_cycle:
  assumes "backup_finished bst" "restore_finished rst"
  shows "(let b = pbStatus (pb_set bst e t1 (pb_set BackupStateRunning None t0 pb)) in
          pbState b = bst \<and> pbStartAt b = Some t0 \<and> pbCompletedAt b = Some t1 \<and>
          pbError b = (case e of Some x \<Rightarrow> Error x | None \<Rightarrow> pbError (pbStatus pb))) \<and>
         (let r = prStatus (pr_set rst e t1 (pr_set RestoreStateRunning None t0 pr)) in
          prState r = rst \<and> prStartAt r = Some t0 \<and> prCompletedAt r = Some t1 \<and>
          prError r = (case e of Some x \<Rightarrow> Error x | None \<Rightarrow> prError (prStatus pr))) \<and>
         (let b = kbStatus (kb_set bst e t1 (kb_set BackupStateRunning None t0 kb)) in
          kbState b = bst \<and> kbStartAt b = Some t0 \<and> kbCompletedAt b = Some t1 \<and>
          kbError b = (case e of Some x \<Rightarrow> Error x | None \<Rightarrow> kbError (kbStatus kb))) \<and>
         (let r = krStatus (kr_set rst e t1 (kr_set RestoreStateRunning None t0 kr)) in
          krState r = rst \<and> krStartAt r = Some t0 \<and> krCompletedAt r = Some t1 \<and>
          krError r = (case e of Some x \<Rightarrow> Error x | None \<Rightarrow> krError (krStatus kr)))"
  unfolding Let_def
  by (intro conjI pb_status.life_cycle pr_status.life_cycle kb_status.life_cycle kr_status.life_cycle assms)

definition plain_pb :: PGClusterBackup where
  "plain_pb = \<lparr>pbMeta = plain_meta ''b'' ''os'', pbSpec = \<lparr>pbClusterName = ''citus'', pbVolumeSpec = None\<rparr>,
     pbStatus = \<lparr>pbState = BackupStateNew, pbStartAt = None, pbCompletedAt = None, pbError = [], pbBackupPath = []\<rparr>\<rparr>"

definition plain_pr :: PGClusterRestore where
  "plain_pr = \<lparr>prMeta = plain_meta ''r'' ''os'', prSpec = \<lparr>prClusterName = ''citus'', prBackupName = ''b''\<rparr>,
     prStatus = \<lparr>prState = RestoreStateNew, prStartAt = None, prCompletedAt = None, prError = []\<rparr>\<rparr>"

definition plain_kr :: KVRocksRestore where
  "plain_kr = \<lparr>krMeta = plain_meta ''r'' ''os'', krSpec = \<lparr>krClusterName = ''kvrocks'', krBackupStorage = []\<rparr>,
     krStatus = \<lparr>krState = RestoreStateNew, krStartAt = None, krCompletedAt = None, krError = []\<rparr>\<rparr>"

lemma status_life_cycle_witness:
  "pbCompletedAt (pbStatus (pb_set BackupStateReady None 9 (pb_set BackupStateRunning None 4 plain_pb))) = Some 9"
  using status_life_cycle [of BackupStateReady RestoreStateReady None 9 4 plain_pb plain_pr plain_kb plain_kr]
  by (simp add: Let_def)

section \<open>The run of a job\<close>

datatype 'st job_event = Created | Deleted | Wrote 'st

lemma events_in: "c \<in> set cs \<Longrightarrow> g c = Some e \<Longrightarrow> e \<in> set (events g cs)"
  by (induction cs) (auto split: option.splits)

lemma performs_emits: "performs g es m \<Longrightarrow> emits (\<lambda>c. \<forall>e. g c = Some e \<longrightarrow> e \<in> set es) m"
  unfolding performs_def traces_emits
  by (erule traces_mono) (auto simp: list_all_iff dest: events_in set_mono_prefix)

text \<open>The continuation need only be looked at for the values that the first part can return.\<close>

lemma emits_tryc_post:
  assumes "emits S m" "\<And>s x s'. m s = (Val x, s') \<Longrightarrow> emits S (f x)" "\<And>e. emits S (h e)"
  shows "emits S (tryc m f h)"
  unfolding emits_def
proof (intro allI impI)
  fix s r s'
  assume run: "tryc m f h s = (r, s')"
  obtain r0 s0 where m: "m s = (r0, s0)" by (cases "m s")
  obtain cs where cs: "snd s0 = snd s @ cs" "list_all S cs" using emitsD [OF assms(1) m] by blast
  have next_part: "\<exists>cs. snd s' = snd s @ cs \<and> list_all S cs" if "emits S g" "g s0 = (r, s')" for g
    using emitsD [OF that] cs by auto
  show "\<exists>cs. snd s' = snd s @ cs \<and> list_all S cs"
  proof (cases r0)
    case (Val x)
    then show ?thesis using next_part [of "f x"] assms(2) m run by (auto simp: tryc_def)
  next
    case (Err e)
    then show ?thesis using next_part [of "h e"] assms(3) m run by (auto simp: tryc_def)
  qed (use run m cs in \<open>auto simp: tryc_def\<close>)
qed

lemma emits_seqc_post:
  "emits S m \<Longrightarrow> (\<And>s x s'. m s = (Val x, s') \<Longrightarrow> emits S (f x)) \<Longrightarrow> emits S (seqc m f)"
  unfolding seqc_tryc by (rule emits_tryc_post) (auto intro: emits_fail)

locale job_runner =
  fixes view :: "call \<Rightarrow> 'st job_event option"
    and upd :: "'r \<Rightarrow> 'st \<Rightarrow> go_error option \<Rightarrow> ('w, 'r) prog"
    and create :: "Job \<Rightarrow> ('w, Job) prog"
    and get :: "Job \<Rightarrow> ('w, Job) prog"
    and step :: "'r \<Rightarrow> Job \<Rightarrow> ('w, bool) prog"
    and start :: "nat \<Rightarrow> Job \<Rightarrow> 'r \<Rightarrow> ('w, Job option) prog"
    and Running :: 'st and Ready :: 'st and Failing :: 'st
    and failed :: go_error
  assumes upd_performs: "performs view [Wrote st] (upd r st e)"
    and create_traces: "traces (\<lambda>_ cs. events view cs = [Created]) (create job)"
    and get_silent: "emits (\<lambda>c. view c = None) (get job)"
    and step_eq: "step r job = seqc (get job) (\<lambda>j.
       if jobActive j > 0 then ret False
       else if jobActive j = 0 \<and> jobSucceeded j > 0 then seqc (upd r Ready None) (\<lambda>_. ret True)
       else if jobActive j = 0 \<and> jobFailed j > 0 then seqc (upd r Failing (Some failed)) (\<lambda>_. ret True)
       else ret False)"
    and start_eq: "start n job r = tryc (create job)
       (\<lambda>_. seqc (upd r Running None) (\<lambda>r'. seqc (poll n (step r' job)) (\<lambda>_. ret (Some job))))
       (\<lambda>err. seqc (ignorec (upd r Failing (Some err))) (\<lambda>_. fail err))"
    and distinct_states: "Ready \<noteq> Running" "Ready \<noteq> Failing"
begin

definition step_ok :: "bool res \<Rightarrow> 'st job_event list \<Rightarrow> bool" where
  "step_ok res es = (es \<in> {[], [Wrote Ready], [Wrote Failing]} \<and> (res = Val True \<longrightarrow> es \<noteq> []) \<and> (res = Val False \<longrightarrow> es = []))"

lemma step_ok_silent: "res \<noteq> Val True \<Longrightarrow> step_ok res []"
  by (simp add: step_ok_def)

lemma upd_traces:
  "traces (\<lambda>res cs. (events view cs = [] \<or> events view cs = [Wrote st]) \<and> (\<forall>x. res = Val x \<longrightarrow> events view cs = [Wrote st]))
     (upd r st e)"
  using upd_performs [of st r e] unfolding performs_def
  by (rule traces_mono) (auto simp: prefix_Cons)

lemma step_traces: "traces (\<lambda>res cs. step_ok res (events view cs)) (step r job)"
proof -
  have fin: "traces (\<lambda>res cs. step_ok res (events view cs)) (seqc (upd r st e) (\<lambda>_. ret True))"
    if "st = Ready \<or> st = Failing" for st e
    by (rule traces_seqc [OF upd_traces]) (use that in \<open>auto intro!: traces_ret simp: step_ok_def\<close>)
  have "traces (\<lambda>_ cs. events view cs = []) (get job)"
    by (rule traces_silent [OF get_silent]) (rule events_silent)
  then show ?thesis
    unfolding step_eq by (rule traces_seqc) (auto intro!: traces_ret fin simp: step_ok_silent)
qed

definition wait_ok :: "unit res \<Rightarrow> 'st job_event list \<Rightarrow> bool" where
  "wait_ok res es = (es \<in> {[], [Wrote Ready], [Wrote Failing]} \<and> (res = Val () \<longrightarrow> es \<noteq> []))"

lemma wait_traces: "traces (\<lambda>res cs. wait_ok res (events view cs)) (poll n (step r job))"
  by (rule traces_poll [OF step_traces]) (auto simp: step_ok_def wait_ok_def)

definition start_ok :: "Job \<Rightarrow> Job option res \<Rightarrow> 'st job_event list \<Rightarrow> bool" where
  "start_ok job res es =
     (es \<in> {[Created], [Created, Wrote Failing], [Created, Wrote Running],
            [Created, Wrote Running, Wrote Ready], [Created, Wrote Running, Wrote Failing]} \<and>
      (\<forall>x. res = Val x \<longrightarrow> x = Some job \<and>
         es \<in> {[Created, Wrote Running, Wrote Ready], [Created, Wrote Running, Wrote Failing]}))"

text \<open>A start that succeeds has created the job, set the resource to running and then written
  the outcome of the job, once and last; a start that fails stopped on the way.\<close>

lemma start_traces: "traces (\<lambda>res cs. start_ok job res (events view cs)) (start n job r)"
proof -
  have wait: "traces (\<lambda>res cs. start_ok job res (Created # Wrote Running # events view cs))
      (seqc (poll n (step r' job)) (\<lambda>_. ret (Some job)))" for r'
    by (rule traces_seqc [OF wait_traces]) (auto intro!: traces_ret simp: wait_ok_def start_ok_def)
  have run: "traces (\<lambda>res cs. start_ok job res (Created # events view cs))
      (seqc (upd r Running None) (\<lambda>r'. seqc (poll n (step r' job)) (\<lambda>_. ret (Some job))))"
  proof (rule traces_seqc [OF upd_traces])
    fix x :: 'r and cs
    assume "(events view cs = [] \<or> events view cs = [Wrote Running]) \<and> (\<forall>y. Val x = Val y \<longrightarrow> events view cs = [Wrote Running])"
    then have "events view cs = [Wrote Running]" by auto
    with wait [of x] show "traces (\<lambda>res ds. start_ok job res (Created # events view (cs @ ds)))
        (seqc (poll n (step x job)) (\<lambda>_. ret (Some job)))" by simp
  qed (auto simp: start_ok_def)
  have ign: "traces (\<lambda>_ ds. events view ds = [] \<or> events view ds = [Wrote Failing]) (ignorec (upd r Failing (Some err)))" for err
    unfolding ignorec_def by (rule traces_tryc [OF upd_traces]) (auto intro!: traces_ret)
  have bad: "traces (\<lambda>res ds. start_ok job res (Created # events view ds))
      (seqc (ignorec (upd r Failing (Some err))) (\<lambda>_. fail err))" for err
    by (rule traces_seqc [OF ign]) (auto intro!: traces_fail simp: start_ok_def)
  show ?thesis
    unfolding start_eq
    by (rule traces_tryc [OF create_traces]) (use run bad in \<open>simp_all add: start_ok_def\<close>)
qed

end

text \<open>The runs that are allowed: \<open>job_completed\<close> is one that went through, \<open>job_protocol\<close> any.\<close>

definition job_completed :: "'st \<Rightarrow> 'st \<Rightarrow> 'st \<Rightarrow> 'st job_event list \<Rightarrow> bool" where
  "job_completed running ready failing es =
     (\<exists>d \<in> {[], [Deleted]}. \<exists>t \<in> {ready, failing}. es = d @ [Created, Wrote running, Wrote t])"

definition job_protocol :: "'st \<Rightarrow> 'st \<Rightarrow> 'st \<Rightarrow> 'st \<Rightarrow> 'st job_event list \<Rightarrow> bool" where
  "job_protocol running ready failing rejected es =
     (es \<in> {[], [Wrote failing], [Wrote rejected], [Deleted]} \<or>
      (\<exists>d \<in> {[], [Deleted]}. \<exists>t \<in> {[], [Wrote failing], [Wrote running], [Wrote running, Wrote ready], [Wrote running, Wrote failing]}.
         es = d @ Created # t))"

text \<open>The admission of a request: what happens depends on the job that is already there.\<close>

locale job_controller =
  job_runner view upd create get step start Running Ready Failing failed
  for view :: "call \<Rightarrow> 'st job_event option"
    and upd :: "'r \<Rightarrow> 'st \<Rightarrow> go_error option \<Rightarrow> ('w, 'r) prog"
    and create :: "Job \<Rightarrow> ('w, Job) prog"
    and get :: "Job \<Rightarrow> ('w, Job) prog"
    and step :: "'r \<Rightarrow> Job \<Rightarrow> ('w, bool) prog"
    and start :: "nat \<Rightarrow> Job \<Rightarrow> 'r \<Rightarrow> ('w, Job option) prog"
    and Running :: 'st and Ready :: 'st and Failing :: 'st
    and failed :: go_error +
  fixes del :: "Job \<Rightarrow> ('w, unit) prog"
    and wait :: "Job \<Rightarrow> Job \<Rightarrow> ('w, unit) prog"
    and admit :: "nat \<Rightarrow> Job \<Rightarrow> 'r \<Rightarrow> 'r \<Rightarrow> ('w, Job option) prog"
    and paired :: "'r \<Rightarrow> 'r \<Rightarrow> bool"
    and Rejected :: 'st and duplicate :: go_error
  assumes del_traces: "traces (\<lambda>_ cs. events view cs = [Deleted]) (del job)"
    and wait_silent: "emits (\<lambda>c. view c = None) (wait job j)"
    and admit_eq: "paired r r' \<Longrightarrow> admit n job r r' = tryc (get job)
       (\<lambda>j. if jobActive j > 0 then seqc (upd r Rejected (Some duplicate)) (\<lambda>_. ret None)
          else if jobSucceeded j > 0 \<or> jobFailed j > 0 then
            seqc (del j) (\<lambda>_. seqc (wait job j) (\<lambda>_. start n job r'))
          else start n job r')
       (\<lambda>err. if IsNotFound err then start n job r' else fail err)"
begin

definition admit_ok :: "Job \<Rightarrow> Job option res \<Rightarrow> 'st job_event list \<Rightarrow> bool" where
  "admit_ok job res es = (job_protocol Running Ready Failing Rejected es \<and> (\<forall>x. res = Val (Some x) \<longrightarrow> x = job \<and> job_completed Running Ready Failing es) \<and>
     (res = Val None \<longrightarrow> es = [] \<or> es = [Wrote Rejected]))"

lemma start_admit: "start_ok job res es \<Longrightarrow> admit_ok job res es" "start_ok job res es \<Longrightarrow> admit_ok job res (Deleted # es)"
  by (auto simp: start_ok_def admit_ok_def job_protocol_def job_completed_def)

lemma admit_ok_silent: "(\<And>x. res \<noteq> Val (Some x)) \<Longrightarrow> admit_ok job res []"
  by (simp add: admit_ok_def job_protocol_def)

lemma admit_ok_simps:
  "admit_ok job (Err e) [Deleted]" "admit_ok job (Panic p) [Deleted]" "admit_ok job Looping [Deleted]"
  "admit_ok job (Err e) [Wrote Rejected]" "admit_ok job (Panic p) [Wrote Rejected]" "admit_ok job Looping [Wrote Rejected]"
  "admit_ok job (Val None) [Wrote Rejected]"
  "admit_ok job (Err e) [Wrote Failing]" "admit_ok job (Panic p) [Wrote Failing]" "admit_ok job Looping [Wrote Failing]"
  by (simp_all add: admit_ok_def job_protocol_def)

lemma traces_events_silent: "emits (\<lambda>c. view c = None) m \<Longrightarrow> traces (\<lambda>_ cs. events view cs = []) m"
  by (rule traces_silent) (auto simp: events_silent)

lemma admit_traces:
  assumes "paired r r'"
  shows "traces (\<lambda>res cs. admit_ok job res (events view cs)) (admit n job r r')"
proof -
  have start: "traces (\<lambda>res cs. admit_ok job res (events view cs)) (start n job r')"
    using start_traces by (rule traces_mono) (rule start_admit)
  have after: "traces (\<lambda>res cs. admit_ok job res (Deleted # events view cs)) (start n job r')"
    using start_traces by (rule traces_mono) (rule start_admit)
  have redo: "traces (\<lambda>res cs. admit_ok job res (events view cs))
      (seqc (del j) (\<lambda>_. seqc (wait job j) (\<lambda>_. start n job r')))" for j
  proof (rule traces_seqc [OF del_traces])
    fix x cs
    assume "events view cs = [Deleted]"
    then show "traces (\<lambda>res ds. admit_ok job res (events view (cs @ ds))) (seqc (wait job j) (\<lambda>_. start n job r'))"
      by (intro traces_seqc [OF traces_events_silent [OF wait_silent]]) (simp_all add: after admit_ok_simps)
  qed (simp_all add: admit_ok_simps)
  have reject: "traces (\<lambda>res cs. admit_ok job res (events view cs)) (seqc (upd r Rejected (Some duplicate)) (\<lambda>_. ret None))"
    by (rule traces_seqc [OF upd_traces]) (auto intro!: traces_ret simp: admit_ok_simps admit_ok_silent)
  show ?thesis
    unfolding admit_eq [OF assms]
    by (rule traces_tryc [OF traces_events_silent [OF get_silent]])
       (auto intro!: traces_fail simp: start redo reject admit_ok_silent)
qed

text \<open>A request that never gets as far as the job.\<close>

lemma refuse_traces:
  "st = Failing \<or> st = Rejected \<Longrightarrow>
   traces (\<lambda>res cs. admit_ok job res (events view cs)) (seqc (ignorec (upd r st (Some err))) (\<lambda>_. fail err))"
proof -
  assume st: "st = Failing \<or> st = Rejected"
  have "traces (\<lambda>_ ds. events view ds = [] \<or> events view ds = [Wrote st]) (ignorec (upd r st (Some err)))"
    unfolding ignorec_def by (rule traces_tryc [OF upd_traces]) (auto intro!: traces_ret)
  then show ?thesis
    by (rule traces_seqc) (use st in \<open>auto intro!: traces_fail simp: admit_ok_simps admit_ok_silent\<close>)
qed

text \<open>The state ready is written only after a look at the job that found it done and successful.\<close>

lemma no_ready:
  assumes get: "\<And>job s j s'. get job s = (Val j, s') \<Longrightarrow> \<not> (jobActive j = 0 \<and> jobSucceeded j > 0)"
    and pair: "paired r r'" and rej: "Rejected \<noteq> Ready"
  shows "emits (\<lambda>c. view c \<noteq> Some (Wrote Ready)) (admit n job r r')"
proof -
  let ?S = "\<lambda>c. view c \<noteq> Some (Wrote Ready)"
  have upd: "emits ?S (upd r st e)" if "st \<noteq> Ready" for r st e
    using performs_emits [OF upd_performs [of st r e]] by (rule emits_mono) (use that in auto)
  have silent: "emits ?S m" if "emits (\<lambda>c. view c = None) m" for m :: "('w, 'x) prog"
    using that by (rule emits_mono) simp
  have create: "emits ?S (create job)" for job
    using create_traces [of job] unfolding traces_emits by (rule traces_mono) (auto dest: events_in simp: list_all_iff)
  have del: "emits ?S (del job)" for job
    using del_traces [of job] unfolding traces_emits by (rule traces_mono) (auto dest: events_in simp: list_all_iff)
  have step: "emits ?S (step r job)" for r job
    unfolding step_eq
    by (rule emits_seqc_post [OF silent [OF get_silent]])
       (use get distinct_states in \<open>auto intro!: emits_ret emits_seqc upd\<close>)
  have start: "emits ?S (start n job r)" for n job r
    unfolding start_eq using distinct_states
    by (intro emits_tryc emits_seqc emits_poll emits_ignorec emits_ret emits_fail create upd step) auto
  show ?thesis
    unfolding admit_eq [OF pair]
    by (intro emits_tryc emits_if emits_seqc emits_ret emits_fail upd start del silent [OF wait_silent] silent [OF get_silent] rej)
qed

text \<open>A running job stops every request: it is rejected, and no job is created or deleted.\<close>

lemma busy:
  assumes get: "\<And>job s j s'. get job s = (Val j, s') \<Longrightarrow> jobActive j > 0"
    "\<And>job s e s'. get job s = (Err e, s') \<Longrightarrow> \<not> IsNotFound e"
    and pair: "paired r r'" and run: "admit n job r r' s = (res, s')"
  shows "\<exists>cs. snd s' = snd s @ cs \<and> events view cs \<in> {[], [Wrote Rejected]} \<and> (\<forall>x. res \<noteq> Val (Some x))"
proof -
  let ?rej = "seqc (upd r Rejected (Some duplicate)) (\<lambda>_. ret None)"
  have "admit n job r r' s = tryc (get job) (\<lambda>_. ?rej) fail s"
  proof -
    obtain r0 s0 where "get job s = (r0, s0)" by (cases "get job s")
    then show ?thesis
      unfolding admit_eq [OF pair] using get(1) [of job s _ s0] get(2) [of job s _ s0]
      by (cases r0) (auto simp: tryc_def)
  qed
  moreover have rej: "traces (\<lambda>res cs. events view cs \<in> {[], [Wrote Rejected]} \<and> (\<forall>x. res \<noteq> Val (Some x))) ?rej"
    by (rule traces_seqc [OF upd_traces]) (auto intro!: traces_ret)
  have all: "traces (\<lambda>res cs. events view cs \<in> {[], [Wrote Rejected]} \<and> (\<forall>x. res \<noteq> Val (Some x))) (tryc (get job) (\<lambda>_. ?rej) fail)"
    by (rule traces_tryc [OF traces_events_silent [OF get_silent]]) (use rej in \<open>auto intro!: traces_fail\<close>)
  ultimately have "tryc (get job) (\<lambda>_. ?rej) fail s = (res, s')" using run by simp
  from tracesD [OF all this] show ?thesis .
qed

end

section \<open>The PostgreSQL controllers\<close>

fun pb_view :: "call \<Rightarrow> BackupState job_event option" where
  "pb_view (K8s (CreateJob job)) = Some Created"
| "pb_view (K8s (DeleteJob ns name)) = Some Deleted"
| "pb_view (Apr (UpdatePGBackupStatus b)) = Some (Wrote (pbState (pbStatus b)))"
| "pb_view _ = None"

fun pr_view :: "call \<Rightarrow> RestoreState job_event option" where
  "pr_view (K8s (CreateJob job)) = Some Created"
| "pr_view (K8s (DeleteJob ns name)) = Some Deleted"
| "pr_view (Apr (UpdatePGRestoreStatus r)) = Some (Wrote (prState (prStatus r)))"
| "pr_view _ = None"

lemma performs_updateStatus_pb: "performs pb_view [Wrote st] (updateStatus_pb k a r st e)"
  unfolding updateStatus_pb_def Now_def Let_def
  by (intro performs_after emits_call performs_call) (simp_all add: pb_status.state_put)

lemma performs_updateStatus_pr: "performs pr_view [Wrote st] (updateStatus_pr k a r st e)"
  unfolding updateStatus_pr_def Now_def Let_def
  by (intro performs_after emits_call performs_call) (simp_all add: pr_status.state_put)

lemma traces_one: "g c = Some e \<Longrightarrow> traces (\<lambda>_ cs. events g cs = [e]) (call c f)"
  by (rule traces_call) simp

lemma seqc_ret: "seqc (ret x) f = f x"
  by (rule ext) (simp add: seqc_def ret_def)

interpretation pb_job: job_controller pb_view "updateStatus_pb k a" "Jobs_Create k"
  "\<lambda>job. Jobs_Get k (jobNamespace job) (jobName job)" "job_step_pb k a" "\<lambda>n. start_backup n k a"
  BackupStateRunning BackupStateReady BackupStateError "Failure ''backup job failed''"
  "\<lambda>job. Jobs_Delete k (jobNamespace job) (jobName job)" "wait_job_deleted m k" "\<lambda>n. admit_backup m n k a"
  "\<lambda>_ _. True" BackupStateRejected "Failure ''duplicate backup request''"
  for k :: "'w k8s" and a :: "'w apr" and m
proof unfold_locales
  show "emits (\<lambda>c. pb_view c = None) (wait_job_deleted m k job j)" for job j
    unfolding wait_job_deleted_def Jobs_Get_def by (auto intro!: emits_intros)
qed (auto simp: Jobs_Create_def Jobs_Get_def Jobs_Delete_def performs_updateStatus_pb traces_one emits_call job_step_pb_def
    start_backup_def waitForJobComplete_pb_def admit_backup_def)

interpretation pr_job: job_controller pr_view "updateStatus_pr k a" "Jobs_Create k"
  "\<lambda>job. Jobs_Get k (jobNamespace job) (jobName job)" "job_step_pr k a" "\<lambda>n. start_restore n k a"
  RestoreStateRunning RestoreStateReady RestoreStateError "Failure ''restore job failed''"
  "\<lambda>job. Jobs_Delete k (jobNamespace job) (jobName job)" "\<lambda>_ _. ret ()" "\<lambda>n job r r'. admit_restore n k a job r'"
  "(=)" RestoreStateRejected "Failure ''duplicate restore request''"
  for k :: "'w k8s" and a :: "'w apr"
  by unfold_locales (auto simp: Jobs_Create_def Jobs_Get_def Jobs_Delete_def performs_updateStatus_pr traces_one emits_call
      emits_ret job_step_pr_def start_restore_def waitForJobComplete_pr_def admit_restore_def seqc_ret cong: if_cong)

lemma emits_job_admin:
  assumes "S (Apr (GetPGCluster ns name))" "\<And>ns n. S (K8s (GetSecret ns n))"
  shows "emits S (job_admin k a ns name)"
  unfolding job_admin_def PGClusters_Get_def default_admin_def Secrets_Get_def Let_def
  by (auto intro!: emits_intros assms)

text \<open>C24. The states of a backup run. Whatever the environment answers, the handler of the backup
  controller creates at most one job and writes at most one final state: it fails or rejects the
  request without a job, or it creates the job (deleting a finished one first), sets the resource
  to running and writes ready or error as the last thing. It hands a job over to the watch only
  when it has gone through all of this.\<close>

theorem pgbackup_protocol:
  assumes "pgbackup_handler m n sub k a fs action backup s = (r, s')"
  shows "\<exists>cs. snd s' = snd s @ cs \<and>
    job_protocol BackupStateRunning BackupStateReady BackupStateError BackupStateRejected (events pb_view cs) \<and>
    (\<forall>job. r = Val (Some job) \<longrightarrow> job_completed BackupStateRunning BackupStateReady BackupStateError (events pb_view cs))"
proof -
  let ?T = "\<lambda>res cs. \<exists>job. pb_job.admit_ok job res (events pb_view cs)"
  have admit: "traces ?T (case p of (admin, pw) \<Rightarrow> case backup_job sub admin pw backup of
      (job, b) \<Rightarrow> admit_backup m n k a job backup b)" for p
    by (auto intro!: traces_mono [OF pb_job.admit_traces] split: prod.splits)
  have refuse: "traces ?T (seqc (ignorec (updateStatus_pb k a backup BackupStateError (Some err))) (\<lambda>_. fail err))" for err
    by (rule traces_mono [OF pb_job.refuse_traces]) auto
  have silent: "traces (\<lambda>_ cs. events pb_view cs = []) m" if "emits (\<lambda>c. pb_view c = None) m" for m :: "('a, 'x) prog"
    using that by (rule pb_job.traces_events_silent)
  have run: "traces ?T (seqc (job_admin k a ns name) (\<lambda>(admin, pw). case backup_job sub admin pw backup of
      (job, b) \<Rightarrow> admit_backup m n k a job backup b))" for ns name
    by (rule traces_seqc [OF silent [OF emits_job_admin]]) (simp_all add: admit pb_job.admit_ok_silent)
  have add: "traces ?T (pgbackup_add m n sub k a backup)"
    unfolding pgbackup_add_def Let_def
    by (auto intro!: traces_ret refuse run simp: pb_job.admit_ok_silent)
  have del: "traces ?T (seqc (RemoveAll_fs fs p) (\<lambda>_. ret None))" for p
    unfolding RemoveAll_fs_def
    by (rule traces_seqc [OF silent [OF emits_call]]) (auto intro!: traces_ret simp: pb_job.admit_ok_silent)
  have "traces ?T (pgbackup_handler m n sub k a fs action backup)"
    unfolding pgbackup_handler_def
    by (cases action) (auto intro!: traces_ret add del simp: pb_job.admit_ok_silent)
  from tracesD [OF this assms] show ?thesis
    unfolding pb_job.admit_ok_def by blast
qed

end
