(* ===== verification/Backup_Handlers.thy ===== *)
theory Backup_Handlers
  imports Backup_Proofs
begin

text \<open>Properties of the handlers of the backup and restore controllers, on top of the contracts of
  the job runs and of the status updates.\<close>

section \<open>Environments for the witnesses\<close>

definition bk_cluster :: PGCluster where
  "bk_cluster = \<lparr>pgMeta = plain_meta ''citus'' ''os'',
     pgSpec = \<lparr>pgReplicas = 1, pgAdminUser = ''root'', pgCitusImage = [], pgPassword = plain_password,
       pgOwner = ''system'', pgBackupStorage = []\<rparr>,
     pgStatus = \<lparr>pgsState = [], pgsUpdateTime = None, pgsStatusTime = None\<rparr>\<rparr>"

definition bk_apr :: "unit apr" where
  "bk_apr = idle_apr\<lparr>getPGCluster := (\<lambda>_. ok bk_cluster), getPGBackup := (\<lambda>_. ok plain_pb),
     updatePGBackupStatus := (\<lambda>b w. (Val b, w)), updatePGRestoreStatus := (\<lambda>r w. (Val r, w)),
     getRedixCluster := (\<lambda>_. ok kv_cluster)\<rparr>"

definition bk_k8s :: "int \<Rightarrow> int \<Rightarrow> unit k8s" where
  "bk_k8s active succeeded = idle_k8s\<lparr>
     getJob := (\<lambda>_. ok (BackupJob\<lparr>jobNamespace := ''os'', jobActive := active, jobSucceeded := succeeded\<rparr>)),
     createJob := (\<lambda>j w. (Val j, w)), deleteJob := (\<lambda>_. ok ())\<rparr>"

lemmas bk_defs = bk_cluster_def bk_apr_def bk_k8s_def plain_pb_def plain_pr_def plain_kr_def BackupJob_def RestoreJob_def

lemmas pg_handler_defs = pgbackup_handler_def pgbackup_add_def admit_backup_def start_backup_def waitForJobComplete_pb_def
  job_step_pb_def updateStatus_pb_def wait_job_deleted_def backup_job_def pb_set_def
  pgrestore_handler_def pgrestore_add_def admit_restore_def start_restore_def waitForJobComplete_pr_def
  job_step_pr_def updateStatus_pr_def restore_job_def pr_set_def
  Jobs_Get_def Jobs_Create_def Jobs_Delete_def job_admin_def PGClusters_Get_def default_admin_def GetVarValue_def Now_def

lemmas run_defs = seqc_def tryc_def call_def ret_def fail_def ignorec_def Let_def

theorem pgbackup_protocol_witness:
  "\<exists>cs. snd (snd (pgbackup_handler 1 1 ''x'' (bk_k8s 0 0) bk_apr idle_fs ADD plain_pb ((), []))) = cs \<and>
     events pb_view cs = [Created, Wrote BackupStateRunning] \<and>
     job_protocol BackupStateRunning BackupStateReady BackupStateError BackupStateRejected (events pb_view cs)"
proof -
  obtain r s' where run: "pgbackup_handler 1 1 ''x'' (bk_k8s 0 0) bk_apr idle_fs ADD plain_pb ((), []) = (r, s')"
    by (rule prod.exhaust)
  have "events pb_view (snd s') = [Created, Wrote BackupStateRunning]"
    using run by (auto simp: pg_handler_defs run_defs bk_defs plain_defs idle_defs pg_job_env_def)
  then show ?thesis using pgbackup_protocol [OF run] run by auto
qed

section \<open>Restore\<close>

text \<open>The states of a restore run: as for a backup, at most one job and one final state, and a
  job is handed over to the watch only after a complete run.\<close>

lemma pgrestore_protocol:
  assumes "pgrestore_handler n k a action restore s = (r, s')"
  shows "\<exists>cs. snd s' = snd s @ cs \<and>
    job_protocol RestoreStateRunning RestoreStateReady RestoreStateError RestoreStateRejected (events pr_view cs) \<and>
    (\<forall>job. r = Val (Some job) \<longrightarrow> job_completed RestoreStateRunning RestoreStateReady RestoreStateError (events pr_view cs))"
proof -
  let ?T = "\<lambda>res cs. \<exists>job. pr_job.admit_ok job res (events pr_view cs)"
  have admit: "traces ?T (admit_restore n k a job restore)" for job
    by (rule traces_mono [OF pr_job.admit_traces [OF refl]]) blast
  have refuse: "traces ?T (seqc (ignorec (updateStatus_pr k a restore st (Some err))) (\<lambda>_. fail err))"
    if "st = RestoreStateError \<or> st = RestoreStateRejected" for st err
    by (rule traces_mono [OF pr_job.refuse_traces [OF that]]) blast
  have silent: "traces (\<lambda>_ cs. events pr_view cs = []) m" if "emits (\<lambda>c. pr_view c = None) m" for m :: "('a, 'x) prog"
    using that by (rule pr_job.traces_events_silent)
  have pick: "traces ?T (seqc (call (Apr (GetPGBackup ns name)) f) (\<lambda>backup.
      if pbState (pbStatus backup) \<noteq> BackupStateReady then fail e1
      else if pbBackupPath (pbStatus backup) = []
        then seqc (ignorec (updateStatus_pr k a restore RestoreStateRejected (Some e2))) (\<lambda>_. fail e2)
      else admit_restore n k a (j backup) restore))" for ns name f e1 e2 j
    by (rule traces_seqc [OF silent [OF emits_call]])
       (auto intro!: traces_fail simp: admit refuse pr_job.admit_ok_silent)
  have run: "traces ?T (seqc (job_admin k a ns name) (\<lambda>(admin, pw). seqc (call (Apr (GetPGBackup ns bn)) f) (\<lambda>backup.
      if pbState (pbStatus backup) \<noteq> BackupStateReady then fail e1
      else if pbBackupPath (pbStatus backup) = []
        then seqc (ignorec (updateStatus_pr k a restore RestoreStateRejected (Some e2))) (\<lambda>_. fail e2)
      else admit_restore n k a (restore_job admin pw restore backup) restore)))" for ns name bn f e1 e2
    by (rule traces_seqc [OF silent [OF emits_job_admin]]) (simp_all add: pick pr_job.admit_ok_silent split: prod.splits)
  have "traces ?T (pgrestore_handler n k a action restore)"
    unfolding pgrestore_handler_def pgrestore_add_def Let_def
    by (cases action) (auto intro!: traces_ret run simp: refuse pr_job.admit_ok_silent)
  from tracesD [OF this assms] show ?thesis
    unfolding pr_job.admit_ok_def by blast
qed

definition ready_pb :: PGClusterBackup where
  "ready_pb = plain_pb\<lparr>pbStatus := (pbStatus plain_pb)\<lparr>pbState := BackupStateReady, pbBackupPath := ''/b/all.sql''\<rparr>\<rparr>"

lemma pgrestore_protocol_witness:
  "\<exists>cs. snd (snd (pgrestore_handler 1 (bk_k8s 0 1) (bk_apr\<lparr>getPGBackup := (\<lambda>_. ok ready_pb)\<rparr>) ADD plain_pr ((), []))) = cs \<and>
     events pr_view cs = [Deleted, Created, Wrote RestoreStateRunning, Wrote RestoreStateReady] \<and>
     job_completed RestoreStateRunning RestoreStateReady RestoreStateError (events pr_view cs)"
proof -
  obtain r s' where run: "pgrestore_handler 1 (bk_k8s 0 1) (bk_apr\<lparr>getPGBackup := (\<lambda>_. ok ready_pb)\<rparr>) ADD plain_pr ((), []) = (r, s')"
    by (rule prod.exhaust)
  have "events pr_view (snd s') = [Deleted, Created, Wrote RestoreStateRunning, Wrote RestoreStateReady]"
    "\<exists>job. r = Val (Some job)"
    using run by (auto simp: pg_handler_defs run_defs bk_defs ready_pb_def plain_defs idle_defs pg_job_env_def)
  then show ?thesis using pgrestore_protocol [OF run] run by auto
qed

section \<open>When a job is started, and when it counts as done\<close>

lemma in_events: "e \<in> set (events g cs) \<Longrightarrow> \<exists>c \<in> set cs. g c = Some e"
  by (induction cs) (auto split: option.splits)

text \<open>A backup is reported ready only when its job was found done and successful: if no look at
  the job ever shows one, the state ready is never written.\<close>

lemma backup_ready_needs_success:
  assumes "\<And>ns name w j w'. getJob k ns name w = (Val j, w') \<Longrightarrow> \<not> (jobActive j = 0 \<and> jobSucceeded j > 0)"
    and "pgbackup_handler m n sub k a fs action backup s = (r, s')"
  shows "\<exists>cs. snd s' = snd s @ cs \<and> Wrote BackupStateReady \<notin> set (events pb_view cs)"
proof -
  let ?S = "\<lambda>c. pb_view c \<noteq> Some (Wrote BackupStateReady)"
  have get: "\<not> (jobActive j = 0 \<and> jobSucceeded j > 0)" if "Jobs_Get k ns name s = (Val j, s')" for ns name s j s'
    using that assms(1) [of ns name "fst s"] by (auto simp: Jobs_Get_def call_def split: prod.splits)
  have admit: "emits ?S (admit_backup m n k a job backup b)" for job b
    by (rule pb_job.no_ready) (auto dest: get)
  have upd: "emits ?S (updateStatus_pb k a backup BackupStateError e)" for e
    by (rule emits_mono [OF performs_emits [OF performs_updateStatus_pb]]) auto
  have "emits ?S (pgbackup_handler m n sub k a fs action backup)"
    unfolding pgbackup_handler_def pgbackup_add_def Let_def RemoveAll_fs_def
    by (cases action) (auto intro!: emits_intros emits_job_admin admit upd split: prod.splits)
  from emitsD [OF this assms(2)] show ?thesis
    by (auto simp: list_all_iff dest!: in_events)
qed

lemma backup_ready_needs_success_witness:
  "Wrote BackupStateReady \<notin> set (events pb_view (snd (snd
     (pgbackup_handler 3 3 ''x'' (bk_k8s 0 0) bk_apr idle_fs ADD plain_pb ((), [])))))"
proof -
  obtain r s' where run: "pgbackup_handler 3 3 ''x'' (bk_k8s 0 0) bk_apr idle_fs ADD plain_pb ((), []) = (r, s')"
    by (rule prod.exhaust)
  have "\<not> (jobActive j = 0 \<and> jobSucceeded j > 0)" if "getJob (bk_k8s 0 0) ns name w = (Val j, w')" for ns name w j w'
    using that by (auto simp: bk_k8s_def ok_def)
  from backup_ready_needs_success [OF this run] show ?thesis using run by auto
qed

text \<open>Backups do not run twice: while the job is active the handler neither deletes nor creates a
  job; the request is at most rejected, and no job is handed over to the watch.\<close>

lemma busy_backup_rejected:
  assumes "\<And>ns name w. \<exists>j. fst (getJob k ns name w) = Val j \<and> jobActive j > 0"
    and "\<not> backup_finished (pbState (pbStatus backup))" "pbClusterName (pbSpec backup) \<noteq> []"
    and "pgbackup_handler m n sub k a fs ADD backup s = (r, s')"
  shows "\<exists>cs. snd s' = snd s @ cs \<and> events pb_view cs \<in> {[], [Wrote BackupStateRejected]} \<and> (\<forall>job. r \<noteq> Val (Some job))"
proof -
  have get: "jobActive j > 0" if "Jobs_Get k ns name s = (Val j, s')" for ns name s j s'
    using that assms(1) [of ns name "fst s"] by (auto simp: Jobs_Get_def call_def split: prod.splits)
  have noerr: "Jobs_Get k ns name s \<noteq> (Err e, s')" for ns name s e s'
    using assms(1) [of ns name "fst s"] by (auto simp: Jobs_Get_def call_def split: prod.splits)
  let ?T = "\<lambda>res cs. events pb_view cs \<in> {[], [Wrote BackupStateRejected]} \<and> (\<forall>job. res \<noteq> Val (Some job))"
  have admit: "traces ?T (admit_backup m n k a job backup b)" for job b
    by (rule tracesI, rule pb_job.busy) (auto dest: get simp: noerr)
  have "traces (\<lambda>_ cs. events pb_view cs = []) (job_admin k a ns name)" for ns name
    by (rule pb_job.traces_events_silent, rule emits_job_admin) simp_all
  then have "traces ?T (seqc (job_admin k a ns name) (\<lambda>(admin, pw). case backup_job sub admin pw backup of
      (job, b) \<Rightarrow> admit_backup m n k a job backup b))" for ns name
    by (rule traces_seqc) (simp_all add: admit [simplified] split: prod.splits)
  then have "traces ?T (pgbackup_handler m n sub k a fs ADD backup)"
    using assms(2,3) by (simp add: pgbackup_handler_def pgbackup_add_def Let_def)
  from tracesD [OF this assms(4)] show ?thesis .
qed

lemma busy_backup_rejected_witness:
  "events pb_view (snd (snd (pgbackup_handler 1 1 ''x'' (bk_k8s 1 0) bk_apr idle_fs ADD plain_pb ((), []))))
     \<in> {[], [Wrote BackupStateRejected]}"
proof -
  obtain r s' where run: "pgbackup_handler 1 1 ''x'' (bk_k8s 1 0) bk_apr idle_fs ADD plain_pb ((), []) = (r, s')"
    by (rule prod.exhaust)
  have "\<exists>j. fst (getJob (bk_k8s 1 0) ns name w) = Val j \<and> jobActive j > 0" for ns name w
    by (simp add: bk_k8s_def ok_def)
  moreover have "\<not> backup_finished (pbState (pbStatus plain_pb))" "pbClusterName (pbSpec plain_pb) \<noteq> []"
    by (simp_all add: plain_pb_def)
  ultimately show ?thesis using busy_backup_rejected [of "bk_k8s 1 0", OF _ _ _ run] run by auto
qed

text \<open>A restore runs only from a usable backup: if no backup that is read is both ready and has
  a file, no job is created or deleted and no job is handed over to the watch.\<close>

lemma restore_needs_ready_backup:
  assumes "\<And>ns name w b w'. getPGBackup a ns name w = (Val b, w') \<Longrightarrow>
      pbState (pbStatus b) \<noteq> BackupStateReady \<or> pbBackupPath (pbStatus b) = []"
    and "pgrestore_handler n k a action restore s = (r, s')"
  shows "\<exists>cs. snd s' = snd s @ cs \<and> Created \<notin> set (events pr_view cs) \<and> Deleted \<notin> set (events pr_view cs)"
proof -
  let ?S = "\<lambda>c. pr_view c \<noteq> Some Created \<and> pr_view c \<noteq> Some Deleted"
  have upd: "emits ?S (updateStatus_pr k a restore st e)" for st e
    by (rule emits_mono [OF performs_emits [OF performs_updateStatus_pr]]) auto
  have pick: "emits ?S (seqc (call (Apr (GetPGBackup ns name)) (getPGBackup a ns name)) (\<lambda>backup.
      if pbState (pbStatus backup) \<noteq> BackupStateReady then fail e1
      else if pbBackupPath (pbStatus backup) = []
        then seqc (ignorec (updateStatus_pr k a restore RestoreStateRejected (Some e2))) (\<lambda>_. fail e2)
      else admit_restore n k a (j backup) restore))" for ns name e1 e2 j
  proof (rule emits_seqc_post [OF emits_call])
    fix s x s'
    assume "call (Apr (GetPGBackup ns name)) (getPGBackup a ns name) s = (Val x, s')"
    then have "pbState (pbStatus x) \<noteq> BackupStateReady \<or> pbBackupPath (pbStatus x) = []"
      using assms(1) [of ns name "fst s"] by (auto simp: call_def split: prod.splits)
    then show "emits ?S (if pbState (pbStatus x) \<noteq> BackupStateReady then fail e1
      else if pbBackupPath (pbStatus x) = []
        then seqc (ignorec (updateStatus_pr k a restore RestoreStateRejected (Some e2))) (\<lambda>_. fail e2)
      else admit_restore n k a (j x) restore)"
      by (auto intro!: emits_intros upd)
  qed simp
  have "emits ?S (pgrestore_handler n k a action restore)"
    unfolding pgrestore_handler_def pgrestore_add_def Let_def
    by (cases action) (auto intro!: emits_seqc [OF emits_job_admin] emits_seqc [OF emits_ignorec [OF upd]] emits_ret emits_fail pick split: prod.splits)
  from emitsD [OF this assms(2)] show ?thesis
    by (auto simp: list_all_iff dest!: in_events)
qed

lemma restore_needs_ready_backup_witness:
  "Created \<notin> set (events pr_view (snd (snd (pgrestore_handler 1 (bk_k8s 0 1) bk_apr ADD plain_pr ((), [])))))"
proof -
  obtain r s' where run: "pgrestore_handler 1 (bk_k8s 0 1) bk_apr ADD plain_pr ((), []) = (r, s')"
    by (rule prod.exhaust)
  have "pbState (pbStatus b) \<noteq> BackupStateReady \<or> pbBackupPath (pbStatus b) = []"
    if "getPGBackup bk_apr ns name w = (Val b, w')" for ns name w b w'
    using that by (auto simp: bk_apr_def ok_def plain_pb_def)
  from restore_needs_ready_backup [OF this run] show ?thesis using run by auto
qed

section \<open>Finished resources\<close>

text \<open>The finished states are final: none of the four controllers makes a single call for a
  resource that was already finished when it is added again (for example after a restart of the
  operator), whatever else the resource says.\<close>

lemma finished_ignored:
  assumes "backup_finished (pbState (pbStatus pb))" "restore_finished (prState (prStatus pr))"
    "backup_finished (kbState (kbStatus kb))" "restore_finished (krState (krStatus kr))"
  shows "pgbackup_handler m n sub k a fs ADD pb s = (Val None, s) \<and>
    pgrestore_handler n k a ADD pr s = (Val None, s) \<and>
    kvbackup_handler n k a kv fs redis ADD kb s = (Val (), s) \<and>
    kvrestore_handler n k a kv fs ADD kr s = (Val (), s)"
  using assms by (simp add: pgbackup_handler_def pgbackup_add_def pgrestore_handler_def pgrestore_add_def
      kvbackup_handler_def kvrestore_handler_def ret_def)

lemma finished_ignored_witness:
  "pgbackup_handler 1 1 ''x'' idle_k8s idle_apr idle_fs ADD ready_pb ((), []) = (Val None, ((), []))"
proof -
  let ?pr = "plain_pr\<lparr>prStatus := (prStatus plain_pr)\<lparr>prState := RestoreStateError\<rparr>\<rparr>"
  let ?kb = "plain_kb\<lparr>kbStatus := (kbStatus plain_kb)\<lparr>kbState := BackupStateRejected\<rparr>\<rparr>"
  let ?kr = "plain_kr\<lparr>krStatus := (krStatus plain_kr)\<lparr>krState := RestoreStateReady\<rparr>\<rparr>"
  have "backup_finished (pbState (pbStatus ready_pb))" "restore_finished (prState (prStatus ?pr))"
    "backup_finished (kbState (kbStatus ?kb))" "restore_finished (krState (krStatus ?kr))"
    by (simp_all add: ready_pb_def)
  from finished_ignored [OF this, of 1 1 "''x''" idle_k8s idle_apr idle_fs "((), [])" idle_kvapr plain_redis]
  show ?thesis by simp
qed

section \<open>The watch of a finished job\<close>

text \<open>The identifier of a job is assigned by the API server on creation; the handlers keep the object
  they built, not the one the server returned.\<close>

lemma backup_job_UID: "jobUID (fst (backup_job sub admin pw backup)) = []"
  by (simp add: backup_job_def BackupJob_def Let_def split: option.splits)

lemma restore_job_UID: "jobUID (restore_job admin pw restore backup) = []"
  by (simp add: restore_job_def RestoreJob_def Let_def split: option.splits)

lemma watch_same: "watchJobDelete_pr k job items = watchJobDelete_pb k job items"
  by (induction k job items rule: watchJobDelete_pb.induct) simp_all

definition deletes_pod :: "call \<Rightarrow> bool" where
  "deletes_pod c = (case c of K8s (DeletePod _ _) \<Rightarrow> True | _ \<Rightarrow> False)"

lemma emits_clean_pods:
  assumes "\<And>ns sel w pods w'. listPods k ns sel w = (Val pods, w') \<Longrightarrow> \<forall>p \<in> set pods. [] \<notin> set (podOwnerUIDs p)"
    and "jobUID job = []"
  shows "emits (\<lambda>c. \<not> deletes_pod c) (clean_pods k job)"
proof -
  let ?S = "\<lambda>c. \<not> deletes_pod c"
  let ?body = "\<lambda>pods. forM pods (\<lambda>pod. forM (podOwnerUIDs pod) (\<lambda>uid. if uid = jobUID job
     then ignorec (call (K8s (DeletePod (podNamespace pod) (podName pod))) (deletePod k (podNamespace pod) (podName pod)))
     else ret ()))"
  have body: "emits ?S (?body pods)" if "\<forall>p \<in> set pods. [] \<notin> set (podOwnerUIDs p)" for pods
    using that assms(2) by (intro emits_forM) (auto intro!: emits_ret emits_if)
  have owners: "\<forall>p \<in> set pods. [] \<notin> set (podOwnerUIDs p)"
    if "call (K8s (ListPods ns [])) (listPods k ns []) s = (Val pods, s')" for ns s pods s'
    using that assms(1) [of ns "[]" "fst s"] by (auto simp: call_def split: prod.splits)
  show ?thesis
    unfolding clean_pods_def
    by (rule emits_tryc_post, rule emits_call, simp add: deletes_pod_def, erule body [OF owners], rule emits_ret)
qed

lemma emits_watchJobDelete:
  "emits S (clean_pods k job) \<Longrightarrow> emits S (watchJobDelete_pb k job items)"
  by (induction k job items rule: watchJobDelete_pb.induct) (simp_all add: emits_ret)

text \<open>The watch that should remove the pods of a deleted job removes none. It compares the owners
  of the pods with the identifier of the job object that the handler built, which is empty; owners
  always have an identifier, so no pod is ever deleted, for backups and restores alike and for every
  sequence of watch events.\<close>

lemma watch_deletes_no_pods:
  assumes "\<And>ns sel w pods w'. listPods k ns sel w = (Val pods, w') \<Longrightarrow> \<forall>p \<in> set pods. [] \<notin> set (podOwnerUIDs p)"
  shows "emits (\<lambda>c. \<not> deletes_pod c) (watchJobDelete_pb k (fst (backup_job sub admin pw backup)) items) \<and>
    emits (\<lambda>c. \<not> deletes_pod c) (watchJobDelete_pr k (restore_job admin pw restore backup) items)"
  unfolding watch_same
  by (intro conjI emits_watchJobDelete emits_clean_pods assms backup_job_UID restore_job_UID)

lemma watch_deletes_no_pods_witness:
  "emits (\<lambda>c. \<not> deletes_pod c) (watchJobDelete_pb busy_k8s (fst (backup_job [] [] [] plain_pb)) [DeletedEvent (Some (''pgc-backup-job'', ''os''))])"
proof -
  have owners: "\<forall>p \<in> set pods. [] \<notin> set (podOwnerUIDs p)" if "listPods busy_k8s ns sel w = (Val pods, w')" for ns sel w pods w'
    using that by (auto simp: busy_k8s_def ok_def stuck_pod_def)
  show ?thesis by (rule watch_deletes_no_pods [of busy_k8s, THEN conjunct1]) (erule owners)
qed

section \<open>The kvrocks controllers\<close>

lemma emits_GetKVRocksClient:
  assumes "\<And>ns n. S (K8s (GetSecret ns n))" "\<And>addr pw. S (Misc (RedisPing addr pw))" "S (Misc RedisClose)"
  shows "emits S (GetKVRocksClient k r def)"
  unfolding GetKVRocksClient_def Let_def Close_redis_def
  by (auto intro!: emits_intros assms split: option.splits)

lemma emits_BackupKVRocks:
  assumes "\<And>ns n. S (K8s (GetSecret ns n))" "\<And>m. S (Misc m)" "\<And>f. S (Fs f)"
  shows "emits S (BackupKVRocks n k fs r def backup)"
  unfolding BackupKVRocks_def Stat_fs_def RemoveAll_fs_def Close_redis_def
  by (auto intro!: emits_intros emits_GetKVRocksClient assms)

definition keeps_error :: "string \<Rightarrow> call \<Rightarrow> bool" where
  "keeps_error e c = (case c of Apr (UpdateKVBackupStatus b) \<Rightarrow> kbError (kbStatus b) = e | _ \<Rightarrow> True)"

lemma keeps_error_simps [simp]:
  "keeps_error e (K8s c)" "keeps_error e (Misc m)" "keeps_error e (Fs f)"
  "keeps_error e (Apr (GetRedixCluster ns n))"
  "keeps_error e (Apr (UpdateKVBackupStatus b)) \<longleftrightarrow> kbError (kbStatus b) = e"
  by (simp_all add: keeps_error_def)

lemma emits_updateStatus_kb:
  "kbError (kbStatus b) = e \<Longrightarrow> emits (keeps_error e) (updateStatus_kb k kv b st None)"
  unfolding updateStatus_kb_def Now_def Let_def
  by (auto intro!: emits_intros simp: kb_status.errmsg_put)

lemma updateStatus_kb_error:
  assumes "\<And>b w x w'. updateKVBackupStatus kv b w = (Val x, w') \<Longrightarrow> kbStatus x = kbStatus b"
    and "updateStatus_kb k kv b st None s = (Val x, s')"
  shows "kbError (kbStatus x) = kbError (kbStatus b)"
proof -
  obtain now s0 where "(let c = kb_set st None now b in call (Apr (UpdateKVBackupStatus c)) (updateKVBackupStatus kv c)) s0 = (Val x, s')"
    using assms(2) seqc_Val unfolding updateStatus_kb_def by fast
  then obtain w w' where "updateKVBackupStatus kv (kb_set st None now b) w = (Val x, w')"
    by (cases "updateKVBackupStatus kv (kb_set st None now b) (fst s0)") (auto simp: call_def Let_def)
  from assms(1) [OF this] kb_status.errmsg_put [of st None now b] show ?thesis by simp
qed

text \<open>The cause of a failed kvrocks backup is lost: with an API server that stores the status as
  it is sent, every status that the handler writes for a backup with a cluster name carries the
  error message the resource already had, also when the backup fails and the handler returns its
  error.\<close>

lemma kvbackup_error_lost:
  assumes "\<And>b w x w'. updateKVBackupStatus kv b w = (Val x, w') \<Longrightarrow> kbStatus x = kbStatus b"
    and "kbClusterName (kbSpec backup) \<noteq> []"
    and "kvbackup_handler n k a kv fs redis action backup s = (r, s')"
  shows "\<exists>cs. snd s' = snd s @ cs \<and> list_all (keeps_error (kbError (kbStatus backup))) cs"
proof -
  let ?S = "keeps_error (kbError (kbStatus backup))"
  have work: "emits ?S (tryc (BackupKVRocks n k fs redis cluster b)
      (\<lambda>x. ignorec (updateStatus_kb k kv x BackupStateReady None))
      (\<lambda>err. seqc (ignorec (updateStatus_kb k kv b BackupStateError None)) (\<lambda>_. fail err)))"
    if b: "kbError (kbStatus b) = kbError (kbStatus backup)" for cluster b
  proof (rule emits_tryc_post)
    fix s x s'
    assume "BackupKVRocks n k fs redis cluster b s = (Val x, s')"
    then have "kbError (kbStatus x) = kbError (kbStatus b)"
      using BackupKVRocks_result by fastforce
    with b show "emits ?S (ignorec (updateStatus_kb k kv x BackupStateReady None))"
      by (intro emits_ignorec emits_updateStatus_kb) simp
  qed (auto intro!: emits_BackupKVRocks emits_seqc emits_ignorec emits_fail emits_updateStatus_kb b)
  have same: "kbError (kbStatus x) = kbError (kbStatus backup)"
    if "updateStatus_kb k kv backup BackupStateRunning None s = (Val x, s')" for s x s'
    by (rule updateStatus_kb_error [OF _ that]) (erule assms(1))
  have start: "emits ?S (seqc (updateStatus_kb k kv backup BackupStateRunning None) (\<lambda>b.
      tryc (BackupKVRocks n k fs redis cluster b)
      (\<lambda>x. ignorec (updateStatus_kb k kv x BackupStateReady None))
      (\<lambda>err. seqc (ignorec (updateStatus_kb k kv b BackupStateError None)) (\<lambda>_. fail err))))" for cluster
    by (rule emits_seqc_post, rule emits_updateStatus_kb, rule refl, rule work, erule same)
  have "emits ?S (kvbackup_handler n k a kv fs redis action backup)"
    unfolding kvbackup_handler_def RedixClusters_Get_def RemoveAll_fs_def using assms(2)
    by (cases action) (auto intro!: emits_ret emits_call emits_seqc emits_ignorec emits_if start)
  from emitsD [OF this assms(3)] show ?thesis .
qed

definition down_redis :: "unit redis_ops" where
  "down_redis = plain_redis\<lparr>redisBgSave := (\<lambda>w. (Err (Failure ''disk full''), w))\<rparr>"

definition ok_kvapr :: "unit kvapr" where
  "ok_kvapr = idle_kvapr\<lparr>updateKVBackupStatus := (\<lambda>b w. (Val b, w))\<rparr>"

lemma kvbackup_error_lost_witness:
  "fst (kvbackup_handler 1 idle_k8s bk_apr ok_kvapr (idle_fs\<lparr>fsStat := ok True\<rparr>) down_redis ADD plain_kb ((), []))
     = Err (Failure ''kvrocks backup error: disk full'') \<and>
   list_all (keeps_error []) (snd (snd
     (kvbackup_handler 1 idle_k8s bk_apr ok_kvapr (idle_fs\<lparr>fsStat := ok True\<rparr>) down_redis ADD plain_kb ((), []))))"
proof -
  obtain r s' where run: "kvbackup_handler 1 idle_k8s bk_apr ok_kvapr (idle_fs\<lparr>fsStat := ok True\<rparr>) down_redis ADD plain_kb ((), [])
      = (r, s')" by (rule prod.exhaust)
  have "r = Err (Failure ''kvrocks backup error: disk full'')"
    using run by (auto simp: kvbackup_handler_def RedixClusters_Get_def updateStatus_kb_def kb_set_def Now_def BackupKVRocks_def
        GetKVRocksClient_def GetVarValue_def Stat_fs_def RemoveAll_fs_def Close_redis_def deferc_def run_defs bk_apr_def
        ok_kvapr_def down_redis_def kv_plain_defs plain_defs idle_defs)
  moreover have "kbStatus x = kbStatus b" if "updateKVBackupStatus ok_kvapr b w = (Val x, w')" for b w x w'
    using that by (simp add: ok_kvapr_def)
  moreover have "kbClusterName (kbSpec plain_kb) \<noteq> []" "kbError (kbStatus plain_kb) = []"
    by (simp_all add: plain_kb_def)
  ultimately show ?thesis using kvbackup_error_lost [of ok_kvapr, OF _ _ run] run by auto
qed

section \<open>Waiting for all backups\<close>



end
