(* ===== verification/Corefile.thy ===== *)
theory Corefile
  imports Utils
begin

text \<open>The DNS part of the system event watcher (\<open>cmd/sys-event/watchers/corefile.go\<close>): the
  addresses handed out to users, the edits of a Corefile and its regeneration. The parser and the
  printer of Corefiles belong to a library: they are the arguments \<open>parse\<close> and \<open>print\<close>.\<close>

section \<open>Corefiles\<close>

text \<open>The types of \<open>corefile-migration\<close> as far as the code reads and writes them.\<close>

record cf_option =
  optName :: string
  optArgs :: "string list"

record cf_plugin =
  plName :: string
  plArgs :: "string list"
  plOptions :: "cf_option list"

record cf_server =
  svDomPorts :: "string list"
  svPlugins :: "cf_plugin list"

type_synonym corefile = "cf_server list"

definition match_options :: "string \<Rightarrow> string \<Rightarrow> cf_option list" where
  "match_options zone ip =
     [\<lparr>optName = ''match'', optArgs = [[CHR 0x22] @ [CHR 0x5C] @ ''w*'' @ [CHR 0x5C] @ ''.?('' @ zone @ [CHR 0x5C] @ ''.)$'' @ [CHR 0x22]]\<rparr>,
      \<lparr>optName = ''answer'', optArgs = [[CHR 0x22] @ ''{{ .Name }} 60 IN A '' @ ip @ [CHR 0x22]]\<rparr>,
      \<lparr>optName = ''fallthrough'', optArgs = []\<rparr>]"

definition any_options :: "cf_option list" where
  "any_options = [\<lparr>optName = ''rcode'', optArgs = [''NOERROR'']\<rparr>]"

text \<open>\<open>addUserTemplates\<close> of \<open>RegenerateCorefile\<close>, also appended by \<open>UpsertCorefile\<close> for a new user.\<close>

definition user_templates :: "string \<Rightarrow> string \<Rightarrow> cf_plugin list" where
  "user_templates zone ip =
     [\<lparr>plName = ''template'', plArgs = [''IN'', ''A'', zone], plOptions = match_options zone ip\<rparr>,
      \<lparr>plName = ''template'', plArgs = [''IN'', ''ANY'', zone], plOptions = any_options\<rparr>]"

definition addUserTemplates :: "string \<Rightarrow> string \<Rightarrow> cf_plugin list \<Rightarrow> cf_plugin list" where
  "addUserTemplates zone ip plugins = plugins @ user_templates zone ip"

section \<open>Edits of a Corefile\<close>

definition quote_args :: "cf_option \<Rightarrow> cf_option" where
  "quote_args o' = (if optName o' \<in> {''match'', ''answer''}
     then o'\<lparr>optArgs := [[CHR 0x22] @ Join (optArgs o') '' '' @ [CHR 0x22]]\<rparr> else o')"

text \<open>One round of the loop of \<open>UpsertCorefile\<close>: the plugin that is kept and whether it is the
  user's own \<open>A\<close> template.\<close>

definition upsert_plugin :: "string \<Rightarrow> string \<Rightarrow> cf_plugin \<Rightarrow> cf_plugin \<times> bool" where
  "upsert_plugin userzone ip p =
     (if plName p \<noteq> ''template'' then (p, False)
      else if length (plArgs p) \<noteq> 3 then (p, False)
      else if plArgs p ! 2 = userzone \<and> plArgs p ! 1 = ''A'' then (p\<lparr>plOptions := match_options userzone ip\<rparr>, True)
      else if plArgs p ! 2 = userzone \<and> plArgs p ! 1 = ''ANY'' then (p\<lparr>plOptions := any_options\<rparr>, False)
      else (p\<lparr>plOptions := map quote_args (plOptions p)\<rparr>, False))"

definition upsert_plugins :: "string \<Rightarrow> string \<Rightarrow> cf_plugin list \<Rightarrow> cf_plugin list" where
  "upsert_plugins userzone ip ps =
     (let rs = map (upsert_plugin userzone ip) ps in
      map fst rs @ (if list_ex snd rs then [] else user_templates userzone ip))"

definition UpsertCorefile :: "(string \<Rightarrow> corefile res) \<Rightarrow> (corefile \<Rightarrow> string) \<Rightarrow> string \<Rightarrow> string \<Rightarrow> string \<Rightarrow> string res" where
  "UpsertCorefile parse print data userzone ip = bindR (parse data) (\<lambda>file.
     case file of
       [server] \<Rightarrow> Val (print [server\<lparr>svPlugins := upsert_plugins userzone ip (svPlugins server)\<rparr>])
     | _ \<Rightarrow> Val data)"

text \<open>The loop of \<open>RemoveTemplateFromCorefile\<close>: after the test for the user's zone there is no
  \<open>append\<close>, so that a template of another zone is not kept either.\<close>

fun remove_plugins :: "string \<Rightarrow> cf_plugin list \<Rightarrow> cf_plugin list" where
  "remove_plugins userzone [] = []"
| "remove_plugins userzone (p # ps) =
     (if plName p \<noteq> ''template'' then p # remove_plugins userzone ps
      else if length (plArgs p) \<noteq> 3 then p # remove_plugins userzone ps
      else if plArgs p ! 2 = userzone then remove_plugins userzone ps
      else remove_plugins userzone ps)"

definition RemoveTemplateFromCorefile :: "(string \<Rightarrow> corefile res) \<Rightarrow> (corefile \<Rightarrow> string) \<Rightarrow> string \<Rightarrow> string \<Rightarrow> string res" where
  "RemoveTemplateFromCorefile parse print data userzone = bindR (parse data) (\<lambda>file.
     case file of
       [server] \<Rightarrow> Val (print [server\<lparr>svPlugins := remove_plugins userzone (svPlugins server)\<rparr>])
     | _ \<Rightarrow> Val data)"

section \<open>The addresses of the users\<close>

text \<open>\<open>math.Ceil(math.Log2(n))\<close> for the positive numbers of users that the code can serve. For
  \<open>n \<le> 0\<close> the logarithm is not a number or infinite, its conversion a negative integer (on amd64) and the
  shift by it a panic; so is the second shift once there are more bits than the mask leaves.\<close>

fun ceil_log2 :: "nat \<Rightarrow> nat" where
  "ceil_log2 n = (if n \<le> 1 then 0 else Suc (ceil_log2 ((n + 1) div 2)))"

declare ceil_log2.simps [simp del]

text \<open>The inner loop: bytes are added from the last to the first, modulo 256 and without carry.
  The argument is the address with its last byte first.\<close>

fun add_bytes :: "byte list \<Rightarrow> nat \<Rightarrow> byte list" where
  "add_bytes [] offset = []"
| "add_bytes (b # bs) offset =
     (if offset > 0 then (b + of_nat (offset mod 256)) # add_bytes bs (offset div 256) else b # bs)"

definition baseIP :: "byte list" where
  "baseIP = [100, 64, 0, 0]"

definition first_usable :: "nat \<Rightarrow> nat \<Rightarrow> byte list" where
  "first_usable ipsPerSubnet i =
     (let subnetIP = rev (add_bytes (rev baseIP) ((i * ipsPerSubnet) mod 2 ^ 32))
      in subnetIP[3 := subnetIP ! 3 + 1])"

definition subDNSSplit :: "int \<Rightarrow> (string \<times> byte list) list res" where
  "subDNSSplit n =
     (if n \<le> 0 then Panic ''negative shift amount''
      else let log2n = ceil_log2 (nat n) in
        if 10 + log2n > 32 then Panic ''negative shift amount''
        else Val (map (\<lambda>i. (Itoa i, first_usable (2 ^ (32 - (10 + log2n))) i)) [0..<2 ^ log2n]))"

text \<open>\<open>net.IP.String\<close> of a four byte address.\<close>

definition IP_String :: "byte list \<Rightarrow> string" where
  "IP_String ip = Join (map (\<lambda>b. Itoa (unat b)) ip) ''.''"

text \<open>\<open>strconv.ParseInt(s, 10, 64)\<close>.\<close>

definition digit_of :: "char \<Rightarrow> int option" where
  "digit_of c = (if 48 \<le> (of_char c :: nat) \<and> (of_char c :: nat) \<le> 57 then Some (of_char c - 48) else None)"

fun digits_of :: "string \<Rightarrow> int \<Rightarrow> int option" where
  "digits_of [] acc = Some acc"
| "digits_of (c # s) acc = (case digit_of c of None \<Rightarrow> None | Some d \<Rightarrow> digits_of s (10 * acc + d))"

definition ParseInt :: "string \<Rightarrow> int res" where
  "ParseInt s =
     (let (neg, ds) = (case s of c # t \<Rightarrow> if c = CHR ''-'' then (True, t) else if c = CHR ''+'' then (False, t) else (False, s)
                       | [] \<Rightarrow> (False, []))
      in case (if ds = [] then None else digits_of ds 0) of
           None \<Rightarrow> Err (Failure ''invalid syntax'')
         | Some v \<Rightarrow> let v = (if neg then - v else v) in
             if - (2 ^ 63) \<le> v \<and> v < 2 ^ 63 then Val v else Err (Failure ''value out of range''))"

section \<open>Regeneration\<close>

definition UserAnnotationZoneKey :: string where "UserAnnotationZoneKey = ''bytetrade.io/zone''"
definition UserIndexAna :: string where "UserIndexAna = ''bytetrade.io/user-index''"

text \<open>The objects read from the cluster: users, nodes, applications (a failed conversion is
  \<open>None\<close>) and namespaces.\<close>

record dns_user =
  duName :: string
  duAnnotations :: "(string \<times> string) list"

record dns_node =
  dnLabels :: "(string \<times> string) list"
  dnAddresses :: "(string \<times> string) list"

record dns_app =
  daName :: string
  daOwner :: string
  daAppid :: string
  daSharedEntrances :: "string list"

record dns_ns =
  nsName :: string
  nsLabels :: "(string \<times> string) list"

datatype dns_call =
    GetCorefile
  | ListUsers
  | ListNodes
  | GetBflPod string
  | ListApplications
  | ListNamespaces
  | GetEntranceService string string
  | ListAdguardPods
  | UpdateCorefile string

type_synonym ('w, 'a) dns = "(dns_call, 'w, 'a) io"

record 'w dns_ops =
  getCorefile :: "('w, string) op"
  listUsers :: "('w, dns_user list) op"
  listNodes :: "('w, dns_node list) op"
  getBflPod :: "string \<Rightarrow> ('w, string) op"
  listApplications :: "('w, dns_app option list) op"
  listNamespaces :: "('w, dns_ns list) op"
  getEntranceService :: "string \<Rightarrow> string \<Rightarrow> ('w, string) op"
  listAdguardPods :: "('w, string list) op"
  updateCorefile :: "string \<Rightarrow> ('w, unit) op"

text \<open>A label or annotation that is missing reads as empty.\<close>

definition label :: "(string \<times> string) list \<Rightarrow> string \<Rightarrow> string" where
  "label m key = (case lookup m key of Some v \<Rightarrow> v | None \<Rightarrow> [])"

definition getUserLocalIp :: "string \<Rightarrow> dns_user \<Rightarrow> byte list option res" where
  "getUserLocalIp maxUsers user =
     (if label (duAnnotations user) UserIndexAna = [] then Val None
      else bindR (ParseInt (if maxUsers = [] then ''1024'' else maxUsers)) (\<lambda>userMax.
        bindR (subDNSSplit userMax) (\<lambda>subnets.
        case lookup subnets (label (duAnnotations user) UserIndexAna) of
          None \<Rightarrow> Err (Failure ''invalid ip address <nil>'')
        | Some ip \<Rightarrow> Val (Some ip))))"

definition getUserIngressIP :: "'w dns_ops \<Rightarrow> dns_user \<Rightarrow> ('w, string) dns" where
  "getUserIngressIP d user = call (GetBflPod (duName user)) (getBflPod d (duName user))"

text \<open>The address of the last control plane node that has an internal one.\<close>

definition node_ip :: "dns_node \<Rightarrow> string option" where
  "node_ip n = (if lookup (dnLabels n) ''node-role.kubernetes.io/control-plane'' \<noteq> None
     then map_option snd (find (\<lambda>(t, a). t = ''InternalIP'') (dnAddresses n)) else None)"

definition master_ip :: "dns_node list \<Rightarrow> string" where
  "master_ip nodes = foldl (\<lambda>ip n. case node_ip n of Some a \<Rightarrow> a | None \<Rightarrow> ip) [] nodes"

text \<open>The four lists of templates that the loop over the users fills.\<close>

record templates =
  vpnT :: "cf_plugin list"
  inclusterT :: "cf_plugin list"
  localT :: "cf_plugin list"
  localDomainT :: "cf_plugin list"

definition user_step :: "string \<Rightarrow> 'w dns_ops \<Rightarrow> string \<Rightarrow> templates \<Rightarrow> dns_user \<Rightarrow> ('w, templates) dns" where
  "user_step maxUsers d masterNodeIp t u =
     (let userzone = label (duAnnotations u) UserAnnotationZoneKey in
      if userzone = [] then ret t
      else seqc (lift (getUserLocalIp maxUsers u)) (\<lambda>ip. case ip of
          None \<Rightarrow> ret t
        | Some ip \<Rightarrow> seqc (getUserIngressIP d u) (\<lambda>ingressIp.
            if ingressIp = [] then ret t
            else let t = t\<lparr>vpnT := addUserTemplates userzone (IP_String ip) (vpnT t),
                           inclusterT := addUserTemplates userzone ingressIp (inclusterT t)\<rparr> in
              if masterNodeIp = [] then ret t
              else ret (t\<lparr>localT := addUserTemplates userzone masterNodeIp (localT t),
                          localDomainT := addUserTemplates (duName u @ ''.olares.local'') masterNodeIp (localDomainT t)\<rparr>))))"

definition shared_plugin :: "dns_app \<Rightarrow> nat \<Rightarrow> string \<Rightarrow> string \<Rightarrow> cf_plugin" where
  "shared_plugin app i zone entranceIp =
     (let prefix = take 8 (MD5 (daAppid app @ ''shared'')) @ Itoa i in
      \<lparr>plName = ''template'', plArgs = [''IN'', ''A'', prefix @ ''.'' @ zone],
       plOptions = [\<lparr>optName = ''match'', optArgs = [[CHR 0x22] @ prefix @ ''.?('' @ zone @ [CHR 0x5C] @ ''.)$'' @ [CHR 0x22]]\<rparr>,
         \<lparr>optName = ''answer'', optArgs = [[CHR 0x22] @ ''{{ .Name }} 60 IN A '' @ entranceIp @ [CHR 0x22]]\<rparr>,
         \<lparr>optName = ''fallthrough'', optArgs = []\<rparr>]\<rparr>)"

definition shared_namespaces :: "dns_app \<Rightarrow> dns_ns list \<Rightarrow> string list" where
  "shared_namespaces app nss = map nsName (filter (\<lambda>ns.
     label (nsLabels ns) ''applications.app.bytetrade.io/name'' = daName app \<and>
     label (nsLabels ns) ''bytetrade.io/ns-shared'' = ''true'' \<and>
     label (nsLabels ns) ''applications.app.bytetrade.io/install_user'' = daOwner app) nss)"

definition entrance_step :: "'w dns_ops \<Rightarrow> string \<Rightarrow> dns_app \<Rightarrow> cf_plugin list \<Rightarrow> (nat \<times> string) \<times> string \<Rightarrow>
    ('w, cf_plugin list) dns" where
  "entrance_step d zone app ps e = (case e of ((i, host), ns) \<Rightarrow>
     tryc (call (GetEntranceService ns host) (getEntranceService d ns host))
       (\<lambda>ip. ret (if ip = [] then ps else ps @ [shared_plugin app i zone ip]))
       (\<lambda>_. ret ps))"

definition app_step :: "'w dns_ops \<Rightarrow> string \<Rightarrow> dns_ns list \<Rightarrow> cf_plugin list \<Rightarrow> dns_app option \<Rightarrow> ('w, cf_plugin list) dns" where
  "app_step d zone nss ps app = (case app of
      None \<Rightarrow> ret ps
    | Some app \<Rightarrow>
        if daSharedEntrances app = [] then ret ps
        else foldM (entrance_step d zone app) ps
          (List.product (enumerate 0 (daSharedEntrances app)) (shared_namespaces app nss)))"

definition shared_zone :: "dns_user list \<Rightarrow> string option" where
  "shared_zone us = (case us of
      [] \<Rightarrow> None
    | u # _ \<Rightarrow> let zone = label (duAnnotations u) UserAnnotationZoneKey; tokens = Split zone (CHR ''.'') in
        if zone = [] then None else if length tokens < 2 then None
        else Some (Join (tokens[0 := ''shared'']) ''.''))"

definition shared_entrances :: "'w dns_ops \<Rightarrow> dns_user list \<Rightarrow> cf_plugin list \<Rightarrow> ('w, cf_plugin list) dns" where
  "shared_entrances d us ps = (case shared_zone us of
      None \<Rightarrow> ret ps
    | Some zone \<Rightarrow>
        seqc (call ListApplications (listApplications d)) (\<lambda>apps.
        seqc (call ListNamespaces (listNamespaces d)) (\<lambda>nss.
        foldM (app_step d zone nss) ps apps)))"

definition default_names :: "string list" where
  "default_names = [''errors'', ''health'', ''ready'', ''kubernetes'', ''prometheus'', ''forward'', ''cache'',
     ''loop'', ''reload'', ''loadbalance'']"

definition default_plugins :: "cf_server \<Rightarrow> cf_plugin list" where
  "default_plugins server = filter (\<lambda>p. plName p \<in> set default_names) (svPlugins server)"

definition view_plugin :: "string \<Rightarrow> string \<Rightarrow> cf_plugin" where
  "view_plugin name expr = \<lparr>plName = ''view'', plArgs = [name], plOptions = [\<lparr>optName = ''expr'', optArgs = [expr]\<rparr>]\<rparr>"

definition incluster_expr :: "string \<Rightarrow> string" where
  "incluster_expr adguardIp =
     (let e = ''incidr(client_ip(), '' @ [CHR 0x27] @ ''10.233.0.0/16'' @ [CHR 0x27] @ '')'' in
      if adguardIp \<noteq> [] then ''( '' @ e @ '' && client_ip() != '' @ [CHR 0x27] @ adguardIp @ [CHR 0x27] @ '' )'' else e)"

definition vpn_expr :: "string \<Rightarrow> string" where
  "vpn_expr masterNodeIp = ''incidr(client_ip(), '' @ [CHR 0x27] @ ''100.64.0.0/16'' @ [CHR 0x27] @ '') || client_ip() == ''
     @ [CHR 0x27] @ masterNodeIp @ [CHR 0x27]"

text \<open>The three servers that replace those of the file.\<close>

definition new_servers :: "cf_server \<Rightarrow> templates \<Rightarrow> string \<Rightarrow> string \<Rightarrow> corefile" where
  "new_servers server t adguardIp masterNodeIp =
     (let defaults = default_plugins server in
      [\<lparr>svDomPorts = svDomPorts server, svPlugins = view_plugin ''incluster'' (incluster_expr adguardIp) # defaults @ inclusterT t\<rparr>,
       \<lparr>svDomPorts = svDomPorts server, svPlugins = view_plugin ''vpn'' (vpn_expr masterNodeIp) # defaults @ vpnT t\<rparr>,
       \<lparr>svDomPorts = svDomPorts server, svPlugins = defaults @ localT t @ localDomainT t\<rparr>])"

definition adguard_ip :: "'w dns_ops \<Rightarrow> ('w, string) dns" where
  "adguard_ip d = tryc (call ListAdguardPods (listAdguardPods d))
     (\<lambda>ips. ret (case ips of [] \<Rightarrow> [] | ip # _ \<Rightarrow> ip)) (\<lambda>_. ret [])"

definition RegenerateCorefile :: "(string \<Rightarrow> corefile res) \<Rightarrow> (corefile \<Rightarrow> string) \<Rightarrow> string \<Rightarrow> 'w dns_ops \<Rightarrow> ('w, unit) dns" where
  "RegenerateCorefile parse print maxUsers d =
     seqc (call GetCorefile (getCorefile d)) (\<lambda>data.
     seqc (lift (parse data)) (\<lambda>file.
     case file of
       [] \<Rightarrow> ret ()
     | server # _ \<Rightarrow>
       seqc (call ListUsers (listUsers d)) (\<lambda>us.
       seqc (call ListNodes (listNodes d)) (\<lambda>nodes.
       seqc (foldM (user_step maxUsers d (master_ip nodes)) \<lparr>vpnT = [], inclusterT = [], localT = [], localDomainT = []\<rparr> us) (\<lambda>t.
       seqc (shared_entrances d us (inclusterT t)) (\<lambda>incluster.
       seqc (adguard_ip d) (\<lambda>adguardIp.
       let text = print (new_servers server (t\<lparr>inclusterT := incluster\<rparr>) adguardIp (master_ip nodes)) in
       call (UpdateCorefile text) (updateCorefile d text))))))))"

end
