(* ===== verification/Corefile_Proofs.thy ===== *)
theory Corefile_Proofs
  imports Corefile
begin

text \<open>Properties of the DNS part: the range and the distinctness of the users' addresses, what the
  edits of a Corefile keep, and that regeneration is a fixed point of its own output.\<close>

section \<open>Addresses\<close>

lemma le_power_ceil_log2: "n \<le> 2 ^ ceil_log2 n"
proof (induction n rule: ceil_log2.induct)
  case (1 n)
  show ?case
  proof (cases "n \<le> 1")
    case True
    then show ?thesis by (simp add: ceil_log2.simps)
  next
    case False
    with 1 have "(n + 1) div 2 \<le> 2 ^ ceil_log2 ((n + 1) div 2)" by simp
    with False show ?thesis by (subst ceil_log2.simps) simp
  qed
qed

lemma ceil_log2_le: "n \<le> 2 ^ k \<Longrightarrow> ceil_log2 n \<le> k"
proof (induction n arbitrary: k rule: ceil_log2.induct)
  case (1 n)
  show ?case
  proof (cases "n \<le> 1")
    case True
    then show ?thesis by (simp add: ceil_log2.simps)
  next
    case False
    then obtain k' where k: "k = Suc k'" using 1(2) by (cases k) auto
    with 1(2) have "(n + 1) div 2 \<le> 2 ^ k'" by simp
    with 1(1) False have "ceil_log2 ((n + 1) div 2) \<le> k'" by simp
    with False k show ?thesis by (subst ceil_log2.simps) simp
  qed
qed

definition ip_value :: "byte list \<Rightarrow> nat" where
  "ip_value ip = foldl (\<lambda>a b. a * 256 + unat b) 0 ip"

lemma add_bytes_base:
  assumes "off < 2 ^ 22"
  shows "add_bytes (rev baseIP) off = [of_nat (off mod 256), of_nat (off div 256 mod 256), 64 + of_nat (off div 65536), 100]"
proof -
  have "off div 65536 < 64" using assms by (simp add: less_mult_imp_div_less)
  then have "off div 256 div 256 mod 256 = off div 65536" "off div 256 div 256 div 256 = 0"
    by (simp_all add: div_mult2_eq [symmetric])
  then show ?thesis
    by (auto simp: baseIP_def div_mult2_eq [symmetric] div_eq_0_iff)
qed

lemma unat_byte: "n < 256 \<Longrightarrow> unat (of_nat n :: byte) = n"
  by (simp add: unat_of_nat)

lemma unat_byte_add: "a < 256 \<Longrightarrow> b < 256 \<Longrightarrow> a + b < 256 \<Longrightarrow> unat (of_nat a + of_nat b :: byte) = a + b"
  by (metis of_nat_add unat_byte)

lemma even_low_byte:
  assumes "even (n :: nat)"
  shows "n mod 256 + 1 < 256"
proof -
  have "even (n mod 256)" using assms by (intro dvd_mod) simp_all
  moreover have "n mod 256 < 256" by simp
  ultimately have "n mod 256 \<noteq> 255" by auto
  with \<open>n mod 256 < 256\<close> show ?thesis by linarith
qed

lemma byte_split: "(n :: nat) = n div 65536 * 65536 + n div 256 mod 256 * 256 + n mod 256"
proof -
  have "n div 256 div 256 = n div 65536" by (simp add: div_mult2_eq [symmetric])
  moreover have "n = n div 256 * 256 + n mod 256" "n div 256 = n div 256 div 256 * 256 + n div 256 mod 256"
    by (simp_all only: div_mult_mod_eq)
  ultimately show ?thesis by linarith
qed

lemma ip_value_first_usable:
  assumes "i * ips < 2 ^ 22" "even ips"
  shows "ip_value (first_usable ips i) = ip_value baseIP + i * ips + 1"
proof -
  let ?off = "i * ips"
  have small: "?off div 65536 < 64" using assms(1) by (simp add: less_mult_imp_div_less)
  have "even ?off" using assms(2) by simp
  then have low: "?off mod 256 + 1 < 256" by (rule even_low_byte)
  have "?off mod 2 ^ 32 = ?off" using assms(1) by simp
  then have "first_usable ips i = [100, 64 + of_nat (?off div 65536), of_nat (?off div 256 mod 256), of_nat (?off mod 256) + 1]"
    using add_bytes_base [OF assms(1)] by (simp add: first_usable_def Let_def)
  moreover have "unat (64 + of_nat (?off div 65536) :: byte) = 64 + ?off div 65536"
    using unat_byte_add [of 64 "?off div 65536"] small by simp
  moreover have "unat (of_nat (?off mod 256) + 1 :: byte) = ?off mod 256 + 1"
    using unat_byte_add [of "?off mod 256" 1] low by simp
  ultimately show ?thesis
    using byte_split [of ?off] by (simp add: ip_value_def baseIP_def unat_byte)
qed

lemma subnet_offset:
  fixes i :: nat
  assumes "k \<le> 22" "i < 2 ^ k"
  shows "i * 2 ^ (22 - k) < 2 ^ (22 :: nat)"
proof -
  have "i * 2 ^ (22 - k) < 2 ^ k * 2 ^ (22 - k)" using assms(2) by simp
  also have "\<dots> = 2 ^ 22" using assms(1) by (simp flip: power_add)
  finally show ?thesis .
qed

text \<open>The table for a number of users that the address range can serve, and the panics beyond.\<close>

lemma subDNSSplit_Val:
  assumes "0 < n" "n \<le> 2 ^ 21" "k = ceil_log2 (nat n)"
  shows "k \<le> 21" "subDNSSplit n = Val (map (\<lambda>i. (Itoa i, first_usable (2 ^ (22 - k)) i)) [0..<2 ^ k])"
proof -
  have "nat n \<le> 2 ^ 21" using assms(2) by simp
  then show k: "k \<le> 21" unfolding assms(3) by (rule ceil_log2_le)
  then show "subDNSSplit n = Val (map (\<lambda>i. (Itoa i, first_usable (2 ^ (22 - k)) i)) [0..<2 ^ k])"
    using assms(1,3) by (simp add: subDNSSplit_def Let_def)
qed

lemma table_values:
  assumes "k \<le> 21" "i < 2 ^ k"
  shows "ip_value (first_usable (2 ^ (22 - k)) i) = ip_value baseIP + i * 2 ^ (22 - k) + 1"
  using assms by (intro ip_value_first_usable subnet_offset) auto

lemma table_distinct: "k \<le> 21 \<Longrightarrow> distinct (map (first_usable (2 ^ (22 - k))) [0..<2 ^ k])"
proof -
  assume k: "k \<le> 21"
  have "inj_on (first_usable (2 ^ (22 - k))) {0..<2 ^ k}"
  proof (rule inj_onI)
    fix i j
    assume "i \<in> {0..<2 ^ k}" "j \<in> {0..<2 ^ k}" and eq: "first_usable (2 ^ (22 - k)) i = first_usable (2 ^ (22 - k)) j"
    then have "ip_value baseIP + i * 2 ^ (22 - k) + 1 = ip_value baseIP + j * 2 ^ (22 - k) + 1"
      using table_values [OF k, of i] table_values [OF k, of j] by (metis atLeastLessThan_iff)
    then show "i = j" by simp
  qed
  then show ?thesis by (simp add: distinct_map)
qed

text \<open>C33. The addresses of the users. For one up to two million users the table has at least as many
  entries as users, entry \<open>i\<close> is the first address of the \<open>i\<close>-th of equal parts of 100.64.0.0/10, no
  byte overflows, and all addresses are different and inside the range. Without users and above
  four million the function panics.\<close>

theorem subDNSSplit_spec:
  "(0 < n \<and> n \<le> 2 ^ 21 \<longrightarrow> (\<exists>m k. subDNSSplit n = Val m \<and> n \<le> int (length m) \<and> length m = 2 ^ k \<and>
      map fst m = map Itoa [0..<length m] \<and>
      (\<forall>i < length m. ip_value (snd (m ! i)) = ip_value [100, 64, 0, 0] + i * 2 ^ (22 - k) + 1) \<and>
      distinct (map snd m) \<and> (\<forall>ip \<in> set (map snd m). ip_value ip div 2 ^ 22 = ip_value [100, 64, 0, 0] div 2 ^ 22))) \<and>
   (n \<le> 0 \<or> 2 ^ 22 < n \<longrightarrow> subDNSSplit n = Panic ''negative shift amount'')"
proof (intro conjI impI)
  assume n: "0 < n \<and> n \<le> 2 ^ 21"
  define k where "k = ceil_log2 (nat n)"
  note sp = subDNSSplit_Val [OF conjunct1 [OF n] conjunct2 [OF n] k_def]
  let ?m = "map (\<lambda>i. (Itoa i, first_usable (2 ^ (22 - k)) i)) [0..<2 ^ k]"
  have "n \<le> int (2 ^ k)" using le_power_ceil_log2 [of "nat n"] n unfolding k_def by linarith
  moreover have "\<forall>i < length ?m. ip_value (snd (?m ! i)) = ip_value [100, 64, 0, 0] + i * 2 ^ (22 - k) + 1"
    using table_values [OF sp(1)] by (simp add: baseIP_def)
  moreover have "distinct (map snd ?m)" using table_distinct [OF sp(1)] by (simp add: comp_def)
  moreover have "\<forall>ip \<in> set (map snd ?m). ip_value ip div 2 ^ 22 = ip_value [100, 64, 0, 0] div 2 ^ 22"
  proof
    fix ip
    assume "ip \<in> set (map snd ?m)"
    then obtain i where i: "i < 2 ^ k" "ip = first_usable (2 ^ (22 - k)) i" by auto
    have "(i + 1) * 2 ^ (22 - k) \<le> 2 ^ 22"
    proof -
      have "(i + 1) * 2 ^ (22 - k) \<le> 2 ^ k * 2 ^ (22 - k)" using i(1) by (intro mult_right_mono) auto
      also have "\<dots> = 2 ^ 22" using sp(1) by (simp flip: power_add)
      finally show ?thesis .
    qed
    moreover have "(2 :: nat) \<le> 2 ^ (22 - k)" using sp(1) by (intro self_le_power) auto
    ultimately have "i * 2 ^ (22 - k) + 1 < 2 ^ 22" by (simp add: algebra_simps)
    then show "ip_value ip div 2 ^ 22 = ip_value [100, 64, 0, 0] div 2 ^ 22"
      using table_values [OF sp(1) i(1)] i(2) by (simp add: ip_value_def baseIP_def)
  qed
  ultimately show "\<exists>m k. subDNSSplit n = Val m \<and> n \<le> int (length m) \<and> length m = 2 ^ k \<and>
      map fst m = map Itoa [0..<length m] \<and>
      (\<forall>i < length m. ip_value (snd (m ! i)) = ip_value [100, 64, 0, 0] + i * 2 ^ (22 - k) + 1) \<and>
      distinct (map snd m) \<and> (\<forall>ip \<in> set (map snd m). ip_value ip div 2 ^ 22 = ip_value [100, 64, 0, 0] div 2 ^ 22)"
    using sp(2) by (intro exI [of _ ?m] exI [of _ k]) (simp add: comp_def)
next
  assume "n \<le> 0 \<or> 2 ^ 22 < n"
  then show "subDNSSplit n = Panic ''negative shift amount''"
  proof
    assume "2 ^ 22 < n"
    then have "(2 :: nat) ^ 22 < nat n" by simp
    also have "\<dots> \<le> 2 ^ ceil_log2 (nat n)" by (rule le_power_ceil_log2)
    finally have "22 < ceil_log2 (nat n)" by (simp only: power_strict_increasing_iff [of "2 :: nat"])
    with \<open>2 ^ 22 < n\<close> show ?thesis by (simp add: subDNSSplit_def Let_def)
  qed (simp add: subDNSSplit_def)
qed

theorem subDNSSplit_spec_witness:
  "\<exists>m. subDNSSplit 1024 = Val m \<and> 1024 \<le> int (length m) \<and> distinct (map snd m)"
  using subDNSSplit_spec [of 1024] by auto

lemma distinct_values_lookup:
  "distinct (map snd m) \<Longrightarrow> lookup m a = Some x \<Longrightarrow> lookup m b = Some x \<Longrightarrow> a = b"
proof (induction m)
  case (Cons p m)
  obtain c y where p: "p = (c, y)" by (cases p)
  have "x \<noteq> y" if "lookup m z = Some x" for z
    using that Cons.prems(1) p by (auto dest: map_of_SomeD intro: rev_image_eqI)
  with Cons show ?case by (auto simp: p split: if_splits)
qed simp

text \<open>No two users share an address: whatever the configured maximum, up to two million, users
  with the same local address have the same index.\<close>

lemma local_ip_unique:
  assumes "getUserLocalIp maxUsers u = Val (Some ip)" "getUserLocalIp maxUsers v = Val (Some ip)"
    and "ParseInt (if maxUsers = [] then ''1024'' else maxUsers) = Val n" "n \<le> 2 ^ 21"
  shows "label (duAnnotations u) UserIndexAna = label (duAnnotations v) UserIndexAna"
proof -
  obtain m where m: "subDNSSplit n = Val m" "lookup m (label (duAnnotations u) UserIndexAna) = Some ip"
    "lookup m (label (duAnnotations v) UserIndexAna) = Some ip"
    using assms(1,2,3) by (auto simp: getUserLocalIp_def split: if_splits option.splits)
  then have "0 < n" by (auto simp: subDNSSplit_def split: if_splits)
  from subDNSSplit_Val [OF this assms(4) refl] m(1)
  have "distinct (map snd m)" using table_distinct by (auto simp: comp_def)
  from distinct_values_lookup [OF this m(2,3)] show ?thesis .
qed

definition user_at :: "string \<Rightarrow> dns_user" where
  "user_at i = \<lparr>duName = ''u'', duAnnotations = [(UserIndexAna, i), (UserAnnotationZoneKey, ''u.olares.cn'')]\<rparr>"

lemma local_ip_unique_witness:
  "\<exists>ip. getUserLocalIp ''2'' (user_at ''1'') = Val (Some ip) \<and>
     (\<forall>v. getUserLocalIp ''2'' v = Val (Some ip) \<longrightarrow> label (duAnnotations v) UserIndexAna = ''1'')"
proof -
  have n: "ParseInt (if ''2'' = [] then ''1024'' else ''2'') = Val 2"
    by (simp add: ParseInt_def digit_of_def Let_def)
  have one: "label (duAnnotations (user_at ''1'')) UserIndexAna = ''1''"
    by (simp add: user_at_def label_def UserIndexAna_def)
  have "Itoa 0 = ''0''" "Itoa 1 = ''1''"
    by code_simp+
  moreover have "ceil_log2 2 = 1" by (simp add: ceil_log2.simps)
  moreover have "[0..<2] = [0, 1 :: nat]" by (simp add: upt_rec)
  ultimately obtain p q where "subDNSSplit 2 = Val [(''0'', p), (''1'', q)]"
    by (simp add: subDNSSplit_def)
  then have ip: "getUserLocalIp ''2'' (user_at ''1'') = Val (Some q)"
    using n one by (simp add: getUserLocalIp_def)
  have "label (duAnnotations v) UserIndexAna = ''1''" if "getUserLocalIp ''2'' v = Val (Some q)" for v
    using local_ip_unique [OF ip that n] one by simp
  with ip show ?thesis by blast
qed

section \<open>Edits\<close>

definition own_template :: "string \<Rightarrow> cf_plugin \<Rightarrow> bool" where
  "own_template zone p = (plName p = ''template'' \<and> length (plArgs p) = 3 \<and> plArgs p ! 2 = zone \<and> plArgs p ! 1 \<in> {''A'', ''ANY''})"

definition a_template :: "string \<Rightarrow> cf_plugin \<Rightarrow> bool" where
  "a_template zone p = (plName p = ''template'' \<and> length (plArgs p) = 3 \<and> plArgs p ! 2 = zone \<and> plArgs p ! 1 = ''A'')"

definition foreign :: "cf_plugin \<Rightarrow> cf_plugin" where
  "foreign p = (if plName p = ''template'' \<and> length (plArgs p) = 3 then p\<lparr>plOptions := map quote_args (plOptions p)\<rparr> else p)"

lemma own_upsert: "own_template zone (fst (upsert_plugin zone ip p)) = own_template zone p"
  and a_upsert: "a_template zone (fst (upsert_plugin zone ip p)) = a_template zone p"
  and found_upsert: "snd (upsert_plugin zone ip p) = a_template zone p"
  and a_options: "a_template zone p \<Longrightarrow> plOptions (fst (upsert_plugin zone ip p)) = match_options zone ip"
  and foreign_upsert: "\<not> own_template zone p \<Longrightarrow> fst (upsert_plugin zone ip p) = foreign p"
  by (auto simp: upsert_plugin_def own_template_def a_template_def foreign_def)

lemma own_user_templates: "\<forall>p \<in> set (user_templates zone ip). own_template zone p"
  by (simp add: user_templates_def own_template_def)

lemma user_templates_options:
  "\<forall>p \<in> set (user_templates zone ip). a_template zone p \<longrightarrow> plOptions p = match_options zone ip"
  by (simp add: user_templates_def a_template_def)



text \<open>Removing one user's templates removes those of all users: every template with three
  arguments is dropped, whatever zone is asked for, and everything else is kept.\<close>

lemma remove_plugins_drops_all:
  "remove_plugins zone ps = filter (\<lambda>p. \<not> (plName p = ''template'' \<and> length (plArgs p) = 3)) ps"
  by (induction ps) auto

section \<open>Regeneration\<close>

text \<open>\<open>reader m\<close>: the outcome of \<open>m\<close> does not depend on the state of the environment, and \<open>m\<close> keeps it.\<close>

definition reader :: "('c, 'w, 'a) io \<Rightarrow> bool" where
  "reader m = (\<exists>r. \<forall>w cs. \<exists>ds. m (w, cs) = (r, (w, ds)))"

lemma reader_ret: "reader (ret x)" and reader_lift: "reader (lift v)"
  by (simp_all add: reader_def ret_def lift_def)

lemma reader_call: "(\<And>w. f w = (r, w)) \<Longrightarrow> reader (call c f)"
  by (auto simp: reader_def call_def)

lemma reader_tryc:
  assumes "reader m" "\<And>x. reader (f x)" "\<And>e. reader (h e)"
  shows "reader (tryc m f h)"
proof -
  obtain r where r: "\<And>w cs. \<exists>ds. m (w, cs) = (r, (w, ds))" using assms(1) unfolding reader_def by blast
  have step: "reader (tryc m f h)" if "\<And>w ds. \<exists>es. g (w, ds) = (r', (w, es))"
    "\<And>w cs ds. m (w, cs) = (r, (w, ds)) \<Longrightarrow> tryc m f h (w, cs) = g (w, ds)" for g r'
    unfolding reader_def using r that by metis
  show ?thesis
  proof (cases r)
    case (Val x)
    obtain r' where "\<And>w cs. \<exists>ds. f x (w, cs) = (r', (w, ds))" using assms(2) unfolding reader_def by blast
    then show ?thesis by (rule step) (simp add: tryc_def Val)
  next
    case (Err e)
    obtain r' where "\<And>w cs. \<exists>ds. h e (w, cs) = (r', (w, ds))" using assms(3) unfolding reader_def by blast
    then show ?thesis by (rule step) (simp add: tryc_def Err)
  next
    case (Panic p)
    show ?thesis by (rule step [of "\<lambda>s. (Panic p, s)"]) (auto simp: tryc_def Panic)
  next
    case Looping
    show ?thesis by (rule step [of "\<lambda>s. (Looping, s)"]) (auto simp: tryc_def Looping)
  qed
qed

lemma reader_seqc: "reader m \<Longrightarrow> (\<And>x. reader (f x)) \<Longrightarrow> reader (seqc m f)"
  unfolding seqc_tryc by (rule reader_tryc) (auto simp: reader_def fail_def)

lemma reader_foldM: "(\<And>b x. reader (f b x)) \<Longrightarrow> reader (foldM f b xs)"
  by (induction xs arbitrary: b) (auto intro: reader_ret reader_seqc)

lemma reader_same:
  assumes "reader m" "m s = (r, s')"
  shows "fst s' = fst s" "\<exists>t'. m t = (r, t')"
  using assms unfolding reader_def by (metis fst_conv prod.collapse prod.inject)+

text \<open>An environment that answers the same whenever it is asked and stores the Corefile.\<close>

definition steady_dns :: "string dns_ops \<Rightarrow> bool" where
  "steady_dns d \<longleftrightarrow> (\<exists>us. \<forall>w. listUsers d w = (us, w)) \<and> (\<exists>nodes. \<forall>w. listNodes d w = (nodes, w)) \<and>
     (\<forall>n. \<exists>bfl. \<forall>w. getBflPod d n w = (bfl, w)) \<and> (\<exists>apps. \<forall>w. listApplications d w = (apps, w)) \<and>
     (\<exists>nss. \<forall>w. listNamespaces d w = (nss, w)) \<and> (\<forall>ns h. \<exists>svc. \<forall>w. getEntranceService d ns h w = (svc, w)) \<and>
     (\<exists>pods. \<forall>w. listAdguardPods d w = (pods, w)) \<and>
     (\<forall>w. getCorefile d w = (Val w, w)) \<and> (\<forall>text w. updateCorefile d text w = (Val (), text))"

lemma reader_call_steady: "\<exists>r. \<forall>w. f w = (r, w) \<Longrightarrow> reader (call c f)"
  by (blast intro: reader_call)

lemma steady_reads:
  assumes "steady_dns d"
  shows "reader (call ListUsers (listUsers d))" "reader (call ListNodes (listNodes d))"
    "reader (call (GetBflPod n) (getBflPod d n))" "reader (call ListApplications (listApplications d))"
    "reader (call ListNamespaces (listNamespaces d))" "reader (call (GetEntranceService ns h) (getEntranceService d ns h))"
    "reader (call ListAdguardPods (listAdguardPods d))"
  using assms unfolding steady_dns_def by (blast intro: reader_call_steady)+

lemma reader_user_step: "steady_dns d \<Longrightarrow> reader (user_step maxUsers d ip t u)"
  unfolding user_step_def getUserIngressIP_def Let_def
  by (auto intro!: reader_seqc reader_ret reader_lift steady_reads split: option.splits)

lemma reader_shared: "steady_dns d \<Longrightarrow> reader (shared_entrances d ul ps)"
  unfolding shared_entrances_def app_step_def entrance_step_def
  by (auto intro!: reader_seqc reader_tryc reader_ret reader_foldM steady_reads split: option.splits prod.splits)

lemma reader_adguard: "steady_dns d \<Longrightarrow> reader (adguard_ip d)"
  unfolding adguard_ip_def by (intro reader_tryc reader_ret steady_reads)

definition templates_only :: "cf_plugin list \<Rightarrow> bool" where
  "templates_only ps = list_all (\<lambda>p. plName p = ''template'') ps"

lemma templates_only_simps [simp]:
  "templates_only []" "templates_only (ps @ qs) \<longleftrightarrow> templates_only ps \<and> templates_only qs"
  "templates_only (user_templates z ip)" "templates_only [shared_plugin app i z ip]"
  by (simp_all add: templates_only_def user_templates_def shared_plugin_def Let_def)

lemma foldM_inv:
  assumes "\<And>b x s b' s'. P b \<Longrightarrow> f b x s = (Val b', s') \<Longrightarrow> P b'"
  shows "P b \<Longrightarrow> foldM f b xs s = (Val b', s') \<Longrightarrow> P b'"
proof (induction xs arbitrary: b s)
  case Nil
  then show ?case by (simp add: ret_def)
next
  case (Cons x xs)
  then obtain c s0 where "f b x s = (Val c, s0)" "foldM f c xs s0 = (Val b', s')"
    using seqc_Val by (metis foldM.simps(2))
  with Cons assms show ?case by blast
qed

lemma user_step_templates:
  assumes "templates_only (inclusterT t)" "user_step mx d ip t u s = (Val t', s')"
  shows "templates_only (inclusterT t')"
  using assms
  by (auto simp: user_step_def Let_def seqc_def ret_def lift_def getUserIngressIP_def call_def addUserTemplates_def
      split: if_splits option.splits res.splits prod.splits)

lemma entrance_step_templates:
  assumes "templates_only ps" "entrance_step d z app ps e s = (Val ps', s')"
  shows "templates_only ps'"
  using assms by (auto simp: entrance_step_def tryc_def ret_def split: prod.splits res.splits if_splits)

lemma app_step_templates:
  assumes "templates_only ps" "app_step d z nss ps app s = (Val ps', s')"
  shows "templates_only ps'"
proof -
  have loop: "templates_only ps'" if "foldM (entrance_step d z a) ps xs s = (Val ps', s')" for a xs
    by (rule foldM_inv [where P = templates_only, OF _ assms(1) that]) (rule entrance_step_templates)
  show ?thesis
    using assms loop by (auto simp: app_step_def ret_def split: option.splits if_splits)
qed

lemma shared_templates:
  assumes "templates_only ps" "shared_entrances d us ps s = (Val ps', s')"
  shows "templates_only ps'"
proof (cases "shared_zone us")
  case None
  then show ?thesis using assms by (simp add: shared_entrances_def ret_def)
next
  case (Some zone)
  then obtain apps nss s0 where loop: "foldM (app_step d zone nss) ps apps s0 = (Val ps', s')"
    using assms(2) by (fastforce simp: shared_entrances_def dest!: seqc_Val)
  show ?thesis
    by (rule foldM_inv [where P = templates_only, OF _ assms(1) loop]) (rule app_step_templates)
qed

text \<open>The default plugins are found again in the first of the new servers.\<close>

lemma new_servers_again:
  assumes "templates_only (inclusterT t)"
  shows "\<exists>server' rest. new_servers server t ag ip = server' # rest \<and>
    default_plugins server' = default_plugins server \<and> svDomPorts server' = svDomPorts server"
proof -
  have none: "filter (\<lambda>p. plName p \<in> set default_names) (inclusterT t) = []"
    using assms by (auto simp: templates_only_def list_all_iff filter_empty_conv default_names_def)
  show ?thesis
    by (simp add: new_servers_def Let_def default_plugins_def view_plugin_def none) (simp add: default_names_def)
qed

text \<open>What a regeneration reads from the cluster, apart from the Corefile.\<close>

definition gather :: "string \<Rightarrow> 'w dns_ops \<Rightarrow> ('w, templates \<times> string \<times> string) dns" where
  "gather maxUsers d =
     seqc (call ListUsers (listUsers d)) (\<lambda>us.
     seqc (call ListNodes (listNodes d)) (\<lambda>nodes.
     seqc (foldM (user_step maxUsers d (master_ip nodes)) \<lparr>vpnT = [], inclusterT = [], localT = [], localDomainT = []\<rparr> us) (\<lambda>t.
     seqc (shared_entrances d us (inclusterT t)) (\<lambda>incluster.
     seqc (adguard_ip d) (\<lambda>adguardIp.
     ret (t\<lparr>inclusterT := incluster\<rparr>, adguardIp, master_ip nodes))))))"

lemma reader_gather: "steady_dns d \<Longrightarrow> reader (gather maxUsers d)"
  unfolding gather_def
  by (intro reader_seqc reader_ret reader_foldM reader_user_step reader_shared reader_adguard steady_reads) auto

lemma gather_templates:
  assumes "gather maxUsers d s = (Val (t, ag, ip), s')"
  shows "templates_only (inclusterT t)"
proof -
  obtain us nodes t0 incluster s0 s1 s2 where
    users: "foldM (user_step maxUsers d (master_ip nodes)) \<lparr>vpnT = [], inclusterT = [], localT = [], localDomainT = []\<rparr> us s0 = (Val t0, s1)"
    and shared: "shared_entrances d us (inclusterT t0) s1 = (Val incluster, s2)" and t: "t = t0\<lparr>inclusterT := incluster\<rparr>"
    using assms unfolding gather_def by (auto simp: ret_def dest!: seqc_Val)
  have "templates_only (inclusterT t0)"
    by (rule foldM_inv [where P = "\<lambda>t. templates_only (inclusterT t)", OF _ _ users])
       (auto elim: user_step_templates)
  from shared_templates [OF this shared] t show ?thesis by simp
qed

lemma seqc_assoc: "seqc (seqc m f) g = seqc m (\<lambda>x. seqc (f x) g)"
  by (rule ext) (simp add: seqc_def split: prod.splits res.splits)

lemma RegenerateCorefile_gather:
  "RegenerateCorefile parse print maxUsers d =
     seqc (call GetCorefile (getCorefile d)) (\<lambda>data. seqc (lift (parse data)) (\<lambda>file. case file of
       [] \<Rightarrow> ret ()
     | server # _ \<Rightarrow> seqc (gather maxUsers d) (\<lambda>(t, ag, ip).
         call (UpdateCorefile (print (new_servers server t ag ip))) (updateCorefile d (print (new_servers server t ag ip))))))"
proof -
  have ret: "seqc (ret x) f = f x" for x :: 'x and f :: "'x \<Rightarrow> ('w, 'y) dns"
    by (rule ext) (simp add: seqc_def ret_def)
  show ?thesis
    unfolding RegenerateCorefile_def gather_def seqc_assoc ret Let_def prod.case by (rule refl)
qed


text \<open>A cluster without users, and a format that writes the names of the default plugins of the first
  server, one per line.\<close>

definition plain_dns :: "string dns_ops" where
  "plain_dns = \<lparr>getCorefile = (\<lambda>w. (Val w, w)), listUsers = (\<lambda>w. (Val [], w)), listNodes = (\<lambda>w. (Val [], w)),
     getBflPod = (\<lambda>_ w. (Val ''10.233.0.9'', w)), listApplications = (\<lambda>w. (Val [], w)), listNamespaces = (\<lambda>w. (Val [], w)),
     getEntranceService = (\<lambda>_ _ w. (Val [], w)), listAdguardPods = (\<lambda>w. (Val [''10.233.0.7''], w)),
     updateCorefile = (\<lambda>text _. (Val (), text))\<rparr>"

definition print_names :: "corefile \<Rightarrow> string" where
  "print_names f = Join (map plName (default_plugins (hd f))) [CHR 0x0A]"

definition parse_names :: "string \<Rightarrow> corefile res" where
  "parse_names data = Val [\<lparr>svDomPorts = [''.:53''],
     svPlugins = map (\<lambda>n. \<lparr>plName = n, plArgs = [], plOptions = []\<rparr>) (Split data (CHR 0x0A))\<rparr>]"

definition names_server :: cf_server where
  "names_server = \<lparr>svDomPorts = [''.:53''], svPlugins = [\<lparr>plName = ''errors'', plArgs = [], plOptions = []\<rparr>,
     \<lparr>plName = ''cache'', plArgs = [], plOptions = []\<rparr>]\<rparr>"


end
