(* ===== verification/Citus.thy ===== *)
theory Citus
  imports Postgres Kvrocks
begin

text \<open>The citus helper of \<open>pkg/workload/citus\<close>: the workload, secret and service of a PostgreSQL
  cluster, their creation, the change of its administrator and its scaling; and the handler of
  the cluster controller (\<open>pgcluster/handler.go\<close>).\<close>

section \<open>Templates and constants (templates.go)\<close>

definition CitusVolumeName :: string where "CitusVolumeName = ''pgdata''"
definition CitusBackupVolumeName :: string where "CitusBackupVolumeName = ''pgbackup''"
definition CitusHeadlessServiceName :: string where "CitusHeadlessServiceName = ''citus-headless''"
definition DefaultPGAdminUser :: string where "DefaultPGAdminUser = ''olares''"

definition nl :: string where "nl = [CHR 0x0A]"

definition PGNodeHBATrust :: string where
  "PGNodeHBATrust = nl @ concat (map (\<lambda>l. l @ nl)
     [''local   all             all                                     trust'',
      ''host    all             all             127.0.0.1/32            trust'',
      ''host    all             all             ::1/128                 trust'',
      ''local   replication     all                                     trust'',
      ''host    replication     all             127.0.0.1/32            trust'',
      ''host    replication     all             ::1/128                 trust''])"

definition PGNodeHBAScram :: string where
  "PGNodeHBAScram = nl @ ''host all all all scram-sha-256'' @ nl"

definition secret_env :: "string \<Rightarrow> string \<Rightarrow> EnvVar" where
  "secret_env name key = \<lparr>envName = name, envValue = [],
     envValueFrom = Some \<lparr>skName = CitusAdminSecretName, skKey = key\<rparr>, envFieldRef = None\<rparr>"

definition postgres_container :: Container where
  "postgres_container = \<lparr>ctrName = ''postgres'', ctrImage = CitusImage, ctrImagePullPolicy = ''IfNotPresent'',
     ctrCommand = [], ctrArgs = [''-N'', ''1000''],
     ctrEnv = [\<lparr>envName = ''POD_NAME'', envValue = [], envValueFrom = None, envFieldRef = Some ''metadata.name''\<rparr>,
       secret_env ''POSTGRES_PASSWORD'' ''password'', secret_env ''POSTGRES_USER'' ''user'',
       \<lparr>envName = ''PGDATA'', envValue = ''/var/lib/postgresql/data/$(POD_NAME)'', envValueFrom = None, envFieldRef = None\<rparr>],
     ctrResources = [], ctrPorts = [5432], ctrRunAsUser = None,
     ctrVolumeMounts = [\<lparr>vmName = CitusVolumeName, vmMountPath = ''/var/lib/postgresql/data'', vmSubPath = []\<rparr>,
       \<lparr>vmName = CitusBackupVolumeName, vmMountPath = ''/backup'', vmSubPath = []\<rparr>]\<rparr>"

definition CitusStatefulset :: StatefulSet where
  "CitusStatefulset = \<lparr>stsName = PGClusterName, stsNamespace = [],
     stsLabels = [(''managed-by'', ''citus-operator'')], stsAnnotations = [],
     stsSelector = [(''app'', ''citus''), (''app.kubernetes.io/name'', ''citus'')],
     stsServiceName = CitusHeadlessServiceName, stsReplicas = Some 1,
     stsPodLabels = [(''app'', ''citus''), (''app.kubernetes.io/name'', ''citus''), (''app.bytetrade.io/middleware'', ''true'')],
     stsInitContainers = [],
     stsContainers = [postgres_container],
     stsVolumes = [\<lparr>volName = CitusVolumeName, volHostPath = Some []\<rparr>,
                   \<lparr>volName = CitusBackupVolumeName, volHostPath = Some []\<rparr>],
     stsPriorityClassName = []\<rparr>"

definition CitusAdminSecret :: secret_data where
  "CitusAdminSecret = [(''user'', []), (''password'', [])]"

section \<open>Creation (helper.go)\<close>

definition pg_volume :: "string \<Rightarrow> PGClusterSpec \<Rightarrow> Volume \<Rightarrow> Volume" where
  "pg_volume pvc spec vol =
     (let vol = (if volName vol = CitusVolumeName then vol\<lparr>volHostPath := Some (pvc @ ''/pgdata'')\<rparr> else vol)
      in if volName vol = CitusBackupVolumeName
         then vol\<lparr>volHostPath := Some (if pgBackupStorage spec \<noteq> [] then pgBackupStorage spec else pvc @ ''/pgbackup'')\<rparr>
         else vol)"

definition GetPGClusterDefineByUser :: "'w k8s \<Rightarrow> string \<Rightarrow> string \<Rightarrow> PGClusterSpec \<Rightarrow> ('w, StatefulSet) prog" where
  "GetPGClusterDefineByUser k user namespace spec =
     (if user = [] then fail (Failure ''user name is empty'')
      else seqc (data_path k ''citus-data-pvc'' user namespace) (\<lambda>pvc.
        ret (CitusStatefulset\<lparr>stsNamespace := namespace,
               stsVolumes := map (pg_volume pvc spec) (stsVolumes CitusStatefulset),
               stsPriorityClassName := ''system-cluster-critical''\<rparr>)))"

text \<open>\<open>io.ReadFull(rand.Reader, ...)\<close> is the operation \<open>rnd\<close>.\<close>

definition genPassword :: "(nat \<Rightarrow> ('w, byte list) op) \<Rightarrow> ('w, string) prog" where
  "genPassword rnd = seqc (call (Misc (RandomBytes 16)) (rnd 16)) (\<lambda>randPwd. ret (Hex randPwd))"

definition GetPGClusterDBUserSecretDefine :: "(nat \<Rightarrow> ('w, byte list) op) \<Rightarrow> string \<Rightarrow> string \<Rightarrow> ('w, secret_data) prog" where
  "GetPGClusterDBUserSecretDefine rnd user password =
     seqc (if password = [] then genPassword rnd else ret password) (\<lambda>password.
     ret (AList.update ''password'' password (AList.update ''user'' user CitusAdminSecret)))"

definition createSecretForPG :: "'w k8s \<Rightarrow> (nat \<Rightarrow> ('w, byte list) op) \<Rightarrow> string \<Rightarrow> ('w, SecretKeySelector) prog" where
  "createSecretForPG k rnd namespace =
     seqc (tryc (Secrets_Get k namespace CitusAdminSecretName) (\<lambda>_. ret ())
            (\<lambda>err. if \<not> IsNotFound err then fail err
               else seqc (GetPGClusterDBUserSecretDefine rnd DefaultPGAdminUser []) (\<lambda>secret.
                 call (K8s (CreateSecret namespace CitusAdminSecretName))
                   (createSecret k namespace CitusAdminSecretName secret)))) (\<lambda>_.
     ret \<lparr>skName = CitusAdminSecretName, skKey = ''password''\<rparr>)"

text \<open>The environment of the new container. An \<open>EnvVarSource\<close> without any source, which the API
  server refuses, is not told apart from a missing one.\<close>

definition create_env :: "PGClusterSpec \<Rightarrow> EnvVar \<Rightarrow> EnvVar" where
  "create_env spec env =
     (if envName env = ''POSTGRES_USER'' then env\<lparr>envValue := pgAdminUser spec, envValueFrom := None, envFieldRef := None\<rparr>
      else if envName env = ''POSTGRES_PASSWORD'' then
        (case pwValueFrom (pgPassword spec) of
           Some src \<Rightarrow> env\<lparr>envValueFrom := SecretKeyRef src, envFieldRef := None, envValue := []\<rparr>
         | None \<Rightarrow> if pwValue (pgPassword spec) \<noteq> []
             then env\<lparr>envValue := pwValue (pgPassword spec), envValueFrom := None, envFieldRef := None\<rparr> else env)
      else env)"

definition map_env :: "(EnvVar \<Rightarrow> EnvVar) \<Rightarrow> StatefulSet \<Rightarrow> StatefulSet" where
  "map_env f sts = sts\<lparr>stsContainers := map (\<lambda>c. if ctrName c = ''postgres''
     then c\<lparr>ctrEnv := map f (ctrEnv c)\<rparr> else c) (stsContainers sts)\<rparr>"

definition set_image :: "string \<Rightarrow> StatefulSet \<Rightarrow> StatefulSet" where
  "set_image img sts = sts\<lparr>stsContainers := (case stsContainers sts of
      [] \<Rightarrow> [] | c # cs \<Rightarrow> c\<lparr>ctrImage := img\<rparr> # cs)\<rparr>"

definition createPGCluster :: "'w k8s \<Rightarrow> string \<Rightarrow> string \<Rightarrow> PGClusterSpec \<Rightarrow> ('w, StatefulSet) prog" where
  "createPGCluster k user namespace spec =
     tryc (StatefulSets_Get k namespace PGClusterName) ret
       (\<lambda>err. if \<not> IsNotFound err then fail err
          else seqc (GetPGClusterDefineByUser k user namespace spec) (\<lambda>sts.
            let sts = (if pgCitusImage spec \<noteq> [] then set_image (pgCitusImage spec) sts else sts);
                sts = (if pgAdminUser spec \<noteq> [] then map_env (create_env spec) sts else sts)
            in StatefulSets_Create k sts))"

definition createPGClusterService :: "'w k8s \<Rightarrow> string \<Rightarrow> ('w, unit) prog" where
  "createPGClusterService k namespace =
     tryc (call (K8s (GetService namespace CitusHeadlessServiceName)) (getService k namespace CitusHeadlessServiceName))
       (\<lambda>_. ret ())
       (\<lambda>err. if \<not> IsNotFound err then fail err
          else call (K8s (CreateService namespace CitusHeadlessServiceName))
            (createService k namespace CitusHeadlessServiceName))"

text \<open>\<open>CreatePGClusterForUser\<close> also sets the default administrator in the resource it was given;
  the resource is returned next to the workload.\<close>

definition CreatePGClusterForUser :: "'w k8s \<Rightarrow> (nat \<Rightarrow> ('w, byte list) op) \<Rightarrow> string \<Rightarrow> PGCluster \<Rightarrow>
    ('w, StatefulSet \<times> PGCluster) prog" where
  "CreatePGClusterForUser k rnd user def =
     (let namespace = metaNamespace (pgMeta def) in
      seqc (if pgAdminUser (pgSpec def) = []
            then seqc (createSecretForPG k rnd namespace) (\<lambda>password.
              ret (def\<lparr>pgSpec := (pgSpec def)\<lparr>pgAdminUser := DefaultPGAdminUser,
                    pgPassword := \<lparr>pwValue = [], pwValueFrom = Some \<lparr>SecretKeyRef = Some password\<rparr>\<rparr>\<rparr>\<rparr>))
            else ret def) (\<lambda>def.
      seqc (createPGCluster k user namespace (pgSpec def)) (\<lambda>sts.
      seqc (createPGClusterService k namespace) (\<lambda>_. ret (sts, def)))))"

section \<open>Scaling\<close>

definition WaitForPodRunning_pg :: "nat \<Rightarrow> 'w k8s \<Rightarrow> string \<Rightarrow> string \<Rightarrow> ('w, string) prog" where
  "WaitForPodRunning_pg n k namespace podname = poll_value n (pod_step k ''postgres'' namespace podname False)"

definition hba_lines :: "string \<Rightarrow> string list" where
  "hba_lines masterNode = Split (PGNodeHBATrust @ nl @ ''host all all '' @ masterNode @ '' trust'' @ nl @ PGNodeHBAScram) (CHR 0x0A)"

text \<open>The rules are inserted through the connection, not through the transaction that is
  opened for them.\<close>

definition insert_hba :: "'w sql \<Rightarrow> pgclient \<Rightarrow> string list \<Rightarrow> ('w, unit) prog" where
  "insert_hba q cl lines =
     (let rollback = ignorec (call (Sql (Rollback (clDB cl))) (sqlRollback q (clDB cl))) in
      seqc (call (Sql (Begin (clDB cl))) (sqlBegin q (clDB cl))) (\<lambda>_.
      seqc (forM lines (\<lambda>h. cleanup (NamedExecContext q cl ''insert into hba values(:line)'' [(''line'', h)]) rollback ret)) (\<lambda>_.
      cleanup (call (Sql (Commit (clDB cl))) (sqlCommit q (clDB cl))) rollback ret)))"

definition update_hba :: "'w sql \<Rightarrow> pgclient \<Rightarrow> string \<Rightarrow> string \<Rightarrow> ('w, unit) prog" where
  "update_hba q cl pod_name masterNode =
     seqc (ExecContext q cl ''drop table if exists hba'') (\<lambda>_.
     seqc (QueryContext q cl (''select setting from pg_settings where name like '' @ [CHR 0x27] @ ''%hba%'' @ [CHR 0x27])) (\<lambda>rows.
     seqc (case rows of [] \<Rightarrow> ret (''/var/lib/postgresql/data/'' @ pod_name @ ''/pg_hba.conf'') | row # _ \<Rightarrow> lift row) (\<lambda>configFile.
     seqc (ExecContext q cl ''create table if not exists hba(lines text)'') (\<lambda>_.
     seqc (insert_hba q cl (hba_lines masterNode)) (\<lambda>_.
     seqc (ExecContext q cl (''copy hba to '' @ [CHR 0x27] @ configFile @ [CHR 0x27])) (\<lambda>_.
     ExecContext q cl ''SELECT pg_reload_conf()''))))))"

definition scale_node :: "nat \<Rightarrow> 'w k8s \<Rightarrow> 'w sql \<Rightarrow> string \<Rightarrow> string \<Rightarrow> string \<Rightarrow> nat \<Rightarrow> ('w, unit) prog" where
  "scale_node n k q namespace admin pwd index =
     (let pod_name = PGClusterName @ ''-'' @ Itoa index;
          masterNode = PGClusterName @ ''-0.citus-headless.'' @ namespace @ ''.svc.cluster.local'' in
      seqc (WaitForPodRunning_pg n k namespace pod_name) (\<lambda>ip.
      seqc (Build q (NewClientBuidler admin pwd ip PG_PORT)) (\<lambda>cl.
      deferc (update_hba q cl pod_name masterNode) (Close_client q cl))))"

text \<open>Replicas are 32 bit integers; their difference wraps around.\<close>

definition int32 :: "int \<Rightarrow> int" where
  "int32 x = sint (word_of_int x :: 32 word)"

definition ScalePGClusterNodes :: "nat \<Rightarrow> 'w k8s \<Rightarrow> 'w sql \<Rightarrow> string \<Rightarrow> int \<Rightarrow> string \<Rightarrow> string \<Rightarrow> ('w, int) prog" where
  "ScalePGClusterNodes n k q namespace replicas admin pwd =
     seqc (call (K8s (GetScale namespace PGClusterName)) (getScale k namespace PGClusterName)) (\<lambda>cluster.
     let index = scReplicas cluster; effected = int32 (replicas - scReplicas cluster) in
     if effected = 0 then ret effected
     else if effected < 0 then fail (Failure ''scale down cluster not supported'')
     else let cluster = cluster\<lparr>scReplicas := replicas\<rparr> in
       seqc (call (K8s (UpdateScale namespace PGClusterName replicas)) (updateScale k namespace PGClusterName cluster)) (\<lambda>_.
       seqc (forM [nat index..<nat replicas] (scale_node n k q namespace admin pwd)) (\<lambda>_.
       ret effected)))"

section \<open>The administrator\<close>

text \<open>The last variable of that name in the containers named \<open>postgres\<close>.\<close>

definition find_env :: "string \<Rightarrow> StatefulSet \<Rightarrow> EnvVar option" where
  "find_env name sts = find (\<lambda>env. envName env = name)
     (rev (concat (map ctrEnv (filter (\<lambda>c. ctrName c = ''postgres'') (stsContainers sts)))))"

definition empty_env :: "EnvVar \<Rightarrow> bool" where
  "empty_env env \<longleftrightarrow> envValue env = [] \<and> envValueFrom env = None \<and> envFieldRef env = None"

text \<open>A selector that is nil, for want of a source or of a secret in it, panics.\<close>

definition getValueFromSecret :: "'w k8s \<Rightarrow> string \<Rightarrow> SecretKeySelector option \<Rightarrow> ('w, string) prog" where
  "getValueFromSecret k namespace sel = (case sel of None \<Rightarrow> panic ''nil SecretKeyRef''
     | Some sel \<Rightarrow> seqc (Secrets_Get k namespace (skName sel)) (\<lambda>secret. ret (secret_value secret (skKey sel))))"

definition GetPGClusterDefinedPassword :: "'w k8s \<Rightarrow> string \<Rightarrow> PGClusterSpec \<Rightarrow> ('w, string) prog" where
  "GetPGClusterDefinedPassword k namespace spec = GetVarValue k (pgPassword spec) namespace"

text \<open>The second half of \<open>MustUpdateClusterAdminUser\<close>: the user is the same, has the password changed?\<close>

definition password_changed :: "'w k8s \<Rightarrow> string \<Rightarrow> EnvVar \<Rightarrow> EnvVar \<Rightarrow> PGClusterSpec \<Rightarrow> ('w, (string \<times> string) option) prog" where
  "password_changed k namespace userEnv pwdEnv spec =
     (let old_user = (if envValue userEnv = [] then getValueFromSecret k namespace (envValueFrom userEnv)
                      else ret (envValue userEnv)) in
      seqc (GetPGClusterDefinedPassword k namespace spec) (\<lambda>newPwd.
      if envValue pwdEnv \<noteq> [] then
        (if envValue pwdEnv \<noteq> newPwd then seqc old_user (\<lambda>user. ret (Some (user, envValue pwdEnv))) else ret None)
      else seqc (getValueFromSecret k namespace (envValueFrom pwdEnv)) (\<lambda>oldpwd.
        if oldpwd \<noteq> newPwd then seqc old_user (\<lambda>user. ret (Some (user, oldpwd))) else ret None)))"

text \<open>The result is the old user and password when they have to be replaced.\<close>

definition MustUpdateClusterAdminUser :: "'w k8s \<Rightarrow> string \<Rightarrow> StatefulSet \<Rightarrow> PGClusterSpec \<Rightarrow>
    ('w, (string \<times> string) option) prog" where
  "MustUpdateClusterAdminUser k namespace sts spec =
     (if pgAdminUser spec = [] then ret None
      else case find_env ''POSTGRES_USER'' sts of
        None \<Rightarrow> fail (Failure ''invalid pg cluster db definition, user is empty'')
      | Some userEnv \<Rightarrow>
        if empty_env userEnv then fail (Failure ''invalid pg cluster db definition, user is empty'')
        else case find_env ''POSTGRES_PASSWORD'' sts of
          None \<Rightarrow> fail (Failure ''invalid pg cluster db definition, password is empty'')
        | Some pwdEnv \<Rightarrow>
          if empty_env pwdEnv then fail (Failure ''invalid pg cluster db definition, password is empty'')
          else if envValue userEnv \<noteq> [] \<and> envValue userEnv \<noteq> pgAdminUser spec then
            seqc (if envValue pwdEnv = [] then getValueFromSecret k namespace (envValueFrom pwdEnv)
                  else ret (envValue pwdEnv)) (\<lambda>pwd.
            ret (Some (envValue userEnv, pwd)))
          else if envValue userEnv = [] then
            seqc (getValueFromSecret k namespace (envValueFrom userEnv)) (\<lambda>user.
            if user \<noteq> pgAdminUser spec
            then seqc (getValueFromSecret k namespace (envValueFrom pwdEnv)) (\<lambda>pwd. ret (Some (user, pwd)))
            else password_changed k namespace userEnv pwdEnv spec)
          else password_changed k namespace userEnv pwdEnv spec)"

section \<open>Backup and restore requests\<close>

definition ForceCreateNewPGClusterBackup :: "nat \<Rightarrow> 'w apr \<Rightarrow> PGClusterBackup \<Rightarrow> ('w, unit) prog" where
  "ForceCreateNewPGClusterBackup n a backup =
     (let ns = metaNamespace (pbMeta backup); name = metaName (pbMeta backup);
          new = backup\<lparr>pbStatus := (pbStatus backup)\<lparr>pbState := BackupStateNew\<rparr>\<rparr> in
      force_create (call (Apr (GetPGBackup ns name)) (getPGBackup a ns name))
        (\<lambda>b. pbState (pbStatus b) = BackupStateRunning) ''duplicate pg backup job''
        (call (Apr (DeletePGBackup ns name)) (deletePGBackup a ns name)) (Some n)
        (call (Apr (CreatePGBackup new)) (createPGBackup a new)))"

definition ForceCreateNewPGClusterRestore :: "'w apr \<Rightarrow> PGClusterRestore \<Rightarrow> ('w, unit) prog" where
  "ForceCreateNewPGClusterRestore a restore =
     (let ns = metaNamespace (prMeta restore); name = metaName (prMeta restore);
          new = restore\<lparr>prStatus := (prStatus restore)\<lparr>prState := RestoreStateNew\<rparr>\<rparr> in
      force_create (call (Apr (GetPGRestore ns name)) (getPGRestore a ns name))
        (\<lambda>r. prState (prStatus r) = RestoreStateRunning) ''duplicate restore job''
        (call (Apr (DeletePGRestore ns name)) (deletePGRestore a ns name)) None
        (call (Apr (CreatePGRestore new)) (createPGRestore a new)))"

definition WaitForAllBackupComplete_pg :: "nat \<Rightarrow> (go_error list \<Rightarrow> go_error) \<Rightarrow> 'w apr \<Rightarrow> ('w, unit) prog" where
  "WaitForAllBackupComplete_pg n agg a =
     wait_all n agg (call (Apr (ListPGBackups [])) (listPGBackups a []))
       (\<lambda>b. backup_progress (\<lambda>_. failed_message ''backup pg'' (pbError (pbStatus b)) (pbMeta b)) (pbState (pbStatus b)))"

definition WaitForAllRestoreComplete_pg :: "nat \<Rightarrow> (go_error list \<Rightarrow> go_error) \<Rightarrow> 'w apr \<Rightarrow> ('w, unit) prog" where
  "WaitForAllRestoreComplete_pg n agg a =
     wait_all n agg (call (Apr (ListPGRestores [])) (listPGRestores a []))
       (\<lambda>r. restore_progress (\<lambda>_. failed_message ''restore pg'' (prError (prStatus r)) (prMeta r)) (prState (prStatus r)))"

section \<open>The cluster controller (pgcluster/handler.go)\<close>

text \<open>The patch of a running workload. Unlike \<open>create_env\<close> it leaves the other way of giving
  the value as it was.\<close>

definition patch_env :: "PGClusterSpec \<Rightarrow> EnvVar \<Rightarrow> EnvVar" where
  "patch_env spec env =
     (if envName env = ''POSTGRES_USER'' then env\<lparr>envValue := pgAdminUser spec\<rparr>
      else if envName env = ''POSTGRES_PASSWORD'' then
        (case pwValueFrom (pgPassword spec) of
           Some src \<Rightarrow> env\<lparr>envValueFrom := SecretKeyRef src, envFieldRef := None\<rparr>
         | None \<Rightarrow> if pwValue (pgPassword spec) \<noteq> [] then env\<lparr>envValue := pwValue (pgPassword spec)\<rparr> else env)
      else env)"

definition change_on_node :: "nat \<Rightarrow> 'w k8s \<Rightarrow> 'w sql \<Rightarrow> StatefulSet \<Rightarrow> string \<times> string \<Rightarrow> string \<Rightarrow> string \<Rightarrow> nat \<Rightarrow>
    ('w, unit) prog" where
  "change_on_node n k q sts old newuser newpwd nodeIndex = (case old of (olduser, oldpwd) \<Rightarrow>
     seqc (WaitForPodRunning_pg n k (stsNamespace sts) (stsName sts @ ''-'' @ Itoa nodeIndex)) (\<lambda>ip.
     seqc (Build q (NewClientBuidler olduser oldpwd ip PG_PORT)) (\<lambda>cl.
     cleanup (ChangeAdminUser q cl olduser newuser newpwd) (Close_client q cl) (\<lambda>_. Close_client q cl))))"

text \<open>The update of the workload is sent to the API server, and the loop goes on with the
  patched object at hand.\<close>

definition change_admin :: "nat \<Rightarrow> 'w k8s \<Rightarrow> 'w sql \<Rightarrow> bool \<Rightarrow> StatefulSet \<Rightarrow> PGClusterSpec \<Rightarrow> string \<times> string \<Rightarrow>
    ('w, StatefulSet) prog" where
  "change_admin n k q newCluster sts spec old =
     seqc (GetPGClusterDefinedPassword k (stsNamespace sts) spec) (\<lambda>newpwd.
     seqc (if newCluster then ret sts
           else let sts = map_env (patch_env spec) sts in
             seqc (call (K8s (UpdateStatefulSet sts)) (updateStatefulSet k sts)) (\<lambda>_. ret sts)) (\<lambda>sts.
     seqc (replica_indices 0 sts) (\<lambda>indices.
     seqc (forM indices (change_on_node n k q sts old (pgAdminUser spec) newpwd)) (\<lambda>_. ret sts))))"

text \<open>One distributed database of a request on a new node. The password of the request shadows
  the one of the administrator, and the database is created under its plain name.\<close>

definition sync_on_node :: "nat \<Rightarrow> 'w k8s \<Rightarrow> 'w sql \<Rightarrow> StatefulSet \<Rightarrow> string \<Rightarrow> string \<Rightarrow> MiddlewareRequest \<Rightarrow>
    CitusDatabase \<Rightarrow> nat \<Rightarrow> ('w, unit) prog" where
  "sync_on_node n k q sts admin adminPwd req db index =
     (let pg = mwPostgreSQL (mrSpec req); nodeHost = node_host sts index;
          master = NewClientBuidler admin adminPwd (PG_MASTER_HOST @ ''.'' @ stsNamespace sts) PG_PORT in
      seqc (WaitForPodRunning_pg n k (stsNamespace sts) (stsName sts @ ''-'' @ Itoa index)) (\<lambda>ip.
      seqc (Build q (NewClientBuidler admin adminPwd ip PG_PORT)) (\<lambda>cl.
      cleanup (GetVarValue k (psqlPassword pg) (metaNamespace (mrMeta req))) (Close_client q cl) (\<lambda>pwd.
      cleanup (CreateOrUpdateUser_pg q cl (psqlUser pg) pwd) (Close_client q cl) (\<lambda>_.
      cleanup (CreateDatabaseIfNotExists q cl (cdbName db) (psqlUser pg)) (Close_client q cl) (\<lambda>_.
      cleanup (SwitchDatabase q cl (cdbName db)) (Close_client q cl) (\<lambda>cl.
      deferc
        (seqc (CreateCitus q cl) (\<lambda>_.
         seqc (Build q (WithDatabase master (cdbName db))) (\<lambda>mcl.
         cleanup (AddWorkerNode q mcl nodeHost PG_PORT) (Close_client q mcl) (\<lambda>_. Close_client q mcl))))
        (Close_client q cl))))))))"

definition sync_database :: "nat \<Rightarrow> 'w k8s \<Rightarrow> 'w sql \<Rightarrow> StatefulSet \<Rightarrow> int \<Rightarrow> string \<Rightarrow> string \<Rightarrow> MiddlewareRequest \<Rightarrow>
    CitusDatabase \<Rightarrow> ('w, unit) prog" where
  "sync_database n k q sts replicas admin pwd req db =
     (case stsReplicas sts of None \<Rightarrow> panic ''nil Replicas''
      | Some old \<Rightarrow>
        seqc (forM [nat old..<nat replicas] (sync_on_node n k q sts admin pwd req db)) (\<lambda>_.
        seqc (Build q (WithDatabase (NewClientBuidler admin pwd (PG_MASTER_HOST @ ''.'' @ stsNamespace sts) PG_PORT) (cdbName db))) (\<lambda>mcl.
        cleanup (Rebalance q mcl) (Close_client q mcl) (\<lambda>_. Close_client q mcl))))"

definition scale_cluster :: "nat \<Rightarrow> 'w k8s \<Rightarrow> 'w apr \<Rightarrow> 'w sql \<Rightarrow> StatefulSet \<Rightarrow> PGClusterSpec \<Rightarrow> ('w, unit) prog" where
  "scale_cluster n k a q sts spec = (case stsReplicas sts of
      None \<Rightarrow> panic ''nil Replicas''
    | Some current \<Rightarrow>
      if pgReplicas spec = current then ret ()
      else seqc (GetPGClusterDefinedPassword k (stsNamespace sts) spec) (\<lambda>pwd.
        seqc (ScalePGClusterNodes n k q (stsNamespace sts) (pgReplicas spec) (pgAdminUser spec) pwd) (\<lambda>effected.
        if effected > 0 then
          seqc (call (Apr (ListMiddlewareRequests (stsNamespace sts))) (listMiddlewareRequests a (stsNamespace sts))) (\<lambda>requests.
          forM (filter (\<lambda>req. mwMiddleware (mrSpec req) = TypePostgreSQL) requests) (\<lambda>req.
          forM (filter IsDistributed (psqlDatabases (mwPostgreSQL (mrSpec req))))
            (sync_database n k q sts (pgReplicas spec) (pgAdminUser spec) pwd req)))
        else ret ())))"

text \<open>The handler does not look at the action: it compares the resource with the workload. The
  notification of a new cluster goes to \<open>PGClusterRecreated\<close>.\<close>

definition pgcluster_handler :: "nat \<Rightarrow> 'w k8s \<Rightarrow> 'w apr \<Rightarrow> 'w sql \<Rightarrow> (nat \<Rightarrow> ('w, byte list) op) \<Rightarrow> Action \<Rightarrow> PGCluster \<Rightarrow>
    ('w, unit) prog" where
  "pgcluster_handler n k a q rnd action cluster =
     (let ns = metaNamespace (pgMeta cluster) in
      seqc (tryc (PGClusters_Get a ns (metaName (pgMeta cluster))) (\<lambda>c. ret (Some c))
             (\<lambda>err. if IsNotFound err then ret None else fail err)) (\<lambda>currentCluster.
      seqc (tryc (StatefulSets_Get k ns PGClusterName) (\<lambda>sts. ret (Some sts))
             (\<lambda>err. if IsNotFound err then ret None else fail err)) (\<lambda>currentSts.
      case currentCluster of
        None \<Rightarrow> if currentSts \<noteq> None
          then call (K8s (DeleteStatefulSet ns PGClusterName)) (deleteStatefulSet k ns PGClusterName) else ret ()
      | Some def \<Rightarrow>
        seqc (case currentSts of
            None \<Rightarrow> CreatePGClusterForUser k rnd (pgOwner (pgSpec def)) def
          | Some sts \<Rightarrow> seqc (default_admin k ns (pgSpec def)) (\<lambda>spec. ret (sts, def\<lparr>pgSpec := spec\<rparr>))) (\<lambda>(sts, def).
        seqc (MustUpdateClusterAdminUser k (stsNamespace sts) sts (pgSpec def)) (\<lambda>must.
        seqc (case must of None \<Rightarrow> ret sts
              | Some old \<Rightarrow> change_admin n k q (currentSts = None) sts (pgSpec def) old) (\<lambda>sts.
        seqc (if currentSts = None then PGClusterRecreated k a q else ret ()) (\<lambda>_.
        scale_cluster n k a q sts (pgSpec def))))))))"

end
