(* ===== verification/Citus_Proofs.thy ===== *)
theory Citus_Proofs
  imports Citus
begin

text \<open>What the citus helper guarantees: the decision whether the administrator has to be changed
  implements a comparison of credentials, a new workload carries the credentials of its resource,
  and scaling never goes down.\<close>

section \<open>Credentials\<close>

text \<open>The specification: what a variable and a password of a resource stand for, given the
  contents \<open>sec\<close> of the secrets. The API server accepts at most one way of giving a value.\<close>

definition env_value :: "(string \<Rightarrow> secret_data) \<Rightarrow> EnvVar \<Rightarrow> string" where
  "env_value sec env = (if envValue env \<noteq> [] then envValue env
     else case envValueFrom env of Some sel \<Rightarrow> secret_value (sec (skName sel)) (skKey sel) | None \<Rightarrow> [])"

definition one_source :: "EnvVar \<Rightarrow> bool" where
  "one_source env \<longleftrightarrow> (envValue env \<noteq> []) \<noteq> (envValueFrom env \<noteq> None)"

definition pw_value :: "(string \<Rightarrow> secret_data) \<Rightarrow> PasswordVar \<Rightarrow> string" where
  "pw_value sec p = (if pwValue p \<noteq> [] then pwValue p
     else case Option.bind (pwValueFrom p) SecretKeyRef of
       Some sel \<Rightarrow> secret_value (sec (skName sel)) (skKey sel) | None \<Rightarrow> [])"

definition pw_defined :: "PasswordVar \<Rightarrow> bool" where
  "pw_defined p \<longleftrightarrow> (pwValue p = [] \<longrightarrow> Option.bind (pwValueFrom p) SecretKeyRef \<noteq> None)"

text \<open>The credentials to replace, if any: those in force, when they differ from those wanted.\<close>

definition stale_credentials :: "(string \<Rightarrow> secret_data) \<Rightarrow> EnvVar \<Rightarrow> EnvVar \<Rightarrow> PGClusterSpec \<Rightarrow> (string \<times> string) option" where
  "stale_credentials sec userEnv pwdEnv spec =
     (if pgAdminUser spec \<noteq> [] \<and>
         (env_value sec userEnv, env_value sec pwdEnv) \<noteq> (pgAdminUser spec, pw_value sec (pgPassword spec))
      then Some (env_value sec userEnv, env_value sec pwdEnv) else None)"

lemma secret_reads:
  assumes "\<And>n w. getSecret k ns n w = (Val (sec n), w)"
  shows "fst (seqc (getValueFromSecret k ns (Some sel)) f s) =
      fst (f (secret_value (sec (skName sel)) (skKey sel)) (fst s, snd s @ [K8s (GetSecret ns (skName sel))]))"
    and "seqc (getValueFromSecret k ns None) f s = (Panic ''nil SecretKeyRef'', s)"
  by (simp_all add: getValueFromSecret_def Secrets_Get_def io_defs assms)

lemma GetVarValue_steady:
  assumes "\<And>n w. getSecret k ns n w = (Val (sec n), w)" "pw_defined p"
  shows "\<exists>cs. GetVarValue k p ns s = (Val (pw_value sec p), (fst s, cs))"
  using assms(2)
  by (cases "pwValue p = []"; cases s; cases "pwValueFrom p")
     (auto simp: GetVarValue_def pw_value_def pw_defined_def Secrets_Get_def io_defs assms(1) split: option.splits)

lemma password_changed_refines:
  assumes sec: "\<And>n w. getSecret k ns n w = (Val (sec n), w)"
    and env: "one_source userEnv" "one_source pwdEnv" "pw_defined (pgPassword spec)"
  shows "fst (password_changed k ns userEnv pwdEnv spec s) =
    Val (if env_value sec pwdEnv \<noteq> pw_value sec (pgPassword spec)
         then Some (env_value sec userEnv, env_value sec pwdEnv) else None)"
proof -
  obtain cs where new: "GetVarValue k (pgPassword spec) ns s = (Val (pw_value sec (pgPassword spec)), (fst s, cs))"
    using GetVarValue_steady [OF sec env(3)] by blast
  show ?thesis
    using env(1,2)
    by (cases "envValue userEnv = []"; cases "envValue pwdEnv = []")
       (auto simp: password_changed_def Let_def GetPGClusterDefinedPassword_def seqc_def [of "GetVarValue _ _ _"] new
          one_source_def env_value_def secret_reads [OF sec] ret_def seqc_def [of "ret _"])
qed

text \<open>C38. The decision to change the administrator implements a comparison of credentials: whether
  user and password are given literally or by secrets, the old pair is returned exactly if it
  differs from the pair the resource asks for. One combination is not handled: a user from a
  secret next to a literal password panics when the user has changed.\<close>

theorem MustUpdateClusterAdminUser_refines:
  assumes "\<And>n w. getSecret k ns n w = (Val (sec n), w)"
    and "find_env ''POSTGRES_USER'' sts = Some userEnv" "find_env ''POSTGRES_PASSWORD'' sts = Some pwdEnv"
    and "one_source userEnv" "one_source pwdEnv" "pw_defined (pgPassword spec)"
  shows "fst (MustUpdateClusterAdminUser k ns sts spec s) =
    (if pgAdminUser spec \<noteq> [] \<and> envValue userEnv = [] \<and> envValue pwdEnv \<noteq> [] \<and> env_value sec userEnv \<noteq> pgAdminUser spec
     then Panic ''nil SecretKeyRef'' else Val (stale_credentials sec userEnv pwdEnv spec))"
proof -
  have full: "\<not> empty_env userEnv" "\<not> empty_env pwdEnv"
    using assms(4,5) by (auto simp: one_source_def empty_env_def)
  show ?thesis
    using assms(4,5)
    by (cases "envValue userEnv = []"; cases "envValue pwdEnv = []")
       (auto simp: MustUpdateClusterAdminUser_def assms(2,3) full stale_credentials_def one_source_def env_value_def
          secret_reads [OF assms(1)] password_changed_refines [OF assms(1,4,5,6)] ret_def seqc_def [of "ret _"])
qed

text \<open>A change of the owner: the workload still has \<open>root\<close> and a password from the secret.\<close>

definition old_env :: "EnvVar list" where
  "old_env = [\<lparr>envName = ''POSTGRES_USER'', envValue = ''root'', envValueFrom = None, envFieldRef = None\<rparr>,
     \<lparr>envName = ''POSTGRES_PASSWORD'', envValue = [],
      envValueFrom = Some \<lparr>skName = ''pgcluster-admin'', skKey = ''password''\<rparr>, envFieldRef = None\<rparr>]"

definition secret_k8s :: "unit k8s" where
  "secret_k8s = idle_k8s\<lparr>getSecret := (\<lambda>ns n w. (Val [(''password'', ''old'')], w))\<rparr>"

definition olares_spec :: PGClusterSpec where
  "olares_spec = \<lparr>pgReplicas = 1, pgAdminUser = ''olares'', pgCitusImage = [], pgPassword = plain_password,
     pgOwner = ''system'', pgBackupStorage = []\<rparr>"

theorem MustUpdateClusterAdminUser_refines_witness:
  "fst (MustUpdateClusterAdminUser secret_k8s ''os-platform''
     (CitusStatefulset\<lparr>stsContainers := [postgres_container\<lparr>ctrEnv := old_env\<rparr>]\<rparr>) olares_spec ((), [])) =
   Val (Some (''root'', ''old''))"
  using MustUpdateClusterAdminUser_refines [of secret_k8s "''os-platform''" "\<lambda>_. [(''password'', ''old'')]"
      "CitusStatefulset\<lparr>stsContainers := [postgres_container\<lparr>ctrEnv := old_env\<rparr>]\<rparr>" "old_env ! 0" "old_env ! 1" olares_spec "((), [])"]
  by (simp add: secret_k8s_def idle_k8s_def find_env_def postgres_container_def old_env_def one_source_def pw_defined_def
      olares_spec_def plain_password_def stale_credentials_def env_value_def pw_value_def secret_value_def)

text \<open>A workload that was just created is up to date, unless the resource gives its password in
  two ways: \<open>create_env\<close> then prefers the secret and \<open>GetVarValue\<close> the literal value.\<close>

lemma find_env_create:
  "find_env name (map_env f (CitusStatefulset\<lparr>stsNamespace := ns, stsVolumes := vs, stsPriorityClassName := pc\<rparr>)) =
   find (\<lambda>env. envName env = name) (rev (map f (ctrEnv postgres_container)))"
  by (simp add: find_env_def map_env_def CitusStatefulset_def postgres_container_def)

lemma created_up_to_date:
  assumes "pgAdminUser spec \<noteq> []" "pw_defined (pgPassword spec)"
    and "pwValue (pgPassword spec) = [] \<or> pwValueFrom (pgPassword spec) = None"
    and "sts = map_env (create_env spec) (CitusStatefulset\<lparr>stsNamespace := ns, stsVolumes := vs, stsPriorityClassName := pc\<rparr>)"
  shows "\<exists>u p. find_env ''POSTGRES_USER'' sts = Some u \<and> find_env ''POSTGRES_PASSWORD'' sts = Some p \<and>
    one_source u \<and> one_source p \<and> stale_credentials sec u p spec = None"
  using assms(1-3) unfolding assms(4) find_env_create
  by (cases "pwValueFrom (pgPassword spec)")
     (auto simp: postgres_container_def create_env_def secret_env_def one_source_def pw_defined_def
        stale_credentials_def env_value_def pw_value_def)

text \<open>The patch of a running workload can give a variable two sources, which the API server
  refuses: here a literal password next to the secret of before.\<close>

lemma patch_env_two_sources:
  assumes "envName env = ''POSTGRES_PASSWORD''" "one_source env" "envValue env = []"
    and "pwValueFrom (pgPassword spec) = None" "pwValue (pgPassword spec) \<noteq> []"
  shows "\<not> one_source (patch_env spec env)"
  using assms by (simp add: one_source_def patch_env_def)

section \<open>Scaling\<close>

lemma int32_small: "\<bar>x\<bar> < 2 ^ 31 \<Longrightarrow> int32 x = x"
  by (simp add: int32_def sint_sbintrunc' signed_take_bit_int_eq_self)

text \<open>A request for fewer replicas than there are is refused before anything is changed.\<close>

lemma scale_down_refused:
  assumes "getScale k ns PGClusterName (fst s) = (Val sc, w)"
    and "0 \<le> replicas" "replicas < scReplicas sc" "scReplicas sc < 2 ^ 31"
  shows "ScalePGClusterNodes n k q ns replicas admin pwd s =
    (Err (Failure ''scale down cluster not supported''), (w, snd s @ [K8s (GetScale ns PGClusterName)]))"
  using assms by (simp add: ScalePGClusterNodes_def Let_def int32_small io_defs)

end
