(* ===== verification/Redis_Requests.thy ===== *)
theory Redis_Requests
  imports Kvrocks
begin

text \<open>Redis requests: the configuration of the predixy proxy in front of a redis cluster
  (\<open>pkg/workload/redis-cluster\<close>, as far as the requests use it) and the handlers of
  \<open>handler_redis.go\<close>, which serve a request from a redis cluster or from kvrocks.\<close>

section \<open>The proxy configuration (templates.go, helper.go)\<close>

definition tab :: string where "tab = [CHR 0x09]"
definition newline :: string where "newline = [CHR 0x0A]"

definition AuthSectionBegin :: string where
  "AuthSectionBegin = newline @ tab @ ''Authority {'' @ newline"
definition AuthUserBegin :: "string \<Rightarrow> string" where
  "AuthUserBegin p = newline @ tab @ tab @ ''Auth '' @ p @ '' {'' @ newline"
definition AuthUserModeWrite :: string where
  "AuthUserModeWrite = newline @ tab @ tab @ tab @ ''Mode write'' @ newline"
definition AuthUserNamespace :: "string \<Rightarrow> string" where
  "AuthUserNamespace n = newline @ tab @ tab @ tab @ ''Namespace '' @ n @ newline"
definition AuthUserEnd :: string where
  "AuthUserEnd = newline @ tab @ tab @ ''}'' @ newline"
definition AuthSectionEnd :: string where
  "AuthSectionEnd = newline @ tab @ ''}'' @ tab @ newline"

definition AuthSectionExprPrev :: string where
  "AuthSectionExprPrev = replicate 35 (CHR 0x23) @ '' AUTHORITY '' @ replicate 34 (CHR 0x23)"
definition AuthSectionExprNext :: string where
  "AuthSectionExprNext = replicate 35 (CHR 0x23) @ '' SERVERS '' @ replicate 36 (CHR 0x23)"

definition GetDatabaseName_redis :: "string \<Rightarrow> string \<Rightarrow> string" where
  "GetDatabaseName_redis namespace db = namespace @ ''_'' @ db"

text \<open>A password with, for a request, the namespace of the application and, where it asks for one,
  the redis namespace.\<close>

definition auth_user :: "string list \<Rightarrow> string" where
  "auth_user p = AuthUserBegin (p ! 0) @ AuthUserModeWrite @
     (if length p > 2 \<and> p ! 2 \<noteq> [] then AuthUserNamespace (GetDatabaseName_redis (p ! 1) (p ! 2)) else []) @ AuthUserEnd"

definition GetUserAuthSections :: "string list list \<Rightarrow> string" where
  "GetUserAuthSections passwords = AuthSectionBegin @ concat (map auth_user passwords) @ AuthSectionEnd"

text \<open>The regular expression: the first heading, one or more characters other than \<open>#\<close>, the second
  heading. Every match is replaced, from left to right.\<close>

function (sequential) replace_auth :: "string \<Rightarrow> string \<Rightarrow> string" where
  "replace_auth [] new = []"
| "replace_auth (c # s) new =
     (let rest = drop (length AuthSectionExprPrev) (c # s);
          body = takeWhile (\<lambda>x. x \<noteq> CHR 0x23) rest; tail = dropWhile (\<lambda>x. x \<noteq> CHR 0x23) rest in
      if HasPrefix (c # s) AuthSectionExprPrev \<and> body \<noteq> [] \<and> HasPrefix tail AuthSectionExprNext
      then new @ replace_auth (drop (length AuthSectionExprNext) tail) new
      else c # replace_auth s new)"
  by pat_completeness auto
termination
proof (relation "measure (\<lambda>(s, new). length s)", simp, goal_cases)
  case (1 c s new rest body tail)
  have "length tail \<le> length rest" using 1(3) length_dropWhile_le by blast
  moreover have "length rest < length (c # s)"
    using 1(1) by (simp add: AuthSectionExprPrev_def)
  ultimately show ?case by simp
qed simp

definition new_section :: "string list list \<Rightarrow> string" where
  "new_section passwords = AuthSectionExprPrev @ newline @ GetUserAuthSections passwords @ newline @ AuthSectionExprNext"

section \<open>The redis cluster\<close>

definition RedisclusterProxyConfig :: string where "RedisclusterProxyConfig = ''predixy-configs''"
definition RedisProxy :: string where "RedisProxy = ''redis-cluster-proxy''"

definition FindRedisClusterPassword :: "'w k8s \<Rightarrow> string \<Rightarrow> ('w, string) prog" where
  "FindRedisClusterPassword k namespace =
     seqc (Secrets_Get k namespace ''redix-cluster-admin'') (\<lambda>secret. ret (secret_value secret ''kvrocks_password''))"

definition request_passwords :: "'w k8s \<Rightarrow> MiddlewareRequest list \<Rightarrow> ('w, string list list) prog" where
  "request_passwords k mreqs = foldM (\<lambda>passwords mr.
     seqc (GetVarValue k (redisPassword (mwRedis (mrSpec mr))) (metaNamespace (mrMeta mr))) (\<lambda>pwd.
     ret (passwords @ [[pwd, mwAppNamespace (mrSpec mr)] @
       (if redisNamespace (mwRedis (mrSpec mr)) \<noteq> [] then [redisNamespace (mwRedis (mrSpec mr))] else [])])))
     [] (filter (\<lambda>mr. mwMiddleware (mrSpec mr) = TypeRedis) mreqs)"

text \<open>Assigning to a map that is nil panics: the data of a config map that has none, and the labels
  of the deployment.\<close>

definition UpdateProxyConfig :: "'w k8s \<Rightarrow> 'w apr \<Rightarrow> 'w clusters \<Rightarrow> ('w, unit) prog" where
  "UpdateProxyConfig k a cs =
     seqc (call (Apr (ListMiddlewareRequests [])) (listMiddlewareRequests a [])) (\<lambda>mreqs.
     seqc (request_passwords k mreqs) (\<lambda>passwords.
     seqc (call (Svc (Cluster (ListDistributedRedisClusters []))) (listDistributedRedisClusters cs [])) (\<lambda>drcs.
     case drcs of
       [] \<Rightarrow> fail (Failure ''redis cluster not found'')
     | namespace # _ \<Rightarrow>
       seqc (FindRedisClusterPassword k namespace) (\<lambda>pwd.
       seqc (call (Svc (Cluster (GetConfigMap namespace RedisclusterProxyConfig))) (getConfigMap cs namespace RedisclusterProxyConfig)) (\<lambda>cm.
       if cm = [] then panic ''assignment to entry in nil map'' else
       let config = (case lookup cm ''predixy.conf'' of Some c \<Rightarrow> c | None \<Rightarrow> []);
           cm = AList.update ''predixy.conf'' (replace_auth config (new_section (passwords @ [[pwd]]))) cm in
       seqc (call (Svc (Cluster (UpdateConfigMap namespace RedisclusterProxyConfig cm))) (updateConfigMap cs namespace RedisclusterProxyConfig cm)) (\<lambda>_.
       seqc (call (Svc (Cluster (GetDeployment namespace RedisProxy))) (getDeployment cs namespace RedisProxy)) (\<lambda>labels.
       case labels of
         None \<Rightarrow> panic ''assignment to entry in nil map''
       | Some ls \<Rightarrow>
         seqc (call (K8s GetNow) (getNow k)) (\<lambda>now.
         let ls = AList.update ''timestamp'' (Itoa (nat now)) ls in
         call (Svc (Cluster (UpdateDeployment namespace RedisProxy ls))) (updateDeployment cs namespace RedisProxy ls)))))))))"

section \<open>The handlers (handler\_redis.go)\<close>

definition GetKVRocksNamespaceName :: "string \<Rightarrow> string \<Rightarrow> string" where
  "GetKVRocksNamespaceName reqNamespace dbNamespace = reqNamespace @ ''_'' @ dbNamespace"

text \<open>A new name under which the token of the request is already known replaces the old
  namespace; errors of the deletion are logged.\<close>

definition createOrUpdateKVRocksRequest :: "(string list \<Rightarrow> string list \<Rightarrow> string) \<Rightarrow> 'w k8s \<Rightarrow> 'w redis_ops \<Rightarrow>
    MiddlewareRequest \<Rightarrow> RedixCluster \<Rightarrow> bool \<Rightarrow> ('w, unit) prog" where
  "createOrUpdateKVRocksRequest cmdString k r req cluster isUpdate =
     (let rd = mwRedis (mrSpec req); name = GetKVRocksNamespaceName (metaNamespace (mrMeta req)) (redisNamespace rd) in
      seqc (GetKVRocksClient k r cluster) (\<lambda>_.
      deferc
        (seqc (GetVarValue k (redisPassword rd) (metaNamespace (mrMeta req))) (\<lambda>token.
         seqc (GetNamespace cmdString r name) (\<lambda>ns.
         case ns of
           None \<Rightarrow>
             seqc (if isUpdate
                   then seqc (ListNamespace r) (\<lambda>allns.
                     forM (filter (\<lambda>n. snd n = token) allns) (\<lambda>n. ignorec (DeleteNamespace r (fst n))))
                   else ret ()) (\<lambda>_.
             AddNamespace r name token)
         | Some _ \<Rightarrow> UpdateNamespace r name token)))
        (Close_redis r)))"

definition deleteKVRocksRequest :: "(string list \<Rightarrow> string list \<Rightarrow> string) \<Rightarrow> 'w k8s \<Rightarrow> 'w redis_ops \<Rightarrow>
    MiddlewareRequest \<Rightarrow> RedixCluster \<Rightarrow> ('w, unit) prog" where
  "deleteKVRocksRequest cmdString k r req cluster =
     (let name = GetKVRocksNamespaceName (metaNamespace (mrMeta req)) (redisNamespace (mwRedis (mrSpec req))) in
      seqc (GetKVRocksClient k r cluster) (\<lambda>_.
      deferc
        (seqc (GetNamespace cmdString r name) (\<lambda>ns.
         case ns of None \<Rightarrow> ret () | Some _ \<Rightarrow> DeleteNamespace r name))
        (Close_redis r)))"

definition with_redix_cluster :: "'w clusters \<Rightarrow> ('w, unit) prog \<Rightarrow> (RedixCluster \<Rightarrow> ('w, unit) prog) \<Rightarrow> ('w, unit) prog" where
  "with_redix_cluster cs redis kvrocks =
     seqc (call (Svc (Cluster (ListRedixClusters ''os-platform''))) (listRedixClusters cs ''os-platform'')) (\<lambda>clusters.
     case clusters of
       [] \<Rightarrow> ret ()
     | cluster # _ \<Rightarrow> (case rxType (rxSpec cluster) of RedisCluster \<Rightarrow> redis | KVRocks \<Rightarrow> kvrocks cluster | _ \<Rightarrow> ret ()))"

definition createOrUpdateRedixRequest :: "(string list \<Rightarrow> string list \<Rightarrow> string) \<Rightarrow> 'w k8s \<Rightarrow> 'w apr \<Rightarrow> 'w clusters \<Rightarrow>
    'w redis_ops \<Rightarrow> MiddlewareRequest \<Rightarrow> bool \<Rightarrow> ('w, unit) prog" where
  "createOrUpdateRedixRequest cmdString k a cs r req isUpdate =
     with_redix_cluster cs (UpdateProxyConfig k a cs) (\<lambda>cluster. createOrUpdateKVRocksRequest cmdString k r req cluster isUpdate)"

definition deleteRedixRequest :: "(string list \<Rightarrow> string list \<Rightarrow> string) \<Rightarrow> 'w k8s \<Rightarrow> 'w apr \<Rightarrow> 'w clusters \<Rightarrow>
    'w redis_ops \<Rightarrow> MiddlewareRequest \<Rightarrow> ('w, unit) prog" where
  "deleteRedixRequest cmdString k a cs r req =
     with_redix_cluster cs (UpdateProxyConfig k a cs) (deleteKVRocksRequest cmdString k r req)"

end
