(* ===== verification/Redis_Proofs.thy ===== *)
theory Redis_Proofs
  imports Redis_Requests
begin

text \<open>The proxy configuration: what is kept and what is replaced by an update, and when the next
  update still finds the section.\<close>

text \<open>The only occurrence of the heading before the section is the one that starts it.\<close>

definition no_heading_before :: "string \<Rightarrow> bool" where
  "no_heading_before pre \<longleftrightarrow> (\<forall>i < length pre. \<not> HasPrefix (drop i (pre @ AuthSectionExprPrev)) AuthSectionExprPrev)"

lemma headings:
  "\<exists>t. AuthSectionExprPrev = CHR 0x23 # t" "\<exists>t. AuthSectionExprNext = CHR 0x23 # t"
  by (simp_all add: AuthSectionExprPrev_def AuthSectionExprNext_def numeral_eq_Suc)

lemma replace_auth_none: "\<not> Contains s AuthSectionExprPrev \<Longrightarrow> replace_auth s new = s"
  by (induction s) auto

lemma replace_auth_before:
  "\<forall>i < length pre. \<not> HasPrefix (drop i (pre @ rest)) AuthSectionExprPrev \<Longrightarrow>
   replace_auth (pre @ rest) new = pre @ replace_auth rest new"
proof (induction pre)
  case (Cons c pre)
  have "\<not> HasPrefix (c # pre @ rest) AuthSectionExprPrev" using Cons.prems by force
  moreover have "\<forall>i < length pre. \<not> HasPrefix (drop i (pre @ rest)) AuthSectionExprPrev" using Cons.prems by force
  ultimately show ?case using Cons.IH by simp
qed simp

lemma HasPrefix_prefix: "HasPrefix s p = prefix p s"
  by (auto simp: HasPrefix_iff prefix_def)

lemma no_heading_mono:
  assumes "no_heading_before pre" "i < length pre"
  shows "\<not> HasPrefix (drop i (pre @ AuthSectionExprPrev @ rest)) AuthSectionExprPrev"
proof
  let ?a = "drop i (pre @ AuthSectionExprPrev)"
  assume "HasPrefix (drop i (pre @ AuthSectionExprPrev @ rest)) AuthSectionExprPrev"
  then have "prefix AuthSectionExprPrev (?a @ rest)"
    using assms(2) by (simp add: HasPrefix_prefix)
  moreover have "prefix ?a (?a @ rest)" by simp
  moreover have "length AuthSectionExprPrev \<le> length ?a" using assms(2) by simp
  ultimately have "prefix AuthSectionExprPrev ?a" by (rule prefix_length_prefix)
  then show False using assms unfolding no_heading_before_def HasPrefix_prefix by blast
qed

lemma replace_auth_section:
  assumes "body \<noteq> []" "CHR 0x23 \<notin> set body"
  shows "replace_auth (AuthSectionExprPrev @ body @ AuthSectionExprNext @ post) new = new @ replace_auth post new"
proof -
  obtain t u where t: "AuthSectionExprPrev = CHR 0x23 # t" and u: "AuthSectionExprNext = CHR 0x23 # u"
    using headings by blast
  let ?r = "body @ AuthSectionExprNext @ post"
  have split: "takeWhile (\<lambda>x. x \<noteq> CHR 0x23) ?r = body" "dropWhile (\<lambda>x. x \<noteq> CHR 0x23) ?r = AuthSectionExprNext @ post"
    using assms(2) by (auto simp: u takeWhile_append dropWhile_append)
  have head: "HasPrefix (CHR 0x23 # t @ ?r) AuthSectionExprPrev" "drop (length AuthSectionExprPrev) (CHR 0x23 # t @ ?r) = ?r"
    and tail: "HasPrefix (AuthSectionExprNext @ post) AuthSectionExprNext"
      "drop (length AuthSectionExprNext) (AuthSectionExprNext @ post) = post"
    by (simp_all add: t HasPrefix_prefix)
  have "replace_auth (CHR 0x23 # t @ ?r) new = new @ replace_auth post new"
    unfolding replace_auth.simps Let_def head(2) split tail(2) using assms(1) head(1) tail(1) by simp
  then show ?thesis by (simp add: t)
qed

text \<open>C10. An update of the proxy configuration replaces the section between the two headings by the
  users it was given and keeps everything around it; and it can be repeated: as long as no
  password or name contains the character \<open>#\<close>, the next update finds the section again and
  replaces it as a whole.\<close>

theorem proxy_config_updates:
  assumes "no_heading_before pre" "\<not> Contains post AuthSectionExprPrev"
    and "body \<noteq> []" "CHR 0x23 \<notin> set body" "CHR 0x23 \<notin> set (GetUserAuthSections ps)"
  shows "replace_auth (pre @ AuthSectionExprPrev @ body @ AuthSectionExprNext @ post) (new_section ps) = pre @ new_section ps @ post \<and>
    replace_auth (pre @ new_section ps @ post) (new_section qs) = pre @ new_section qs @ post"
proof -
  have update: "replace_auth (pre @ AuthSectionExprPrev @ b @ AuthSectionExprNext @ post) new = pre @ new @ post"
    if "b \<noteq> []" "CHR 0x23 \<notin> set b" for b new
  proof -
    have "\<forall>i < length pre. \<not> HasPrefix (drop i (pre @ AuthSectionExprPrev @ b @ AuthSectionExprNext @ post)) AuthSectionExprPrev"
      using no_heading_mono [OF assms(1)] by blast
    from replace_auth_before [OF this] show ?thesis
      by (simp add: replace_auth_section [OF that] replace_auth_none [OF assms(2)])
  qed
  have "CHR 0x23 \<notin> set (newline @ GetUserAuthSections ps @ newline)" using assms(5) by (simp add: newline_def)
  with update [of "newline @ GetUserAuthSections ps @ newline" "new_section qs"] update [OF assms(3,4)]
  show ?thesis by (simp add: new_section_def newline_def)
qed

text \<open>The users of a section without the character in a password or name.\<close>

lemma auth_sections_plain:
  assumes "\<forall>p \<in> set ps. \<forall>x \<in> set p. CHR 0x23 \<notin> set x" "\<forall>p \<in> set ps. p \<noteq> []"
  shows "CHR 0x23 \<notin> set (GetUserAuthSections ps)"
proof -
  have "CHR 0x23 \<notin> set (auth_user p)" if "p \<in> set ps" for p
  proof -
    have "CHR 0x23 \<notin> set (p ! i)" if "i < length p" for i
      using assms(1) \<open>p \<in> set ps\<close> that by auto
    moreover have "0 < length p" using assms(2) \<open>p \<in> set ps\<close> by simp
    ultimately show ?thesis
      by (auto simp: auth_user_def AuthUserBegin_def AuthUserModeWrite_def AuthUserNamespace_def AuthUserEnd_def
          GetDatabaseName_redis_def newline_def tab_def)
  qed
  then show ?thesis by (auto simp: GetUserAuthSections_def AuthSectionBegin_def AuthSectionEnd_def newline_def tab_def)
qed

theorem proxy_config_updates_witness:
  "replace_auth (''Bind'' @ AuthSectionExprPrev @ '' '' @ AuthSectionExprNext @ ''end'') (new_section [[''pw'', ''app'', ''db''], [''admin'']]) =
     ''Bind'' @ new_section [[''pw'', ''app'', ''db''], [''admin'']] @ ''end''"
proof -
  have pre: "no_heading_before ''Bind''"
    by (auto simp: no_heading_before_def AuthSectionExprPrev_def numeral_eq_Suc less_Suc_eq)
  have post: "\<not> Contains ''end'' AuthSectionExprPrev"
    by (simp add: AuthSectionExprPrev_def numeral_eq_Suc)
  have plain: "CHR 0x23 \<notin> set (GetUserAuthSections [[''pw'', ''app'', ''db''], [''admin'']])"
    by (rule auth_sections_plain) auto
  show ?thesis using proxy_config_updates [OF pre post _ _ plain, of "'' ''" "[]"] by simp
qed

end
