(* ===== verification/Middleware.thy ===== *)
theory Middleware
  imports Postgres
begin

text \<open>The request handlers for MariaDB, MySQL, MongoDB, MinIO, RabbitMQ and Elasticsearch
  (\<open>handler_mariadb.go\<close>, \<open>handler_mysql.go\<close>, \<open>handler_mdb.go\<close>, \<open>handler_minio.go\<close>,
  \<open>handler_rabbitmq.go\<close>, \<open>handler_elasticsearch.go\<close>), the helpers of their workloads and the
  MongoDB client of \<open>pkg/mongo\<close>. The servers and their client libraries are parameters.\<close>

section \<open>Administrators (pkg/workload)\<close>

definition root_account :: "'w k8s \<Rightarrow> string \<Rightarrow> string \<Rightarrow> ('w, string \<times> string) prog" where
  "root_account k secret namespace = seqc (Secrets_Get k namespace secret) (\<lambda>data.
     ret (secret_value data ''username'', secret_value data ''password''))"

definition FindMariaDBAdminUser :: "'w k8s \<Rightarrow> string \<Rightarrow> ('w, string \<times> string) prog" where
  "FindMariaDBAdminUser k = root_account k ''mariadb-mariadb-account-root''"

definition FindMysqlAdminUser :: "'w k8s \<Rightarrow> string \<Rightarrow> ('w, string \<times> string) prog" where
  "FindMysqlAdminUser k = root_account k ''mysql-mysql-account-root''"

definition FindMongoAdminUser :: "'w k8s \<Rightarrow> string \<Rightarrow> ('w, string \<times> string) prog" where
  "FindMongoAdminUser k = root_account k ''mongodb-mongodb-account-root''"

definition FindMinioAdminUser :: "'w k8s \<Rightarrow> string \<Rightarrow> ('w, string \<times> string) prog" where
  "FindMinioAdminUser k = root_account k ''minio-minio-account-root''"

definition FindRabbitMQAdminUser :: "'w k8s \<Rightarrow> string \<Rightarrow> ('w, string \<times> string) prog" where
  "FindRabbitMQAdminUser k = root_account k ''rabbitmq-rabbitmq-account-root''"

definition FindElasticsearchAdminUser :: "'w k8s \<Rightarrow> string \<Rightarrow> ('w, string \<times> string) prog" where
  "FindElasticsearchAdminUser k = root_account k ''elasticsearch-mdit-account-elastic''"

definition GetDatabaseName_mariadb :: "string \<Rightarrow> string \<Rightarrow> string" where
  "GetDatabaseName_mariadb appNamespace name = appNamespace @ ''_'' @ name"

definition GetDatabaseName_mysql :: "string \<Rightarrow> string \<Rightarrow> string" where
  "GetDatabaseName_mysql appNamespace name = appNamespace @ ''_'' @ name"

definition GetDatabaseName_mongo :: "string \<Rightarrow> string \<Rightarrow> string" where
  "GetDatabaseName_mongo namespace db = namespace @ ''_'' @ db"

definition GetBucketName :: "string \<Rightarrow> string \<Rightarrow> string" where
  "GetBucketName namespace db = namespace @ ''-'' @ db"

definition GetVhostName :: "string \<Rightarrow> string \<Rightarrow> string" where
  "GetVhostName appNamespace vhost = appNamespace @ ''-'' @ vhost"

definition GetIndexName :: "string \<Rightarrow> string \<Rightarrow> string" where
  "GetIndexName appNamespace name = appNamespace @ ''-'' @ name"

text \<open>What the deletions share: an administrator that is not found means that the service is gone,
  and there is nothing to do.\<close>

definition unless_gone :: "('w, 'a) prog \<Rightarrow> ('a \<Rightarrow> ('w, unit) prog) \<Rightarrow> ('w, unit) prog" where
  "unless_gone look body = tryc look body (\<lambda>err. if IsNotFound err then ret () else fail err)"

section \<open>MariaDB and MySQL\<close>

definition backquoted :: "string \<Rightarrow> string" where "backquoted s = [CHR 0x60] @ s @ [CHR 0x60]"

definition Open_db :: "'w sql \<Rightarrow> string \<Rightarrow> ('w, unit) prog" where
  "Open_db q dsn = call (Sql (Connect dsn)) (sqlConnect q dsn)"

definition Exec_db :: "'w sql \<Rightarrow> string \<Rightarrow> string \<Rightarrow> ('w, unit) prog" where
  "Exec_db q dsn query = call (Sql (Exec dsn query)) (sqlExec q dsn query)"

definition Close_db :: "'w sql \<Rightarrow> string \<Rightarrow> ('w, unit) prog" where
  "Close_db q dsn = call (Sql (CloseDB dsn)) (sqlClose q dsn)"

definition mysql_dsn :: "string \<times> string \<Rightarrow> string \<Rightarrow> string" where
  "mysql_dsn admin host = fst admin @ '':'' @ snd admin @ ''@tcp('' @ host @ '')/''"

text \<open>The two handlers are the same but for the names; \<open>dbs\<close> are the real names of the databases.\<close>

definition grant_databases :: "'w sql \<Rightarrow> string \<Rightarrow> string \<Rightarrow> string \<Rightarrow> string list \<Rightarrow> ('w, unit) prog" where
  "grant_databases q dsn user userPassword dbs =
     seqc (Exec_db q dsn (''CREATE USER IF NOT EXISTS '' @ backquoted user @ '' IDENTIFIED BY '' @ [CHR 0x27] @ userPassword @ [CHR 0x27])) (\<lambda>_.
     seqc (forM dbs (\<lambda>dbName.
       seqc (Exec_db q dsn (''CREATE DATABASE IF NOT EXISTS '' @ backquoted dbName)) (\<lambda>_.
       Exec_db q dsn (''GRANT ALL PRIVILEGES ON '' @ backquoted dbName @ ''.* TO '' @ backquoted user)))) (\<lambda>_.
     Exec_db q dsn ''FLUSH PRIVILEGES''))"

definition drop_databases :: "'w sql \<Rightarrow> string \<Rightarrow> string \<Rightarrow> string list \<Rightarrow> ('w, unit) prog" where
  "drop_databases q dsn user dbs =
     seqc (Exec_db q dsn (''DROP USER IF EXISTS '' @ backquoted user)) (\<lambda>_.
     forM dbs (\<lambda>dbName. Exec_db q dsn (''DROP DATABASE IF EXISTS '' @ backquoted dbName)))"

definition mariadbNamespace :: string where "mariadbNamespace = ''mariadb-middleware''"

definition getMariaDBHost :: string where
  "getMariaDBHost = ''mariadb-mariadb-headless.mariadb-middleware.svc.cluster.local:3306''"

definition createOrUpdateMariaDBRequest :: "'w k8s \<Rightarrow> 'w sql \<Rightarrow> MiddlewareRequest \<Rightarrow> ('w, unit) prog" where
  "createOrUpdateMariaDBRequest k q req =
     (let spec = mwMariaDB (mrSpec req) in
      seqc (FindMariaDBAdminUser k mariadbNamespace) (\<lambda>admin.
      seqc (GetVarValue k (mariaPassword spec) (metaNamespace (mrMeta req))) (\<lambda>userPassword.
      let dsn = mysql_dsn admin getMariaDBHost in
      seqc (Open_db q dsn) (\<lambda>_.
      deferc (grant_databases q dsn (mariaUser spec) userPassword
                (map (GetDatabaseName_mariadb (mwAppNamespace (mrSpec req))) (mariaDatabases spec)))
             (Close_db q dsn)))))"

definition deleteMariaDBRequest :: "'w k8s \<Rightarrow> 'w sql \<Rightarrow> MiddlewareRequest \<Rightarrow> ('w, unit) prog" where
  "deleteMariaDBRequest k q req =
     (let spec = mwMariaDB (mrSpec req) in
      unless_gone (FindMariaDBAdminUser k mariadbNamespace) (\<lambda>admin.
      let dsn = mysql_dsn admin getMariaDBHost in
      seqc (Open_db q dsn) (\<lambda>_.
      deferc (drop_databases q dsn (mariaUser spec)
                (map (GetDatabaseName_mariadb (mwAppNamespace (mrSpec req))) (mariaDatabases spec)))
             (Close_db q dsn))))"

definition mysqlNamespace :: string where "mysqlNamespace = ''mysql-middleware''"

definition getMysqlHost :: string where
  "getMysqlHost = ''mysql-mysql-headless.mysql-middleware.svc.cluster.local:3306''"

definition createOrUpdateMysqlRequest :: "'w k8s \<Rightarrow> 'w sql \<Rightarrow> MiddlewareRequest \<Rightarrow> ('w, unit) prog" where
  "createOrUpdateMysqlRequest k q req =
     (let spec = mwMysql (mrSpec req) in
      seqc (FindMysqlAdminUser k mysqlNamespace) (\<lambda>admin.
      seqc (GetVarValue k (mysqlPassword spec) (metaNamespace (mrMeta req))) (\<lambda>userPassword.
      let dsn = mysql_dsn admin getMysqlHost in
      seqc (Open_db q dsn) (\<lambda>_.
      deferc (grant_databases q dsn (mysqlUser spec) userPassword
                (map (GetDatabaseName_mysql (mwAppNamespace (mrSpec req))) (mysqlDatabases spec)))
             (Close_db q dsn)))))"

definition deleteMysqlRequest :: "'w k8s \<Rightarrow> 'w sql \<Rightarrow> MiddlewareRequest \<Rightarrow> ('w, unit) prog" where
  "deleteMysqlRequest k q req =
     (let spec = mwMysql (mrSpec req) in
      unless_gone (FindMysqlAdminUser k mysqlNamespace) (\<lambda>admin.
      let dsn = mysql_dsn admin getMysqlHost in
      seqc (Open_db q dsn) (\<lambda>_.
      deferc (drop_databases q dsn (mysqlUser spec)
                (map (GetDatabaseName_mysql (mwAppNamespace (mrSpec req))) (mysqlDatabases spec)))
             (Close_db q dsn))))"

section \<open>MongoDB (pkg/mongo/client.go)\<close>

record MongoClient =
  mcUser :: string
  mcPassword :: string
  mcDatabase :: string
  mcAddr :: string

definition mongo_run :: "'w mongo_ops \<Rightarrow> mongo_call \<Rightarrow> ('w, mongo_reply res) prog" where
  "mongo_run m c = call (Svc (Mongo c)) (mongoRun m c)"

definition Connect_mongo :: "'w mongo_ops \<Rightarrow> MongoClient \<Rightarrow> ('w, unit) prog" where
  "Connect_mongo m c =
     (let dsn = ''mongodb://'' @ mcUser c @ '':'' @ mcPassword c @ ''@'' @ mcAddr c @ ''/'' @ mcDatabase c in
      seqc (call (Svc (Mongo (MongoConnect dsn))) (mongoConnect m dsn)) (\<lambda>_.
      call (Svc (Mongo MongoPing)) (mongoPing m)))"

definition Close_mongo :: "'w mongo_ops \<Rightarrow> ('w, unit) prog" where
  "Close_mongo m = call (Svc (Mongo MongoDisconnect)) (mongoDisconnect m)"

definition eval_mongo :: "'w mongo_ops \<Rightarrow> string \<Rightarrow> string \<Rightarrow> string \<Rightarrow> string \<Rightarrow> ('w, unit) prog" where
  "eval_mongo m dsn scripts dbUsername pwd =
     (let args = [dsn, ''--eval'', [CHR 0x22] @ scripts @ [CHR 0x22], ''-u'', dbUsername, ''-p'', pwd] in
      wrapv ''execute scripts failed with '' (call (Svc (Mongo (RunMongosh args))) (mongosh m args)))"

definition ExecuteScript_mongo :: "'w mongo_ops \<Rightarrow> MongoClient \<Rightarrow> string list \<Rightarrow> string \<Rightarrow> string \<Rightarrow> ('w, unit) prog" where
  "ExecuteScript_mongo m c scripts databaseName dbUsername =
     eval_mongo m (''mongodb://'' @ mcAddr c) (concat (map (script_command databaseName dbUsername) scripts))
       (mcUser c) (mcPassword c)"

text \<open>The answer of the server: anything but the number one in \<open>ok\<close> is an error, whose message
  must be a string.\<close>

definition check_reply :: "mongo_reply \<Rightarrow> ('w, unit) prog" where
  "check_reply r =
     (let bad = (case replyErrmsg r of None \<Rightarrow> panic ''interface conversion'' | Some msg \<Rightarrow> fail (Failure msg)) in
      case replyOk r of NoOk \<Rightarrow> bad | OkFloat one \<Rightarrow> if one then ret () else bad | OkOther \<Rightarrow> panic ''interface conversion'')"

definition create_mongo_user :: "'w mongo_ops \<Rightarrow> MongoClient \<Rightarrow> string \<Rightarrow> string \<Rightarrow> string list \<Rightarrow> MongoDatabase \<Rightarrow>
    ('w, unit) prog" where
  "create_mongo_user m c user pwd roles authDB =
     seqc (call (Svc (Mongo (MongoFindUser user (Some (mongoDbName authDB))))) (mongoFindUser m user (Some (mongoDbName authDB)))) (\<lambda>found.
     seqc (mongo_run m (if found then MongoUpdateUser (mongoDbName authDB) user pwd roles
                        else MongoCreateUser (mongoDbName authDB) user pwd roles)) (\<lambda>reply.
     seqc (lift reply) (\<lambda>reply.
     seqc (check_reply reply) (\<lambda>_.
     if mongoDbScripts authDB \<noteq> [] then ExecuteScript_mongo m c (mongoDbScripts authDB) (mongoDbName authDB) user
     else ret ()))))"

definition CreateOrUpdateUserWithDatabase :: "'w mongo_ops \<Rightarrow> MongoClient \<Rightarrow> string \<Rightarrow> string \<Rightarrow> MongoDatabase list \<Rightarrow>
    ('w, unit) prog" where
  "CreateOrUpdateUserWithDatabase m c user pwd db =
     (if db = [] then fail (Failure ''db not specified'')
      else forM db (create_mongo_user m c user pwd (map mongoDbName db)))"

definition DropUserAndDatabase :: "'w mongo_ops \<Rightarrow> string \<Rightarrow> MongoDatabase list \<Rightarrow> ('w, unit) prog" where
  "DropUserAndDatabase m user db =
     seqc (if user = [] then ret ()
           else seqc (call (Svc (Mongo (MongoFindUser user None))) (mongoFindUser m user None)) (\<lambda>found.
             if \<not> found then ret ()
             else forM (if db \<noteq> [] then map mongoDbName db else [''admin''])
               (\<lambda>name. seqc (mongo_run m (MongoDropUser name user)) (\<lambda>_. ret ())))) (\<lambda>_.
     forM db (\<lambda>d. call (Svc (Mongo (MongoDropDatabase (mongoDbName d)))) (mongoDropDatabase m (mongoDbName d))))"

subsection \<open>The handlers (handler\_mdb.go)\<close>

definition getMongoClusterHost :: "'w clusters \<Rightarrow> ('w, string) prog" where
  "getMongoClusterHost cs =
     seqc (call (Svc (Cluster (GetKBCluster ''mongodb-middleware'' ''mongodb''))) (getKBCluster cs ''mongodb-middleware'' ''mongodb'')) (\<lambda>cluster.
     if kbcPhase cluster \<noteq> ''Running'' then fail (Failure ''cluster mongo is not running'')
     else ret (kbcName cluster @ ''-mongodb-headless.'' @ kbcNamespace cluster))"

definition connectToCluster :: "'w k8s \<Rightarrow> 'w clusters \<Rightarrow> 'w mongo_ops \<Rightarrow> ('w, MongoClient) prog" where
  "connectToCluster k cs m =
     seqc (getMongoClusterHost cs) (\<lambda>host.
     seqc (FindMongoAdminUser k ''mongodb-middleware'') (\<lambda>(user, pwd).
     let c = \<lparr>mcUser = user, mcPassword = pwd, mcDatabase = [], mcAddr = host @ '':27017''\<rparr> in
     seqc (Connect_mongo m c) (\<lambda>_. ret c)))"

definition dbRealNames :: "string \<Rightarrow> MongoDatabase list \<Rightarrow> MongoDatabase list" where
  "dbRealNames namespace dbs = map (\<lambda>db. \<lparr>mongoDbName = GetDatabaseName_mongo namespace (mongoDbName db),
     mongoDbScripts = mongoDbScripts db\<rparr>) dbs"

definition createOrUpdateMDBRequest :: "'w k8s \<Rightarrow> 'w clusters \<Rightarrow> 'w mongo_ops \<Rightarrow> MiddlewareRequest \<Rightarrow> ('w, unit) prog" where
  "createOrUpdateMDBRequest k cs m req =
     (let spec = mwMongoDB (mrSpec req) in
      seqc (GetVarValue k (mongoPassword spec) (metaNamespace (mrMeta req))) (\<lambda>pwd.
      seqc (connectToCluster k cs m) (\<lambda>c.
      deferc (CreateOrUpdateUserWithDatabase m c (mongoUser spec) pwd
                (dbRealNames (mwAppNamespace (mrSpec req)) (mongoDatabases spec)))
             (Close_mongo m))))"

definition deleteMDBRequest :: "'w k8s \<Rightarrow> 'w clusters \<Rightarrow> 'w mongo_ops \<Rightarrow> MiddlewareRequest \<Rightarrow> ('w, unit) prog" where
  "deleteMDBRequest k cs m req =
     (let spec = mwMongoDB (mrSpec req) in
      unless_gone (connectToCluster k cs m) (\<lambda>c.
      deferc (DropUserAndDatabase m (mongoUser spec) (dbRealNames (mwAppNamespace (mrSpec req)) (mongoDatabases spec)))
             (Close_mongo m)))"

section \<open>MinIO (handler\_minio.go)\<close>

definition findMinioAdminCredentials :: "'w k8s \<Rightarrow> ('w, string \<times> string) prog" where
  "findMinioAdminCredentials k = FindMinioAdminUser k ''minio-middleware''"

definition minio_clients :: "'w minio_ops \<Rightarrow> string \<times> string \<Rightarrow> ('w, unit) prog" where
  "minio_clients m admin =
     seqc (wrapw ''failed to create minio client: ''
       (call (Svc (Minio_svc (MinioNew (fst admin) (snd admin)))) (minioNew m (fst admin) (snd admin)))) (\<lambda>_.
     wrapv ''failed to create minio admin client: ''
       (call (Svc (Minio_svc (MadminNew (fst admin) (snd admin)))) (madminNew m (fst admin) (snd admin))))"

definition createOrUpdateMinioUser :: "'w minio_ops \<Rightarrow> string \<Rightarrow> string \<Rightarrow> ('w, unit) prog" where
  "createOrUpdateMinioUser m username password =
     wrapv ''failed to add/update user: '' (call (Svc (Minio_svc (AddUser username password))) (addUser m username password))"

definition arn :: "string \<Rightarrow> string" where "arn s = ''arn:aws:s3:::'' @ s"

definition bucket_statements :: "string list \<Rightarrow> MiddlewareRequest \<Rightarrow> policy_statement list" where
  "bucket_statements buckets mr =
     [\<lparr>psEffect = ''Allow'', psAction = Actions [''s3:ListAllMyBuckets'', ''s3:HeadBucket'', ''s3:GetBucketLocation''],
       psResource = [arn ''*'']\<rparr>,
      \<lparr>psEffect = ''Allow'', psAction = OneAction ''s3:*'',
       psResource = concat (map (\<lambda>b. [arn b, arn (b @ ''/*'')]) buckets)\<rparr>] @
     (if minioAllowNamespaceBuckets (mwMinio (mrSpec mr)) then
        [\<lparr>psEffect = ''Allow'', psAction = Actions [''s3:*''], psResource = [arn (mwAppNamespace (mrSpec mr) @ ''-*'')]\<rparr>,
         \<lparr>psEffect = ''Allow'', psAction = OneAction ''s3:*'', psResource = [arn (mwAppNamespace (mrSpec mr) @ ''-*/*'')]\<rparr>]
      else [])"

definition policy_name :: "string \<Rightarrow> string" where "policy_name user = user @ ''-policy''"

definition setBucketPolicyForUser :: "'w minio_ops \<Rightarrow> string list \<Rightarrow> MiddlewareRequest \<Rightarrow> ('w, unit) prog" where
  "setBucketPolicyForUser m buckets mr =
     (let user = minioUser (mwMinio (mrSpec mr)); name = policy_name user; policy = bucket_statements buckets mr in
      seqc (wrapw ''failed to add canned policy: ''
        (call (Svc (Minio_svc (AddCannedPolicy name policy))) (addCannedPolicy m name policy))) (\<lambda>_.
      wrapv (''failed to set policy: '' @ name @ '' for user: '' @ user @ '', err '')
        (call (Svc (Minio_svc (SetPolicy name user))) (setPolicy m name user))))"

text \<open>A bucket that cannot be made is accepted when it exists.\<close>

definition make_bucket :: "'w minio_ops \<Rightarrow> string \<Rightarrow> ('w, unit) prog" where
  "make_bucket m name =
     tryc (call (Svc (Minio_svc (MakeBucket name))) (makeBucket m name)) ret (\<lambda>err.
     seqc (wrapw (''failed to check bucket name: '' @ name @ '', existence: '')
       (call (Svc (Minio_svc (BucketExists name))) (bucketExists m name))) (\<lambda>exists.
     if \<not> exists then fail (wrapE (''failed to create bucket '' @ name @ '': '') err) else ret ()))"

definition createOrUpdateMinioRequest :: "'w k8s \<Rightarrow> 'w minio_ops \<Rightarrow> MiddlewareRequest \<Rightarrow> ('w, unit) prog" where
  "createOrUpdateMinioRequest k m req =
     (let spec = mwMinio (mrSpec req); buckets = map (GetBucketName (mwAppNamespace (mrSpec req))) (minioBuckets spec) in
      seqc (wrapw ''failed to find minio admin credentials: '' (findMinioAdminCredentials k)) (\<lambda>admin.
      seqc (minio_clients m admin) (\<lambda>_.
      seqc (wrapw ''failed to get user password: ''
        (GetVarValue k (minioPassword spec) (metaNamespace (mrMeta req)))) (\<lambda>userPassword.
      seqc (wrapw ''failed to create or update minio user: ''
        (createOrUpdateMinioUser m (minioUser spec) userPassword)) (\<lambda>_.
      seqc (forM buckets (make_bucket m)) (\<lambda>_.
      wrapw ''failed to set bucket policy: '' (setBucketPolicyForUser m buckets req)))))))"

definition List_objects :: "'w minio_ops \<Rightarrow> string \<Rightarrow> ('w, string res list) prog" where
  "List_objects m b = call (Svc (Minio_svc (ListObjects b))) (\<lambda>w. case listObjects m b w of (objs, w') \<Rightarrow> (Val objs, w'))"

definition removeAllObjectsInBucket :: "'w minio_ops \<Rightarrow> string \<Rightarrow> ('w, unit) prog" where
  "removeAllObjectsInBucket m bucketName = seqc (List_objects m bucketName) (\<lambda>objects.
     forM objects (\<lambda>object. seqc (lift object) (\<lambda>key.
     ignorec (call (Svc (Minio_svc (RemoveObject bucketName key))) (removeObject m bucketName key)))))"

definition delete_bucket :: "'w minio_ops \<Rightarrow> string \<Rightarrow> ('w, unit) prog" where
  "delete_bucket m b = seqc (ignorec (removeAllObjectsInBucket m b)) (\<lambda>_.
     ignorec (call (Svc (Minio_svc (RemoveBucket b))) (removeBucket m b)))"

definition deleteMinioUser :: "'w minio_ops \<Rightarrow> string \<Rightarrow> ('w, unit) prog" where
  "deleteMinioUser m username =
     seqc (wrapv ''failed to list users: '' (call (Svc (Minio_svc ListMinioUsers)) (listMinioUsers m))) (\<lambda>users.
     if username \<notin> set users then ret ()
     else wrapv (''failed to remove user '' @ username @ '': '') (call (Svc (Minio_svc (RemoveUser username))) (removeUser m username)))"

definition deleteMinioRequest :: "'w k8s \<Rightarrow> 'w minio_ops \<Rightarrow> MiddlewareRequest \<Rightarrow> ('w, unit) prog" where
  "deleteMinioRequest k m req =
     (let spec = mwMinio (mrSpec req); ns = mwAppNamespace (mrSpec req) in
      tryc (findMinioAdminCredentials k)
        (\<lambda>admin.
          seqc (minio_clients m admin) (\<lambda>_.
          seqc (forM (map (GetBucketName ns) (minioBuckets spec)) (delete_bucket m)) (\<lambda>_.
          seqc (if minioAllowNamespaceBuckets spec
                then tryc (call (Svc (Minio_svc ListBuckets)) (listBuckets m))
                  (\<lambda>buckets. forM (filter (\<lambda>b. HasPrefix b (ns @ ''-'')) buckets) (delete_bucket m)) (\<lambda>_. ret ())
                else ret ()) (\<lambda>_.
          seqc (wrapw ''failed to delete minio user: '' (deleteMinioUser m (minioUser spec))) (\<lambda>_.
          ignorec (call (Svc (Minio_svc (RemoveCannedPolicy (policy_name (minioUser spec)))))
            (removeCannedPolicy m (policy_name (minioUser spec)))))))))
        (\<lambda>err. if IsNotFound err then ret () else fail (wrapE ''failed to find minio admin credentials: '' err)))"

section \<open>RabbitMQ (handler\_rabbitmq.go)\<close>

definition rabbitMQNs :: string where "rabbitMQNs = ''rabbitmq-middleware''"

definition rabbit_do :: "'w rabbit_ops \<Rightarrow> rabbit_call \<Rightarrow> ('w, nat \<times> string) prog" where
  "rabbit_do r c = call (Svc (Rabbit c)) (rabbitDo r c)"

definition newRabbitMQClient :: "'w k8s \<Rightarrow> 'w rabbit_ops \<Rightarrow> ('w, unit) prog" where
  "newRabbitMQClient k r = seqc (FindRabbitMQAdminUser k rabbitMQNs) (\<lambda>(user, password).
     call (Svc (Rabbit (RabbitNewClient user password))) (rabbitNewClient r user password))"

text \<open>A request to create something must be answered by 201 or 204, one to delete something by
  204, or by 404 when it was not there.\<close>

definition put_answer :: "string \<Rightarrow> nat \<times> string \<Rightarrow> ('w, unit) prog" where
  "put_answer msg resp = (case resp of (status, body) \<Rightarrow>
     if status \<noteq> 201 \<and> status \<noteq> 204 then fail (Failure (msg @ body)) else ret ())"

definition delete_answer :: "string \<Rightarrow> nat \<times> string \<Rightarrow> ('w, unit) prog" where
  "delete_answer msg resp = (case resp of (status, body) \<Rightarrow>
     if status = 404 then ret () else if status \<noteq> 204 then fail (Failure (msg @ body)) else ret ())"

definition ensureRabbitVhost :: "'w rabbit_ops \<Rightarrow> string \<Rightarrow> ('w, unit) prog" where
  "ensureRabbitVhost r vhost = seqc (wrapv (''failed to put vhost '' @ vhost @ '', '') (rabbit_do r (PutVhost vhost)))
     (put_answer ''create vhost failed '')"

definition createOrUpdateRabbitUser :: "'w rabbit_ops \<Rightarrow> string \<Rightarrow> string \<Rightarrow> ('w, unit) prog" where
  "createOrUpdateRabbitUser r username password = seqc (rabbit_do r (PutUser username password))
     (put_answer ''create user failed '')"

definition setRabbitPermissions :: "'w rabbit_ops \<Rightarrow> string \<Rightarrow> string \<Rightarrow> ('w, unit) prog" where
  "setRabbitPermissions r username vhost =
     seqc (wrapv (''failed to update vhost '' @ vhost @ '' user '' @ username @ '' '') (rabbit_do r (UpdatePermissionsIn vhost username)))
     (put_answer ''set permission failed '')"

definition deleteRabbitPermissions :: "'w rabbit_ops \<Rightarrow> string \<Rightarrow> string \<Rightarrow> ('w, unit) prog" where
  "deleteRabbitPermissions r username vhost =
     seqc (wrapv (''failed to clear permission user '' @ username @ '' vhost '' @ vhost @ '' '') (rabbit_do r (ClearPermissionsIn vhost username)))
     (delete_answer ''delete permission failed '')"

definition deleteRabbitUser :: "'w rabbit_ops \<Rightarrow> string \<Rightarrow> ('w, unit) prog" where
  "deleteRabbitUser r username =
     seqc (wrapv (''failed to delete user '' @ username @ '' '') (rabbit_do r (DeleteRabbitUser username)))
     (delete_answer (''delete user '' @ username @ '' failed ''))"

definition deleteRabbitVhost :: "'w rabbit_ops \<Rightarrow> string \<Rightarrow> ('w, unit) prog" where
  "deleteRabbitVhost r vhost =
     seqc (wrapv (''failed to delete vhost '' @ vhost @ '' '') (rabbit_do r (DeleteVhost vhost)))
     (delete_answer (''delete vhost '' @ vhost @ '' failed ''))"

definition createOrUpdateRabbitMQRequest :: "'w k8s \<Rightarrow> 'w rabbit_ops \<Rightarrow> MiddlewareRequest \<Rightarrow> ('w, unit) prog" where
  "createOrUpdateRabbitMQRequest k r req =
     (let spec = mwRabbitMQ (mrSpec req) in
      seqc (newRabbitMQClient k r) (\<lambda>_.
      seqc (GetVarValue k (rabbitPassword spec) (metaNamespace (mrMeta req))) (\<lambda>userPassword.
      seqc (createOrUpdateRabbitUser r (rabbitUser spec) userPassword) (\<lambda>_.
      forM (map (GetVhostName (mwAppNamespace (mrSpec req))) (rabbitVhosts spec)) (\<lambda>vhost.
      seqc (ensureRabbitVhost r vhost) (\<lambda>_. setRabbitPermissions r (rabbitUser spec) vhost))))))"

definition deleteRabbitMQRequest :: "'w k8s \<Rightarrow> 'w rabbit_ops \<Rightarrow> MiddlewareRequest \<Rightarrow> ('w, unit) prog" where
  "deleteRabbitMQRequest k r req =
     (let spec = mwRabbitMQ (mrSpec req); user = rabbitUser spec in
      unless_gone (newRabbitMQClient k r) (\<lambda>_.
      seqc (forM (map (GetVhostName (mwAppNamespace (mrSpec req))) (rabbitVhosts spec)) (\<lambda>vhost.
        seqc (deleteRabbitPermissions r user vhost) (\<lambda>_.
        wrapv (''failed to delete vhost '' @ vhost @ '' '') (deleteRabbitVhost r vhost)))) (\<lambda>_.
      wrapv (''failed to delete rabbitmq user '' @ user @ '' '') (deleteRabbitUser r user))))"

section \<open>Elasticsearch (handler\_elasticsearch.go)\<close>

text \<open>\<open>json.Marshal\<close> of strings and \<open>%q\<close> of \<open>fmt\<close>, for characters of the ASCII range.\<close>

definition hex2 :: "nat \<Rightarrow> string" where
  "hex2 n = Hex [of_nat n]"

definition escaped :: "(char \<times> char) list \<Rightarrow> char \<Rightarrow> string option" where
  "escaped m c = map_option (\<lambda>e. [CHR 0x5C, e]) (lookup m c)"

definition json_char :: "char \<Rightarrow> string" where
  "json_char c = (case escaped [(CHR 0x22, CHR 0x22), (CHR 0x5C, CHR 0x5C), (CHR 0x08, CHR ''b''), (CHR 0x0C, CHR ''f''),
       (CHR 0x0A, CHR ''n''), (CHR 0x0D, CHR ''r''), (CHR 0x09, CHR ''t'')] c of
     Some e \<Rightarrow> e
   | None \<Rightarrow> if (of_char c :: nat) < 32 \<or> c \<in> {CHR ''<'', CHR ''>'', CHR ''&''}
       then [CHR 0x5C] @ ''u00'' @ hex2 (of_char c) else [c])"

definition quoted_char :: "char \<Rightarrow> string" where
  "quoted_char c = (case escaped [(CHR 0x22, CHR 0x22), (CHR 0x5C, CHR 0x5C), (CHR 0x07, CHR ''a''), (CHR 0x08, CHR ''b''),
       (CHR 0x0C, CHR ''f''), (CHR 0x0A, CHR ''n''), (CHR 0x0D, CHR ''r''), (CHR 0x09, CHR ''t''), (CHR 0x0B, CHR ''v'')] c of
     Some e \<Rightarrow> e
   | None \<Rightarrow> if (of_char c :: nat) < 32 \<or> c = CHR 0x7F then [CHR 0x5C] @ ''x'' @ hex2 (of_char c) else [c])"

definition in_quotes :: "string \<Rightarrow> string" where
  "in_quotes s = [CHR 0x22] @ s @ [CHR 0x22]"

definition json_string :: "string \<Rightarrow> string" where
  "json_string s = in_quotes (concat (map json_char s))"

text \<open>A slice that was never appended to is nil and encodes as \<open>null\<close>.\<close>

definition json_strings :: "string list \<Rightarrow> string" where
  "json_strings xs = (if xs = [] then ''null'' else ''['' @ Join (map json_string xs) '','' @ '']'')"

definition elasticNamespace :: string where "elasticNamespace = ''elasticsearch-middleware''"

definition es_do :: "'w es_ops \<Rightarrow> es_call \<Rightarrow> ('w, es_response) prog" where
  "es_do es c = call (Svc (Es c)) (esDo es c)"

definition newESClient :: "'w es_ops \<Rightarrow> string \<times> string \<Rightarrow> ('w, unit) prog" where
  "newESClient es admin = call (Svc (Es (EsNewClient (fst admin) (snd admin)))) (esNewClient es (fst admin) (snd admin))"

definition es_check :: "string \<Rightarrow> es_response \<Rightarrow> ('w, unit) prog" where
  "es_check msg res = (if esIsError res then fail (Failure (msg @ esString res)) else ret ())"

definition checkIndexIfExists :: "'w es_ops \<Rightarrow> string \<Rightarrow> ('w, bool) prog" where
  "checkIndexIfExists es index = seqc (es_do es (IndicesExists index)) (\<lambda>res.
     if esStatusCode res = 200 then ret True
     else if esIsError res \<and> esStatusCode res \<noteq> 404
       then fail (Failure (''check index '' @ index @ '' exists failed: '' @ esString res))
     else ret False)"

definition esCreateOrUpdateIndex :: "'w es_ops \<Rightarrow> string \<Rightarrow> ('w, unit) prog" where
  "esCreateOrUpdateIndex es index = seqc (checkIndexIfExists es index) (\<lambda>exists.
     if exists then ret ()
     else seqc (es_do es (IndicesCreate index)) (es_check (''create index '' @ index @ '' failed: '')))"

definition es_deleted :: "string \<Rightarrow> es_response \<Rightarrow> ('w, unit) prog" where
  "es_deleted msg res = (if esStatusCode res = 404 then ret () else es_check msg res)"

definition esDeleteIndex :: "'w es_ops \<Rightarrow> string \<Rightarrow> ('w, unit) prog" where
  "esDeleteIndex es index = seqc (es_do es (IndicesDelete index)) (es_deleted (''delete index '' @ index @ '' failed: ''))"

definition esListIndices :: "'w es_ops \<Rightarrow> string \<Rightarrow> ('w, string list) prog" where
  "esListIndices es pattern = seqc (es_do es (CatIndices pattern)) (\<lambda>res.
     if esStatusCode res = 404 then ret []
     else if esIsError res then fail (Failure (''cat indices failed: '' @ esString res))
     else seqc (lift (esDecoded res)) (\<lambda>names. ret (filter (\<lambda>n. n \<noteq> []) names)))"

definition role_body :: "string list \<Rightarrow> string" where
  "role_body indices = ''{'' @ in_quotes ''cluster'' @ '':['' @ in_quotes ''monitor'' @ ''],'' @ in_quotes ''indices'' @ '':[{'' @
     in_quotes ''names'' @ '':'' @ json_strings indices @ '','' @ in_quotes ''privileges'' @ '':['' @ in_quotes ''all'' @ '']}]}''"

definition esPutRole :: "'w es_ops \<Rightarrow> string \<Rightarrow> string list \<Rightarrow> ('w, unit) prog" where
  "esPutRole es role indices = seqc (es_do es (SecurityPutRole role (role_body indices))) (es_check ''put role failed: '')"

definition esDeleteRole :: "'w es_ops \<Rightarrow> string \<Rightarrow> ('w, unit) prog" where
  "esDeleteRole es role = seqc (es_do es (SecurityDeleteRole role)) (es_deleted (''delete role '' @ role @ '' failed: ''))"

text \<open>The password is put between quotes as it is.\<close>

definition user_body :: "string \<Rightarrow> string" where
  "user_body password = ''{'' @ in_quotes ''password'' @ '':'' @ in_quotes password @ '','' @ in_quotes ''roles'' @ '':[]}''"

definition esPutUser :: "'w es_ops \<Rightarrow> string \<Rightarrow> string \<Rightarrow> ('w, unit) prog" where
  "esPutUser es user password = seqc (es_do es (SecurityPutUser user (user_body password))) (es_check ''put user failed: '')"

definition esDeleteUser :: "'w es_ops \<Rightarrow> string \<Rightarrow> ('w, unit) prog" where
  "esDeleteUser es user =
     seqc (wrapv ''failed to send delete uer req '' (es_do es (SecurityDeleteUser user))) (es_deleted ''delete user failed: '')"

definition user_role_body :: "string \<Rightarrow> string" where
  "user_role_body role = ''{'' @ in_quotes ''roles'' @ '':['' @ in_quotes (concat (map quoted_char role)) @ '']}''"

definition esPutUserRole :: "'w es_ops \<Rightarrow> string \<Rightarrow> string \<Rightarrow> ('w, unit) prog" where
  "esPutUserRole es user role = seqc (es_do es (SecurityPutUser user (user_role_body role))) (es_check ''assign role failed: '')"

definition index_pattern :: "MiddlewareRequest \<Rightarrow> string" where
  "index_pattern req = mwAppNamespace (mrSpec req) @ ''_*''"

definition role_name :: "string \<Rightarrow> string" where "role_name user = ''role-'' @ user"

definition createOrUpdateElasticsearchRequest :: "'w k8s \<Rightarrow> 'w es_ops \<Rightarrow> MiddlewareRequest \<Rightarrow> ('w, unit) prog" where
  "createOrUpdateElasticsearchRequest k es req =
     (let spec = mwElasticsearch (mrSpec req); user = esUser spec;
          names = map (GetIndexName (mwAppNamespace (mrSpec req))) (esIndexes spec) in
      seqc (FindElasticsearchAdminUser k elasticNamespace) (\<lambda>admin.
      seqc (wrapv ''failed to get user password '' (GetVarValue k (esPassword spec) (metaNamespace (mrMeta req)))) (\<lambda>userPassword.
      seqc (wrapv ''failed to new esclient '' (newESClient es admin)) (\<lambda>_.
      seqc (wrapv (''failed to put user '' @ user @ '' '') (esPutUser es user userPassword)) (\<lambda>_.
      seqc (forM names (\<lambda>name. wrapv (''failed to create index '' @ name @ '' '') (esCreateOrUpdateIndex es name))) (\<lambda>_.
      seqc (esPutRole es (role_name user)
        (names @ (if esAllowNamespaceIndexes spec then [index_pattern req] else []))) (\<lambda>_.
      esPutUserRole es user (role_name user))))))))"

definition deleteElasticsearchRequest :: "'w k8s \<Rightarrow> 'w es_ops \<Rightarrow> MiddlewareRequest \<Rightarrow> ('w, unit) prog" where
  "deleteElasticsearchRequest k es req =
     (let spec = mwElasticsearch (mrSpec req); user = esUser spec in
      unless_gone (FindElasticsearchAdminUser k elasticNamespace) (\<lambda>admin.
      seqc (wrapv ''failed to new esclient '' (newESClient es admin)) (\<lambda>_.
      seqc (wrapv (''failed to delete user '' @ user @ '' '') (esDeleteUser es user)) (\<lambda>_.
      seqc (wrapv (''failed to delete role '' @ role_name user @ '' '') (esDeleteRole es (role_name user))) (\<lambda>_.
      seqc (forM (map (GetIndexName (mwAppNamespace (mrSpec req))) (esIndexes spec))
        (\<lambda>name. wrapv ''failed to delete index '' (esDeleteIndex es name))) (\<lambda>_.
      if esAllowNamespaceIndexes spec
      then tryc (esListIndices es (index_pattern req)) (\<lambda>names. forM (rev (remdups (rev names))) (\<lambda>name. ignorec (esDeleteIndex es name))) (\<lambda>_. ret ())
      else ret ()))))))"

end
