(* ===== verification/Controllers.thy ===== *)
theory Controllers
  imports Nats Redis_Requests Middleware Citus Backup_Jobs
begin

text \<open>The controllers of the middleware operator: the dispatch of a middleware request
  (\<open>middleware-request/handler.go\<close>) and the workers (\<open>controller.go\<close> of every controller), which take
  items from a work queue, run the handler and settle the item. The work queue belongs to a
  library: it is a record of operations.\<close>

section \<open>The dispatch of requests (handler.go)\<close>

record 'w env =
  envK8s :: "'w k8s"
  envApr :: "'w apr"
  envFs :: "'w fs"
  envNats :: "'w nats_ops"
  envSql :: "'w sql"
  envRedis :: "'w redis_ops"
  envClusters :: "'w clusters"
  envMongo :: "'w mongo_ops"
  envMinio :: "'w minio_ops"
  envRabbit :: "'w rabbit_ops"
  envEs :: "'w es_ops"
  envCmdString :: "string list \<Rightarrow> string list \<Rightarrow> string"

definition on_action :: "Action \<Rightarrow> ('w, unit) prog \<Rightarrow> ('w, unit) prog \<Rightarrow> ('w, unit) prog" where
  "on_action action put del = (case action of ADD \<Rightarrow> put | UPDATE \<Rightarrow> put | DELETE \<Rightarrow> del | UNKNOWN \<Rightarrow> ret ())"

definition request_handler :: "'w env \<Rightarrow> Action \<Rightarrow> MiddlewareRequest \<Rightarrow> ('w, unit) prog" where
  "request_handler e action request = (case mwMiddleware (mrSpec request) of
      TypePostgreSQL \<Rightarrow> on_action action
        (seqc (createOrUpdatePGRequest (envK8s e) (envApr e) (envSql e) request) (\<lambda>_.
           if action = UPDATE then deleteDatabaseIfNotExists (envK8s e) (envApr e) (envSql e) request else ret ()))
        (deletePGAll (envK8s e) (envApr e) (envSql e) request)
    | TypeMongoDB \<Rightarrow> on_action action
        (createOrUpdateMDBRequest (envK8s e) (envClusters e) (envMongo e) request)
        (deleteMDBRequest (envK8s e) (envClusters e) (envMongo e) request)
    | TypeRedis \<Rightarrow> on_action action
        (createOrUpdateRedixRequest (envCmdString e) (envK8s e) (envApr e) (envClusters e) (envRedis e) request (action = UPDATE))
        (deleteRedixRequest (envCmdString e) (envK8s e) (envApr e) (envClusters e) (envRedis e) request)
    | TypeNats \<Rightarrow> on_action action
        (createOrUpdateNatsUser (envK8s e) (envApr e) (envFs e) (envNats e) request)
        (deleteNatsUserAndStream (envK8s e) (envFs e) (envNats e) request)
    | TypeMinio \<Rightarrow> on_action action
        (createOrUpdateMinioRequest (envK8s e) (envMinio e) request)
        (deleteMinioRequest (envK8s e) (envMinio e) request)
    | TypeRabbitMQ \<Rightarrow> on_action action
        (createOrUpdateRabbitMQRequest (envK8s e) (envRabbit e) request)
        (deleteRabbitMQRequest (envK8s e) (envRabbit e) request)
    | TypeElasticsearch \<Rightarrow> on_action action
        (createOrUpdateElasticsearchRequest (envK8s e) (envEs e) request)
        (deleteElasticsearchRequest (envK8s e) (envEs e) request)
    | TypeMariaDB \<Rightarrow> on_action action
        (createOrUpdateMariaDBRequest (envK8s e) (envSql e) request)
        (deleteMariaDBRequest (envK8s e) (envSql e) request)
    | TypeMysql \<Rightarrow> on_action action
        (createOrUpdateMysqlRequest (envK8s e) (envSql e) request)
        (deleteMysqlRequest (envK8s e) (envSql e) request)
    | _ \<Rightarrow> ret ())"

section \<open>Work items\<close>

text \<open>What an event handler receives: an object of the controller's type or, for a deletion that
  the informer missed, the tombstone \<open>cache.DeletedFinalStateUnknown\<close>.\<close>

datatype 'o informer_obj = Object 'o | DeletedFinalStateUnknown string

record 'o enqueueObj =
  eqAction :: Action
  eqObj :: "'o informer_obj"

text \<open>An item of the queue is an \<open>enqueueObj\<close> or, as far as the types go, anything else.\<close>

datatype 'o item = Enqueued "'o enqueueObj" | ForeignItem

datatype 'o wq_call =
    WqGet
  | WqAdd "'o item"
  | WqDone "'o item"
  | WqForget "'o item"
  | WqAddRateLimited "'o item"
  | WqAddAfter "'o item" nat
  | Sync "'o enqueueObj" bool

type_synonym ('w, 'o, 'a) worker = "('o wq_call, 'w, 'a) io"

text \<open>\<open>wqGet\<close> gives no item once the queue is shut down.\<close>

record ('w, 'o) workqueue =
  wqGet :: "'w \<Rightarrow> 'o item option \<times> 'w"
  wqAdd :: "'o item \<Rightarrow> 'w \<Rightarrow> 'w"
  wqDone :: "'o item \<Rightarrow> 'w \<Rightarrow> 'w"
  wqForget :: "'o item \<Rightarrow> 'w \<Rightarrow> 'w"
  wqAddRateLimited :: "'o item \<Rightarrow> 'w \<Rightarrow> 'w"
  wqAddAfter :: "'o item \<Rightarrow> nat \<Rightarrow> 'w \<Rightarrow> 'w"

definition wq :: "'o wq_call \<Rightarrow> ('w \<Rightarrow> 'w) \<Rightarrow> ('w, 'o, unit) worker" where
  "wq c f = call c (\<lambda>w. (Val (), f w))"

text \<open>A handler, seen from the worker, is one step: its outcome and its effect on the world.\<close>

definition as_op :: "('w, unit) prog \<Rightarrow> ('w, unit) op" where
  "as_op m w = (case m (w, []) of (r, s) \<Rightarrow> (r, fst s))"

section \<open>The workers (controller.go)\<close>

definition enqueue :: "('w, 'o) workqueue \<Rightarrow> 'o enqueueObj \<Rightarrow> ('w, 'o, unit) worker" where
  "enqueue q obj = wq (WqAdd (Enqueued obj)) (wqAdd q (Enqueued obj))"

definition handleAddObject :: "('w, 'o) workqueue \<Rightarrow> 'o informer_obj \<Rightarrow> ('w, 'o, unit) worker" where
  "handleAddObject q obj = enqueue q \<lparr>eqAction = ADD, eqObj = obj\<rparr>"

definition handleUpdateObject :: "('w, 'o) workqueue \<Rightarrow> 'o informer_obj \<Rightarrow> ('w, 'o, unit) worker" where
  "handleUpdateObject q obj = enqueue q \<lparr>eqAction = UPDATE, eqObj = obj\<rparr>"

definition handleDeleteObject :: "('w, 'o) workqueue \<Rightarrow> 'o informer_obj \<Rightarrow> ('w, 'o, unit) worker" where
  "handleDeleteObject q obj = enqueue q \<lparr>eqAction = DELETE, eqObj = obj\<rparr>"

text \<open>Every handler begins with the assertion of the object's type. The list of calls also tells
  whether the handler returned nil.\<close>

definition syncHandler :: "(Action \<Rightarrow> 'o \<Rightarrow> ('w, unit) prog) \<Rightarrow> 'o enqueueObj \<Rightarrow> ('w, 'o, unit) worker" where
  "syncHandler handler obj s =
     (case as_op (case eqObj obj of
        Object x \<Rightarrow> handler (eqAction obj) x
      | DeletedFinalStateUnknown _ \<Rightarrow> fail (Failure ''invalid object'')) (fst s) of
      (r, w) \<Rightarrow> (r, (w, snd s @ [Sync obj (r = Val ())])))"

text \<open>The part that all controllers share; \<open>sync\<close> is what they do with an item of theirs. The error
  is reported by \<open>HandleError\<close> and otherwise dropped.\<close>

definition process_item :: "('w, 'o) workqueue \<Rightarrow> ('o enqueueObj \<Rightarrow> ('w, 'o, unit) worker) \<Rightarrow> 'o item \<Rightarrow>
    ('w, 'o, unit) worker" where
  "process_item q sync obj = ignorec (deferc
     (case obj of
        ForeignItem \<Rightarrow> wq (WqForget obj) (wqForget q obj)
      | Enqueued eobj \<Rightarrow> seqc (sync eobj) (\<lambda>_. wq (WqForget obj) (wqForget q obj)))
     (wq (WqDone obj) (wqDone q obj)))"

definition next_item :: "('w, 'o) workqueue \<Rightarrow> ('o enqueueObj \<Rightarrow> ('w, 'o, unit) worker) \<Rightarrow> ('w, 'o, bool) worker" where
  "next_item q sync =
     seqc (call WqGet (\<lambda>w. case wqGet q w of (i, w') \<Rightarrow> (Val i, w'))) (\<lambda>i. case i of
       None \<Rightarrow> ret False
     | Some obj \<Rightarrow> seqc (process_item q sync obj) (\<lambda>_. ret True))"

text \<open>The usual treatment of an error: the item is queued again, with a delay.\<close>

definition sync_or_requeue :: "('w, 'o) workqueue \<Rightarrow> (Action \<Rightarrow> 'o \<Rightarrow> ('w, unit) prog) \<Rightarrow> 'o enqueueObj \<Rightarrow> ('w, 'o, unit) worker" where
  "sync_or_requeue q handler eobj = tryc (syncHandler handler eobj) ret
     (\<lambda>err. seqc (wq (WqAddRateLimited (Enqueued eobj)) (wqAddRateLimited q (Enqueued eobj))) (\<lambda>_. fail err))"

definition processNextWorkItem :: "('w, 'o) workqueue \<Rightarrow> (Action \<Rightarrow> 'o \<Rightarrow> ('w, unit) prog) \<Rightarrow> ('w, 'o, bool) worker" where
  "processNextWorkItem q handler = next_item q (sync_or_requeue q handler)"

text \<open>The controller of the middleware requests queues an item again after five seconds, but a
  deletion is tried again on the spot, until it succeeds; \<open>n\<close> bounds the attempts of the model.\<close>

fun sync_until :: "nat \<Rightarrow> ('w, 'o) workqueue \<Rightarrow> (Action \<Rightarrow> 'o \<Rightarrow> ('w, unit) prog) \<Rightarrow> 'o enqueueObj \<Rightarrow> ('w, 'o, unit) worker" where
  "sync_until 0 q handler eobj = looping"
| "sync_until (Suc n) q handler eobj = tryc (syncHandler handler eobj) ret
     (\<lambda>err. if eqAction eobj \<noteq> DELETE
        then seqc (wq (WqAddAfter (Enqueued eobj) 5) (wqAddAfter q (Enqueued eobj) 5)) (\<lambda>_. fail err)
        else sync_until n q handler eobj)"

definition processNextWorkItem_mr :: "nat \<Rightarrow> ('w, 'o) workqueue \<Rightarrow> (Action \<Rightarrow> 'o \<Rightarrow> ('w, unit) prog) \<Rightarrow> ('w, 'o, bool) worker" where
  "processNextWorkItem_mr n q handler = next_item q (sync_until n q handler)"

text \<open>\<open>runWorker\<close>: items are processed until the queue is shut down.\<close>

fun runWorker :: "nat \<Rightarrow> ('w, 'o, bool) worker \<Rightarrow> ('w, 'o, unit) worker" where
  "runWorker 0 process = looping"
| "runWorker (Suc n) process = seqc process (\<lambda>more. if more then runWorker n process else ret ())"

section \<open>The controllers\<close>

definition request_worker :: "nat \<Rightarrow> nat \<Rightarrow> 'w env \<Rightarrow> ('w, MiddlewareRequest) workqueue \<Rightarrow> ('w, MiddlewareRequest, unit) worker" where
  "request_worker n tries e q = runWorker n (processNextWorkItem_mr tries q (request_handler e))"

definition pgcluster_worker :: "nat \<Rightarrow> nat \<Rightarrow> 'w env \<Rightarrow> (nat \<Rightarrow> ('w, byte list) op) \<Rightarrow> ('w, PGCluster) workqueue \<Rightarrow>
    ('w, PGCluster, unit) worker" where
  "pgcluster_worker n polls e rnd q =
     runWorker n (processNextWorkItem q (pgcluster_handler polls (envK8s e) (envApr e) (envSql e) rnd))"

definition redixcluster_worker :: "nat \<Rightarrow> bool \<Rightarrow> nat \<Rightarrow> nat \<Rightarrow> 'w env \<Rightarrow> ('w, RedixCluster) workqueue \<Rightarrow>
    ('w, RedixCluster, unit) worker" where
  "redixcluster_worker n zeroOnError steps polls e q =
     runWorker n (processNextWorkItem q (redixcluster_handler zeroOnError steps polls (envK8s e)))"

definition pgbackup_worker :: "nat \<Rightarrow> nat \<Rightarrow> nat \<Rightarrow> string \<Rightarrow> 'w env \<Rightarrow> ('w, PGClusterBackup) workqueue \<Rightarrow>
    ('w, PGClusterBackup, unit) worker" where
  "pgbackup_worker n m polls subPath e q = runWorker n (processNextWorkItem q (\<lambda>action backup.
     seqc (pgbackup_handler m polls subPath (envK8s e) (envApr e) (envFs e) action backup) (\<lambda>_. ret ())))"

definition pgrestore_worker :: "nat \<Rightarrow> nat \<Rightarrow> 'w env \<Rightarrow> ('w, PGClusterRestore) workqueue \<Rightarrow> ('w, PGClusterRestore, unit) worker" where
  "pgrestore_worker n polls e q = runWorker n (processNextWorkItem q (\<lambda>action restore.
     seqc (pgrestore_handler polls (envK8s e) (envApr e) action restore) (\<lambda>_. ret ())))"

definition kvbackup_worker :: "nat \<Rightarrow> nat \<Rightarrow> 'w env \<Rightarrow> 'w kvapr \<Rightarrow> ('w, KVRocksBackup) workqueue \<Rightarrow> ('w, KVRocksBackup, unit) worker" where
  "kvbackup_worker n polls e kv q = runWorker n (processNextWorkItem q
     (kvbackup_handler polls (envK8s e) (envApr e) kv (envFs e) (envRedis e)))"

definition kvrestore_worker :: "nat \<Rightarrow> nat \<Rightarrow> 'w env \<Rightarrow> 'w kvapr \<Rightarrow> ('w, KVRocksRestore) workqueue \<Rightarrow> ('w, KVRocksRestore, unit) worker" where
  "kvrestore_worker n polls e kv q = runWorker n (processNextWorkItem q
     (kvrestore_handler polls (envK8s e) (envApr e) kv (envFs e)))"

text \<open>The controller of the NATS config map: only the addition of the one config map is queued,
  and its loop around the handler leaves on the first error.\<close>

record ConfigMap =
  cmName :: string
  cmData :: "(string \<times> string) list"

definition handleAddObject_cm :: "('w, ConfigMap) workqueue \<Rightarrow> ConfigMap informer_obj \<Rightarrow> ('w, ConfigMap, unit) worker" where
  "handleAddObject_cm q obj = (case obj of
      Object cm \<Rightarrow> if cmName cm \<noteq> ''nats-config'' then ret () else enqueue q \<lparr>eqAction = ADD, eqObj = obj\<rparr>
    | DeletedFinalStateUnknown _ \<Rightarrow> ret ())"

definition configmap_worker :: "nat \<Rightarrow> 'w env \<Rightarrow> ('w, ConfigMap) workqueue \<Rightarrow> ('w, ConfigMap, unit) worker" where
  "configmap_worker n e q = runWorker n (processNextWorkItem q (\<lambda>action cm. configmap_handler (envFs e) (cmData cm)))"

end
