(* ===== verification/Controllers_Proofs.thy ===== *)
theory Controllers_Proofs
  imports Controllers
begin

text \<open>What the workers guarantee: every item they take is settled, a deletion is retried until it
  succeeds, and which deletions can succeed once the service behind them is gone.\<close>

section \<open>Settling items\<close>

text \<open>The calls for one item in the usual controllers and in the one of the middleware requests.\<close>

definition settles :: "'o item \<Rightarrow> 'o wq_call list \<Rightarrow> bool" where
  "settles i cs \<longleftrightarrow> (case i of
      ForeignItem \<Rightarrow> cs = [WqGet, WqForget i, WqDone i]
    | Enqueued e \<Rightarrow> cs = [WqGet, Sync e True, WqForget i, WqDone i] \<or>
        cs = [WqGet, Sync e False, WqAddRateLimited i, WqDone i])"

definition settles_mr :: "'o item \<Rightarrow> 'o wq_call list \<Rightarrow> bool" where
  "settles_mr i cs \<longleftrightarrow> (case i of
      ForeignItem \<Rightarrow> cs = [WqGet, WqForget i, WqDone i]
    | Enqueued e \<Rightarrow>
        (if eqAction e = DELETE then \<exists>k. cs = WqGet # replicate k (Sync e False) @ [Sync e True, WqForget i, WqDone i]
         else cs = [WqGet, Sync e True, WqForget i, WqDone i] \<or> cs = [WqGet, Sync e False, WqAddAfter i 5, WqDone i]))"

text \<open>The contract of one round, and what it gives for the loop.\<close>

locale item_processor =
  fixes process :: "('w, 'o, bool) worker"
    and settled :: "'o item \<Rightarrow> 'o wq_call list \<Rightarrow> bool"
  assumes round: "traces (\<lambda>r cs. (r = Val False \<longrightarrow> cs = [WqGet]) \<and> (r = Val True \<longrightarrow> (\<exists>i. settled i cs))) process"
begin

lemma runWorker_traces:
  "traces (\<lambda>r cs. r = Val () \<longrightarrow> (\<exists>items css. cs = concat css @ [WqGet] \<and> list_all2 settled items css)) (runWorker n process)"
proof (induction n)
  case 0
  then show ?case by (simp add: traces_def looping_def)
next
  case (Suc n)
  show ?case unfolding runWorker.simps
  proof (rule traces_seqc [OF round])
    fix more cs
    assume step: "(Val more = Val False \<longrightarrow> cs = [WqGet]) \<and> (Val more = Val True \<longrightarrow> (\<exists>i. settled i cs))"
    show "traces (\<lambda>r ds. r = Val () \<longrightarrow> (\<exists>items css. cs @ ds = concat css @ [WqGet] \<and> list_all2 settled items css))
        (if more then runWorker n process else ret ())"
    proof (cases more)
      case True
      then obtain i where i: "settled i cs" using step by auto
      have more: "\<exists>items css. cs @ ds = concat css @ [WqGet] \<and> list_all2 settled items css"
        if "ds = concat css @ [WqGet]" "list_all2 settled items css" for ds items css
        using that i by (intro exI [of _ "i # items"] exI [of _ "cs # css"]) simp
      show ?thesis unfolding if_P [OF True] by (rule traces_mono [OF Suc]) (use more in blast)
    next
      case False
      then show ?thesis using step by (auto intro!: traces_ret exI [of _ "[]"])
    qed
  qed auto
qed

end

text \<open>One round of both controllers.\<close>

lemma traces_wq: "T (Val ()) [c] \<Longrightarrow> traces T (wq c f)"
  unfolding wq_def by (rule traces_call) auto

lemma traces_sync:
  "traces (\<lambda>r cs. cs = [Sync obj (r = Val ())]) (syncHandler handler obj)"
  by (auto simp: traces_def syncHandler_def split: prod.splits)

lemma traces_deferc_wq:
  assumes "traces T m" "\<And>r cs. T r cs \<Longrightarrow> U r (cs @ [c])" "\<And>cs. T Looping cs \<Longrightarrow> U Looping cs"
  shows "traces U (deferc m (wq c f))"
proof (rule tracesI)
  fix s r s'
  assume run: "deferc m (wq c f) s = (r, s')"
  obtain r0 s0 where m: "m s = (r0, s0)" by (cases "m s")
  then have "r = r0" "if r = Looping then s' = s0 else snd s' = snd s0 @ [c]"
    using run by (auto simp: deferc_def wq_def call_def split: if_splits)
  with tracesD [OF assms(1) m] assms(2,3) show "\<exists>cs. snd s' = snd s @ cs \<and> U r cs" by (auto split: if_splits)
qed

definition returned :: "'a res \<Rightarrow> bool" where
  "returned r \<longleftrightarrow> (case r of Val _ \<Rightarrow> True | Err _ \<Rightarrow> True | _ \<Rightarrow> False)"

lemma returned_simps [simp]: "returned (Val x)" "returned (Err e)" "\<not> returned (Panic p)" "\<not> returned Looping"
  by (simp_all add: returned_def)

lemma traces_next_item:
  assumes sync: "\<And>e. traces (\<lambda>r cs. (r = Val () \<longrightarrow> S e cs) \<and> ((\<exists>err. r = Err err) \<longrightarrow> F e cs)) (sync e)"
    and succeeded: "\<And>e cs. S e cs \<Longrightarrow> settled (Enqueued e) (WqGet # cs @ [WqForget (Enqueued e), WqDone (Enqueued e)])"
    and failed: "\<And>e cs. F e cs \<Longrightarrow> settled (Enqueued e) (WqGet # cs @ [WqDone (Enqueued e)])"
    and foreign: "settled ForeignItem [WqGet, WqForget ForeignItem, WqDone ForeignItem]"
  shows "traces (\<lambda>r cs. (r = Val False \<longrightarrow> cs = [WqGet]) \<and> (r = Val True \<longrightarrow> (\<exists>i. settled i cs))) (next_item q sync)"
proof -
  have body: "traces (\<lambda>r cs. returned r \<longrightarrow> settled obj (WqGet # cs @ [WqDone obj]))
      (case obj of ForeignItem \<Rightarrow> wq (WqForget obj) (wqForget q obj)
       | Enqueued eobj \<Rightarrow> seqc (sync eobj) (\<lambda>_. wq (WqForget obj) (wqForget q obj)))" for obj
  proof (cases obj)
    case (Enqueued e)
    show ?thesis unfolding Enqueued item.case
      by (rule traces_seqc [OF sync]) (auto intro!: traces_wq succeeded failed)
  qed (auto intro!: traces_wq foreign)
  have item: "traces (\<lambda>r cs. r = Val () \<longrightarrow> settled obj (WqGet # cs)) (process_item q sync obj)" for obj
    unfolding process_item_def ignorec_def
    by (rule traces_tryc [where T = "\<lambda>r cs. returned r \<longrightarrow> settled obj (WqGet # cs)"], rule traces_deferc_wq [OF body])
       (auto intro!: traces_ret)
  show ?thesis unfolding next_item_def
  proof (rule traces_seqc [where T = "\<lambda>r cs. (\<exists>i. r = Val i) \<and> cs = [WqGet]"], goal_cases)
    case (2 i cs)
    then show ?case by (cases i) (auto intro!: traces_ret traces_seqc [OF item])
  qed (auto intro!: traces_call split: prod.splits)
qed

lemma traces_sync_or_requeue:
  "traces (\<lambda>r cs. (r = Val () \<longrightarrow> cs = [Sync e True]) \<and> ((\<exists>err. r = Err err) \<longrightarrow> cs = [Sync e False, WqAddRateLimited (Enqueued e)]))
     (sync_or_requeue q handler e)"
  unfolding sync_or_requeue_def
  by (rule traces_tryc [OF traces_sync]) (auto intro!: traces_ret traces_fail traces_seqc [OF traces_wq [where T = "\<lambda>r cs. r = Val () \<and> cs = [WqAddRateLimited (Enqueued e)]"]])

lemma traces_sync_until:
  "traces (\<lambda>r cs. (r = Val () \<longrightarrow> (\<exists>k. cs = replicate k (Sync e False) @ [Sync e True] \<and> (eqAction e \<noteq> DELETE \<longrightarrow> k = 0))) \<and>
      ((\<exists>err. r = Err err) \<longrightarrow> eqAction e \<noteq> DELETE \<and> cs = [Sync e False, WqAddAfter (Enqueued e) 5]))
     (sync_until n q handler e)"
proof (induction n)
  case 0
  then show ?case by (simp add: traces_def looping_def)
next
  case (Suc n)
  show ?case unfolding sync_until.simps
  proof (rule traces_tryc [OF traces_sync], goal_cases)
    case (1 x cs)
    then show ?case by (auto intro!: traces_ret exI [of _ 0])
  next
    case (2 err cs)
    show ?case
    proof (cases "eqAction e = DELETE")
      case True
      have again: "\<exists>l. [Sync e False] @ replicate k (Sync e False) @ [Sync e True] = replicate l (Sync e False) @ [Sync e True]" for k
        by (rule exI [of _ "Suc k"]) simp
      have cs: "cs = [Sync e False]" using 2 by simp
      show ?thesis unfolding cs using True
        by simp (rule traces_mono [OF Suc], use again in auto)
    next
      case False
      then show ?thesis using 2
        by (auto intro!: traces_fail traces_seqc [OF traces_wq [where T = "\<lambda>r cs. r = Val () \<and> cs = [WqAddAfter (Enqueued e) 5]"]])
    qed
  qed auto
qed

interpretation usual: item_processor "processNextWorkItem q handler" settles for q handler
  unfolding processNextWorkItem_def
  by unfold_locales (rule traces_next_item [OF traces_sync_or_requeue], auto simp: settles_def)

interpretation requests: item_processor "processNextWorkItem_mr n q handler" settles_mr for n q handler
  unfolding processNextWorkItem_mr_def
  by unfold_locales (rule traces_next_item [OF traces_sync_until], auto simp: settles_mr_def)

section \<open>Draining the queue\<close>

text \<open>A queue that is shutting down: it hands out the items it holds, in order, takes no more, and
  then reports the shutdown.\<close>

definition drains :: "('w, 'o) workqueue \<Rightarrow> ('w \<Rightarrow> 'o item list) \<Rightarrow> bool" where
  "drains q pending \<longleftrightarrow>
     (\<forall>w. pending w = [] \<longrightarrow> fst (wqGet q w) = None) \<and>
     (\<forall>w i is. pending w = i # is \<longrightarrow> (\<exists>w'. wqGet q w = (Some i, w') \<and> pending w' = is)) \<and>
     (\<forall>i w. pending (wqDone q i w) = pending w) \<and> (\<forall>i w. pending (wqForget q i w) = pending w) \<and>
     (\<forall>i w. pending (wqAddRateLimited q i w) = pending w)"

text \<open>A handler that returns, with or without an error, and does not touch the queue.\<close>

definition answers :: "(Action \<Rightarrow> 'o \<Rightarrow> ('w, unit) prog) \<Rightarrow> ('w \<Rightarrow> 'i) \<Rightarrow> bool" where
  "answers handler pending \<longleftrightarrow>
     (\<forall>a x w. \<exists>r w'. as_op (handler a x) w = (r, w') \<and> returned r \<and> pending w' = pending w)"

lemma sync_answers:
  assumes "answers handler pending"
  shows "\<exists>r w'. syncHandler handler e s = (r, (w', snd s @ [Sync e (r = Val ())])) \<and> returned r \<and> pending w' = pending (fst s)"
proof (cases "eqObj e")
  case (Object x)
  obtain r w' where "as_op (handler (eqAction e) x) (fst s) = (r, w')" "returned r" "pending w' = pending (fst s)"
    using assms unfolding answers_def by blast
  then show ?thesis using Object by (simp add: syncHandler_def)
next
  case (DeletedFinalStateUnknown key)
  then show ?thesis by (simp add: syncHandler_def as_op_def fail_def)
qed

lemma process_next:
  assumes q: "drains q pending" and h: "answers handler pending" and items: "pending (fst s) = i # is"
  shows "\<exists>w' cs. processNextWorkItem q handler s = (Val True, (w', snd s @ cs)) \<and> pending w' = is \<and> settles i cs"
proof -
  obtain w0 where get: "wqGet q (fst s) = (Some i, w0)" "pending w0 = is"
    using q items unfolding drains_def by blast
  have keep: "pending (wqDone q j w) = pending w" "pending (wqForget q j w) = pending w"
    "pending (wqAddRateLimited q j w) = pending w" for j w
    using q unfolding drains_def by auto
  show ?thesis
  proof (cases i)
    case ForeignItem
    then show ?thesis using get keep
      by (simp add: processNextWorkItem_def next_item_def process_item_def io_defs wq_def deferc_def ignorec_def settles_def)
  next
    case (Enqueued e)
    let ?s0 = "(w0, snd s @ [WqGet])"
    obtain r w1 where run: "syncHandler handler e ?s0 = (r, (w1, snd ?s0 @ [Sync e (r = Val ())]))"
      "returned r" "pending w1 = pending w0"
      using sync_answers [OF h, of e ?s0] by auto
    show ?thesis
      using run get keep Enqueued
      by (cases r) (simp_all add: processNextWorkItem_def next_item_def process_item_def sync_or_requeue_def io_defs wq_def
          deferc_def ignorec_def settles_def)
  qed
qed

text \<open>C39. Work is neither lost nor done twice. When a controller is shut down with items in its
  queue and its handler returns, its worker ends; it has taken every item once and in order, run
  the handler once on it, forgotten it after success and queued it again after an error, and
  reported it done.\<close>

theorem worker_drains_queue:
  assumes "drains q pending" "answers handler pending" "length (pending (fst s)) < n"
  shows "\<exists>w' css. runWorker n (processNextWorkItem q handler) s = (Val (), (w', snd s @ concat css @ [WqGet])) \<and>
    list_all2 settles (pending (fst s)) css"
  using assms(3)
proof (induction n arbitrary: s)
  case (Suc n)
  show ?case
  proof (cases "pending (fst s)")
    case Nil
    then have "fst (wqGet q (fst s)) = None" using assms(1) unfolding drains_def by blast
    then obtain w' where "processNextWorkItem q handler s = (Val False, (w', snd s @ [WqGet]))"
      by (cases "wqGet q (fst s)") (simp add: processNextWorkItem_def next_item_def io_defs)
    then show ?thesis using Nil by (simp add: seqc_def ret_def)
  next
    case (Cons i rest)
    obtain w' cs where step: "processNextWorkItem q handler s = (Val True, (w', snd s @ cs))" "pending w' = rest" "settles i cs"
      using process_next [OF assms(1,2) Cons] by blast
    obtain w2 css where "runWorker n (processNextWorkItem q handler) (w', snd s @ cs) = (Val (), (w2, (snd s @ cs) @ concat css @ [WqGet]))"
      "list_all2 settles rest css"
      using Suc.IH [of "(w', snd s @ cs)"] Suc.prems step(2) Cons by auto
    then show ?thesis using step Cons by (auto simp: seqc_def intro!: exI [of _ "cs # css"])
  qed
qed simp

definition list_queue :: "(ConfigMap item list, ConfigMap) workqueue" where
  "list_queue = \<lparr>wqGet = (\<lambda>w. case w of [] \<Rightarrow> (None, []) | i # is \<Rightarrow> (Some i, is)), wqAdd = (\<lambda>_ w. w), wqDone = (\<lambda>_ w. w),
     wqForget = (\<lambda>_ w. w), wqAddRateLimited = (\<lambda>_ w. w), wqAddAfter = (\<lambda>_ _ w. w)\<rparr>"

definition list_fs :: "ConfigMap item list fs" where
  "list_fs = \<lparr>fsStat = denied, fsMkdirAll = ok (), fsWriteFile = (\<lambda>p. ok ()), fsRemoveAll = ok (),
     fsRemove = ok (), fsRename = (\<lambda>a. ok ()), fsMkdir = ok (), osSetenv = (\<lambda>a. ok ())\<rparr>"

definition cm_item :: "(string \<times> string) list \<Rightarrow> ConfigMap item" where
  "cm_item data = Enqueued \<lparr>eqAction = ADD, eqObj = Object \<lparr>cmName = ''nats-config'', cmData = data\<rparr>\<rparr>"

theorem worker_drains_queue_witness:
  "\<exists>w' css. runWorker 4 (processNextWorkItem list_queue (\<lambda>action cm. configmap_handler list_fs (cmData cm)))
      ([cm_item [(''nats.conf'', ''port: 4222'')], cm_item [], ForeignItem], []) = (Val (), (w', concat css @ [WqGet])) \<and>
    list_all2 settles [cm_item [(''nats.conf'', ''port: 4222'')], cm_item [], ForeignItem] css"
proof -
  have queue: "drains list_queue (\<lambda>w. w)" by (simp add: drains_def list_queue_def)
  have "\<exists>r w'. as_op (configmap_handler list_fs data) w = (r, w') \<and> returned r \<and> w' = w" for data w
    by (cases "lookup data ''nats.conf''")
       (simp_all add: as_op_def configmap_handler_def list_fs_def io_defs denied_def ok_def)
  then have "answers (\<lambda>action cm. configmap_handler list_fs (cmData cm)) (\<lambda>w. w)" by (simp add: answers_def)
  from worker_drains_queue [OF queue this, of "([cm_item [(''nats.conf'', ''port: 4222'')], cm_item [], ForeignItem], [])" 4]
  show ?thesis by simp
qed

section \<open>Deletions\<close>

text \<open>The service behind a request is gone: its secrets, workloads and clusters are not found.\<close>

definition service_gone :: "'w env \<Rightarrow> bool" where
  "service_gone e \<longleftrightarrow>
     (\<forall>ns n w. \<exists>m. getSecret (envK8s e) ns n w = (Err (NotFound m), w)) \<and>
     (\<forall>ns n w. \<exists>m. getStatefulSet (envK8s e) ns n w = (Err (NotFound m), w)) \<and>
     (\<forall>ns n w. \<exists>m. getKBCluster (envClusters e) ns n w = (Err (NotFound m), w))"

text \<open>The kinds of middleware whose deletion takes a missing service for granted.\<close>

definition tolerant :: "MiddlewareType \<Rightarrow> bool" where
  "tolerant t \<longleftrightarrow> t \<in> {TypeMongoDB, TypeMinio, TypeRabbitMQ, TypeElasticsearch, TypeMariaDB, TypeMysql}"

lemma gone_account:
  assumes "service_gone e"
  shows "\<exists>m cs. root_account (envK8s e) secret ns s = (Err (NotFound m), (fst s, cs))"
proof -
  obtain m where "getSecret (envK8s e) ns secret (fst s) = (Err (NotFound m), fst s)"
    using assms unfolding service_gone_def by blast
  then show ?thesis by (simp add: root_account_def Secrets_Get_def io_defs)
qed

lemma gone_mongo:
  assumes "service_gone e"
  shows "\<exists>m cs. connectToCluster (envK8s e) (envClusters e) mo s = (Err (NotFound m), (fst s, cs))"
proof -
  obtain m where "getKBCluster (envClusters e) ''mongodb-middleware'' ''mongodb'' (fst s) = (Err (NotFound m), fst s)"
    using assms unfolding service_gone_def by blast
  then show ?thesis by (simp add: connectToCluster_def getMongoClusterHost_def io_defs)
qed

lemmas account_defs = FindMariaDBAdminUser_def FindMysqlAdminUser_def
  FindElasticsearchAdminUser_def

lemma tolerant_delete:
  assumes "service_gone e" "tolerant (mwMiddleware (mrSpec req))"
  shows "\<exists>cs. request_handler e DELETE req s = (Val (), (fst s, cs))"
proof -
  have gone: "\<exists>cs. unless_gone look body s = (Val (), (fst s, cs))"
    if "\<exists>m cs. look s = (Err (NotFound m), (fst s, cs))" for look :: "('a, 'x) prog" and body
    using that by (auto simp: unless_gone_def tryc_def ret_def)
  have acc: "\<exists>m cs. root_account (envK8s e) secret ns s = (Err (NotFound m), (fst s, cs))" for secret ns
    by (rule gone_account [OF assms(1)])
  have "\<exists>m cs. newRabbitMQClient (envK8s e) r s = (Err (NotFound m), (fst s, cs))" for r
    using acc [of "''rabbitmq-rabbitmq-account-root''" rabbitMQNs]
    by (auto simp: newRabbitMQClient_def FindRabbitMQAdminUser_def seqc_def)
  moreover have "\<exists>cs. deleteMinioRequest (envK8s e) m req s = (Val (), (fst s, cs))" for m
    using acc [of "''minio-minio-account-root''" "''minio-middleware''"]
    by (auto simp: deleteMinioRequest_def findMinioAdminCredentials_def FindMinioAdminUser_def Let_def tryc_def ret_def)
  ultimately show ?thesis
    using assms(2) gone_mongo [OF assms(1), of _ s] acc
    by (auto simp: tolerant_def request_handler_def on_action_def deleteMDBRequest_def deleteRabbitMQRequest_def
        deleteElasticsearchRequest_def deleteMariaDBRequest_def deleteMysqlRequest_def Let_def account_defs intro!: gone)
qed

lemma pg_delete_fails:
  assumes "service_gone e" "mwMiddleware (mrSpec req) = TypePostgreSQL"
  shows "\<exists>m cs. request_handler e DELETE req s = (Err (NotFound m), (fst s, cs))"
proof -
  obtain m where "getStatefulSet (envK8s e) PGClusterNamespace PGClusterName (fst s) = (Err (NotFound m), fst s)"
    using assms(1) unfolding service_gone_def by blast
  then show ?thesis
    by (simp add: request_handler_def assms(2) on_action_def deletePGAll_def findClusterWorkloadAndAdminuserAndPassword_def
        StatefulSets_Get_def io_defs)
qed

text \<open>A deletion that always fails is tried for ever, whatever number of attempts is allowed for.\<close>

lemma sync_until_stuck:
  assumes "eqAction obj = DELETE" "\<And>w. \<exists>err. as_op (case eqObj obj of Object x \<Rightarrow> handler (eqAction obj) x
      | DeletedFinalStateUnknown _ \<Rightarrow> fail (Failure ''invalid object'')) w = (Err err, w)"
  shows "sync_until n q handler obj s = (Looping, (fst s, snd s @ replicate n (Sync obj False)))"
proof (induction n arbitrary: s)
  case 0
  then show ?case by (simp add: looping_def)
next
  case (Suc n)
  obtain err where "syncHandler handler obj s = (Err err, (fst s, snd s @ [Sync obj False]))"
    using assms(2) [of "fst s"] by (auto simp: syncHandler_def)
  then show ?case using assms(1) by (simp add: tryc_def Suc)
qed

lemma worker_stuck:
  assumes "wqGet q (fst s) = (Some (Enqueued obj), w)"
    and "sync_until tries q handler obj (w, snd s @ [WqGet]) = (Looping, s')"
  shows "runWorker (Suc n) (processNextWorkItem_mr tries q handler) s = (Looping, s')"
  using assms by (simp add: processNextWorkItem_mr_def next_item_def process_item_def ignorec_def deferc_def tryc_def seqc_def
      call_def [of WqGet])

text \<open>C40. Deleting a request after its service was removed. For MongoDB, MinIO, RabbitMQ,
  Elasticsearch, MariaDB and MySQL the first attempt succeeds and changes nothing. For PostgreSQL
  it never succeeds, and neither does the deletion of any request that the informer reports by a
  tombstone: the worker tries it again for ever, however many attempts it is allowed, takes no
  other item and never reports it done.\<close>

theorem deletions_when_gone:
  assumes gone: "service_gone e" and action: "eqAction obj = DELETE" and get: "wqGet q (fst s) = (Some (Enqueued obj), w)"
  shows "((\<exists>req. eqObj obj = Object req \<and> tolerant (mwMiddleware (mrSpec req))) \<longrightarrow>
      sync_until (Suc n) q (request_handler e) obj s = (Val (), (fst s, snd s @ [Sync obj True]))) \<and>
    ((\<exists>req. eqObj obj = Object req \<and> mwMiddleware (mrSpec req) = TypePostgreSQL) \<or> (\<exists>key. eqObj obj = DeletedFinalStateUnknown key) \<longrightarrow>
      request_worker (Suc n) tries e q s = (Looping, (w, snd s @ WqGet # replicate tries (Sync obj False))))"
proof (intro conjI impI)
  assume "\<exists>req. eqObj obj = Object req \<and> tolerant (mwMiddleware (mrSpec req))"
  then obtain req where req: "eqObj obj = Object req" "tolerant (mwMiddleware (mrSpec req))" by blast
  obtain cs where "request_handler e DELETE req (fst s, []) = (Val (), (fst s, cs))"
    using tolerant_delete [OF gone req(2), of "(fst s, [])"] by auto
  then show "sync_until (Suc n) q (request_handler e) obj s = (Val (), (fst s, snd s @ [Sync obj True]))"
    using req action by (simp add: syncHandler_def as_op_def tryc_def ret_def)
next
  assume stuck: "(\<exists>req. eqObj obj = Object req \<and> mwMiddleware (mrSpec req) = TypePostgreSQL) \<or> (\<exists>key. eqObj obj = DeletedFinalStateUnknown key)"
  have "\<exists>err. as_op (case eqObj obj of Object x \<Rightarrow> request_handler e (eqAction obj) x
      | DeletedFinalStateUnknown _ \<Rightarrow> fail (Failure ''invalid object'')) w' = (Err err, w')" for w'
    using stuck
  proof
    assume "\<exists>req. eqObj obj = Object req \<and> mwMiddleware (mrSpec req) = TypePostgreSQL"
    then show ?thesis using pg_delete_fails [OF gone, of _ "(w', [])"] action by (fastforce simp: as_op_def)
  qed (auto simp: as_op_def fail_def)
  from worker_stuck [OF get sync_until_stuck [where handler = "request_handler e", OF action this]]
  show "request_worker (Suc n) tries e q s = (Looping, (w, snd s @ WqGet # replicate tries (Sync obj False)))"
    by (simp add: request_worker_def)
qed

text \<open>A cluster from which every service has been removed.\<close>

definition missing :: "'a \<Rightarrow> 'w \<Rightarrow> 'b res \<times> 'w" where
  "missing x w = (Err (NotFound ''not found''), w)"

definition no_nats :: "unit nats_ops" where
  "no_nats = \<lparr>ctrlGetConfig = missing (), newForConfig = missing (), aprNewForConfig = missing (), bcryptGenerate = missing,
     confParseFile = missing, mapDecode = missing, natsConnect = (\<lambda>_ _. missing), natsDrain = missing (),
     jetstreamNew = missing (), jsCreateStream = (\<lambda>_ _. missing), jsDeleteStream = missing\<rparr>"

definition no_minio :: "unit minio_ops" where
  "no_minio = \<lparr>minioNew = (\<lambda>_. missing), madminNew = (\<lambda>_. missing), makeBucket = missing, bucketExists = missing,
     removeBucket = missing, listBuckets = missing (), listObjects = (\<lambda>_ w. ([], w)), removeObject = (\<lambda>_. missing),
     addUser = (\<lambda>_. missing), listMinioUsers = missing (), removeUser = missing, addCannedPolicy = (\<lambda>_. missing),
     removeCannedPolicy = missing, setPolicy = (\<lambda>_. missing)\<rparr>"

definition gone_env :: "unit env" where
  "gone_env = \<lparr>envK8s = idle_k8s\<lparr>getSecret := (\<lambda>_. missing), getStatefulSet := (\<lambda>_. missing)\<rparr>, envApr = idle_apr,
     envFs = idle_fs, envNats = no_nats, envSql = idle_sql,
     envRedis = \<lparr>redisPing = (\<lambda>_. missing), redisDo = missing, redisBgSave = missing (), redisConfigRewrite = missing (),
       redisClose = missing ()\<rparr>,
     envClusters = \<lparr>listRedixClusters = missing, listDistributedRedisClusters = missing, getConfigMap = (\<lambda>_. missing),
       updateConfigMap = (\<lambda>_ _. missing), getDeployment = (\<lambda>_. missing), updateDeployment = (\<lambda>_ _. missing),
       getKBCluster = (\<lambda>_. missing)\<rparr>,
     envMongo = \<lparr>mongoConnect = missing, mongoPing = missing (), mongoDisconnect = missing (), mongoFindUser = (\<lambda>_. missing),
       mongoRun = missing, mongoDropDatabase = missing, mongosh = missing\<rparr>,
     envMinio = no_minio,
     envRabbit = \<lparr>rabbitNewClient = (\<lambda>_. missing), rabbitDo = missing\<rparr>,
     envEs = \<lparr>esNewClient = (\<lambda>_. missing), esDo = missing\<rparr>,
     envCmdString = (\<lambda>_ _. [])\<rparr>"

definition same_item :: "'o item \<Rightarrow> (unit, 'o) workqueue" where
  "same_item i = \<lparr>wqGet = (\<lambda>w. (Some i, w)), wqAdd = (\<lambda>_ w. w), wqDone = (\<lambda>_ w. w), wqForget = (\<lambda>_ w. w),
     wqAddRateLimited = (\<lambda>_ w. w), wqAddAfter = (\<lambda>_ _ w. w)\<rparr>"

definition deletion :: "MiddlewareType \<Rightarrow> MiddlewareRequest enqueueObj" where
  "deletion t = \<lparr>eqAction = DELETE, eqObj = Object (plain_request ''app'' ''user-space'' t)\<rparr>"

theorem deletions_when_gone_witness:
  "sync_until 1 (same_item (Enqueued (deletion TypeMinio))) (request_handler gone_env) (deletion TypeMinio) ((), []) =
     (Val (), ((), [Sync (deletion TypeMinio) True])) \<and>
   request_worker 1 2 gone_env (same_item (Enqueued (deletion TypePostgreSQL))) ((), []) =
     (Looping, ((), [WqGet, Sync (deletion TypePostgreSQL) False, Sync (deletion TypePostgreSQL) False]))"
proof -
  have gone: "service_gone gone_env" by (simp add: service_gone_def gone_env_def missing_def)
  have obj: "eqAction (deletion t) = DELETE" "eqObj (deletion t) = Object (plain_request ''app'' ''user-space'' t)" for t
    by (simp_all add: deletion_def)
  have t: "mwMiddleware (mrSpec (plain_request ''app'' ''user-space'' t)) = t" for t
    by (simp add: plain_request_def plain_spec_def)
  have get: "wqGet (same_item i) (fst ((), [])) = (Some i, ())" for i :: "MiddlewareRequest item"
    by (simp add: same_item_def)
  show ?thesis
    using deletions_when_gone [where e = gone_env and obj = "deletion TypeMinio" and q = "same_item (Enqueued (deletion TypeMinio))"
        and s = "((), [])" and w = "()" and n = 0 and tries = 2, OF gone obj(1) get]
      deletions_when_gone [where e = gone_env and obj = "deletion TypePostgreSQL" and q = "same_item (Enqueued (deletion TypePostgreSQL))"
        and s = "((), [])" and w = "()" and n = 0 and tries = 2, OF gone obj(1) get]
    by (simp add: obj(2) t tolerant_def numeral_2_eq_2 One_nat_def)
qed

end
