(* ===== verification/Cluster_Resources.thy ===== *)
theory Cluster_Resources
  imports Nats Redis_Requests Middleware
begin

text \<open>The operations on the clusters themselves: the redis cluster of \<open>pkg/workload/redis-cluster\<close>
  (waiting for it, scaling it, backing it up, writing it back), the MongoDB cluster of
  \<open>pkg/workload/mongodb\<close>, and the listings of KubeBlocks clusters in \<open>pkg/workload\<close>.\<close>

section \<open>Waiting for resources that have to be converted\<close>

text \<open>A poll that lists resources, converts each of them and looks at its state; \<open>absent\<close> is the
  answer when the kind of resource is not found.\<close>

definition wait_converted :: "bool \<Rightarrow> (go_error list \<Rightarrow> go_error) \<Rightarrow> ('w, 'r res list) prog \<Rightarrow> ('r \<Rightarrow> progress) \<Rightarrow> ('w, bool) prog" where
  "wait_converted absent newAggregate lst classify =
     tryc lst
       (\<lambda>raws. seqc (lift (mapR (\<lambda>raw. raw) raws)) (\<lambda>items.
          let errs = List.map_filter (\<lambda>r. case classify r of Failed e \<Rightarrow> Some e | _ \<Rightarrow> None) items;
              incompleted = list_ex (\<lambda>r. classify r = Incomplete) items
          in if errs \<noteq> [] then fail (newAggregate errs) else ret (\<not> incompleted)))
       (\<lambda>e. if IsNotFound e then ret absent else fail e)"

text \<open>A poll that looks whether a resource is gone.\<close>

definition gone :: "('w, 'r) prog \<Rightarrow> ('w, bool) prog" where
  "gone get = tryc get (\<lambda>_. ret False) (\<lambda>e. if IsNotFound e then ret True else fail e)"

section \<open>Redis clusters (redis-cluster/helper.go)\<close>

definition REDISCLUSTER_NAME :: string where "REDISCLUSTER_NAME = ''redis-cluster''"
definition ClusterStatusOK :: string where "ClusterStatusOK = ''Healthy''"
definition BackupPhaseRunning :: string where "BackupPhaseRunning = ''Running''"
definition BackupPhaseFailed :: string where "BackupPhaseFailed = ''Failed''"
definition RestorePhaseRunning :: string where "RestorePhaseRunning = ''Running''"
definition RedisClusterService :: string where "RedisClusterService = ''redis-cluster-proxy''"

definition ClusterBackup_redis :: RedisClusterBackup where
  "ClusterBackup_redis = \<lparr>rbName = ''rediscluster-backup'', rbNamespace = [], rbPath = [], rbPhase = [], rbReason = []\<rparr>"

definition redis_ready :: "DistributedRedisCluster \<Rightarrow> bool" where
  "redis_ready c = (drcNodes c \<noteq> 0 \<and> (drcStatus c = ClusterStatusOK \<or> drcReason c = ''OK''))"

definition WaitForInitializeComplete_redis :: "nat \<Rightarrow> 'w dyn \<Rightarrow> ('w, unit) prog" where
  "WaitForInitializeComplete_redis n d = poll n
     (tryc (dyn (GetDRC PlatformNamespace REDISCLUSTER_NAME) (getDRC d PlatformNamespace REDISCLUSTER_NAME))
       (\<lambda>raw. tryc (lift raw)
         (\<lambda>redisCluster. if \<not> redis_ready redisCluster then ret False
            else tryc (dyn (ListStatefulSets PlatformNamespace ''managed-by=redis-cluster-operator'')
                   (listStatefulSets d PlatformNamespace ''managed-by=redis-cluster-operator''))
              (\<lambda>items. ret (items \<noteq> 0)) (\<lambda>_. ret False))
         (\<lambda>_. ret False))
       (\<lambda>e. if IsNotFound e then ret False else fail e))"

text \<open>Restarting the proxy: a label of the pod template gets the time; a nil map panics.\<close>

definition UpdateRedisClusterDeployment :: "'w k8s \<Rightarrow> 'w clusters \<Rightarrow> ('w, unit) prog" where
  "UpdateRedisClusterDeployment k c =
     seqc (call (Svc (Cluster (GetDeployment PlatformNamespace RedisProxy))) (getDeployment c PlatformNamespace RedisProxy)) (\<lambda>labels.
     seqc (call (K8s GetNow) (getNow k)) (\<lambda>now.
     case labels of None \<Rightarrow> panic ''assignment to entry in nil map''
     | Some ls \<Rightarrow> let ls = AList.update ''timestamp'' (Itoa (nat now)) ls in
         call (Svc (Cluster (UpdateDeployment PlatformNamespace RedisProxy ls))) (updateDeployment c PlatformNamespace RedisProxy ls)))"

definition ListRedisClusters :: "'w dyn \<Rightarrow> string \<Rightarrow> ('w, DistributedRedisCluster list) prog" where
  "ListRedisClusters d namespace = seqc (dyn (ListDRC namespace) (listDRC d namespace)) (\<lambda>raws. lift (mapR (\<lambda>raw. raw) raws))"

definition FindRedisClusterProxyInfo :: "'w k8s \<Rightarrow> (((string \<times> string) list) \<Rightarrow> string) \<Rightarrow> string \<Rightarrow> ('w, int \<times> int) prog" where
  "FindRedisClusterProxyInfo k formatSelector namespace =
     seqc (call (K8s (GetService namespace RedisClusterService)) (getService k namespace RedisClusterService)) (\<lambda>service.
     let servicePort = (case find (\<lambda>(name, port). name = ''proxy'') (svcPorts service) of Some (_, port) \<Rightarrow> port | None \<Rightarrow> 0);
         selector = formatSelector (svcSelector service) in
     seqc (call (K8s (ListPods namespace selector)) (listPods k namespace selector)) (\<lambda>pods.
     ret (servicePort, int (length (filter (\<lambda>p. podPhase p = ''Running'') pods)))))"

definition ScaleRedisClusterNodes :: "'w dyn \<Rightarrow> string \<Rightarrow> string \<Rightarrow> int \<Rightarrow> ('w, unit) prog" where
  "ScaleRedisClusterNodes d name namespace nodes =
     seqc (dyn (GetDRC namespace name) (getDRC d namespace name)) (\<lambda>raw.
     seqc (lift raw) (\<lambda>drc.
     let drc = drc\<lparr>drcMasterSize := nodes\<rparr> in
     seqc (dyn (UpdateDRC drc) (updateDRC d drc)) (\<lambda>_. ret ())))"

text \<open>Before a new backup is requested the previous one is removed and awaited, and its directory
  is emptied; problems with the directory are only logged.\<close>

definition remake_dir :: "'w fs \<Rightarrow> string \<Rightarrow> ('w, unit) prog" where
  "remake_dir fs path = tryc (Stat_fs fs path)
     (\<lambda>isDir. if isDir then tryc (RemoveAll_fs fs path) (\<lambda>_. ignorec (call (Fs (Mkdir path)) (fsMkdir fs path))) (\<lambda>_. ret ())
        else ret ())
     (\<lambda>_. ret ())"

definition ForceCreateNewRedisClusterBackup :: "nat \<Rightarrow> 'w dyn \<Rightarrow> 'w fs \<Rightarrow> RedisClusterBackup \<Rightarrow> ('w, unit) prog" where
  "ForceCreateNewRedisClusterBackup n d fs backup =
     (let ns = rbNamespace backup; name = rbName backup;
          get = dyn (GetRedisBackup ns name) (getRedisBackup d ns name);
          create = dyn (CreateRedisBackup backup) (createRedisBackup d backup) in
      tryc get
        (\<lambda>raw. seqc (lift raw) (\<lambda>currentBackup.
           if rbPhase currentBackup = BackupPhaseRunning then fail (Failure ''duplicate redis backup job'')
           else seqc (dyn (DeleteRedisBackup ns name) (deleteRedisBackup d ns name)) (\<lambda>_.
             seqc (poll n (gone get)) (\<lambda>_.
             seqc (remake_dir fs (rbPath backup)) (\<lambda>_. create)))))
        (\<lambda>e. if IsNotFound e then create else fail e))"

definition redis_progress :: "RedisClusterBackup \<Rightarrow> progress" where
  "redis_progress b = (if rbPhase b = BackupPhaseRunning then Incomplete
     else if rbPhase b = BackupPhaseFailed
       then Failed (Failure (''backup failed, '' @ rbReason b @ '', '' @ rbName b @ '', '' @ rbNamespace b))
     else Other)"

definition WaitForAllBackupComplete_redis :: "nat \<Rightarrow> (go_error list \<Rightarrow> go_error) \<Rightarrow> 'w dyn \<Rightarrow> ('w, unit) prog" where
  "WaitForAllBackupComplete_redis n agg d =
     poll n (wait_converted False agg (dyn ListRedisBackups (listRedisBackups d)) redis_progress)"

definition updataCluster :: "('w, DistributedRedisCluster res) prog \<Rightarrow> ('w, DistributedRedisCluster) prog" where
  "updataCluster updateFn = seqc updateFn lift"

definition UpdataClusterStatus :: "'w dyn \<Rightarrow> DistributedRedisCluster \<Rightarrow> ('w, DistributedRedisCluster) prog" where
  "UpdataClusterStatus d cluster = updataCluster (dyn (UpdateDRCStatus cluster) (updateDRCStatus d cluster))"

definition UpdataCluster :: "'w dyn \<Rightarrow> DistributedRedisCluster \<Rightarrow> ('w, DistributedRedisCluster) prog" where
  "UpdataCluster d cluster = updataCluster (dyn (UpdateDRC cluster) (updateDRC d cluster))"

section \<open>MongoDB clusters (mongodb/helper.go)\<close>

definition PSMDB_NAME :: string where "PSMDB_NAME = ''mongo-cluster''"
definition PSMDB_RESTORE_NAME :: string where "PSMDB_RESTORE_NAME = ''mongocluster-restore''"
definition PerconaMongoClusterBackup :: string where "PerconaMongoClusterBackup = ''mongocluster-backup''"
definition PerconaMongoClusterLastBackupPBMName :: string where
  "PerconaMongoClusterLastBackupPBMName = ''percona/psmdb-last-backup-pbmname''"

definition ScalePerconaMongoNodes :: "'w dyn \<Rightarrow> string \<Rightarrow> string \<Rightarrow> int \<Rightarrow> ('w, unit) prog" where
  "ScalePerconaMongoNodes d name namespace nodes =
     seqc (dyn (GetPSMDB namespace name) (getPSMDB d namespace name)) (\<lambda>raw.
     seqc (lift raw) (\<lambda>psmdb.
     if length (psReplsetSizes psmdb) > 0
     then let psmdb = psmdb\<lparr>psReplsetSizes := (psReplsetSizes psmdb)[0 := nodes]\<rparr> in
       dyn (UpdatePSMDB psmdb) (updatePSMDB d psmdb)
     else fail (Failure ''invalid percona mongo cluster definition'')))"

definition CheckMongoRestoreStatus :: "'w dyn \<Rightarrow> ('w, bool) prog" where
  "CheckMongoRestoreStatus d =
     seqc (dyn (GetPSMDB PlatformNamespace PSMDB_NAME) (getPSMDB d PlatformNamespace PSMDB_NAME)) (\<lambda>raw.
     seqc (lift raw) (\<lambda>_.
     seqc (dyn (GetPSMDBRestore PlatformNamespace PSMDB_RESTORE_NAME) (getPSMDBRestore d PlatformNamespace PSMDB_RESTORE_NAME)) (\<lambda>raw'.
     seqc (lift raw') (\<lambda>_. ret True))))"

definition WaitForInitializeComplete_mongo :: "nat \<Rightarrow> 'w dyn \<Rightarrow> ('w, unit) prog" where
  "WaitForInitializeComplete_mongo n d = poll n
     (tryc (dyn (GetPSMDB PlatformNamespace PSMDB_NAME) (getPSMDB d PlatformNamespace PSMDB_NAME))
       (\<lambda>raw. tryc (lift raw)
         (\<lambda>c. ret (psMongosReady c = Some True \<and> list_all (\<lambda>(rs, ready). ready \<ge> 1) (psReplsetsReady c)))
         (\<lambda>_. ret False))
       (\<lambda>e. if IsNotFound e then ret False else fail e))"

definition ForceCreateNewMongoClusterBackup :: "nat \<Rightarrow> 'w dyn \<Rightarrow> PSMDBBackup \<Rightarrow> ('w, unit) prog" where
  "ForceCreateNewMongoClusterBackup n d backup =
     (let ns = pmbNamespace backup; name = pmbName backup;
          get = dyn (GetPSMDBBackup ns name) (getPSMDBBackup d ns name);
          create = dyn (CreatePSMDBBackup backup) (createPSMDBBackup d backup) in
      tryc get
        (\<lambda>raw. seqc (lift raw) (\<lambda>currentBackup.
           if pmbState currentBackup = PsRunning then fail (Failure ''duplicate mongo backup job'')
           else seqc (dyn (DeletePSMDBBackup ns name) (deletePSMDBBackup d ns name)) (\<lambda>_.
             seqc (ignorec (poll n (gone get))) (\<lambda>_. create))))
        (\<lambda>e. if IsNotFound e then create else fail e))"

definition ForceCreateNewMongoClusterRestore :: "'w dyn \<Rightarrow> PSMDBRestore \<Rightarrow> ('w, unit) prog" where
  "ForceCreateNewMongoClusterRestore d restore =
     (let ns = pmrNamespace restore; name = pmrName restore;
          create = dyn (CreatePSMDBRestore restore) (createPSMDBRestore d restore) in
      tryc (dyn (GetPSMDBRestore ns name) (getPSMDBRestore d ns name))
        (\<lambda>raw. seqc (lift raw) (\<lambda>currentRestore.
           if pmrState currentRestore = PsRunning then fail (Failure ''duplicate mongo restore job'')
           else seqc (dyn (DeletePSMDBRestore ns name) (deletePSMDBRestore d ns name)) (\<lambda>_. create)))
        (\<lambda>e. if IsNotFound e then create else fail e))"

text \<open>Unlike for PostgreSQL and kvrocks, a new or requested resource counts as incomplete.
  \<open>show\<close> gives the texts of the states, which belong to the operator of Percona.\<close>

definition psmdb_progress :: "string \<Rightarrow> psmdb_state \<Rightarrow> progress" where
  "psmdb_progress message st = (case st of
      PsRunning \<Rightarrow> Incomplete | PsWaiting \<Rightarrow> Incomplete | PsNew \<Rightarrow> Incomplete | PsRequested \<Rightarrow> Incomplete
    | PsRejected \<Rightarrow> Failed (Failure message) | PsError \<Rightarrow> Failed (Failure message)
    | _ \<Rightarrow> Other)"

definition WaitForAllBackupComplete_mongo :: "nat \<Rightarrow> (psmdb_state \<Rightarrow> string) \<Rightarrow> (go_error list \<Rightarrow> go_error) \<Rightarrow> 'w dyn \<Rightarrow> ('w, unit) prog" where
  "WaitForAllBackupComplete_mongo n show agg d =
     poll n (wait_converted False agg (dyn ListPSMDBBackups (listPSMDBBackups d))
       (\<lambda>b. psmdb_progress (''mongo backup failed, '' @ pmbError b @ '', '' @ show (pmbState b) @ '', '' @ pmbName b @ '', '' @ pmbNamespace b)
          (pmbState b)))"

definition WaitForAllRestoreComplete_mongo :: "nat \<Rightarrow> (go_error list \<Rightarrow> go_error) \<Rightarrow> 'w dyn \<Rightarrow> ('w, unit) prog" where
  "WaitForAllRestoreComplete_mongo n agg d =
     poll n (wait_converted True agg (dyn ListPSMDBRestores (listPSMDBRestores d))
       (\<lambda>r. psmdb_progress (''restore mongo failed, '' @ pmrError r @ '', '' @ pmrName r @ '', '' @ pmrNamespace r) (pmrState r)))"

section \<open>Listings of KubeBlocks clusters\<close>

definition ClusterInstanceNameKey :: string where "ClusterInstanceNameKey = ''app.kubernetes.io/instance''"

definition instance_of :: "string \<Rightarrow> KBItem \<Rightarrow> bool" where
  "instance_of name c = (case kbiLabels c of None \<Rightarrow> False
     | Some ls \<Rightarrow> lookup ls ClusterInstanceNameKey = Some name)"

definition list_instances :: "'w dyn \<Rightarrow> (KBItem \<Rightarrow> bool) \<Rightarrow> ('w, KBItem list) prog" where
  "list_instances d selected = seqc (dyn ListKBClusters (listKBClusters d)) (\<lambda>items. ret (filter selected items))"

definition ListMongoClusters :: "'w dyn \<Rightarrow> ('w, KBItem list) prog" where
  "ListMongoClusters d = list_instances d (instance_of ''mongodb'')"

definition ListMinioClusters :: "'w dyn \<Rightarrow> ('w, KBItem list) prog" where
  "ListMinioClusters d = list_instances d (instance_of ''minio'')"

definition ListRabbitMQClusters :: "'w dyn \<Rightarrow> ('w, KBItem list) prog" where
  "ListRabbitMQClusters d = list_instances d (instance_of ''rabbitmq'')"

definition ListRabbitMQClusters_es :: "'w dyn \<Rightarrow> ('w, KBItem list) prog" where
  "ListRabbitMQClusters_es d = list_instances d (instance_of ''elasticsearch'')"

definition ListMariadbClusters :: "'w dyn \<Rightarrow> ('w, KBItem list) prog" where
  "ListMariadbClusters d = list_instances d (\<lambda>c. instance_of ''mariadb'' c \<or> kbiLabels c \<noteq> None \<and> kbiName c = ''mariadb'')"

definition ListMysqlClusters :: "'w dyn \<Rightarrow> ('w, KBItem list) prog" where
  "ListMysqlClusters d = list_instances d (instance_of ''mysql'')"

end
