(* ===== verification/Backup_Watcher.thy ===== *)
theory Backup_Watcher
  imports Cluster_Resources Citus
begin

text \<open>The backup watcher of the operator (\<open>cmd/middleware/operator/backup\<close>): when a backup of the
  system starts, it requests a backup of every redis, kvrocks and PostgreSQL cluster, waits for them
  and writes the outcome into the backup of the system; when a restore appears, it requests the
  restores.\<close>

section \<open>Templates (citus/templates.go, kvrocks/templates.go)\<close>

definition ClusterBackup_pg :: PGClusterBackup where
  "ClusterBackup_pg = \<lparr>
     pbMeta = \<lparr>metaName = ''citus-backup'', metaNamespace = [], metaUID = [], metaResourceVersion = [], metaLabels = [], metaAnnotations = []\<rparr>,
     pbSpec = \<lparr>pbClusterName = PGClusterName, pbVolumeSpec = Some \<lparr>volName = [], volHostPath = Some []\<rparr>\<rparr>,
     pbStatus = \<lparr>pbState = BackupStateNew, pbStartAt = None, pbCompletedAt = None, pbError = [], pbBackupPath = []\<rparr>\<rparr>"

definition ClusterRestore_pg :: PGClusterRestore where
  "ClusterRestore_pg = \<lparr>
     prMeta = \<lparr>metaName = ''citus-restore'', metaNamespace = [], metaUID = [], metaResourceVersion = [], metaLabels = [], metaAnnotations = []\<rparr>,
     prSpec = \<lparr>prClusterName = PGClusterName, prBackupName = ''citus-backup''\<rparr>,
     prStatus = \<lparr>prState = RestoreStateNew, prStartAt = None, prCompletedAt = None, prError = []\<rparr>\<rparr>"

definition KVRocksBackup_template :: KVRocksBackup where
  "KVRocksBackup_template = \<lparr>
     kbMeta = \<lparr>metaName = ''kvrocks-backup'', metaNamespace = [], metaUID = [], metaResourceVersion = [], metaLabels = [], metaAnnotations = []\<rparr>,
     kbSpec = \<lparr>kbClusterName = []\<rparr>,
     kbStatus = \<lparr>kbState = BackupStateNew, kbStartAt = None, kbCompletedAt = None, kbError = [], kbBackupPath = []\<rparr>\<rparr>"

definition KVRocksRestore_template :: KVRocksRestore where
  "KVRocksRestore_template = \<lparr>
     krMeta = \<lparr>metaName = ''kvrocks-restore'', metaNamespace = [], metaUID = [], metaResourceVersion = [], metaLabels = [], metaAnnotations = []\<rparr>,
     krSpec = \<lparr>krClusterName = [], krBackupStorage = []\<rparr>,
     krStatus = \<lparr>krState = RestoreStateNew, krStartAt = None, krCompletedAt = None, krError = []\<rparr>\<rparr>"

section \<open>What the watcher works with\<close>

text \<open>The clients; \<open>pwPolls\<close> is the number of polls that a wait may take, \<open>pwAgg\<close> the
  aggregation of errors of the library.\<close>

record 'w watcher =
  pwK8s :: "'w k8s"
  pwApr :: "'w apr"
  pwKv :: "'w kvapr"
  pwClusters :: "'w clusters"
  pwDyn :: "'w dyn"
  pwFs :: "'w fs"
  pwPolls :: nat
  pwAgg :: "go_error list \<Rightarrow> go_error"

text \<open>\<open>err = f()\<close>: the error is kept in a variable.\<close>

definition catch :: "('w, unit) prog \<Rightarrow> ('w, go_error option) prog" where
  "catch m = tryc m (\<lambda>_. ret None) (\<lambda>e. ret (Some e))"

definition return_err :: "go_error option \<Rightarrow> ('w, unit) prog" where
  "return_err err = (case err of None \<Rightarrow> ret () | Some e \<Rightarrow> fail e)"

section \<open>Redis clusters (tools.go, backup\_redis.go)\<close>

definition getMiddlewareBackupPath :: "string \<Rightarrow> string" where
  "getMiddlewareBackupPath ns = ''/olares/rootfs/'' @ ''middleware-backup''"

definition backupRedis :: "'w watcher \<Rightarrow> ('w, unit) prog" where
  "backupRedis w = seqc (ListRedisClusters (pwDyn w) []) (\<lambda>clusters.
     seqc (forM clusters (\<lambda>cluster.
       if drcStatus cluster \<noteq> ClusterStatusOK then fail (Failure ''redis cluster not healthy'')
       else ForceCreateNewRedisClusterBackup (pwPolls w) (pwDyn w) (pwFs w)
         (ClusterBackup_redis\<lparr>rbNamespace := drcNamespace cluster,
            rbPath := getMiddlewareBackupPath (drcNamespace cluster) @ ''/redis-backup''\<rparr>))) (\<lambda>_.
     WaitForAllBackupComplete_redis (pwPolls w) (pwAgg w) (pwDyn w)))"

text \<open>\<open>updateCluster\<close> and \<open>cluster\<close> are the same pointer until the status has been written.\<close>

definition restoreRedis :: "'w watcher \<Rightarrow> ('w, unit) prog" where
  "restoreRedis w = seqc (WaitForInitializeComplete_redis (pwPolls w) (pwDyn w)) (\<lambda>_.
     seqc (ListRedisClusters (pwDyn w) []) (\<lambda>clusters.
     forM clusters (\<lambda>cluster.
       seqc (if drcRestoreBackup cluster \<noteq> None
             then UpdataClusterStatus (pwDyn w) (cluster\<lparr>drcRestoreBackup := None\<rparr>)
             else ret cluster) (\<lambda>updateCluster.
       if drcInit updateCluster = None
       then seqc (UpdataCluster (pwDyn w) (updateCluster\<lparr>
           drcInit := Some (Some (rbName ClusterBackup_redis, drcNamespace cluster)),
           drcRestorePhase := RestorePhaseRunning\<rparr>)) (\<lambda>_. ret ())
       else ret ()))))"

section \<open>Redix clusters (backup\_kvrocks.go)\<close>

text \<open>The loops keep going after a failed wait: the error is overwritten by the next cluster and
  only that of the last one is returned.\<close>

definition backup_cluster :: "'w watcher \<Rightarrow> go_error option \<Rightarrow> RedixCluster \<Rightarrow> ('w, go_error option) prog" where
  "backup_cluster w err cluster = (case rxType (rxSpec cluster) of
      KVRocks \<Rightarrow>
        seqc (ForceCreateNewKVRocksBackup (pwPolls w) (pwKv w)
          (KVRocksBackup_template\<lparr>
             kbMeta := (kbMeta KVRocksBackup_template)\<lparr>metaNamespace := metaNamespace (rxMeta cluster)\<rparr>,
             kbSpec := \<lparr>kbClusterName = metaName (rxMeta cluster)\<rparr>\<rparr>)) (\<lambda>_.
        catch (WaitForAllBackupComplete_kv (pwPolls w) (pwAgg w) (pwKv w)))
    | RedisCluster \<Rightarrow> catch (backupRedis w)
    | _ \<Rightarrow> ret err)"

definition backupRedix :: "'w watcher \<Rightarrow> ('w, unit) prog" where
  "backupRedix w = seqc (call (Svc (Cluster (ListRedixClusters []))) (listRedixClusters (pwClusters w) [])) (\<lambda>clusters.
     seqc (foldM (backup_cluster w) None clusters) return_err)"

definition workload_exists :: "'w k8s \<Rightarrow> RedixCluster \<Rightarrow> ('w, bool) prog" where
  "workload_exists k cluster = tryc (StatefulSets_Get k (metaNamespace (rxMeta cluster)) (metaName (rxMeta cluster)))
     (\<lambda>_. ret True) (\<lambda>e. if IsNotFound e then ret False else fail e)"

definition restore_cluster :: "'w watcher \<Rightarrow> go_error option \<Rightarrow> RedixCluster \<Rightarrow> ('w, go_error option) prog" where
  "restore_cluster w err cluster = (case rxType (rxSpec cluster) of
      KVRocks \<Rightarrow>
        seqc (poll (pwPolls w) (workload_exists (pwK8s w) cluster)) (\<lambda>_.
        seqc (ForceCreateNewKVRocksRestore (pwKv w)
          (KVRocksRestore_template\<lparr>
             krMeta := (krMeta KVRocksRestore_template)\<lparr>metaNamespace := metaNamespace (rxMeta cluster)\<rparr>,
             krSpec := (krSpec KVRocksRestore_template)\<lparr>krClusterName := metaName (rxMeta cluster)\<rparr>\<rparr>)) (\<lambda>_.
        catch (WaitForAllRestoreComplete_kv (pwPolls w) (pwAgg w) (pwKv w))))
    | RedisCluster \<Rightarrow> catch (restoreRedis w)
    | _ \<Rightarrow> ret err)"

definition restoreRedix :: "'w watcher \<Rightarrow> ('w, unit) prog" where
  "restoreRedix w = seqc (call (Svc (Cluster (ListRedixClusters []))) (listRedixClusters (pwClusters w) [])) (\<lambda>clusters.
     seqc (foldM (restore_cluster w) None clusters) return_err)"

section \<open>PostgreSQL clusters (backup\_pg.go)\<close>

definition pg_backup_path :: "'w k8s \<Rightarrow> PGCluster \<Rightarrow> ('w, string) prog" where
  "pg_backup_path k cluster =
     (if pgBackupStorage (pgSpec cluster) \<noteq> [] then ret (pgBackupStorage (pgSpec cluster))
      else seqc (if pgOwner (pgSpec cluster) = ''system''
           then seqc (call (K8s (GetPVC (metaNamespace (pgMeta cluster)) ''citus-data-pvc''))
                  (getPVC k (metaNamespace (pgMeta cluster)) ''citus-data-pvc'')) (\<lambda>volume.
                seqc (call (K8s (GetPV volume)) (getPV k volume)) (\<lambda>hostPath.
                case hostPath of None \<Rightarrow> panic ''nil pointer dereference'' | Some path \<Rightarrow> ret path))
           else GetUserDBPVCName k (''user-space-'' @ pgOwner (pgSpec cluster))) (\<lambda>pvc.
        ret (pvc @ ''/pg_backup'')))"

definition pg_backup_of :: "PGCluster \<Rightarrow> string \<Rightarrow> PGClusterBackup" where
  "pg_backup_of cluster path = ClusterBackup_pg\<lparr>
     pbMeta := (pbMeta ClusterBackup_pg)\<lparr>metaNamespace := metaNamespace (pgMeta cluster)\<rparr>,
     pbSpec := (pbSpec ClusterBackup_pg)\<lparr>pbVolumeSpec := Some \<lparr>volName = [], volHostPath = Some path\<rparr>\<rparr>\<rparr>"

definition backupPostgres :: "'w watcher \<Rightarrow> ('w, unit) prog" where
  "backupPostgres w = seqc (dyn (ListPGClusters []) (listPGClusters (pwDyn w) [])) (\<lambda>clusters.
     seqc (forM clusters (\<lambda>cluster.
       seqc (pg_backup_path (pwK8s w) cluster) (\<lambda>path.
       ForceCreateNewPGClusterBackup (pwPolls w) (pwApr w) (pg_backup_of cluster path)))) (\<lambda>_.
     WaitForAllBackupComplete_pg (pwPolls w) (pwAgg w) (pwApr w)))"

definition restorePostgres :: "'w watcher \<Rightarrow> ('w, unit) prog" where
  "restorePostgres w = seqc (dyn (ListPGClusters []) (listPGClusters (pwDyn w) [])) (\<lambda>clusters.
     seqc (forM clusters (\<lambda>cluster. ForceCreateNewPGClusterRestore (pwApr w)
       (ClusterRestore_pg\<lparr>prMeta := (prMeta ClusterRestore_pg)\<lparr>metaNamespace := metaNamespace (pgMeta cluster)\<rparr>\<rparr>))) (\<lambda>_.
     WaitForAllRestoreComplete_pg (pwPolls w) (pwAgg w) (pwApr w)))"

section \<open>Both together (watcher.go)\<close>

text \<open>Two goroutines run to their end before \<open>wg.Wait\<close> returns. They work on different resources;
  the model runs one after the other, in either order. Both append to \<open>errs\<close> without
  a lock: the errors come in either order, and when both fail at once one append may overwrite the
  other.\<close>

datatype schedule = FirstThenSecond | SecondThenFirst | SecondOverwritten | FirstOverwritten

definition collected :: "schedule \<Rightarrow> go_error option \<Rightarrow> go_error option \<Rightarrow> go_error list" where
  "collected sched a b = (case (a, b) of
      (Some e, Some f) \<Rightarrow> (case sched of FirstThenSecond \<Rightarrow> [e, f] | SecondThenFirst \<Rightarrow> [f, e]
         | SecondOverwritten \<Rightarrow> [e] | FirstOverwritten \<Rightarrow> [f])
    | (Some e, None) \<Rightarrow> [e] | (None, Some f) \<Rightarrow> [f] | (None, None) \<Rightarrow> [])"

definition run_both :: "schedule \<Rightarrow> (go_error list \<Rightarrow> go_error) \<Rightarrow> ('w, unit) prog \<Rightarrow> ('w, unit) prog \<Rightarrow> ('w, unit) prog" where
  "run_both sched newAggregate f g =
     seqc (if sched = SecondThenFirst \<or> sched = FirstOverwritten
           then seqc (catch g) (\<lambda>b. seqc (catch f) (\<lambda>a. ret (a, b)))
           else seqc (catch f) (\<lambda>a. seqc (catch g) (\<lambda>b. ret (a, b)))) (\<lambda>(a, b).
     let errs = collected sched a b in
     if length errs > 0 then fail (newAggregate errs) else ret ())"

definition backup :: "schedule \<Rightarrow> 'w watcher \<Rightarrow> ('w, unit) prog" where
  "backup sched w = run_both sched (pwAgg w) (backupRedix w) (backupPostgres w)"

definition restore :: "schedule \<Rightarrow> 'w watcher \<Rightarrow> ('w, unit) prog" where
  "restore sched w = run_both sched (pwAgg w) (restorePostgres w) (restoreRedix w)"

text \<open>The outcome is written together with the name of the last MongoDB backup.\<close>

definition updateBackupState :: "nat \<Rightarrow> 'w dyn \<Rightarrow> SysBackup \<Rightarrow> string \<Rightarrow> string option \<Rightarrow> ('w, unit) prog" where
  "updateBackupState steps d b state errMsg = retryOnConflict steps
     (seqc (dyn (GetSysBackup (sbNamespace b) (sbName b)) (getSysBackup d (sbNamespace b) (sbName b))) (\<lambda>raw.
      seqc (lift raw) (\<lambda>updateBackup.
      seqc (dyn (GetPSMDBBackup (sbNamespace b) PerconaMongoClusterBackup) (getPSMDBBackup d (sbNamespace b) PerconaMongoClusterBackup)) (\<lambda>raw'.
      seqc (lift raw') (\<lambda>mongoBackup.
      let updateBackup = updateBackup\<lparr>sbMiddleWarePhase := Some state, sbMiddleWareFailedMessage := errMsg,
            sbAnnotations := AList.update PerconaMongoClusterLastBackupPBMName (pmbPBMname mongoBackup) (sbAnnotations updateBackup)\<rparr> in
      dyn (UpdateSysBackup updateBackup) (updateSysBackup d updateBackup))))))"

definition BackupStart :: string where "BackupStart = ''Started''"

definition handled_phases :: "string list" where "handled_phases = [''Failed'', ''Success'', ''Running'']"

text \<open>An event of a backup. The message about a backup that has not started dereferences the
  phase, also when it is nil.\<close>

definition on_backup_event :: "nat \<Rightarrow> schedule \<Rightarrow> 'w watcher \<Rightarrow> event_type \<Rightarrow> SysBackup res option \<Rightarrow> ('w, unit) prog" where
  "on_backup_event steps sched w typ obj =
     (if typ \<noteq> Added \<and> typ \<noteq> Modified then ret ()
      else case obj of None \<Rightarrow> ret ()
      | Some raw \<Rightarrow> tryc (lift raw) (\<lambda>b.
          case sbPhase b of None \<Rightarrow> panic ''nil pointer dereference''
          | Some phase \<Rightarrow>
            if phase \<noteq> BackupStart then ret ()
            else if case sbMiddleWarePhase b of None \<Rightarrow> False | Some state \<Rightarrow> state \<in> set handled_phases then ret ()
            else seqc (ignorec (updateBackupState steps (pwDyn w) b ''Running'' None)) (\<lambda>_.
              tryc (backup sched w)
                (\<lambda>_. ignorec (updateBackupState steps (pwDyn w) b ''Success'' None))
                (\<lambda>e. ignorec (updateBackupState steps (pwDyn w) b ''Failed'' (Some (Error e))))))
          (\<lambda>_. ret ()))"

definition on_restore_event :: "schedule \<Rightarrow> 'w watcher \<Rightarrow> event_type \<Rightarrow> bool \<Rightarrow> ('w, unit) prog" where
  "on_restore_event sched w typ isRestore =
     (if typ = Added \<and> isRestore then ignorec (restore sched w) else ret ())"

text \<open>One round of the loop in \<open>Start\<close>. The flags tell which watch has to be opened again. After the
  context is done the loop goes on all the same.\<close>

record flags =
  backupRecreate :: bool
  restoreRecreate :: bool

definition FrameworkNamespace :: string where "FrameworkNamespace = ''os-framework''"

definition on_selected :: "nat \<Rightarrow> schedule \<Rightarrow> 'w watcher \<Rightarrow> 'w watch \<Rightarrow> selected \<Rightarrow> flags \<Rightarrow> ('w, flags) prog" where
  "on_selected steps sched w v sel fl =
     (let stopB = dyn StopBackupWatch (\<lambda>x. (Val (), stopBackups v x));
          stopR = dyn StopRestoreWatch (\<lambda>x. (Val (), stopRestores v x)) in
      case sel of
        CtxDone \<Rightarrow> seqc stopB (\<lambda>_. seqc stopR (\<lambda>_. ret fl))
      | BackupEvent None \<Rightarrow> seqc stopB (\<lambda>_. ret (fl\<lparr>backupRecreate := True\<rparr>))
      | BackupEvent (Some (typ, obj)) \<Rightarrow> seqc (on_backup_event steps sched w typ obj) (\<lambda>_. ret fl)
      | RestoreEvent None \<Rightarrow> seqc stopR (\<lambda>_. ret (fl\<lparr>restoreRecreate := True\<rparr>))
      | RestoreEvent (Some (typ, obj)) \<Rightarrow> seqc (on_restore_event sched w typ obj) (\<lambda>_. ret fl))"

definition watch_round :: "nat \<Rightarrow> schedule \<Rightarrow> 'w watcher \<Rightarrow> 'w watch \<Rightarrow> flags \<Rightarrow> ('w, flags) prog" where
  "watch_round steps sched w v fl =
     tryc (if backupRecreate fl then dyn (WatchBackups FrameworkNamespace) (watchBackups v FrameworkNamespace) else ret ())
       (\<lambda>_. let fl = fl\<lparr>backupRecreate := False\<rparr> in
          tryc (if restoreRecreate fl then dyn (WatchRestores FrameworkNamespace) (watchRestores v FrameworkNamespace) else ret ())
            (\<lambda>_. seqc (dyn SelectWatch (\<lambda>x. case selectEvent v x of (sel, x') \<Rightarrow> (Val sel, x'))) (\<lambda>sel.
               on_selected steps sched w v sel (fl\<lparr>restoreRecreate := False\<rparr>)))
            (\<lambda>_. ret fl))
       (\<lambda>_. ret fl)"

fun watch_loop :: "nat \<Rightarrow> nat \<Rightarrow> schedule \<Rightarrow> 'w watcher \<Rightarrow> 'w watch \<Rightarrow> flags \<Rightarrow> ('w, unit) prog" where
  "watch_loop 0 steps sched w v fl = looping"
| "watch_loop (Suc n) steps sched w v fl = seqc (watch_round steps sched w v fl) (watch_loop n steps sched w v)"

definition Start :: "nat \<Rightarrow> nat \<Rightarrow> schedule \<Rightarrow> 'w watcher \<Rightarrow> 'w watch \<Rightarrow> ('w, unit) prog" where
  "Start n steps sched w v = watch_loop n steps sched w v \<lparr>backupRecreate = True, restoreRecreate = True\<rparr>"

end
