(* ===== verification/Watcher_Proofs.thy ===== *)
theory Watcher_Proofs
  imports Backup_Watcher
begin

text \<open>Properties of the backup watcher: what a recorded success means, and when nothing is
  recorded.\<close>

section \<open>Which calls write the state of a system backup\<close>

fun states_only :: "(string \<Rightarrow> bool) \<Rightarrow> call \<Rightarrow> bool" where
  "states_only P (Svc (Dyn (UpdateSysBackup b))) = (\<exists>st. sbMiddleWarePhase b = Some st \<and> P st)"
| "states_only P _ = True"

abbreviation silent :: "('w, 'a) prog \<Rightarrow> bool" where
  "silent m \<equiv> emits (states_only (\<lambda>_. False)) m"

lemma states_mono: "states_only P c \<Longrightarrow> (\<And>st. P st \<Longrightarrow> Q st) \<Longrightarrow> states_only Q c"
  by (cases "(P, c)" rule: states_only.cases) auto

lemma silent_states: "silent m \<Longrightarrow> emits (states_only P) m"
  by (erule emits_mono, erule states_mono) simp

lemma silent_dyn: "states_only (\<lambda>_. False) (Svc (Dyn c)) \<Longrightarrow> silent (dyn c f)"
  unfolding dyn_def by (rule emits_call)

lemma silent_catch: "silent m \<Longrightarrow> silent (catch m)"
  unfolding catch_def by (intro emits_intros)

lemma silent_return_err: "silent (return_err err)"
  unfolding return_err_def by (auto intro: emits_intros split: option.splits)

lemmas silent_intros = emits_intros silent_dyn silent_catch silent_return_err emits_force_create

lemma silent_wait_all: "silent lst \<Longrightarrow> silent (wait_all n agg lst classify)"
  unfolding wait_all_def wait_step_def Let_def by (intro silent_intros) auto

lemma silent_wait_converted: "silent lst \<Longrightarrow> silent (wait_converted absent agg lst classify)"
  unfolding wait_converted_def Let_def by (intro silent_intros) auto

lemma silent_redis: "silent (backupRedis w)"
  unfolding backupRedis_def ListRedisClusters_def ForceCreateNewRedisClusterBackup_def Let_def gone_def
    remake_dir_def Stat_fs_def RemoveAll_fs_def WaitForAllBackupComplete_redis_def
  by (intro silent_intros silent_wait_converted) auto

lemma silent_cluster: "silent (backup_cluster w err cluster)"
  unfolding backup_cluster_def ForceCreateNewKVRocksBackup_def WaitForAllBackupComplete_kv_def Let_def
  by (cases "rxType (rxSpec cluster)") (auto intro!: silent_intros silent_wait_all silent_redis)

lemma silent_redix: "silent (backupRedix w)"
  unfolding backupRedix_def by (intro silent_intros silent_cluster) auto

lemma silent_postgres: "silent (backupPostgres w)"
  unfolding backupPostgres_def pg_backup_path_def ForceCreateNewPGClusterBackup_def Let_def
    GetUserDBPVCName_def StatefulSets_Get_def WaitForAllBackupComplete_pg_def
  by (intro silent_intros silent_wait_all) (auto intro!: silent_intros split: option.splits)

lemma silent_backup: "silent (backup sched w)"
  unfolding backup_def run_both_def
  by (intro silent_intros silent_redix silent_postgres) (auto intro!: silent_intros silent_redix silent_postgres simp: Let_def)

lemma states_update: "emits (states_only (\<lambda>x. x = st)) (updateBackupState steps d b st m)"
  unfolding updateBackupState_def Let_def dyn_def by (intro emits_intros) auto

section \<open>What a successful run has done\<close>

lemma catch_None: "catch m s = (Val None, s') \<Longrightarrow> m s = (Val (), s')"
  unfolding catch_def tryc_def by (cases "m s") (auto simp: ret_def split: res.splits)

lemma grows_silent: "silent m \<Longrightarrow> grows m"
  by (erule emits_mono) simp

text \<open>A loop establishes for each element what its body establishes, if later calls keep it.\<close>

lemma forM_each:
  assumes "forM xs f s = (Val (), s')" "\<And>x. grows (f x)"
    and "\<And>x s s'. f x s = (Val (), s') \<Longrightarrow> Q x (set (snd s'))"
    and "\<And>x A B. Q x A \<Longrightarrow> A \<subseteq> B \<Longrightarrow> Q x B"
  shows "\<forall>x \<in> set xs. Q x (set (snd s'))"
  using assms(1)
proof (induction xs arbitrary: s)
  case (Cons x xs)
  from Cons.prems obtain s0 where s0: "f x s = (Val (), s0)" "forM xs f s0 = (Val (), s')"
    using seqc_Val [of "f x" "\<lambda>_. forM xs f"] by fastforce
  have "grows (forM xs f)" using assms(2) by (intro emits_forM)
  from grows_subset [OF this s0(2)] have "Q x (set (snd s'))" using assms(3) [OF s0(1)] assms(4) by blast
  then show ?case using Cons.IH [OF s0(2)] by simp
qed simp

lemma foldM_each:
  assumes "foldM f a xs s = (Val b, s')" "\<And>a x. grows (f a x)"
    and "\<And>a x s b s'. f a x s = (Val b, s') \<Longrightarrow> Q x (set (snd s'))"
    and "\<And>x A B. Q x A \<Longrightarrow> A \<subseteq> B \<Longrightarrow> Q x B"
  shows "\<forall>x \<in> set xs. Q x (set (snd s'))"
  using assms(1)
proof (induction xs arbitrary: s a)
  case (Cons x xs)
  from Cons.prems obtain c s0 where s0: "f a x s = (Val c, s0)" "foldM f c xs s0 = (Val b, s')"
    using seqc_Val [of "f a x" "\<lambda>c. foldM f c xs"] by fastforce
  have "grows (foldM f c xs)" using assms(2) by (intro emits_foldM)
  from grows_subset [OF this s0(2)] have "Q x (set (snd s'))" using assms(3) [OF s0(1)] assms(4) by blast
  then show ?case using Cons.IH [OF s0(2)] by simp
qed simp

lemma force_create_Val:
  assumes "force_create get running dup del wait (call c f) s = (Val (), s')"
  shows "c \<in> set (snd s')"
proof -
  obtain r0 s0 where g: "get s = (r0, s0)" by (cases "get s")
  have "\<exists>s1. call c f s1 = (Val (), s')"
  proof (cases r0)
    case (Val current)
    then have "\<not> running current" using assms g by (auto simp: force_create_def tryc_def fail_def)
    then show ?thesis using assms g Val by (auto simp: force_create_def tryc_def dest!: seqc_Val)
  next
    case (Err e)
    then have "call c f s0 = (Val (), s')" using assms g by (auto simp: force_create_def tryc_def fail_def split: if_splits)
    then show ?thesis ..
  qed (use assms g in \<open>auto simp: force_create_def tryc_def\<close>)
  then obtain s1 where "call c f s1 = (Val (), s')" ..
  from issuesD [OF issues_call this] show ?thesis by simp
qed

lemma two_Val:
  assumes "seqc m (\<lambda>a. seqc n (\<lambda>b. ret (h a b))) s = (Val v, s')"
  shows "\<exists>a b s0. m s = (Val a, s0) \<and> n s0 = (Val b, s') \<and> v = h a b"
proof -
  obtain a s0 where a: "m s = (Val a, s0)" "seqc n (\<lambda>b. ret (h a b)) s0 = (Val v, s')"
    using seqc_Val [OF assms] by blast
  from seqc_Val [OF a(2)] a(1) show ?thesis by (auto simp: ret_def)
qed

lemma run_both_Val:
  assumes "run_both sched agg f g s = (Val (), s')" "grows f" "grows g"
  shows "\<exists>s1 s2 s3 s4. f s1 = (Val (), s2) \<and> set (snd s2) \<subseteq> set (snd s') \<and>
    g s3 = (Val (), s4) \<and> set (snd s4) \<subseteq> set (snd s')"
proof -
  have none: "a = None \<and> b = None" if "collected sched a b = []" for a b
    using that by (auto simp: collected_def split: option.splits schedule.splits)
  let ?m = "if sched = SecondThenFirst \<or> sched = FirstOverwritten
           then seqc (catch g) (\<lambda>b. seqc (catch f) (\<lambda>a. ret (a, b)))
           else seqc (catch f) (\<lambda>a. seqc (catch g) (\<lambda>b. ret (a, b)))"
  obtain p s0 where p: "?m s = (Val p, s0)"
    "(\<lambda>(a, b). let errs = collected sched a b in if length errs > 0 then fail (agg errs) else ret ()) p s0 = (Val (), s')"
    using seqc_Val [OF assms(1) [unfolded run_both_def]] by blast
  obtain a b where pab: "p = (a, b)" by (cases p)
  have ab: "?m s = (Val (a, b), s')" "collected sched a b = []"
    using p pab by (auto simp: Let_def ret_def fail_def split: if_splits)
  have "\<exists>s0. (catch g s = (Val None, s0) \<and> catch f s0 = (Val None, s')) \<or>
      (catch f s = (Val None, s0) \<and> catch g s0 = (Val None, s'))"
  proof (cases "sched = SecondThenFirst \<or> sched = FirstOverwritten")
    case True
    then have "seqc (catch g) (\<lambda>b. seqc (catch f) (\<lambda>a. ret (a, b))) s = (Val (a, b), s')" using ab(1) by simp
    from two_Val [OF this] none [OF ab(2)] show ?thesis by blast
  next
    case False
    then have "seqc (catch f) (\<lambda>a. seqc (catch g) (\<lambda>b. ret (a, b))) s = (Val (a, b), s')" using ab(1) by simp
    from two_Val [OF this] none [OF ab(2)] show ?thesis by blast
  qed
  then obtain s0 where "(g s = (Val (), s0) \<and> f s0 = (Val (), s')) \<or> (f s = (Val (), s0) \<and> g s0 = (Val (), s'))"
    by (auto dest!: catch_None)
  then show ?thesis
    using grows_subset [OF assms(2)] grows_subset [OF assms(3)] by blast
qed

lemma call_Val: "call c f s = (Val x, s') \<Longrightarrow> \<exists>v v'. f v = (Val x, v')"
  by (auto simp: call_def split: prod.splits)

abbreviation list_pgb :: "'w watcher \<Rightarrow> ('w, PGClusterBackup list) prog" where
  "list_pgb w \<equiv> call (Apr (ListPGBackups [])) (listPGBackups (pwApr w) [])"

lemma backupPostgres_Val:
  assumes "backupPostgres w s = (Val (), s')"
  shows "\<exists>clusters v1 v2 items v3 v4. listPGClusters (pwDyn w) [] v1 = (Val clusters, v2) \<and>
     (\<forall>c \<in> set clusters. \<exists>pb. Apr (CreatePGBackup pb) \<in> set (snd s') \<and> metaNamespace (pbMeta pb) = metaNamespace (pgMeta c)) \<and>
     listPGBackups (pwApr w) [] v3 = (Val items, v4) \<and>
     (\<forall>p \<in> set items. pbState (pbStatus p) \<notin> {BackupStateRunning, BackupStateWaiting, BackupStateRejected, BackupStateError})"
proof -
  let ?body = "\<lambda>cluster. seqc (pg_backup_path (pwK8s w) cluster) (\<lambda>path.
       ForceCreateNewPGClusterBackup (pwPolls w) (pwApr w) (pg_backup_of cluster path))"
  let ?Q = "\<lambda>c A. \<exists>pb. Apr (CreatePGBackup pb) \<in> A \<and> metaNamespace (pbMeta pb) = metaNamespace (pgMeta c)"
  obtain clusters s0 s1 where
    c: "dyn (ListPGClusters []) (listPGClusters (pwDyn w) []) s = (Val clusters, s0)"
    and l: "forM clusters ?body s0 = (Val (), s1)"
    and wt: "WaitForAllBackupComplete_pg (pwPolls w) (pwAgg w) (pwApr w) s1 = (Val (), s')"
    using assms unfolding backupPostgres_def by (auto dest!: seqc_Val)
  have created: "?Q x (set (snd t'))" if "?body x t = (Val (), t')" for x t t'
  proof -
    from that obtain path t0 where "ForceCreateNewPGClusterBackup (pwPolls w) (pwApr w) (pg_backup_of x path) t0 = (Val (), t')"
      by (auto dest!: seqc_Val)
    from force_create_Val [OF this [unfolded ForceCreateNewPGClusterBackup_def Let_def]]
    show ?thesis by (auto simp: pg_backup_of_def intro!: exI)
  qed
  have g: "grows (?body x)" for x
    unfolding pg_backup_path_def ForceCreateNewPGClusterBackup_def Let_def GetUserDBPVCName_def StatefulSets_Get_def
    by (auto intro!: silent_intros split: option.splits)
  have all1: "\<forall>c \<in> set clusters. ?Q c (set (snd s1))"
    by (rule forM_each [OF l g]) (use created in blast)+
  have gw: "grows (WaitForAllBackupComplete_pg (pwPolls w) (pwAgg w) (pwApr w))"
    by (rule grows_silent) (auto simp: WaitForAllBackupComplete_pg_def intro!: silent_wait_all silent_intros)
  have all: "\<forall>c \<in> set clusters. ?Q c (set (snd s'))"
    using all1 grows_subset [OF gw wt] by blast
  obtain s3 items where it: "list_pgb w s3 = (Val items, s')"
      "\<forall>p \<in> set items. backup_progress (\<lambda>_. failed_message ''backup pg'' (pbError (pbStatus p)) (pbMeta p)) (pbState (pbStatus p)) = Other"
    using wait_all_sound [OF wt [unfolded WaitForAllBackupComplete_pg_def]] by blast
  have "pbState (pbStatus p) \<notin> {BackupStateRunning, BackupStateWaiting, BackupStateRejected, BackupStateError}" if "p \<in> set items" for p
    using it(2) that by (auto simp: backup_progress_def split: BackupState.splits)
  then show ?thesis
    using call_Val [OF c [unfolded dyn_def]] all call_Val [OF it(1)] by blast
qed

lemma backupRedix_Val:
  assumes "backupRedix w s = (Val (), s')"
  shows "\<exists>clusters v1 v2. listRedixClusters (pwClusters w) [] v1 = (Val clusters, v2) \<and>
     (\<forall>c \<in> set clusters. rxType (rxSpec c) = KVRocks \<longrightarrow> (\<exists>kb. Apr (CreateKVBackup kb) \<in> set (snd s') \<and>
        metaNamespace (kbMeta kb) = metaNamespace (rxMeta c) \<and> kbClusterName (kbSpec kb) = metaName (rxMeta c)))"
proof -
  let ?Q = "\<lambda>c A. rxType (rxSpec c) = KVRocks \<longrightarrow> (\<exists>kb. Apr (CreateKVBackup kb) \<in> A \<and>
        metaNamespace (kbMeta kb) = metaNamespace (rxMeta c) \<and> kbClusterName (kbSpec kb) = metaName (rxMeta c))"
  obtain clusters s0 err s1 where
    c: "call (Svc (Cluster (ListRedixClusters []))) (listRedixClusters (pwClusters w) []) s = (Val clusters, s0)"
    and l: "foldM (backup_cluster w) None clusters s0 = (Val err, s1)" and e: "return_err err s1 = (Val (), s')"
    using assms unfolding backupRedix_def by (auto dest!: seqc_Val)
  have "s1 = s'" using e by (auto simp: return_err_def ret_def fail_def split: option.splits)
  have created: "?Q x (set (snd t'))" if h: "backup_cluster w a x t = (Val b, t')" for a x t b t'
  proof
    assume kv: "rxType (rxSpec x) = KVRocks"
    let ?kb = "KVRocksBackup_template\<lparr>
             kbMeta := (kbMeta KVRocksBackup_template)\<lparr>metaNamespace := metaNamespace (rxMeta x)\<rparr>,
             kbSpec := \<lparr>kbClusterName = metaName (rxMeta x)\<rparr>\<rparr>"
    obtain t0 where f: "ForceCreateNewKVRocksBackup (pwPolls w) (pwKv w) ?kb t = (Val (), t0)"
      and wt: "catch (WaitForAllBackupComplete_kv (pwPolls w) (pwAgg w) (pwKv w)) t0 = (Val b, t')"
      using seqc_Val [of "ForceCreateNewKVRocksBackup (pwPolls w) (pwKv w) ?kb"] h kv by (fastforce simp: backup_cluster_def)
    have "silent (catch (WaitForAllBackupComplete_kv (pwPolls w) (pwAgg w) (pwKv w)))"
      by (auto simp: WaitForAllBackupComplete_kv_def intro!: silent_intros silent_wait_all)
    from grows_subset [OF grows_silent [OF this] wt] force_create_Val [OF f [unfolded ForceCreateNewKVRocksBackup_def Let_def]]
    show "\<exists>kb. Apr (CreateKVBackup kb) \<in> set (snd t') \<and> metaNamespace (kbMeta kb) = metaNamespace (rxMeta x) \<and>
        kbClusterName (kbSpec kb) = metaName (rxMeta x)" by (auto intro!: exI)
  qed
  have g: "grows (backup_cluster w a x)" for a x by (rule grows_silent [OF silent_cluster])
  have "\<forall>c \<in> set clusters. ?Q c (set (snd s1))"
    by (rule foldM_each [OF l g]) (use created in blast)+
  then show ?thesis using call_Val [OF c] \<open>s1 = s'\<close> by blast
qed

text \<open>A run that writes the state \<open>Success\<close> has a successful backup of the middleware behind it.\<close>

lemma success_needs_backup:
  assumes run: "on_backup_event steps sched w typ obj s = (r, s')" and "snd s = []"
    and b: "Svc (Dyn (UpdateSysBackup b)) \<in> set (snd s')" "sbMiddleWarePhase b = Some ''Success''"
  shows "\<exists>s1 s2. backup sched w s1 = (Val (), s2) \<and> set (snd s2) \<subseteq> set (snd s')"
proof -
  let ?P = "states_only (\<lambda>st. st \<noteq> ''Success'')"
  let ?U = "\<lambda>y st m. ignorec (updateBackupState steps (pwDyn w) y st m)"
  have bad: "\<not> list_all ?P (snd s')" using b by (auto simp: list_all_iff intro!: bexI [OF _ b(1)])
  consider "s' = s" | y where "seqc (?U y ''Running'' None) (\<lambda>_. tryc (backup sched w) (\<lambda>_. ?U y ''Success'' None)
      (\<lambda>e. ?U y ''Failed'' (Some (Error e)))) s = (r, s')"
    using run unfolding on_backup_event_def
    by (auto simp: tryc_def lift_def ret_def panic_def split: option.splits if_splits res.splits)
  then show ?thesis
  proof cases
    case 1
    then show ?thesis using bad assms(2) by simp
  next
    case 2
    have up: "emits ?P (?U y st m)" if "st \<noteq> ''Success''" for st m
      by (intro emits_ignorec emits_mono [OF states_update]) (erule states_mono, simp add: that)
    have U: "grows (?U y st m)" for st m
      by (intro emits_ignorec emits_mono [OF states_update]) simp
    obtain r1 s1 where r1: "?U y ''Running'' None s = (r1, s1)" by (cases "?U y ''Running'' None s")
    have s1: "list_all ?P (snd s1)" using emitsD [OF up r1] assms(2) by auto
    obtain r2 s2 where r2: "backup sched w s1 = (r2, s2)" by (cases "backup sched w s1")
    have eb: "emits ?P (backup sched w)" by (rule silent_states [OF silent_backup])
    have s2: "list_all ?P (snd s2)" using emitsD [OF eb r2] s1 by auto
    have v: "\<exists>x. r1 = Val x" using 2 r1 s1 bad by (cases r1) (auto simp: seqc_def)
    with 2 r1 r2 have t: "(case r2 of Val _ \<Rightarrow> ?U y ''Success'' None s2 | Err e \<Rightarrow> ?U y ''Failed'' (Some (Error e)) s2
        | Panic p \<Rightarrow> (Panic p, s2) | Looping \<Rightarrow> (Looping, s2)) = (r, s')"
      by (auto simp: seqc_def tryc_def)
    show ?thesis
    proof (cases r2)
      case (Val x)
      then have "?U y ''Success'' None s2 = (r, s')" using t by simp
      moreover have "backup sched w s1 = (Val (), s2)" using r2 Val by simp
      ultimately show ?thesis using grows_subset [OF U] by blast
    next
      case (Err e)
      then have u: "?U y ''Failed'' (Some (Error e)) s2 = (r, s')" using t by simp
      have e: "emits ?P (?U y ''Failed'' (Some (Error e)))" by (rule up) simp
      have "list_all ?P (snd s')" using emitsD [OF e u] s2 by auto
      then show ?thesis using bad by simp
    qed (use t s2 bad in auto)
  qed
qed

section \<open>The state of a system backup\<close>

text \<open>An environment for the witnesses: one PostgreSQL and one kvrocks cluster whose backups are ready
  at the first look, and a MongoDB backup that exists or not.\<close>

definition demo_sys :: SysBackup where
  "demo_sys = \<lparr>sbName = ''b1'', sbNamespace = ''os-framework'', sbAnnotations = [], sbPhase = Some ''Started'',
     sbMiddleWarePhase = None, sbMiddleWareFailedMessage = None\<rparr>"

definition demo_pgc :: PGCluster where
  "demo_pgc = \<lparr>pgMeta = plain_meta ''citus'' ''os-platform'',
     pgSpec = \<lparr>pgReplicas = 1, pgAdminUser = ''root'', pgCitusImage = [], pgPassword = plain_password,
       pgOwner = ''system'', pgBackupStorage = ''/data''\<rparr>,
     pgStatus = \<lparr>pgsState = [], pgsUpdateTime = None, pgsStatusTime = None\<rparr>\<rparr>"

definition demo_redix :: RedixCluster where
  "demo_redix = \<lparr>rxMeta = plain_meta ''kvrocks'' ''os-platform'', rxSpec = \<lparr>rxType = KVRocks, rxKVRocks = None\<rparr>\<rparr>"

definition demo_mongo :: "bool \<Rightarrow> PSMDBBackup res res" where
  "demo_mongo e = (if e then Val (Val \<lparr>pmbName = ''m'', pmbNamespace = [], pmbState = PsReady, pmbError = [], pmbPBMname = ''p''\<rparr>)
     else Err (NotFound ''m''))"

definition absent :: "'a \<Rightarrow> 'w \<Rightarrow> 'b res \<times> 'w" where "absent x v = (Err (NotFound []), v)"

definition demo_watcher :: "bool \<Rightarrow> unit watcher" where
  "demo_watcher e = \<lparr>pwK8s = idle_k8s,
     pwApr = idle_apr\<lparr>getPGBackup := (\<lambda>_. absent), createPGBackup := ok (), listPGBackups := ok []\<rparr>,
     pwKv = idle_kvapr\<lparr>getKVBackup := (\<lambda>_. absent), createKVBackup := ok (), listKVBackups := ok []\<rparr>,
     pwClusters = \<lparr>listRedixClusters = ok [demo_redix], listDistributedRedisClusters = denied, getConfigMap = (\<lambda>_. denied),
       updateConfigMap = (\<lambda>_ _. denied), getDeployment = (\<lambda>_. denied), updateDeployment = (\<lambda>_ _. denied),
       getKBCluster = (\<lambda>_. denied)\<rparr>,
     pwDyn = idle_dyn\<lparr>listPGClusters := ok [demo_pgc], getSysBackup := (\<lambda>_. ok (Val demo_sys)),
       getPSMDBBackup := (\<lambda>_ _ v. (demo_mongo e, v)), updateSysBackup := ok ()\<rparr>,
     pwFs = idle_fs, pwPolls = 3, pwAgg = hd\<rparr>"

lemmas demo_watcher_defs = demo_watcher_def demo_mongo_def demo_redix_def demo_pgc_def demo_sys_def absent_def idle_defs plain_defs
  idle_dyn_def

lemmas watcher_defs = on_backup_event_def updateBackupState_def backup_def run_both_def catch_def collected_def return_err_def
  backupRedix_def backup_cluster_def backupPostgres_def pg_backup_path_def pg_backup_of_def
  ForceCreateNewKVRocksBackup_def ForceCreateNewPGClusterBackup_def force_create_def
  WaitForAllBackupComplete_kv_def WaitForAllBackupComplete_pg_def wait_all_def wait_step_def dyn_def ignorec_def
  BackupStart_def handled_phases_def

text \<open>C16. A backup of the system is marked as successful only after the backups it stands for: every
  run of the watcher that writes the state \<open>Success\<close> has requested a backup for each PostgreSQL
  cluster and each kvrocks cluster of the listings it got, and has seen a listing of the PostgreSQL
  backups in which none was running, waiting, rejected or failed.\<close>

theorem system_backup_success:
  assumes "on_backup_event steps sched w typ obj (v, []) = (r, (v', cs))"
    and "Svc (Dyn (UpdateSysBackup b)) \<in> set cs" "sbMiddleWarePhase b = Some ''Success''"
  shows "(\<exists>clusters v1 v2. listPGClusters (pwDyn w) [] v1 = (Val clusters, v2) \<and>
       (\<forall>c \<in> set clusters. \<exists>pb. Apr (CreatePGBackup pb) \<in> set cs \<and> metaNamespace (pbMeta pb) = metaNamespace (pgMeta c))) \<and>
     (\<exists>items v1 v2. listPGBackups (pwApr w) [] v1 = (Val items, v2) \<and>
       (\<forall>p \<in> set items. pbState (pbStatus p) \<notin> {BackupStateRunning, BackupStateWaiting, BackupStateRejected, BackupStateError})) \<and>
     (\<exists>clusters v1 v2. listRedixClusters (pwClusters w) [] v1 = (Val clusters, v2) \<and>
       (\<forall>c \<in> set clusters. rxType (rxSpec c) = KVRocks \<longrightarrow> (\<exists>kb. Apr (CreateKVBackup kb) \<in> set cs \<and>
          metaNamespace (kbMeta kb) = metaNamespace (rxMeta c) \<and> kbClusterName (kbSpec kb) = metaName (rxMeta c))))"
proof -
  obtain s1 s2 where s2: "backup sched w s1 = (Val (), s2)" "set (snd s2) \<subseteq> set cs"
    using success_needs_backup [OF assms(1) _ _ assms(3)] assms(2) by auto
  obtain t1 t2 t3 t4 where r: "backupRedix w t1 = (Val (), t2)" "set (snd t2) \<subseteq> set (snd s2)"
    and p: "backupPostgres w t3 = (Val (), t4)" "set (snd t4) \<subseteq> set (snd s2)"
    using run_both_Val [OF s2(1) [unfolded backup_def] grows_silent [OF silent_redix] grows_silent [OF silent_postgres]] by blast
  from backupRedix_Val [OF r(1)] obtain rcs v1 v2 where rc: "listRedixClusters (pwClusters w) [] v1 = (Val rcs, v2)"
    "\<forall>c \<in> set rcs. rxType (rxSpec c) = KVRocks \<longrightarrow> (\<exists>kb. Apr (CreateKVBackup kb) \<in> set (snd t2) \<and>
          metaNamespace (kbMeta kb) = metaNamespace (rxMeta c) \<and> kbClusterName (kbSpec kb) = metaName (rxMeta c))" by blast
  have "set (snd t2) \<subseteq> set cs" using r(2) s2(2) by blast
  with rc(2) have rcs: "\<forall>c \<in> set rcs. rxType (rxSpec c) = KVRocks \<longrightarrow> (\<exists>kb. Apr (CreateKVBackup kb) \<in> set cs \<and>
          metaNamespace (kbMeta kb) = metaNamespace (rxMeta c) \<and> kbClusterName (kbSpec kb) = metaName (rxMeta c))" by blast
  from backupPostgres_Val [OF p(1)] obtain pcs w1 w2 items w3 w4 where pc: "listPGClusters (pwDyn w) [] w1 = (Val pcs, w2)"
    "\<forall>c \<in> set pcs. \<exists>pb. Apr (CreatePGBackup pb) \<in> set (snd t4) \<and> metaNamespace (pbMeta pb) = metaNamespace (pgMeta c)"
    "listPGBackups (pwApr w) [] w3 = (Val items, w4)"
    "\<forall>p \<in> set items. pbState (pbStatus p) \<notin> {BackupStateRunning, BackupStateWaiting, BackupStateRejected, BackupStateError}"
    by blast
  have "set (snd t4) \<subseteq> set cs" using p(2) s2(2) by blast
  with pc(2) have "\<forall>c \<in> set pcs. \<exists>pb. Apr (CreatePGBackup pb) \<in> set cs \<and> metaNamespace (pbMeta pb) = metaNamespace (pgMeta c)"
    by blast
  with pc(1,3,4) rc(1) rcs show ?thesis by blast
qed

lemma demo_success:
  "\<exists>b cs. on_backup_event 1 FirstThenSecond (demo_watcher True) Added (Some (Val demo_sys)) ((), []) = (Val (), ((), cs)) \<and>
     Svc (Dyn (UpdateSysBackup b)) \<in> set cs \<and> sbMiddleWarePhase b = Some ''Success''"
  by (simp add: demo_watcher_defs watcher_defs io_defs numeral_3_eq_3 Let_def List.map_filter_def)
    (rule exI, rule conjI, rule disjI2, rule refl, simp)

theorem system_backup_success_witness:
  "\<exists>pb. metaNamespace (pbMeta pb) = ''os-platform'' \<and>
     Apr (CreatePGBackup pb) \<in> set (snd (snd (on_backup_event 1 FirstThenSecond (demo_watcher True) Added
       (Some (Val demo_sys)) ((), []))))"
proof -
  obtain b cs where run: "on_backup_event 1 FirstThenSecond (demo_watcher True) Added (Some (Val demo_sys)) ((), []) = (Val (), ((), cs))"
    "Svc (Dyn (UpdateSysBackup b)) \<in> set cs" "sbMiddleWarePhase b = Some ''Success''" using demo_success by blast
  from system_backup_success [OF this] run(1) show ?thesis
    by (auto simp: demo_watcher_def demo_pgc_def plain_meta_def ok_def)
qed

text \<open>C22. The state of a system backup can be written only while the MongoDB backup exists, which no
  part of the operator creates any more: as long as it is not found, no event makes the watcher
  write any state, although it carries out the backups; and since the state stays unset, the next event
  of the same backup carries them out again.\<close>

theorem backup_state_needs_mongo:
  assumes mongo: "\<And>ns v. \<exists>m v'. getPSMDBBackup (pwDyn w) ns PerconaMongoClusterBackup v = (Err (NotFound m), v')"
    and run: "on_backup_event steps sched w typ obj s = (r, s')"
  shows "(\<exists>cs. snd s' = snd s @ cs \<and> (\<forall>b. Svc (Dyn (UpdateSysBackup b)) \<notin> set cs)) \<and>
    (typ \<in> {Added, Modified} \<and> obj = Some (Val b) \<and> sbPhase b = Some BackupStart \<and> sbMiddleWarePhase b = None \<and> r = Val () \<longrightarrow>
      (\<exists>s1 r1 s2. backup sched w s1 = (r1, s2) \<and> prefix (snd s) (snd s1) \<and> prefix (snd s2) (snd s')))"
proof (intro conjI impI)
  have never: "never_val (dyn (GetPSMDBBackup ns PerconaMongoClusterBackup) (getPSMDBBackup (pwDyn w) ns PerconaMongoClusterBackup))" for ns
    unfolding never_val_def dyn_def call_def
  proof (intro allI notI)
    fix t :: "'a \<times> call list" and v
    obtain m v' where "getPSMDBBackup (pwDyn w) ns PerconaMongoClusterBackup (fst t) = (Err (NotFound m), v')" using mongo by blast
    then show "fst (case getPSMDBBackup (pwDyn w) ns PerconaMongoClusterBackup (fst t) of
        (r, w) \<Rightarrow> (r, w, snd t @ [Svc (Dyn (GetPSMDBBackup ns PerconaMongoClusterBackup))])) = Val v \<Longrightarrow> False" by simp
  qed
  have up: "silent (updateBackupState steps (pwDyn w) y st m)" for y st m
    unfolding updateBackupState_def
    by (intro emits_retry emits_seqc emits_lift silent_dyn emits_seqc_never never) simp_all
  have "silent (on_backup_event steps sched w typ obj)"
    unfolding on_backup_event_def
    by (auto intro!: silent_intros up silent_backup split: option.splits)
  from emitsD [OF this run] obtain cs where "snd s' = snd s @ cs" "list_all (states_only (\<lambda>_. False)) cs" by blast
  then show "\<exists>cs. snd s' = snd s @ cs \<and> (\<forall>b. Svc (Dyn (UpdateSysBackup b)) \<notin> set cs)"
    by (auto simp: list_all_iff)
  let ?U = "\<lambda>st m. ignorec (updateBackupState steps (pwDyn w) b st m)"
  assume h: "typ \<in> {Added, Modified} \<and> obj = Some (Val b) \<and> sbPhase b = Some BackupStart \<and> sbMiddleWarePhase b = None \<and> r = Val ()"
  then have "seqc (?U ''Running'' None) (\<lambda>_. tryc (backup sched w) (\<lambda>_. ?U ''Success'' None)
      (\<lambda>e. ?U ''Failed'' (Some (Error e)))) s = (Val (), s')"
    using run by (auto simp: on_backup_event_def tryc_def lift_def)
  then obtain s1 where s1: "?U ''Running'' None s = (Val (), s1)"
      "tryc (backup sched w) (\<lambda>_. ?U ''Success'' None) (\<lambda>e. ?U ''Failed'' (Some (Error e))) s1 = (Val (), s')"
    using seqc_Val by fastforce
  have U: "silent (?U st m)" for st m by (intro emits_ignorec up)
  obtain r1 s2 where r1: "backup sched w s1 = (r1, s2)" by (cases "backup sched w s1")
  have "\<exists>st m. ?U st m s2 = (Val (), s')" using s1(2) r1 by (cases r1) (auto simp: tryc_def intro: exI)
  then obtain st m where st: "?U st m s2 = (Val (), s')" by blast
  show "\<exists>s1 r1 s2. backup sched w s1 = (r1, s2) \<and> prefix (snd s) (snd s1) \<and> prefix (snd s2) (snd s')"
    using r1 emitsD [OF U s1(1)] emitsD [OF U st] by (metis prefixI)
qed

theorem backup_state_needs_mongo_witness:
  "(\<forall>b. Svc (Dyn (UpdateSysBackup b)) \<notin> set (snd (snd (on_backup_event 1 FirstThenSecond (demo_watcher False) Added
       (Some (Val demo_sys)) ((), [])))))"
proof -
  obtain r s' where run: "on_backup_event 1 FirstThenSecond (demo_watcher False) Added (Some (Val demo_sys)) ((), []) = (r, s')"
    by (cases "on_backup_event 1 FirstThenSecond (demo_watcher False) Added (Some (Val demo_sys)) ((), [])")
  have "\<exists>m v'. getPSMDBBackup (pwDyn (demo_watcher False)) ns PerconaMongoClusterBackup v = (Err (NotFound m), v')" for ns v
    by (simp add: demo_watcher_def demo_mongo_def)
  from backup_state_needs_mongo [OF this run] run show ?thesis by auto
qed

text \<open>The loop of the watcher has no end: not even a cancelled context makes it return.\<close>

lemma Start_never_returns: "never_val (Start n steps sched w v)"
proof -
  have "never_val (watch_loop n steps sched w v fl)" for fl
  proof (induction n arbitrary: fl)
    case 0
    show ?case by (simp add: never_val_def looping_def)
  next
    case (Suc n)
    then show ?case by (simp add: never_val_seqc)
  qed
  then show ?thesis by (simp add: Start_def)
qed

end
