(* ===== verification/Middleware_App.thy ===== *)
theory Middleware_App
  imports Cluster_Resources Citus
begin

text \<open>The HTTP side of the operator (\<open>cmd/middleware/app\<close>): what an application learns about its
  middleware request, the listings of requests and clusters, scaling and changing a password; and the
  checks of \<open>pkg/app/middleware\<close> and \<open>pkg/kubesphere\<close> in front of them. A listing by a lister of the
  informers is the same call as one by a client.\<close>

section \<open>Data (types.go)\<close>

record MiddlewareReq =
  rqApp :: string
  rqAppNamespace :: string
  rqNamespace :: string
  rqMiddleware :: MiddlewareType

text \<open>A map that was never made is \<open>None\<close>.\<close>

record MiddlewareRequestResp =
  rspUserName :: string
  rspPassword :: string
  rspHost :: string
  rspPort :: int
  rspIndexes :: "(string \<times> string) list option"
  rspDatabases :: "(string \<times> string) list option"
  rspBuckets :: "(string \<times> string) list option"
  rspVhosts :: "(string \<times> string) list option"
  rspSubjects :: "(string \<times> string) list option"
  rspRefs :: "(string \<times> string) list option"
  rspBucketPrefix :: string
  rspIndexPrefix :: string

record MetaInfo =
  miName :: string
  miNamespace :: string

record Database =
  dbName :: string
  dbDistributed :: bool

record MiddlewareRequestInfo =
  infMeta :: MetaInfo
  infApp :: MetaInfo
  infUserName :: string
  infPassword :: string
  infType :: MiddlewareType
  infDatabases :: "Database list"

record Proxy =
  pxEndpoint :: string
  pxSize :: int

record MiddlewareClusterResp =
  crMeta :: MetaInfo
  crNodes :: int
  crAdminUser :: string
  crPassword :: string
  crMongos :: Proxy
  crRedisProxy :: Proxy
  crProxy :: Proxy
  crType :: string

record ClusterScaleReq =
  csMeta :: MetaInfo
  csMiddleware :: MiddlewareType
  csNodes :: int

record ClusterChangePwdReq =
  cpMeta :: MetaInfo
  cpMiddleware :: MiddlewareType
  cpUser :: string
  cpPassword :: string

fun type_string :: "MiddlewareType \<Rightarrow> string" where
  "type_string TypePostgreSQL = ''postgres''"
| "type_string TypeMongoDB = ''mongodb''"
| "type_string TypeRedis = ''redis''"
| "type_string TypeZinc = ''zinc''"
| "type_string TypeNats = ''nats''"
| "type_string TypeMinio = ''minio''"
| "type_string TypeRabbitMQ = ''rabbitmq''"
| "type_string TypeElasticsearch = ''elasticsearch''"
| "type_string TypeMariaDB = ''mariadb''"
| "type_string TypeMysql = ''mysql''"
| "type_string (TypeOther s) = s"

definition no_resp :: MiddlewareRequestResp where
  "no_resp = \<lparr>rspUserName = [], rspPassword = [], rspHost = [], rspPort = 0, rspIndexes = None, rspDatabases = None,
     rspBuckets = None, rspVhosts = None, rspSubjects = None, rspRefs = None, rspBucketPrefix = [], rspIndexPrefix = []\<rparr>"

definition no_proxy :: Proxy where "no_proxy = \<lparr>pxEndpoint = [], pxSize = 0\<rparr>"

definition cluster_resp :: "string \<Rightarrow> string \<Rightarrow> string \<Rightarrow> string \<Rightarrow> string \<Rightarrow> MiddlewareClusterResp" where
  "cluster_resp typ name namespace user pwd = \<lparr>crMeta = \<lparr>miName = name, miNamespace = namespace\<rparr>, crNodes = 0,
     crAdminUser = user, crPassword = pwd, crMongos = no_proxy, crRedisProxy = no_proxy, crProxy = no_proxy, crType = typ\<rparr>"

text \<open>The clients of the server.\<close>

record 'w server =
  srvK8s :: "'w k8s"
  srvApr :: "'w apr"
  srvClusters :: "'w clusters"
  srvDyn :: "'w dyn"

section \<open>What an application learns (utils.go)\<close>

definition real_names :: "(string \<Rightarrow> string) \<Rightarrow> string list \<Rightarrow> (string \<times> string) list" where
  "real_names f names = foldl (\<lambda>m name. AList.update name (f name) m) [] names"

text \<open>The last port of that name wins.\<close>

definition service_port :: "string \<Rightarrow> int \<Rightarrow> Service \<Rightarrow> int" where
  "service_port name dflt svc = foldl (\<lambda>p (n, port). if n = name then port else p) dflt (svcPorts svc)"

definition GetIndexName_zinc :: "string \<Rightarrow> string \<Rightarrow> string" where
  "GetIndexName_zinc namespace index = namespace @ ''_'' @ index"

definition ref_names :: "MiddlewareRequest \<Rightarrow> (string \<times> string) list" where
  "ref_names m = (let ownerName = GetOwnerNameFromNs (metaNamespace (mrMeta m)) in
     foldl (\<lambda>acc (ref, subject). AList.update (refAppName ref @ ''_'' @ rsName subject)
         (MakeRealNameForRefSubjectName (refAppNamespace ref) (refAppName ref) (rsName subject) ownerName) acc) []
       (concat (map (\<lambda>ref. map (Pair ref) (refSubjects ref)) (natsRefs (mwNats (mrSpec m))))))"

text \<open>For NATS an error of the password is not looked at: the password is then empty.\<close>

definition getMiddlewareInfo :: "'w k8s \<Rightarrow> MiddlewareReq \<Rightarrow> MiddlewareRequest \<Rightarrow> ('w, MiddlewareRequestResp) prog" where
  "getMiddlewareInfo k mwReq m =
     (let spec = mrSpec m; ns = mwAppNamespace spec; rns = rqNamespace mwReq in
      case mwMiddleware spec of
        TypePostgreSQL \<Rightarrow> let p = mwPostgreSQL spec in
          seqc (GetVarValue k (psqlPassword p) rns) (\<lambda>pwd.
          seqc (call (K8s (GetService rns ''citus-master-svc'')) (getService k rns ''citus-master-svc'')) (\<lambda>svc.
          ret (no_resp\<lparr>rspUserName := psqlUser p, rspPassword := pwd, rspPort := service_port ''citus'' 5432 svc,
            rspHost := ''citus-master-svc.'' @ rns, rspDatabases := Some (real_names (GetDatabaseName ns) (map cdbName (psqlDatabases p)))\<rparr>)))
      | TypeMongoDB \<Rightarrow> let p = mwMongoDB spec in
          seqc (GetVarValue k (mongoPassword p) rns) (\<lambda>pwd.
          ret (no_resp\<lparr>rspUserName := mongoUser p, rspPassword := pwd, rspPort := 27017,
            rspHost := ''mongodb-mongodb-headless.mongodb-middleware'',
            rspDatabases := Some (real_names (GetDatabaseName_mongo ns) (map mongoDbName (mongoDatabases p)))\<rparr>))
      | TypeRedis \<Rightarrow> let p = mwRedis spec in
          seqc (GetVarValue k (redisPassword p) rns) (\<lambda>pwd.
          seqc (call (K8s (GetService rns RedisClusterService)) (getService k rns RedisClusterService)) (\<lambda>svc.
          ret (no_resp\<lparr>rspPassword := pwd, rspPort := service_port ''proxy'' 6379 svc, rspHost := RedisClusterService @ ''.'' @ rns,
            rspDatabases := Some (real_names (GetDatabaseName_redis ns) [redisNamespace p])\<rparr>)))
      | TypeZinc \<Rightarrow> let p = mwZinc spec in
          seqc (GetVarValue k (zincPassword p) rns) (\<lambda>pwd.
          ret (no_resp\<lparr>rspUserName := zincUser p, rspPassword := pwd, rspPort := 80, rspHost := ''zinc-server-svc.'' @ rns,
            rspIndexes := Some (real_names (GetIndexName_zinc ns) (zincIndexes p))\<rparr>))
      | TypeNats \<Rightarrow> let p = mwNats spec in
          seqc (tryc (GetVarValue k (natsPassword p) rns) ret (\<lambda>_. ret [])) (\<lambda>pwd.
          ret (no_resp\<lparr>rspUserName := natsUser p, rspPassword := pwd, rspPort := 4222, rspHost := ''nats.'' @ rns,
            rspSubjects := Some (real_names (\<lambda>s. MakeRealSubjectName s ns) (map subjName (natsSubjects p))),
            rspRefs := Some (ref_names m)\<rparr>))
      | TypeMinio \<Rightarrow> let p = mwMinio spec in
          seqc (GetVarValue k (minioPassword p) rns) (\<lambda>pwd.
          ret (no_resp\<lparr>rspUserName := minioUser p, rspPassword := pwd, rspPort := 9000, rspHost := ''minio-minio-headless.minio-middleware'',
            rspBuckets := Some (real_names (GetBucketName ns) (minioBuckets p)), rspBucketPrefix := ns\<rparr>))
      | TypeRabbitMQ \<Rightarrow> let p = mwRabbitMQ spec in
          seqc (GetVarValue k (rabbitPassword p) rns) (\<lambda>pwd.
          ret (no_resp\<lparr>rspUserName := rabbitUser p, rspPassword := pwd, rspPort := 5672,
            rspHost := ''rabbitmq-rabbitmq-headless.rabbitmq-middleware'',
            rspVhosts := Some (real_names (GetVhostName ns) (rabbitVhosts p))\<rparr>))
      | TypeElasticsearch \<Rightarrow> let p = mwElasticsearch spec in
          seqc (GetVarValue k (esPassword p) rns) (\<lambda>pwd.
          ret (no_resp\<lparr>rspUserName := esUser p, rspPassword := pwd, rspPort := 9200,
            rspHost := ''elasticsearch-mdit-http.elasticsearch-middleware'',
            rspIndexes := Some (real_names (GetIndexName ns) (esIndexes p)), rspIndexPrefix := ns\<rparr>))
      | TypeMariaDB \<Rightarrow> let p = mwMariaDB spec in
          seqc (GetVarValue k (mariaPassword p) rns) (\<lambda>pwd.
          ret (no_resp\<lparr>rspUserName := mariaUser p, rspPassword := pwd, rspPort := 3306, rspHost := ''mariadb-mariadb-headless.mariadb-middleware'',
            rspDatabases := Some (real_names (GetDatabaseName_mariadb ns) (mariaDatabases p))\<rparr>))
      | TypeMysql \<Rightarrow> let p = mwMysql spec in
          seqc (GetVarValue k (mysqlPassword p) rns) (\<lambda>pwd.
          ret (no_resp\<lparr>rspUserName := mysqlUser p, rspPassword := pwd, rspPort := 3306, rspHost := ''mysql-mysql-headless.mysql-middleware'',
            rspDatabases := Some (real_names (GetDatabaseName_mariadb ns) (mysqlDatabases p))\<rparr>))
      | TypeOther _ \<Rightarrow> fail (Failure ''middleware type unsupported''))"

section \<open>The handlers (handler.go)\<close>

text \<open>The body of a request is the outcome of parsing it.\<close>

definition handleGetMiddlewareRequestInfo :: "'w server \<Rightarrow> MiddlewareReq res \<Rightarrow> ('w, MiddlewareRequestResp) prog" where
  "handleGetMiddlewareRequestInfo s body =
     seqc (lift body) (\<lambda>mwReq.
     seqc (call (Apr (ListMiddlewareRequests (rqNamespace mwReq))) (listMiddlewareRequests (srvApr s) (rqNamespace mwReq))) (\<lambda>middlewares.
     case find (\<lambda>m. mwApp (mrSpec m) = rqApp mwReq \<and> mwAppNamespace (mrSpec m) = rqAppNamespace mwReq \<and>
                  mwMiddleware (mrSpec m) = rqMiddleware mwReq) middlewares of
       None \<Rightarrow> fail (Failure ''middleware not found'')
     | Some m \<Rightarrow> getMiddlewareInfo (srvK8s s) mwReq m))"

text \<open>User, password and databases of a request. MariaDB and MySQL have no case.\<close>

definition plain_dbs :: "string list \<Rightarrow> Database list" where
  "plain_dbs names = map (\<lambda>name. \<lparr>dbName = name, dbDistributed = False\<rparr>) names"

definition request_account :: "'w k8s \<Rightarrow> MiddlewareRequest \<Rightarrow> ('w, string \<times> string \<times> Database list) prog" where
  "request_account k m =
     (let spec = mrSpec m; ns = mwAppNamespace spec;
          account = (\<lambda>user var dbs. seqc (GetVarValue k var (metaNamespace (mrMeta m))) (\<lambda>pwd. ret (user, pwd, dbs))) in
      case mwMiddleware spec of
        TypeMongoDB \<Rightarrow> account (mongoUser (mwMongoDB spec)) (mongoPassword (mwMongoDB spec))
          (plain_dbs (map mongoDbName (mongoDatabases (mwMongoDB spec))))
      | TypePostgreSQL \<Rightarrow> account (psqlUser (mwPostgreSQL spec)) (psqlPassword (mwPostgreSQL spec))
          (map (\<lambda>d. \<lparr>dbName = cdbName d, dbDistributed = IsDistributed d\<rparr>) (psqlDatabases (mwPostgreSQL spec)))
      | TypeRedis \<Rightarrow> account [] (redisPassword (mwRedis spec)) (plain_dbs [redisNamespace (mwRedis spec)])
      | TypeZinc \<Rightarrow> account (zincUser (mwZinc spec)) (zincPassword (mwZinc spec))
          (plain_dbs (map (GetIndexName_zinc ns) (zincIndexes (mwZinc spec))))
      | TypeMinio \<Rightarrow> account (minioUser (mwMinio spec)) (minioPassword (mwMinio spec))
          (plain_dbs (map (GetBucketName ns) (minioBuckets (mwMinio spec))))
      | TypeRabbitMQ \<Rightarrow> account (rabbitUser (mwRabbitMQ spec)) (rabbitPassword (mwRabbitMQ spec))
          (plain_dbs (map (GetVhostName ns) (rabbitVhosts (mwRabbitMQ spec))))
      | TypeElasticsearch \<Rightarrow> account (esUser (mwElasticsearch spec)) (esPassword (mwElasticsearch spec))
          (plain_dbs (map (GetIndexName ns) (esIndexes (mwElasticsearch spec))))
      | TypeNats \<Rightarrow> account (natsUser (mwNats spec)) (natsPassword (mwNats spec))
          (plain_dbs (map (\<lambda>s. ns @ ''.'' @ subjName s) (natsSubjects (mwNats spec))))
      | _ \<Rightarrow> ret ([], [], []))"

definition request_info :: "'w k8s \<Rightarrow> MiddlewareRequest \<Rightarrow> ('w, MiddlewareRequestInfo) prog" where
  "request_info k m = seqc (request_account k m) (\<lambda>(user, pwd, dbs).
     ret \<lparr>infMeta = \<lparr>miName = metaName (mrMeta m), miNamespace = metaNamespace (mrMeta m)\<rparr>,
       infApp = \<lparr>miName = mwApp (mrSpec m), miNamespace = mwAppNamespace (mrSpec m)\<rparr>,
       infUserName = user, infPassword = pwd, infType = mwMiddleware (mrSpec m), infDatabases = dbs\<rparr>)"

definition append_each :: "'a list \<Rightarrow> ('a \<Rightarrow> ('w, 'b list) prog) \<Rightarrow> ('w, 'b list) prog" where
  "append_each xs f = foldM (\<lambda>acc x. seqc (f x) (\<lambda>ys. ret (acc @ ys))) [] xs"

definition handleListMiddlewareRequests :: "'w server \<Rightarrow> string \<Rightarrow> ('w, MiddlewareRequestInfo list) prog" where
  "handleListMiddlewareRequests s queryType =
     seqc (call (Apr (ListMiddlewareRequests [])) (listMiddlewareRequests (srvApr s) [])) (\<lambda>middlewares.
     append_each (filter (\<lambda>m. queryType = [] \<or> type_string (mwMiddleware (mrSpec m)) = queryType) middlewares)
       (\<lambda>m. seqc (request_info (srvK8s s) m) (\<lambda>info. ret [info])))"

text \<open>A cluster of KubeBlocks with its administrator; its first component gives the size. \<open>skip\<close> tells
  whether a missing secret leaves the cluster out of the list.\<close>

definition first_replicas :: "KBItem \<Rightarrow> ('w, int) prog" where
  "first_replicas m = (case kbiReplicas m of [] \<Rightarrow> panic ''index out of range'' | r # _ \<Rightarrow> ret r)"

definition with_admin :: "bool \<Rightarrow> ('w, string \<times> string) prog \<Rightarrow> (string \<times> string \<Rightarrow> ('w, MiddlewareClusterResp) prog) \<Rightarrow>
    ('w, MiddlewareClusterResp list) prog" where
  "with_admin skip look resp = tryc look (\<lambda>admin. seqc (resp admin) (\<lambda>r. ret [r]))
     (\<lambda>e. if skip \<and> IsNotFound e then ret [] else fail e)"

definition kb_resp :: "bool \<Rightarrow> string \<Rightarrow> (string \<Rightarrow> ('w, string \<times> string) prog) \<Rightarrow> string \<Rightarrow> string \<Rightarrow> KBItem \<Rightarrow>
    ('w, MiddlewareClusterResp list) prog" where
  "kb_resp skip typ look tail port m = with_admin skip (look (kbiNamespace m)) (\<lambda>(user, pwd).
     seqc (first_replicas m) (\<lambda>replicas.
     ret ((cluster_resp typ (kbiName m) (kbiNamespace m) user pwd)\<lparr>
       crProxy := \<lparr>pxEndpoint = kbiName m @ tail @ kbiNamespace m @ '':'' @ port, pxSize = replicas\<rparr>\<rparr>)))"

definition mongo_resp :: "bool \<Rightarrow> 'w k8s \<Rightarrow> KBItem \<Rightarrow> ('w, MiddlewareClusterResp list) prog" where
  "mongo_resp everything k mdb = with_admin everything (FindMongoAdminUser k ''mongodb-middleware'') (\<lambda>(user, pwd).
     let px = \<lparr>pxEndpoint = kbiName mdb @ ''-mongodb-headless.'' @ kbiNamespace mdb @ '':27017'', pxSize = 1\<rparr>;
         r = (cluster_resp ''mongodb'' (kbiName mdb) (kbiNamespace mdb) user pwd)\<lparr>crNodes := 1\<rparr> in
     ret (if everything then r\<lparr>crProxy := px\<rparr> else r\<lparr>crMongos := px\<rparr>))"

definition minio_list :: "bool \<Rightarrow> 'w server \<Rightarrow> ('w, MiddlewareClusterResp list) prog" where
  "minio_list skip s = seqc (ListMinioClusters (srvDyn s)) (\<lambda>ms. append_each ms
     (kb_resp skip ''minio'' (FindMinioAdminUser (srvK8s s)) ''-minio-headless.'' ''9000''))"

definition rabbitmq_list :: "bool \<Rightarrow> 'w server \<Rightarrow> ('w, MiddlewareClusterResp list) prog" where
  "rabbitmq_list skip s = seqc (ListRabbitMQClusters (srvDyn s)) (\<lambda>ms. append_each ms
     (kb_resp skip ''rabbitmq'' (FindRabbitMQAdminUser (srvK8s s)) ''-rabbitmq-headless.'' ''5672''))"

definition elasticsearch_list :: "bool \<Rightarrow> ('w, KBItem list) prog \<Rightarrow> 'w server \<Rightarrow> ('w, MiddlewareClusterResp list) prog" where
  "elasticsearch_list skip clusters s = seqc clusters (\<lambda>ms. append_each ms
     (kb_resp skip ''elasticsearch'' (FindElasticsearchAdminUser (srvK8s s)) ''-mdit-http.'' ''9200''))"

definition mariadb_list :: "bool \<Rightarrow> 'w server \<Rightarrow> ('w, MiddlewareClusterResp list) prog" where
  "mariadb_list skip s = seqc (ListMariadbClusters (srvDyn s)) (\<lambda>ms. append_each ms
     (kb_resp skip ''mariadb'' (FindMariaDBAdminUser (srvK8s s)) ''-mariadb-headless.'' ''3306''))"

definition mysql_list :: "bool \<Rightarrow> 'w server \<Rightarrow> ('w, MiddlewareClusterResp list) prog" where
  "mysql_list skip s = seqc (ListMysqlClusters (srvDyn s)) (\<lambda>ms. append_each ms
     (kb_resp skip ''mysql'' (FindMysqlAdminUser (srvK8s s)) ''-mysql-headless.'' ''3306''))"

definition mongo_list :: "bool \<Rightarrow> 'w server \<Rightarrow> ('w, MiddlewareClusterResp list) prog" where
  "mongo_list everything s = seqc (ListMongoClusters (srvDyn s)) (\<lambda>ms. append_each ms (mongo_resp everything (srvK8s s)))"

definition redis_list :: "'w server \<Rightarrow> (RedixCluster \<Rightarrow> MiddlewareClusterResp \<Rightarrow> ('w, MiddlewareClusterResp) prog) \<Rightarrow>
    ('w, MiddlewareClusterResp list) prog" where
  "redis_list s fill = seqc (call (Svc (Cluster (ListRedixClusters []))) (listRedixClusters (srvClusters s) [])) (\<lambda>drcs.
     append_each drcs (\<lambda>drc. seqc (FindRedisClusterPassword (srvK8s s) (metaNamespace (rxMeta drc))) (\<lambda>pwd.
       seqc (fill drc (cluster_resp ''redis'' (metaName (rxMeta drc)) (metaNamespace (rxMeta drc)) [] pwd)) (\<lambda>r. ret [r]))))"

definition pg_list :: "'w server \<Rightarrow> (MiddlewareClusterResp \<Rightarrow> ('w, MiddlewareClusterResp) prog) \<Rightarrow> ('w, MiddlewareClusterResp list) prog" where
  "pg_list s fill = seqc (dyn (ListPGClusters []) (listPGClusters (srvDyn s) [])) (\<lambda>pgcs.
     append_each pgcs (\<lambda>pgc. seqc (GetPGClusterAdminUserAndPassword (srvK8s s) (srvApr s) (metaNamespace (pgMeta pgc))) (\<lambda>(user, pwd).
       seqc (fill ((cluster_resp ''postgres'' (metaName (pgMeta pgc)) (metaNamespace (pgMeta pgc)) user pwd)\<lparr>
         crNodes := pgReplicas (pgSpec pgc)\<rparr>)) (\<lambda>r. ret [r]))))"

text \<open>For Elasticsearch this handler lists the clusters of RabbitMQ.\<close>

definition handleListMiddlewares :: "'w server \<Rightarrow> string \<Rightarrow> ('w, MiddlewareClusterResp list) prog" where
  "handleListMiddlewares s middleware =
     (if middleware = ''redis'' then redis_list s (\<lambda>drc r. ret (r\<lparr>crRedisProxy :=
        \<lparr>pxEndpoint = RedisClusterService @ ''.'' @ metaNamespace (rxMeta drc) @ '':'' @ Itoa 6379, pxSize = 0\<rparr>\<rparr>))
      else if middleware = ''mongodb'' then mongo_list False s
      else if middleware = ''postgres'' then pg_list s ret
      else if middleware = ''minio'' then minio_list False s
      else if middleware = ''rabbitmq'' then rabbitmq_list False s
      else if middleware = ''elasticsearch'' then elasticsearch_list False (ListRabbitMQClusters (srvDyn s)) s
      else if middleware = ''mariadb'' then mariadb_list False s
      else if middleware = ''mysql'' then mysql_list False s
      else fail (Failure ''Not Found''))"

text \<open>\<open>username.(string)\<close> panics when the value is missing.\<close>

definition of_user :: "string option \<Rightarrow> string \<Rightarrow> string \<Rightarrow> MiddlewareClusterResp \<Rightarrow> ('w, MiddlewareClusterResp) prog" where
  "of_user username service port r = (case username of None \<Rightarrow> panic ''interface conversion''
     | Some u \<Rightarrow> ret (r\<lparr>crProxy := \<lparr>pxEndpoint = service @ ''.user-system-'' @ u @ '':'' @ port, pxSize = 0\<rparr>\<rparr>))"

definition nats_resp :: "string \<times> string \<Rightarrow> MiddlewareClusterResp" where
  "nats_resp admin = (cluster_resp ''nats'' ''nats'' PlatformNamespace (fst admin) (snd admin))\<lparr>
     crProxy := \<lparr>pxEndpoint = ''nats.'' @ PlatformNamespace @ '':4222'', pxSize = 0\<rparr>\<rparr>"

definition handleListMiddlewaresAll :: "'w server \<Rightarrow> string option \<Rightarrow> ('w, MiddlewareClusterResp list) prog" where
  "handleListMiddlewaresAll s username =
     append_each
       [redis_list s (\<lambda>drc. of_user username RedisClusterService ''6379''), mongo_list True s,
        pg_list s (of_user username ''citus-master-svc'' ''5432''), minio_list True s, rabbitmq_list True s,
        elasticsearch_list True (ListRabbitMQClusters_es (srvDyn s)) s, mariadb_list True s, mysql_list True s,
        seqc (FindNatsAdminUser (srvK8s s)) (\<lambda>admin. ret [nats_resp admin])]
       (\<lambda>part. part)"

definition PGCluster_get :: "'w server \<Rightarrow> MetaInfo \<Rightarrow> ('w, PGCluster) prog" where
  "PGCluster_get s meta = call (Apr (GetPGCluster (miNamespace meta) (miName meta))) (getPGCluster (srvApr s) (miNamespace meta) (miName meta))"

definition handleScaleMiddleware :: "'w server \<Rightarrow> ClusterScaleReq res \<Rightarrow> ('w, unit) prog" where
  "handleScaleMiddleware s body = seqc (lift body) (\<lambda>scaleReq.
     let meta = csMeta scaleReq in
     case csMiddleware scaleReq of
       TypeMongoDB \<Rightarrow> ScalePerconaMongoNodes (srvDyn s) (miName meta) (miNamespace meta) (csNodes scaleReq)
     | TypeRedis \<Rightarrow> ScaleRedisClusterNodes (srvDyn s) (miName meta) (miNamespace meta) (csNodes scaleReq)
     | TypePostgreSQL \<Rightarrow> seqc (PGCluster_get s meta) (\<lambda>pgc.
         if pgReplicas (pgSpec pgc) > csNodes scaleReq then fail (Failure ''Not Implemented'')
         else let pgc = pgc\<lparr>pgSpec := (pgSpec pgc)\<lparr>pgReplicas := csNodes scaleReq\<rparr>\<rparr> in
           dyn (UpdatePGCluster pgc) (updatePGCluster (srvDyn s) pgc))
     | _ \<Rightarrow> fail (Failure ''Not Implemented''))"

definition changed_credentials :: "ClusterChangePwdReq \<Rightarrow> PGCluster \<Rightarrow> PGCluster" where
  "changed_credentials req pgc = pgc\<lparr>pgSpec := (pgSpec pgc)\<lparr>
     pgAdminUser := (if cpUser req \<noteq> [] then cpUser req else pgAdminUser (pgSpec pgc)),
     pgPassword := \<lparr>pwValue = cpPassword req, pwValueFrom = None\<rparr>\<rparr>\<rparr>"

definition handleUpdateMiddlewareAdminPassword :: "'w server \<Rightarrow> ClusterChangePwdReq res \<Rightarrow> ('w, unit) prog" where
  "handleUpdateMiddlewareAdminPassword s body = seqc (lift body) (\<lambda>req.
     if cpPassword req = [] then fail (Failure ''Not Acceptable'')
     else case cpMiddleware req of
       TypePostgreSQL \<Rightarrow> seqc (PGCluster_get s (cpMeta req)) (\<lambda>pgc.
         let pgc = changed_credentials req pgc in dyn (UpdatePGCluster pgc) (updatePGCluster (srvDyn s) pgc))
     | _ \<Rightarrow> fail (Failure ''Not Implemented''))"

section \<open>The checks (pkg/app/middleware, pkg/kubesphere)\<close>

definition UserAnnotationOwnerRole :: string where "UserAnnotationOwnerRole = ''bytetrade.io/owner-role''"
definition UserAnnotationZoneKey_ks :: string where "UserAnnotationZoneKey_ks = ''bytetrade.io/zone''"

definition GetUser :: "'w dyn \<Rightarrow> string \<Rightarrow> ('w, string) prog" where
  "GetUser d username = seqc (dyn (GetKSUser username) (getKSUser d username)) (\<lambda>data. lift (ksEmail data))"

definition GetUserAnnotation :: "'w dyn \<Rightarrow> string \<Rightarrow> string \<Rightarrow> ('w, string) prog" where
  "GetUserAnnotation d username annotation = seqc (dyn (GetKSUser username) (getKSUser d username)) (\<lambda>data.
     case lookup (ksAnnotations data) annotation of
       None \<Rightarrow> fail (Failure (''user annotation '' @ annotation @ '' not found''))
     | Some a \<Rightarrow> ret a)"

definition GetUserRole :: "'w dyn \<Rightarrow> string \<Rightarrow> ('w, string) prog" where
  "GetUserRole d username = GetUserAnnotation d username UserAnnotationOwnerRole"

definition GetUserZone :: "'w dyn \<Rightarrow> string \<Rightarrow> ('w, string) prog" where
  "GetUserZone d username = GetUserAnnotation d username UserAnnotationZoneKey_ks"

text \<open>A refusal is an answer with a code, not an error of the handler. The name and the mail address of
  the user go into the context of the request; the operator reads the name only.\<close>

datatype 'a answer = Refused nat string | Answer 'a

definition GetUserInfo :: "'w dyn \<Rightarrow> string \<Rightarrow> (string \<Rightarrow> string \<Rightarrow> ('w, 'a answer) prog) \<Rightarrow> ('w, 'a answer) prog" where
  "GetUserInfo d userName next =
     (if userName = [] then ret (Refused 401 ''User name not found in header'')
      else tryc (GetUser d userName) (\<lambda>email. next userName email) (\<lambda>e. ret (Refused 401 (''User info error, '' @ Error e))))"

definition RequireAdmin :: "'w dyn \<Rightarrow> (string \<Rightarrow> ('w, 'a answer) prog) \<Rightarrow> string \<Rightarrow> ('w, 'a answer) prog" where
  "RequireAdmin d next user = tryc (GetUserRole d user)
     (\<lambda>role. if role \<noteq> ''owner'' \<and> role \<noteq> ''admin'' then ret (Refused 403 ''Must be platform admin'') else next user)
     (\<lambda>e. ret (Refused 500 (''User info error, '' @ Error e)))"

section \<open>The routes (server.go)\<close>

datatype endpoint =
    RequestInfo "MiddlewareReq res"
  | Requests string
  | ListKind string
  | ListAll
  | Scale_endpoint "ClusterScaleReq res"
  | Password_endpoint "ClusterChangePwdReq res"

datatype app_data =
    InfoData MiddlewareRequestResp
  | RequestsData "MiddlewareRequestInfo list"
  | ClustersData "MiddlewareClusterResp list"
  | Done_message string

definition answer :: "('w, 'a) prog \<Rightarrow> ('a \<Rightarrow> 'b) \<Rightarrow> ('w, 'b answer) prog" where
  "answer m f = seqc m (\<lambda>x. ret (Answer (f x)))"

text \<open>\<open>userName\<close> is the header \<open>X-Bfl-User\<close>. Only the information about a request is open to every user.\<close>

definition serve_endpoint :: "'w server \<Rightarrow> string \<Rightarrow> endpoint \<Rightarrow> ('w, app_data answer) prog" where
  "serve_endpoint s userName e = GetUserInfo (srvDyn s) userName (\<lambda>name _. (
     case e of
        RequestInfo body \<Rightarrow> (\<lambda>_. answer (handleGetMiddlewareRequestInfo s body) InfoData)
      | Requests q \<Rightarrow> RequireAdmin (srvDyn s) (\<lambda>_. answer (handleListMiddlewareRequests s q) RequestsData)
      | ListKind kind \<Rightarrow> RequireAdmin (srvDyn s) (\<lambda>_. answer (handleListMiddlewares s kind) ClustersData)
      | ListAll \<Rightarrow> RequireAdmin (srvDyn s) (\<lambda>u. answer (handleListMiddlewaresAll s (Some u)) ClustersData)
      | Scale_endpoint body \<Rightarrow> RequireAdmin (srvDyn s) (\<lambda>_. answer (handleScaleMiddleware s body) (\<lambda>_. Done_message ''scale success''))
      | Password_endpoint body \<Rightarrow> RequireAdmin (srvDyn s)
          (\<lambda>_. answer (handleUpdateMiddlewareAdminPassword s body) (\<lambda>_. Done_message ''update success''))) name)"

end
