(* ===== verification/Results.thy ===== *)
theory Results
  imports Prelude
begin

text \<open>Results of programs. \<open>yields P m\<close>: a normal return of \<open>m\<close> gives a value that satisfies \<open>P\<close>. What follows a statement
  need only be considered for such values.\<close>

definition yields :: "('a \<Rightarrow> bool) \<Rightarrow> ('c, 'w, 'a) io \<Rightarrow> bool" where
  "yields P m = (\<forall>s x s'. m s = (Val x, s') \<longrightarrow> P x)"

lemma yieldsI: "(\<And>s x s'. m s = (Val x, s') \<Longrightarrow> P x) \<Longrightarrow> yields P m"
  unfolding yields_def by blast

lemma yieldsD: "yields P m \<Longrightarrow> m s = (Val x, s') \<Longrightarrow> P x"
  unfolding yields_def by blast

lemma yields_ret: "P x \<Longrightarrow> yields P (ret x)"
  and yields_fail: "yields P (fail e)"
  and yields_panic: "yields P (panic p)"
  and yields_looping: "yields P looping"
  by (auto simp: yields_def ret_def fail_def panic_def looping_def)

lemma yields_lift: "(\<And>x. r = Val x \<Longrightarrow> P x) \<Longrightarrow> yields P (lift r)"
  by (auto simp: yields_def lift_def)

lemma yields_call: "(\<And>w x w'. f w = (Val x, w') \<Longrightarrow> P x) \<Longrightarrow> yields P (call c f)"
  by (auto simp: yields_def call_def split: prod.splits)

lemma yields_seqc:
  assumes "yields Q m" "\<And>x. Q x \<Longrightarrow> yields P (f x)"
  shows "yields P (seqc m f)"
proof (rule yieldsI)
  fix s y s'
  assume "seqc m f s = (Val y, s')"
  then obtain x s0 where "m s = (Val x, s0)" "f x s0 = (Val y, s')" using seqc_Val by fast
  with yieldsD [OF assms(1)] yieldsD [OF assms(2)] show "P y" by blast
qed

lemma yields_tryc:
  assumes "yields Q m" "\<And>x. Q x \<Longrightarrow> yields P (f x)" "\<And>e. yields P (h e)"
  shows "yields P (tryc m f h)"
proof (rule yieldsI)
  fix s y s'
  assume run: "tryc m f h s = (Val y, s')"
  obtain r s0 where m: "m s = (r, s0)" by (cases "m s")
  show "P y"
  proof (cases r)
    case (Val x)
    then have "f x s0 = (Val y, s')" "Q x" using run m yieldsD [OF assms(1)] by (auto simp: tryc_def)
    then show ?thesis using yieldsD [OF assms(2)] by blast
  next
    case (Err e)
    then have "h e s0 = (Val y, s')" using run m by (simp add: tryc_def)
    then show ?thesis by (rule yieldsD [OF assms(3)])
  qed (use run m in \<open>auto simp: tryc_def\<close>)
qed

lemma yields_foldM:
  assumes "P b" "\<And>b x. P b \<Longrightarrow> x \<in> set xs \<Longrightarrow> yields P (f b x)"
  shows "yields P (foldM f b xs)"
  using assms
proof (induction xs arbitrary: b)
  case (Cons x xs)
  have "yields P (f b x)" using Cons.prems by simp
  then show ?case using Cons by (auto intro!: yields_seqc)
qed (simp add: yields_ret)

lemma yields_deferc:
  assumes "yields P m"
  shows "yields P (deferc m d)"
proof (rule yieldsI)
  fix s x s'
  assume run: "deferc m d s = (Val x, s')"
  obtain r0 s0 where m: "m s = (r0, s0)" by (cases "m s")
  with run have "r0 = Val x" by (auto simp: deferc_def split: if_splits prod.splits)
  with yieldsD [OF assms] m show "P x" by blast
qed

lemma emits_seqc_yields:
  assumes "emits S m" "yields Q m" "\<And>x. Q x \<Longrightarrow> emits S (f x)"
  shows "emits S (seqc m f)"
  unfolding emits_def
proof (intro allI impI)
  fix s r s'
  assume run: "seqc m f s = (r, s')"
  obtain r0 s0 where m: "m s = (r0, s0)" by (cases "m s")
  obtain cs where cs: "snd s0 = snd s @ cs" "list_all S cs" using emitsD [OF assms(1) m] by blast
  show "\<exists>cs. snd s' = snd s @ cs \<and> list_all S cs"
  proof (cases r0)
    case (Val x)
    then have "f x s0 = (r, s')" "Q x" using run m yieldsD [OF assms(2)] by (auto simp: seqc_def)
    then obtain ds where "snd s' = snd s0 @ ds" "list_all S ds" using emitsD [OF assms(3)] by blast
    then show ?thesis using cs by auto
  qed (use run m cs in \<open>auto simp: seqc_def\<close>)
qed

lemma emits_tryc_yields:
  assumes "emits S m" "yields Q m" "\<And>x. Q x \<Longrightarrow> emits S (f x)" "\<And>e. emits S (h e)"
  shows "emits S (tryc m f h)"
  unfolding emits_def
proof (intro allI impI)
  fix s r s'
  assume run: "tryc m f h s = (r, s')"
  obtain r0 s0 where m: "m s = (r0, s0)" by (cases "m s")
  obtain cs where cs: "snd s0 = snd s @ cs" "list_all S cs" using emitsD [OF assms(1) m] by blast
  have ext: "\<exists>cs. snd s' = snd s @ cs \<and> list_all S cs" if "g s0 = (r, s')" "emits S g" for g
    using emitsD [OF that(2) that(1)] cs by auto
  show "\<exists>cs. snd s' = snd s @ cs \<and> list_all S cs"
  proof (cases r0)
    case (Val x)
    then have "f x s0 = (r, s')" "Q x" using run m yieldsD [OF assms(2)] by (auto simp: tryc_def)
    then show ?thesis using assms(3) ext by blast
  next
    case (Err e)
    then show ?thesis using run m assms(4) by (auto simp: tryc_def intro: ext)
  qed (use run m cs in \<open>auto simp: tryc_def\<close>)
qed

lemma emits_foldM_yields:
  assumes "P b" "\<And>b x. P b \<Longrightarrow> x \<in> set xs \<Longrightarrow> yields P (f b x)" "\<And>b x. P b \<Longrightarrow> x \<in> set xs \<Longrightarrow> emits S (f b x)"
  shows "emits S (foldM f b xs)"
  using assms
proof (induction xs arbitrary: b)
  case (Cons x xs)
  have "yields P (f b x)" "emits S (f b x)" using Cons.prems by simp_all
  then show ?case using Cons by (auto intro!: emits_seqc_yields)
qed (simp add: emits_ret)

lemma yields_True: "yields (\<lambda>_. True) m"
  by (simp add: yields_def)

lemma yields_mono: "yields P m \<Longrightarrow> (\<And>x. P x \<Longrightarrow> Q x) \<Longrightarrow> yields Q m"
  unfolding yields_def by blast

end
