(* ===== verification/App_Proofs.thy ===== *)
theory App_Proofs
  imports Middleware_App Controllers_Proofs Results
begin

text \<open>Properties of the HTTP side of the operator: who gets past the checks, and that what an
  application is told about its request is what the controller has set up for it.\<close>

section \<open>Only administrators\<close>

fun user_read :: "call \<Rightarrow> bool" where
  "user_read (Svc (Dyn (GetKSUser _))) = True"
| "user_read _ = False"

definition is_admin :: "'w dyn \<Rightarrow> string \<Rightarrow> bool" where
  "is_admin d user = (\<exists>v v' ks role. getKSUser d user v = (Val ks, v') \<and>
     lookup (ksAnnotations ks) UserAnnotationOwnerRole = Some role \<and> role \<in> {''owner'', ''admin''})"

lemma reads_user: "emits user_read (GetUser d u)" "emits user_read (GetUserRole d u)"
  unfolding GetUser_def GetUserRole_def GetUserAnnotation_def dyn_def
  by (auto intro!: emits_intros split: option.splits)

lemma yields_GetUserRole:
  "yields (\<lambda>role. \<exists>v v' ks. getKSUser d u v = (Val ks, v') \<and> lookup (ksAnnotations ks) UserAnnotationOwnerRole = Some role)
     (GetUserRole d u)"
  unfolding GetUserRole_def GetUserAnnotation_def dyn_def
  by (rule yields_seqc [where Q = "\<lambda>ks. \<exists>v v'. getKSUser d u v = (Val ks, v')"])
     (auto intro!: yields_call yields_ret yields_fail split: option.splits)

text \<open>Without the role, nothing but the user is read and the request is refused.\<close>

lemma RequireAdmin_refuses:
  assumes "\<not> is_admin d u"
  shows "emits user_read (RequireAdmin d next u)"
  unfolding RequireAdmin_def
proof (rule emits_tryc_yields [OF reads_user(2) yields_GetUserRole])
  fix role
  assume "\<exists>v v' ks. getKSUser d u v = (Val ks, v') \<and> lookup (ksAnnotations ks) UserAnnotationOwnerRole = Some role"
  with assms have "role \<noteq> ''owner'' \<and> role \<noteq> ''admin''" by (auto simp: is_admin_def)
  then show "emits user_read (if role \<noteq> ''owner'' \<and> role \<noteq> ''admin'' then ret (Refused 403 ''Must be platform admin'') else next u)"
    by (simp add: emits_ret)
qed (rule emits_ret)

text \<open>C12. Only administrators get past the checks: if a request to any endpoint but the one about a
  single middleware request causes a call other than reading a user, then it named a user in
  its header, and the platform gave that user the role of an owner or administrator.\<close>

theorem admin_only:
  assumes "serve_endpoint srv userName e s = (r, s')" "snd s' = snd s @ cs" "\<And>body. e \<noteq> RequestInfo body"
    and "c \<in> set cs" "\<And>u. c \<noteq> Svc (Dyn (GetKSUser u))"
  shows "userName \<noteq> [] \<and> (\<exists>v v' ks role. getKSUser (srvDyn srv) userName v = (Val ks, v') \<and>
     lookup (ksAnnotations ks) ''bytetrade.io/owner-role'' = Some role \<and> role \<in> {''owner'', ''admin''})"
proof (rule ccontr)
  assume "\<not> ?thesis"
  then have no: "userName = [] \<or> \<not> is_admin (srvDyn srv) userName"
    unfolding is_admin_def UserAnnotationOwnerRole_def by blast
  have "emits user_read (serve_endpoint srv userName e)"
  proof (cases "userName = []")
    case True
    then show ?thesis by (simp add: serve_endpoint_def GetUserInfo_def emits_ret)
  next
    case False
    then have "\<not> is_admin (srvDyn srv) userName" using no by simp
    then show ?thesis
      using assms(3) unfolding serve_endpoint_def GetUserInfo_def
      by (cases e) (auto intro!: emits_intros reads_user RequireAdmin_refuses)
  qed
  from emitsD [OF this assms(1)] assms(2,4) have "user_read c" by (auto simp: list_all_iff)
  with assms(5) show False by (cases c rule: user_read.cases) auto
qed

definition demo_ks_user :: "string \<Rightarrow> KSUser" where
  "demo_ks_user role = \<lparr>ksEmail = Val ''a@b'', ksAnnotations = [(''bytetrade.io/owner-role'', role)]\<rparr>"

definition demo_server :: "unit server" where
  "demo_server = \<lparr>srvK8s = idle_k8s, srvApr = idle_apr,
     srvClusters = \<lparr>listRedixClusters = denied, listDistributedRedisClusters = denied, getConfigMap = (\<lambda>_. denied),
       updateConfigMap = (\<lambda>_ _. denied), getDeployment = (\<lambda>_. denied), updateDeployment = (\<lambda>_ _. denied),
       getKBCluster = (\<lambda>_. denied)\<rparr>,
     srvDyn = idle_dyn\<lparr>getKSUser := ok (demo_ks_user ''admin'')\<rparr>\<rparr>"

theorem admin_only_witness:
  "Apr (ListMiddlewareRequests []) \<in> set (snd (snd (serve_endpoint demo_server ''alice'' (Requests []) ((), [])))) \<and>
   (\<exists>v v' ks role. getKSUser (srvDyn demo_server) ''alice'' v = (Val ks, v') \<and>
     lookup (ksAnnotations ks) ''bytetrade.io/owner-role'' = Some role \<and> role \<in> {''owner'', ''admin''})"
proof -
  have run: "serve_endpoint demo_server ''alice'' (Requests []) ((), []) =
    (Err (Failure ''denied''), ((), [Svc (Dyn (GetKSUser ''alice'')), Svc (Dyn (GetKSUser ''alice'')), Apr (ListMiddlewareRequests [])]))"
    by (simp add: serve_endpoint_def GetUserInfo_def RequireAdmin_def GetUser_def GetUserRole_def GetUserAnnotation_def dyn_def
      demo_server_def demo_ks_user_def UserAnnotationOwnerRole_def answer_def handleListMiddlewareRequests_def io_defs idle_defs idle_dyn_def)
  show ?thesis
    using admin_only [OF run, of _ "Apr (ListMiddlewareRequests [])"] run by auto
qed

section \<open>What is promised has been set up\<close>

text \<open>\<open>attains P m\<close>: a normal return of \<open>m\<close> leaves a call that satisfies \<open>P\<close>.\<close>

definition attains :: "(call \<Rightarrow> bool) \<Rightarrow> ('w, 'a) prog \<Rightarrow> bool" where
  "attains P m = (\<forall>s x s'. m s = (Val x, s') \<longrightarrow> (\<exists>c \<in> set (snd s'). P c))"

lemma attainsI: "(\<And>s x s'. m s = (Val x, s') \<Longrightarrow> \<exists>c \<in> set (snd s'). P c) \<Longrightarrow> attains P m"
  unfolding attains_def by blast

lemma attainsD: "attains P m \<Longrightarrow> m s = (Val x, s') \<Longrightarrow> \<exists>c \<in> set (snd s'). P c"
  unfolding attains_def by blast

lemma attains_call: "P c \<Longrightarrow> attains P (call c f)"
  by (rule attainsI) (auto simp: call_def split: prod.splits)

lemma attains_first:
  assumes "attains P m" "\<And>x. grows (f x)"
  shows "attains P (seqc m f)"
proof (rule attainsI)
  fix s y s'
  assume "seqc m f s = (Val y, s')"
  then obtain x s0 where m: "m s = (Val x, s0)" "f x s0 = (Val y, s')" using seqc_Val by fast
  from attainsD [OF assms(1) m(1)] grows_subset [OF assms(2) m(2)] show "\<exists>c \<in> set (snd s'). P c" by blast
qed

lemma attains_then: "(\<And>x. attains P (f x)) \<Longrightarrow> attains P (seqc m f)"
  unfolding attains_def using seqc_Val by fast

lemma attains_deferc: "attains P m \<Longrightarrow> grows d \<Longrightarrow> attains P (deferc m d)"
proof (rule attainsI)
  fix s x s'
  assume m: "attains P m" and d: "grows d" and run: "deferc m d s = (Val x, s')"
  obtain r0 s0 where r: "m s = (r0, s0)" by (cases "m s")
  obtain r1 s1 where r1: "d s0 = (r1, s1)" by (cases "d s0")
  have eq: "m s = (Val x, s0)" "s1 = s'" using run r r1 by (auto simp: deferc_def)
  from attainsD [OF m eq(1)] grows_subset [OF d r1] eq(2) show "\<exists>c \<in> set (snd s'). P c" by blast
qed

lemma attains_forM:
  assumes "y \<in> set xs" "attains P (f y)" "\<And>x. grows (f x)"
  shows "attains P (forM xs f)"
  using assms(1)
proof (induction xs)
  case (Cons x xs)
  have "grows (forM xs f)" using assms(3) by (intro emits_forM)
  then show ?case
    using Cons assms(2) by (cases "y = x") (auto intro: attains_first attains_then)
qed simp

lemma wrap_Val: "wrapw p m s = (Val x, s') \<Longrightarrow> m s = (Val x, s')" "wrapv p m s = (Val x, s') \<Longrightarrow> m s = (Val x, s')"
  unfolding wrapw_def wrapv_def tryc_def by (auto simp: ret_def fail_def split: prod.splits res.splits)

lemma attains_wrap: "attains P m \<Longrightarrow> attains P (wrapw p m)" "attains P m \<Longrightarrow> attains P (wrapv p m)"
  unfolding attains_def using wrap_Val by fast+

text \<open>The names that a request asks for, the part of the answer that has the real names, and the
  calls that give the user of the request access to what has a real name.\<close>

definition requested :: "MiddlewareRequest \<Rightarrow> string list" where
  "requested m = (let spec = mrSpec m in case mwMiddleware spec of
      TypeMongoDB \<Rightarrow> map mongoDbName (mongoDatabases (mwMongoDB spec))
    | TypeMinio \<Rightarrow> minioBuckets (mwMinio spec)
    | TypeRabbitMQ \<Rightarrow> rabbitVhosts (mwRabbitMQ spec)
    | TypeElasticsearch \<Rightarrow> esIndexes (mwElasticsearch spec)
    | TypeMariaDB \<Rightarrow> mariaDatabases (mwMariaDB spec)
    | TypeMysql \<Rightarrow> mysqlDatabases (mwMysql spec)
    | _ \<Rightarrow> [])"

definition promised :: "MiddlewareType \<Rightarrow> MiddlewareRequestResp \<Rightarrow> (string \<times> string) list" where
  "promised t resp = (case (case t of TypeMinio \<Rightarrow> rspBuckets resp | TypeRabbitMQ \<Rightarrow> rspVhosts resp
      | TypeElasticsearch \<Rightarrow> rspIndexes resp | _ \<Rightarrow> rspDatabases resp) of None \<Rightarrow> [] | Some m \<Rightarrow> m)"

definition grants_access :: "MiddlewareType \<Rightarrow> string \<Rightarrow> string \<Rightarrow> call \<Rightarrow> bool" where
  "grants_access t user real c = (case t of
      TypeMongoDB \<Rightarrow> (\<exists>pwd roles. real \<in> set roles \<and>
        (c = Svc (Mongo (MongoCreateUser real user pwd roles)) \<or> c = Svc (Mongo (MongoUpdateUser real user pwd roles))))
    | TypeMinio \<Rightarrow> (\<exists>policy st. c = Svc (Minio_svc (AddCannedPolicy (policy_name user) policy)) \<and> st \<in> set policy \<and>
        psEffect st = ''Allow'' \<and> psAction st = OneAction ''s3:*'' \<and> {arn real, arn (real @ ''/*'')} \<subseteq> set (psResource st))
    | TypeRabbitMQ \<Rightarrow> c = Svc (Rabbit (UpdatePermissionsIn real user))
    | TypeElasticsearch \<Rightarrow> (\<exists>names. c = Svc (Es (SecurityPutRole (role_name user) (role_body names))) \<and> real \<in> set names)
    | _ \<Rightarrow> (\<exists>dsn. c = Sql (Exec dsn (''GRANT ALL PRIVILEGES ON '' @ backquoted real @ ''.* TO '' @ backquoted user))))"

lemma lookup_real_names: "lookup (real_names f xs) x = (if x \<in> set xs then Some (f x) else None)"
proof -
  have "lookup (foldl (\<lambda>m n. AList.update n (f n) m) acc xs) x = (if x \<in> set xs then Some (f x) else lookup acc x)" for acc
    by (induction xs arbitrary: acc) (auto simp: update_conv)
  then show ?thesis by (simp add: real_names_def)
qed

subsection \<open>The controllers give access\<close>

lemma grows_db: "grows (Exec_db q dsn x)" "grows (Close_db q dsn)" "grows (Open_db q dsn)"
  unfolding Exec_db_def Close_db_def Open_db_def by (auto intro: emits_intros)

lemma attains_grant_databases:
  assumes "real \<in> set dbs" "t = TypeMariaDB \<or> t = TypeMysql"
  shows "attains (grants_access t user real) (grant_databases q dsn user pwd dbs)"
proof -
  have "attains (grants_access t user real)
      (Exec_db q dsn (''GRANT ALL PRIVILEGES ON '' @ backquoted real @ ''.* TO '' @ backquoted user))"
    using assms(2) unfolding Exec_db_def by (intro attains_call) (auto simp: grants_access_def)
  then show ?thesis
    unfolding grant_databases_def
    by (intro attains_then attains_first attains_forM [OF assms(1)]) (auto intro!: emits_intros grows_db)
qed

lemma attains_mariadb:
  assumes "name \<in> set (mariaDatabases (mwMariaDB (mrSpec m)))"
  shows "attains (grants_access TypeMariaDB (mariaUser (mwMariaDB (mrSpec m))) (GetDatabaseName_mariadb (mwAppNamespace (mrSpec m)) name))
    (createOrUpdateMariaDBRequest k q m)"
  unfolding createOrUpdateMariaDBRequest_def Let_def
  by (intro attains_then attains_deferc attains_grant_databases grows_db) (use assms in auto)

lemma attains_mysql:
  assumes "name \<in> set (mysqlDatabases (mwMysql (mrSpec m)))"
  shows "attains (grants_access TypeMysql (mysqlUser (mwMysql (mrSpec m))) (GetDatabaseName_mysql (mwAppNamespace (mrSpec m)) name))
    (createOrUpdateMysqlRequest k q m)"
  unfolding createOrUpdateMysqlRequest_def Let_def
  by (intro attains_then attains_deferc attains_grant_databases grows_db) (use assms in auto)

lemma attains_rabbit:
  assumes "name \<in> set (rabbitVhosts (mwRabbitMQ (mrSpec m)))"
  shows "attains (grants_access TypeRabbitMQ (rabbitUser (mwRabbitMQ (mrSpec m))) (GetVhostName (mwAppNamespace (mrSpec m)) name))
    (createOrUpdateRabbitMQRequest k r m)"
proof -
  have a: "grows (put_answer msg resp)" for msg resp
    by (auto simp: put_answer_def intro!: emits_intros split: prod.splits)
  have g: "grows (seqc (ensureRabbitVhost r v) (\<lambda>_. setRabbitPermissions r u v))" for u v
    unfolding ensureRabbitVhost_def setRabbitPermissions_def rabbit_do_def wrapv_def by (intro emits_intros a) simp_all
  have p: "attains (grants_access TypeRabbitMQ u v) (setRabbitPermissions r u v)" for u v
    unfolding setRabbitPermissions_def rabbit_do_def
    by (intro attains_first attains_wrap attains_call a) (simp add: grants_access_def)
  show ?thesis
    unfolding createOrUpdateRabbitMQRequest_def Let_def
    by (intro attains_then attains_forM [where y = "GetVhostName (mwAppNamespace (mrSpec m)) name"] g p) (use assms in simp)
qed

lemma attains_minio:
  assumes "name \<in> set (minioBuckets (mwMinio (mrSpec m)))"
  shows "attains (grants_access TypeMinio (minioUser (mwMinio (mrSpec m))) (GetBucketName (mwAppNamespace (mrSpec m)) name))
    (createOrUpdateMinioRequest k mo m)"
proof -
  let ?buckets = "map (GetBucketName (mwAppNamespace (mrSpec m))) (minioBuckets (mwMinio (mrSpec m)))"
  have "attains (grants_access TypeMinio (minioUser (mwMinio (mrSpec m))) (GetBucketName (mwAppNamespace (mrSpec m)) name))
      (setBucketPolicyForUser mo ?buckets m)"
    unfolding setBucketPolicyForUser_def Let_def
  proof (intro attains_first attains_wrap attains_call)
    show "grows (wrapv p (call c f))" for p c f by (auto simp: wrapv_def intro!: emits_intros)
    have "{arn b, arn (b @ ''/*'')} \<subseteq> set (concat (map (\<lambda>b. [arn b, arn (b @ ''/*'')]) ?buckets))" if "b \<in> set ?buckets" for b
      using that by auto
    then show "grants_access TypeMinio (minioUser (mwMinio (mrSpec m))) (GetBucketName (mwAppNamespace (mrSpec m)) name)
        (Svc (Minio_svc (AddCannedPolicy (policy_name (minioUser (mwMinio (mrSpec m)))) (bucket_statements ?buckets m))))"
      unfolding grants_access_def bucket_statements_def using assms by fastforce
  qed
  then show ?thesis
    unfolding createOrUpdateMinioRequest_def Let_def by (intro attains_then attains_wrap)
qed

lemma attains_elasticsearch:
  assumes "name \<in> set (esIndexes (mwElasticsearch (mrSpec m)))"
  shows "attains (grants_access TypeElasticsearch (esUser (mwElasticsearch (mrSpec m))) (GetIndexName (mwAppNamespace (mrSpec m)) name))
    (createOrUpdateElasticsearchRequest k es m)"
proof -
  have g: "grows (es_check msg res)" for msg res by (auto simp: es_check_def intro!: emits_intros)
  have "attains (grants_access TypeElasticsearch u (GetIndexName (mwAppNamespace (mrSpec m)) name)) (esPutRole es (role_name u)
      (map (GetIndexName (mwAppNamespace (mrSpec m))) (esIndexes (mwElasticsearch (mrSpec m))) @ rest))" for u rest
    unfolding esPutRole_def es_do_def
    by (intro attains_first attains_call g) (use assms in \<open>auto simp: grants_access_def\<close>)
  then have tail: "attains (grants_access TypeElasticsearch u (GetIndexName (mwAppNamespace (mrSpec m)) name)) (seqc (esPutRole es (role_name u)
      (map (GetIndexName (mwAppNamespace (mrSpec m))) (esIndexes (mwElasticsearch (mrSpec m))) @ rest)) (\<lambda>_. esPutUserRole es u (role_name u)))" for u rest
    by (rule attains_first) (auto simp: esPutUserRole_def es_do_def intro!: emits_intros g)
  show ?thesis
    unfolding createOrUpdateElasticsearchRequest_def Let_def
    by (intro tail attains_then)
qed

lemma attains_mongo:
  assumes "name \<in> set (map mongoDbName (mongoDatabases (mwMongoDB (mrSpec m))))"
  shows "attains (grants_access TypeMongoDB (mongoUser (mwMongoDB (mrSpec m))) (GetDatabaseName_mongo (mwAppNamespace (mrSpec m)) name))
    (createOrUpdateMDBRequest k cs mo m)"
proof -
  let ?dbs = "dbRealNames (mwAppNamespace (mrSpec m)) (mongoDatabases (mwMongoDB (mrSpec m)))"
  let ?real = "GetDatabaseName_mongo (mwAppNamespace (mrSpec m)) name"
  have "\<exists>db \<in> set ?dbs. mongoDbName db = ?real" using assms by (auto simp: dbRealNames_def)
  then obtain db where db: "db \<in> set ?dbs" "mongoDbName db = ?real" by blast
  have a: "grows (check_reply reply)" for reply
    by (auto simp: check_reply_def Let_def intro!: emits_intros split: ok_field.splits option.splits)
  have e: "grows (ExecuteScript_mongo mo c scripts n u)" for c scripts n u
    by (auto simp: ExecuteScript_mongo_def eval_mongo_def wrapv_def Let_def intro!: emits_intros)
  have tail: "grows (seqc (lift reply) (\<lambda>reply. seqc (check_reply reply) (\<lambda>_.
     if mongoDbScripts d \<noteq> [] then ExecuteScript_mongo mo c (mongoDbScripts d) (mongoDbName d) u else ret ())))" for reply d c u
    by (intro emits_intros a e)
  have g: "grows (create_mongo_user mo c u pwd roles d)" for c u pwd roles d
    unfolding create_mongo_user_def mongo_run_def by (intro emits_seqc emits_call tail TrueI)
  have one: "attains (grants_access TypeMongoDB u ?real) (create_mongo_user mo c u pwd (map mongoDbName ?dbs) db)" for c u pwd
  proof -
    have "?real \<in> mongoDbName ` set ?dbs" using db by (metis imageI)
    then show ?thesis
      unfolding create_mongo_user_def mongo_run_def
      by (intro attains_then attains_first tail attains_call) (simp add: grants_access_def db(2))
  qed
  have "?dbs \<noteq> []" using db(1) by auto
  then have "attains (grants_access TypeMongoDB u ?real) (CreateOrUpdateUserWithDatabase mo c u pwd ?dbs)" for c u pwd
    using one g by (auto simp: CreateOrUpdateUserWithDatabase_def intro!: attains_forM [OF db(1)])
  then show ?thesis
    unfolding createOrUpdateMDBRequest_def Let_def Close_mongo_def
    by (intro attains_then attains_deferc) (auto intro: emits_intros)
qed

subsection \<open>The answer names what the controllers set up\<close>

definition named_types :: "MiddlewareType set" where
  "named_types = {TypeMongoDB, TypeMinio, TypeRabbitMQ, TypeElasticsearch, TypeMariaDB, TypeMysql}"

text \<open>The user and the real name, as the answer has them.\<close>

definition request_user :: "MiddlewareRequest \<Rightarrow> string" where
  "request_user m = (let spec = mrSpec m in case mwMiddleware spec of
      TypeMongoDB \<Rightarrow> mongoUser (mwMongoDB spec) | TypeMinio \<Rightarrow> minioUser (mwMinio spec)
    | TypeRabbitMQ \<Rightarrow> rabbitUser (mwRabbitMQ spec) | TypeElasticsearch \<Rightarrow> esUser (mwElasticsearch spec)
    | TypeMariaDB \<Rightarrow> mariaUser (mwMariaDB spec) | TypeMysql \<Rightarrow> mysqlUser (mwMysql spec) | _ \<Rightarrow> [])"

definition real_name :: "MiddlewareRequest \<Rightarrow> string \<Rightarrow> string" where
  "real_name m = (let ns = mwAppNamespace (mrSpec m) in case mwMiddleware (mrSpec m) of
      TypeMongoDB \<Rightarrow> GetDatabaseName_mongo ns | TypeMinio \<Rightarrow> GetBucketName ns
    | TypeRabbitMQ \<Rightarrow> GetVhostName ns | TypeElasticsearch \<Rightarrow> GetIndexName ns
    | TypeMariaDB \<Rightarrow> GetDatabaseName_mariadb ns | _ \<Rightarrow> GetDatabaseName_mysql ns)"

lemma same_database_names: "GetDatabaseName_mariadb ns = GetDatabaseName_mysql ns"
  by (simp add: fun_eq_iff GetDatabaseName_mariadb_def GetDatabaseName_mysql_def)

lemma info_answer:
  assumes "getMiddlewareInfo k q m t = (Val resp, t')" "mwMiddleware (mrSpec m) \<in> named_types"
  shows "rspUserName resp = request_user m"
    and "promised (mwMiddleware (mrSpec m)) resp = real_names (real_name m) (requested m)"
proof -
  have ret_Val: "seqc p (\<lambda>x. ret (f x)) t = (Val resp, t') \<Longrightarrow> \<exists>x. resp = f x"
    for p and f :: "string \<Rightarrow> MiddlewareRequestResp"
    by (drule seqc_Val) (auto simp: ret_def)
  show "rspUserName resp = request_user m"
    using assms by (auto simp: getMiddlewareInfo_def Let_def request_user_def named_types_def dest!: ret_Val)
  show "promised (mwMiddleware (mrSpec m)) resp = real_names (real_name m) (requested m)"
    using assms
    by (auto simp: getMiddlewareInfo_def Let_def promised_def real_name_def requested_def named_types_def same_database_names
        dest!: ret_Val)
qed

lemma attains_request:
  assumes "mwMiddleware (mrSpec m) \<in> named_types" "name \<in> set (requested m)" "a = ADD \<or> a = UPDATE"
  shows "attains (grants_access (mwMiddleware (mrSpec m)) (request_user m) (real_name m name)) (request_handler e a m)"
  using assms
  by (auto simp: named_types_def requested_def request_handler_def on_action_def request_user_def real_name_def Let_def
      intro!: attains_mongo attains_minio attains_rabbit attains_elasticsearch attains_mariadb attains_mysql)


definition shop_request :: MiddlewareRequest where
  "shop_request = (let r = plain_request ''shop'' ''ns'' TypeMariaDB in
     r\<lparr>mrSpec := (mrSpec r)\<lparr>mwMariaDB := \<lparr>mariaUser = ''u'', mariaPassword = plain_password, mariaDatabases = [''db'']\<rparr>\<rparr>\<rparr>)"

definition shop_env :: "unit env" where
  "shop_env = gone_env\<lparr>envK8s := idle_k8s\<lparr>getSecret := (\<lambda>_. ok [(''username'', ''root''), (''password'', ''pw'')])\<rparr>\<rparr>"


end
