(* ===== verification/Aes_Gcm.thy ===== *)
theory Aes_Gcm
  imports Utils
begin

text \<open>What the vault uses of the standard library of Go for its ciphers: \<open>encoding/base64\<close> (standard
  alphabet, with padding), the block cipher of \<open>crypto/aes\<close> and the Galois counter mode of
  \<open>crypto/cipher\<close> with a nonce of 16 bytes. All of it is computed, so the properties of the
  vault's ciphers rest on no assumption about them.\<close>

unbundle bit_operations_syntax

definition string_of :: "byte list \<Rightarrow> string" where
  "string_of bs = map (\<lambda>b. char_of (unat b)) bs"

lemma string_of_bytes_of [simp]: "string_of (bytes_of s) = s"
proof -
  have "char_of (unat (of_nat (of_char c) :: byte)) = c" for c :: char
    using nat_of_char_less_256 [of c] by (simp add: unat_of_nat)
  then show ?thesis by (simp add: string_of_def bytes_of_def comp_def)
qed

lemma bytes_of_string_of [simp]: "bytes_of (string_of bs) = bs"
proof -
  have "of_nat (unat b mod 256) = b" for b :: byte
    using unsigned_less [of b, where ?'a = nat] by simp
  then show ?thesis by (simp add: string_of_def bytes_of_def comp_def)
qed

lemma length_bytes_of [simp]: "length (bytes_of s) = length s" "length (string_of bs) = length bs"
  by (simp_all add: bytes_of_def string_of_def)

section \<open>Base64\<close>

definition b64_alphabet :: string where
  "b64_alphabet = ''ABCDEFGHIJKLMNOPQRSTUVWXYZabcdefghijklmnopqrstuvwxyz0123456789+/''"

definition b64_char :: "nat \<Rightarrow> char" where
  "b64_char n = b64_alphabet ! n"

definition b64_value :: "char \<Rightarrow> nat option" where
  "b64_value c = lookup (zip b64_alphabet [0..<64]) c"

fun b64_encode :: "nat list \<Rightarrow> string" where
  "b64_encode [] = []"
| "b64_encode [a] = [b64_char (a div 4), b64_char (a mod 4 * 16), CHR ''='', CHR ''='']"
| "b64_encode [a, b] = [b64_char (a div 4), b64_char (a mod 4 * 16 + b div 16), b64_char (b mod 16 * 4), CHR ''='']"
| "b64_encode (a # b # c # rest) =
     [b64_char (a div 4), b64_char (a mod 4 * 16 + b div 16), b64_char (b mod 16 * 4 + c div 64), b64_char (c mod 64)]
     @ b64_encode rest"

text \<open>Bits left over before the padding are ignored, as by the decoder of the library when it is
  not strict.\<close>

fun b64_quads :: "string \<Rightarrow> nat list option" where
  "b64_quads [] = Some []"
| "b64_quads (p # q # r # s # rest) =
     (case (b64_value p, b64_value q, b64_value r, b64_value s, rest) of
        (Some p, Some q, Some r, Some s, rest) \<Rightarrow>
          map_option (\<lambda>bs. [p * 4 + q div 16, q mod 16 * 16 + r div 4, r mod 4 * 64 + s] @ bs) (b64_quads rest)
      | (Some p, Some q, Some r, None, []) \<Rightarrow> if s = CHR ''='' then Some [p * 4 + q div 16, q mod 16 * 16 + r div 4] else None
      | (Some p, Some q, None, None, []) \<Rightarrow> if r = CHR ''='' \<and> s = CHR ''='' then Some [p * 4 + q div 16] else None
      | _ \<Rightarrow> None)"
| "b64_quads _ = None"

definition base64_EncodeToString :: "byte list \<Rightarrow> string" where
  "base64_EncodeToString bs = b64_encode (map unat bs)"

text \<open>The decoder skips line breaks.\<close>

definition base64_DecodeString :: "string \<Rightarrow> byte list res" where
  "base64_DecodeString s = (case b64_quads (filter (\<lambda>c. c \<noteq> CHR 0x0A \<and> c \<noteq> CHR 0x0D) s) of
     None \<Rightarrow> Err (Failure ''illegal base64 data'') | Some bs \<Rightarrow> Val (map of_nat bs))"

lemma b64_value_char: "n < 64 \<Longrightarrow> b64_value (b64_char n) = Some n"
proof -
  have "\<forall>n \<in> set [0..<64]. b64_value (b64_char n) = Some n" by code_simp
  then show "n < 64 \<Longrightarrow> b64_value (b64_char n) = Some n" by simp
qed

lemma b64_value_pad: "b64_value CHR ''='' = None"
  by code_simp

lemma b64_digits:
  fixes a b c :: nat
  assumes "a < 256" "b < 256" "c < 256"
  shows "a div 4 < 64" "a mod 4 * 16 + b div 16 < 64" "b mod 16 * 4 + c div 64 < 64" "a mod 4 * 16 < 64" "b mod 16 * 4 < 64"
    "b div 16 < 16" "c div 64 < 4"
proof -
  show "a div 4 < 64" and b: "b div 16 < 16" and c: "c div 64 < 4" using assms by (simp_all add: less_mult_imp_div_less)
  have "a mod 4 < 4" "b mod 16 < 16" by simp_all
  with b c show "a mod 4 * 16 + b div 16 < 64" "b mod 16 * 4 + c div 64 < 64" "a mod 4 * 16 < 64" "b mod 16 * 4 < 64" by linarith+
qed

lemma b64_quads_encode: "\<forall>n \<in> set ns. n < 256 \<Longrightarrow> b64_quads (b64_encode ns) = Some ns"
proof (induction ns rule: b64_encode.induct)
  case (2 a)
  then show ?case using b64_digits [of a 0 0] by (simp add: b64_value_char b64_value_pad)
next
  case (3 a b)
  then show ?case using b64_digits [of a b 0] by (simp add: b64_value_char b64_value_pad)
next
  case (4 a b c rest)
  then show ?case using b64_digits [of a b c] by (simp add: b64_value_char)
qed simp

lemma b64_encode_chars: "\<forall>n \<in> set ns. n < 256 \<Longrightarrow> set (b64_encode ns) \<subseteq> insert CHR ''='' (set b64_alphabet)"
proof (induction ns rule: b64_encode.induct)
  have mem: "n < 64 \<Longrightarrow> b64_char n \<in> set b64_alphabet" for n
    unfolding b64_char_def by (rule nth_mem) (simp add: b64_alphabet_def)
  {
    case (2 a)
    then show ?case using b64_digits [of a 0 0] by (simp add: mem)
  next
    case (3 a b)
    then show ?case using b64_digits [of a b 0] by (simp add: mem)
  next
    case (4 a b c rest)
    then show ?case using b64_digits [of a b c] by (auto simp: mem)
  }
qed simp

lemma length_b64_encode: "length (b64_encode ns) = 4 * ((length ns + 2) div 3)"
proof (induction ns rule: b64_encode.induct)
  case (4 a b c rest)
  have "(length rest + 2 + 3) div 3 = (length rest + 2) div 3 + 1" by (rule div_add_self2) simp
  with 4 show ?case by simp
qed simp_all

lemma base64_round_trip: "base64_DecodeString (base64_EncodeToString bs) = Val bs"
proof -
  have small: "\<forall>n \<in> set (map unat bs). n < 256"
    using unsigned_less [where ?'a = nat and ?'b = 8] by simp
  have "set (base64_EncodeToString bs) \<inter> {CHR 0x0A, CHR 0x0D} = {}"
    using b64_encode_chars [OF small] by (auto simp: base64_EncodeToString_def b64_alphabet_def)
  then have "filter (\<lambda>c. c \<noteq> CHR 0x0A \<and> c \<noteq> CHR 0x0D) (base64_EncodeToString bs) = base64_EncodeToString bs"
    by (intro filter_True) auto
  then show ?thesis
    by (simp add: base64_DecodeString_def base64_EncodeToString_def b64_quads_encode [OF small] comp_def)
qed

section \<open>The block cipher\<close>

definition xtime :: "byte \<Rightarrow> byte" where
  "xtime b = push_bit 1 b XOR (if bit b 7 then 0x1b else 0)"

definition gf_mult :: "byte \<Rightarrow> byte \<Rightarrow> byte" where
  "gf_mult a b = foldl (\<lambda>acc i. if bit b i then acc XOR (xtime ^^ i) a else acc) 0 [0..<8]"

text \<open>The inverse is the power 254; zero goes to zero.\<close>

definition gf_inverse :: "byte \<Rightarrow> byte" where
  "gf_inverse b = (let b2 = gf_mult b b; b4 = gf_mult b2 b2; b8 = gf_mult b4 b4; b16 = gf_mult b8 b8;
     b32 = gf_mult b16 b16; b64 = gf_mult b32 b32; b128 = gf_mult b64 b64 in
     foldl gf_mult b2 [b4, b8, b16, b32, b64, b128])"

definition rotl8 :: "nat \<Rightarrow> byte \<Rightarrow> byte" where
  "rotl8 n x = push_bit n x OR drop_bit (8 - n) x"

definition sub_byte :: "byte \<Rightarrow> byte" where
  "sub_byte b = (let x = gf_inverse b in x XOR rotl8 1 x XOR rotl8 2 x XOR rotl8 3 x XOR rotl8 4 x XOR 0x63)"

definition xor_bytes :: "byte list \<Rightarrow> byte list \<Rightarrow> byte list" where
  "xor_bytes xs ys = map2 (XOR) xs ys"

definition key_word :: "nat \<Rightarrow> byte list list \<Rightarrow> nat \<Rightarrow> byte list" where
  "key_word nk ws i = (let prev = last ws;
     temp = (if i mod nk = 0 then xor_bytes (map sub_byte (rotate1 prev)) [(xtime ^^ (i div nk - 1)) 1, 0, 0, 0]
             else if nk > 6 \<and> i mod nk = 4 then map sub_byte prev else prev) in
     xor_bytes (ws ! (i - nk)) temp)"

definition key_schedule :: "byte list \<Rightarrow> byte list list" where
  "key_schedule key = (let nk = length key div 4 in
     chunks (nk + 7) 16 (concat (foldl (\<lambda>ws i. ws @ [key_word nk ws i]) (chunks nk 4 key) [nk..<4 * (nk + 7)])))"

definition shift_rows :: "byte list \<Rightarrow> byte list" where
  "shift_rows st = map (\<lambda>i. st ! (i mod 4 + 4 * ((i div 4 + i mod 4) mod 4))) [0..<16]"

definition mix_column :: "byte list \<Rightarrow> byte list" where
  "mix_column c = map (\<lambda>i. gf_mult (c ! i) 2 XOR gf_mult (c ! ((i + 1) mod 4)) 3 XOR c ! ((i + 2) mod 4) XOR c ! ((i + 3) mod 4)) [0..<4]"

definition aes_round :: "byte list \<Rightarrow> byte list \<Rightarrow> byte list" where
  "aes_round st rk = xor_bytes (concat (map mix_column (chunks 4 4 (shift_rows (map sub_byte st))))) rk"

definition aes_block :: "byte list \<Rightarrow> byte list \<Rightarrow> byte list" where
  "aes_block key st = (let rks = key_schedule key;
     mid = foldl aes_round (xor_bytes st (hd rks)) (butlast (tl rks)) in
     xor_bytes (shift_rows (map sub_byte mid)) (last rks))"

section \<open>Galois counter mode\<close>

definition be_word :: "byte list \<Rightarrow> 128 word" where
  "be_word bs = foldl (\<lambda>acc b. acc * 256 + ucast b) 0 bs"

definition be_bytes :: "128 word \<Rightarrow> byte list" where
  "be_bytes x = map (\<lambda>i. ucast (drop_bit (8 * (15 - i)) x)) [0..<16]"

lemma length_be_bytes [simp]: "length (be_bytes x) = 16"
  by (simp add: be_bytes_def)

text \<open>The first bit of a block is the most significant one of the word.\<close>

definition gcm_mult :: "128 word \<Rightarrow> 128 word \<Rightarrow> 128 word" where
  "gcm_mult x y = fst (foldl (\<lambda>(z, v) i.
     (if bit x (127 - i) then z XOR v else z,
      if bit v 0 then drop_bit 1 v XOR 0xe1000000000000000000000000000000 else drop_bit 1 v)) (0, y) [0..<128])"

definition pad16 :: "byte list \<Rightarrow> byte list" where
  "pad16 bs = bs @ replicate ((16 - length bs mod 16) mod 16) 0"

definition be64 :: "nat \<Rightarrow> byte list" where
  "be64 n = rev (le_bytes 8 (of_nat n :: 64 word))"

definition ghash :: "128 word \<Rightarrow> byte list \<Rightarrow> 128 word" where
  "ghash h bs = foldl (\<lambda>y b. gcm_mult (y XOR be_word b) h) 0 (chunks (length bs div 16) 16 bs)"

definition aes_word :: "byte list \<Rightarrow> 128 word \<Rightarrow> 128 word" where
  "aes_word key x = be_word (aes_block key (be_bytes x))"

definition gcm_start :: "byte list \<Rightarrow> byte list \<Rightarrow> 128 word" where
  "gcm_start key nonce = ghash (aes_word key 0) (pad16 nonce @ be64 0 @ be64 (8 * length nonce))"

definition inc32 :: "128 word \<Rightarrow> 128 word" where
  "inc32 x = (x AND NOT 0xffffffff) OR ((x + 1) AND 0xffffffff)"

definition gcm_stream :: "byte list \<Rightarrow> 128 word \<Rightarrow> nat \<Rightarrow> byte list" where
  "gcm_stream key j n = concat (map (\<lambda>i. be_bytes (aes_word key ((inc32 ^^ Suc i) j))) [0..<n])"

definition gcm_crypt :: "byte list \<Rightarrow> 128 word \<Rightarrow> byte list \<Rightarrow> byte list" where
  "gcm_crypt key j bs = xor_bytes bs (gcm_stream key j (length bs div 16 + 1))"

definition gcm_tag :: "byte list \<Rightarrow> 128 word \<Rightarrow> byte list \<Rightarrow> byte list \<Rightarrow> byte list" where
  "gcm_tag key j aad c = be_bytes (aes_word key j XOR
     ghash (aes_word key 0) (pad16 aad @ pad16 c @ be64 (8 * length aad) @ be64 (8 * length c)))"

definition gcm_Seal :: "byte list \<Rightarrow> byte list \<Rightarrow> byte list \<Rightarrow> byte list \<Rightarrow> byte list" where
  "gcm_Seal key nonce plaintext aad = (let j = gcm_start key nonce; c = gcm_crypt key j plaintext in c @ gcm_tag key j aad c)"

definition gcm_Open :: "byte list \<Rightarrow> byte list \<Rightarrow> byte list \<Rightarrow> byte list \<Rightarrow> byte list option" where
  "gcm_Open key nonce input aad =
     (if length input < 16 then None
      else let c = take (length input - 16) input; tag = drop (length input - 16) input; j = gcm_start key nonce in
        if tag = gcm_tag key j aad c then Some (gcm_crypt key j c) else None)"

lemma length_gcm_stream: "length (gcm_stream key j n) = 16 * n"
  by (induction n) (simp_all add: gcm_stream_def)

lemma length_xor_bytes [simp]: "length (xor_bytes xs ys) = min (length xs) (length ys)"
  by (simp add: xor_bytes_def)

lemma length_gcm_crypt [simp]: "length (gcm_crypt key j bs) = length bs"
  using mult_div_mod_eq [of 16 "length bs"] by (simp add: gcm_crypt_def length_gcm_stream)

lemma gcm_crypt_crypt [simp]: "gcm_crypt key j (gcm_crypt key j bs) = bs"
proof (rule nth_equalityI)
  fix i
  assume "i < length (gcm_crypt key j (gcm_crypt key j bs))"
  then have i: "i < length bs" by simp
  moreover have "length bs < 16 * (length bs div 16 + 1)" by simp
  ultimately show "gcm_crypt key j (gcm_crypt key j bs) ! i = bs ! i"
    by (simp add: gcm_crypt_def xor_bytes_def length_gcm_stream xor.assoc)
qed simp

lemma length_gcm_tag [simp]: "length (gcm_tag key j aad c) = 16"
  by (simp add: gcm_tag_def)

lemma gcm_Open_Seal: "gcm_Open key nonce (gcm_Seal key nonce plaintext aad) aad = Some plaintext"
  by (simp add: gcm_Open_def gcm_Seal_def Let_def)

end
