(* ===== verification/Vault_Crypto.thy ===== *)
theory Vault_Crypto
  imports Aes_Gcm World
begin

text \<open>The ciphers of the vault (\<open>pkg/vault/infisical/crypto\<close>, \<open>key.go\<close>): secrets are encrypted with
  AES in Galois counter mode, workspace keys with the box of NaCl, and the private key of a user under
  a key made of its password. A Go string is the sequence of its bytes. The box belongs to a library:
  it is a record of operations, and the random source an operation on the state of the world.\<close>

section \<open>AES (aes-256-gcm.go)\<close>

definition BLOCK_SIZE_BYTES :: nat where "BLOCK_SIZE_BYTES = 16"

text \<open>\<open>copy\<close> into a fresh array of \<open>n\<close> bytes; \<open>io.ReadFull\<close> fills such an array.\<close>

definition copy_into :: "nat \<Rightarrow> byte list \<Rightarrow> byte list" where
  "copy_into n bs = take n bs @ replicate (n - length bs) 0"

definition rand_read :: "(nat \<Rightarrow> ('w, byte list) op) \<Rightarrow> nat \<Rightarrow> ('w, byte list) prog" where
  "rand_read rnd n = seqc (call (Misc (RandomBytes n)) (rnd n)) (\<lambda>bs. ret (copy_into n bs))"

definition aes_NewCipher :: "byte list \<Rightarrow> byte list res" where
  "aes_NewCipher key = (if length key \<in> {16, 24, 32} then Val key
     else Err (Failure (''crypto/aes: invalid key size '' @ Itoa (length key))))"

definition Encrypt :: "(nat \<Rightarrow> ('w, byte list) op) \<Rightarrow> string \<Rightarrow> string \<Rightarrow> ('w, string \<times> string \<times> string) prog" where
  "Encrypt rnd text secret =
     (let plainText = bytes_of text in
      seqc (rand_read rnd BLOCK_SIZE_BYTES) (\<lambda>nonce.
      seqc (lift (aes_NewCipher (bytes_of secret))) (\<lambda>block.
      let sealed = gcm_Seal block nonce plainText [] in
      ret (base64_EncodeToString (take (length plainText) sealed), base64_EncodeToString nonce,
           base64_EncodeToString (drop (length plainText) sealed)))))"

text \<open>\<open>Open\<close> panics when the nonce does not have the size that the mode was made for.\<close>

definition Decrypt :: "string \<Rightarrow> string \<Rightarrow> string \<Rightarrow> string \<Rightarrow> string res" where
  "Decrypt ciphertext iv tag secret =
     bindR (base64_DecodeString iv) (\<lambda>nonce.
     bindR (aes_NewCipher (bytes_of secret)) (\<lambda>block.
     bindR (base64_DecodeString ciphertext) (\<lambda>cipherIn.
     bindR (base64_DecodeString tag) (\<lambda>part2.
     if length nonce \<noteq> BLOCK_SIZE_BYTES then Panic ''crypto/cipher: incorrect nonce length given to GCM''
     else case gcm_Open block nonce (cipherIn @ part2) [] of
       None \<Rightarrow> Err (Failure ''cipher: message authentication failed'')
     | Some plaintext \<Rightarrow> Val (string_of plaintext)))))"

section \<open>The box (nacl-box.go)\<close>

definition NACL_NONCE_SIZE_BYTES :: nat where "NACL_NONCE_SIZE_BYTES = 24"

text \<open>\<open>box.Seal\<close> takes message, nonce, the other's public and the own private key; \<open>box.Open\<close> gives
  nothing when the box does not open.\<close>

record box_lib =
  boxSeal :: "byte list \<Rightarrow> byte list \<Rightarrow> byte list \<Rightarrow> byte list \<Rightarrow> byte list"
  boxOpen :: "byte list \<Rightarrow> byte list \<Rightarrow> byte list \<Rightarrow> byte list \<Rightarrow> byte list option"

definition EncryptAssymmetric :: "(nat \<Rightarrow> ('w, byte list) op) \<Rightarrow> box_lib \<Rightarrow> string \<Rightarrow> string \<Rightarrow> string \<Rightarrow> ('w, string \<times> string) prog" where
  "EncryptAssymmetric rnd b plaintext publicKey privateKey =
     seqc (rand_read rnd NACL_NONCE_SIZE_BYTES) (\<lambda>nonceBytes.
     seqc (lift (base64_DecodeString publicKey)) (\<lambda>publicKeyData.
     seqc (lift (base64_DecodeString privateKey)) (\<lambda>privateKeyData.
     let encrypted = boxSeal b (bytes_of plaintext) nonceBytes (copy_into 32 publicKeyData) (copy_into 32 privateKeyData) in
     ret (base64_EncodeToString encrypted, base64_EncodeToString nonceBytes))))"

definition DecryptAsymmetric :: "box_lib \<Rightarrow> string \<Rightarrow> string \<Rightarrow> string \<Rightarrow> string \<Rightarrow> string res" where
  "DecryptAsymmetric b ciphertext nonce publicKey privateKey =
     bindR (base64_DecodeString ciphertext) (\<lambda>cipherData.
     bindR (base64_DecodeString nonce) (\<lambda>nonceData.
     bindR (base64_DecodeString publicKey) (\<lambda>pkData.
     bindR (base64_DecodeString privateKey) (\<lambda>skData.
     case boxOpen b cipherData (copy_into 24 nonceData) (copy_into 32 pkData) (copy_into 32 skData) of
       None \<Rightarrow> Err (Failure ''decrypt key error'')
     | Some plainData \<Rightarrow> Val (string_of plainData)))))"

section \<open>The key of a user (postgres.go, key.go)\<close>

record UserEncryptionKeysPG =
  ueID :: "string option"
  ueClientPublicKey :: string
  ueServerPrivateKey :: string
  ueEncryptionVersion :: int
  ueProtectedKey :: string
  ueProtectedKeyIV :: string
  ueProtectedKeyTag :: string
  uePublicKey :: string
  ueEncryptedPrivateKey :: string
  ueIV :: string
  ueTag :: string
  ueSalt :: string
  ueVerifier :: string
  ueUserID :: string
  ueOrgId :: "string option"

definition secretOfPassword :: "string \<Rightarrow> string" where
  "secretOfPassword password = (if length password \<ge> 32 then take 32 password
     else replicate (32 - length password) CHR ''0'' @ password)"

definition DecryptUserPrivateKeyHelper :: "UserEncryptionKeysPG \<Rightarrow> string \<Rightarrow> string res" where
  "DecryptUserPrivateKeyHelper user password =
     (if ueEncryptionVersion user = 1
      then Decrypt (ueEncryptedPrivateKey user) (ueIV user) (ueTag user) (secretOfPassword password)
      else Err (Failure ''unimplement''))"

section \<open>Lemmas\<close>

lemma length_copy_into [simp]: "length (copy_into n bs) = n"
  by (simp add: copy_into_def)

lemma copy_into_same [simp]: "length bs = n \<Longrightarrow> copy_into n bs = bs"
  by (simp add: copy_into_def)

lemma length_secretOfPassword [simp]: "length (secretOfPassword password) = 32"
  by (simp add: secretOfPassword_def)

lemma Decrypt_encoded:
  assumes "length secret \<in> {16, 24, 32}" "length nonce = 16"
  shows "Decrypt (base64_EncodeToString (take (length text) (gcm_Seal (bytes_of secret) nonce (bytes_of text) [])))
      (base64_EncodeToString nonce)
      (base64_EncodeToString (drop (length text) (gcm_Seal (bytes_of secret) nonce (bytes_of text) []))) secret = Val text"
proof -
  have "aes_NewCipher (bytes_of secret) = Val (bytes_of secret)" using assms(1) by (simp add: aes_NewCipher_def)
  then show ?thesis
    using assms(2) by (simp add: Decrypt_def base64_round_trip BLOCK_SIZE_BYTES_def gcm_Open_Seal)
qed

text \<open>What \<open>Encrypt\<close> returns, \<open>Decrypt\<close> reads.\<close>

lemma Encrypt_Val:
  assumes "Encrypt rnd text secret s = (Val (c, iv, tag), s')"
  shows "Decrypt c iv tag secret = Val text"
    and "\<exists>cs nonce ts. c = base64_EncodeToString cs \<and> length cs = length text \<and> iv = base64_EncodeToString nonce \<and>
      length nonce = 16 \<and> tag = base64_EncodeToString ts \<and> length ts = 16"
    and "length secret \<in> {16, 24, 32}"
proof -
  obtain nonce s1 where n: "rand_read rnd 16 s = (Val nonce, s1)"
    and rest: "seqc (lift (aes_NewCipher (bytes_of secret))) (\<lambda>block. let sealed = gcm_Seal block nonce (bytes_of text) [] in
      ret (base64_EncodeToString (take (length text) sealed), base64_EncodeToString nonce,
           base64_EncodeToString (drop (length text) sealed))) s1 = (Val (c, iv, tag), s')"
    using seqc_Val [OF assms [unfolded Encrypt_def Let_def BLOCK_SIZE_BYTES_def]] by (auto simp: Let_def)
  have len: "length nonce = 16"
    using n by (auto simp: rand_read_def seqc_def ret_def split: prod.splits res.splits)
  show key: "length secret \<in> {16, 24, 32}"
    using rest by (simp add: seqc_def lift_def aes_NewCipher_def split: if_splits)
  let ?sealed = "gcm_Seal (bytes_of secret) nonce (bytes_of text) []"
  have out: "c = base64_EncodeToString (take (length text) ?sealed)" "iv = base64_EncodeToString nonce"
    "tag = base64_EncodeToString (drop (length text) ?sealed)"
    using rest key by (simp_all add: seqc_def lift_def aes_NewCipher_def ret_def Let_def)
  show "Decrypt c iv tag secret = Val text"
    unfolding out by (rule Decrypt_encoded [OF key len])
  have "length ?sealed = length text + 16" by (simp add: gcm_Seal_def Let_def)
  then show "\<exists>cs nonce ts. c = base64_EncodeToString cs \<and> length cs = length text \<and> iv = base64_EncodeToString nonce \<and>
      length nonce = 16 \<and> tag = base64_EncodeToString ts \<and> length ts = 16"
    unfolding out using len by (intro exI conjI) (rule refl | simp)+
qed

end
