(* ===== verification/Vault_Store.thy ===== *)
theory Vault_Store
  imports Vault_Crypto
begin

text \<open>The database of the vault (\<open>pkg/vault/infisical/postgres.go\<close>), the creation of users
  (\<open>init.go\<close>) and the tokens it signs for the store of secrets (\<open>token.go\<close>).\<close>

section \<open>Rows (postgres.go)\<close>

record UserPG =
  upID :: "string option"
  upEmail :: string
  upAuthMethods :: "string list"
  upSuperAdmin :: bool
  upFirstName :: string
  upLastName :: string
  upIsAccepted :: bool
  upIsMfaEnabled :: bool
  upMfaMethods :: "string list"
  upIsGhost :: bool
  upUsername :: string

record OrganizationsPG =
  ogID :: "string option"
  ogName :: string
  ogCustomerId :: string
  ogSlug :: string
  ogAuthEnforced :: bool
  ogScimEnabled :: bool
  ogCreatedAt :: "int option"
  ogUpdatedAt :: "int option"

record OrgMembershipsPG =
  omID :: "string option"
  omRole :: string
  omStatus :: string
  omInviteEmail :: string
  omUserId :: string
  omOrgId :: string
  omRoleId :: "string option"

record AuthTokenSessionsPG =
  atID :: "string option"
  atIP :: string
  atUserAgent :: "string option"
  atRefreshVersion :: int
  atAccessVersion :: int
  atUserId :: string
  atLastUsed :: int
  atCreatedAt :: "int option"
  atUpdatedAt :: "int option"

text \<open>The columns of a row by the tags of its fields. A field that may be omitted and is empty is
  left out.\<close>

definition opt_string :: "string \<Rightarrow> string option \<Rightarrow> (string \<times> db_value) list" where
  "opt_string name v = (case v of None \<Rightarrow> [] | Some x \<Rightarrow> [(name, DbString x)])"

definition opt_strings :: "string \<Rightarrow> string list \<Rightarrow> (string \<times> db_value) list" where
  "opt_strings name v = (if v = [] then [] else [(name, DbStrings v)])"

definition opt_time :: "string \<Rightarrow> int option \<Rightarrow> (string \<times> db_value) list" where
  "opt_time name v = (case v of None \<Rightarrow> [] | Some x \<Rightarrow> [(name, DbTime x)])"

definition user_columns :: "UserPG \<Rightarrow> (string \<times> db_value) list" where
  "user_columns u = opt_string ''id'' (upID u) @ [(''email'', DbString (upEmail u))] @
     opt_strings ''authMethods'' (upAuthMethods u) @
     [(''superAdmin'', DbBool (upSuperAdmin u)), (''firstName'', DbString (upFirstName u)), (''lastName'', DbString (upLastName u)),
      (''isAccepted'', DbBool (upIsAccepted u)), (''isMfaEnabled'', DbBool (upIsMfaEnabled u))] @
     opt_strings ''mfaMethods'' (upMfaMethods u) @
     [(''isGhost'', DbBool (upIsGhost u)), (''username'', DbString (upUsername u))]"

definition key_columns :: "UserEncryptionKeysPG \<Rightarrow> (string \<times> db_value) list" where
  "key_columns k = opt_string ''id'' (ueID k) @
     [(''clientPublicKey'', DbString (ueClientPublicKey k)), (''serverPrivateKey'', DbString (ueServerPrivateKey k)),
      (''encryptionVersion'', DbInt (ueEncryptionVersion k)), (''protectedKey'', DbString (ueProtectedKey k)),
      (''protectedKeyIV'', DbString (ueProtectedKeyIV k)), (''protectedKeyTag'', DbString (ueProtectedKeyTag k)),
      (''publicKey'', DbString (uePublicKey k)), (''encryptedPrivateKey'', DbString (ueEncryptedPrivateKey k)),
      (''iv'', DbString (ueIV k)), (''tag'', DbString (ueTag k)), (''salt'', DbString (ueSalt k)),
      (''verifier'', DbString (ueVerifier k)), (''userId'', DbString (ueUserID k))] @
     opt_string ''orgId'' (ueOrgId k)"

definition organization_columns :: "OrganizationsPG \<Rightarrow> (string \<times> db_value) list" where
  "organization_columns g = opt_string ''id'' (ogID g) @
     [(''name'', DbString (ogName g)), (''customerId'', DbString (ogCustomerId g)), (''slug'', DbString (ogSlug g)),
      (''authEnforced'', DbBool (ogAuthEnforced g)), (''scimEnabled'', DbBool (ogScimEnabled g))] @
     opt_time ''createdAt'' (ogCreatedAt g) @ opt_time ''updatedAt'' (ogUpdatedAt g)"

definition membership_columns :: "OrgMembershipsPG \<Rightarrow> (string \<times> db_value) list" where
  "membership_columns m = opt_string ''id'' (omID m) @
     [(''role'', DbString (omRole m)), (''status'', DbString (omStatus m)), (''inviteEmail'', DbString (omInviteEmail m)),
      (''userId'', DbString (omUserId m)), (''orgId'', DbString (omOrgId m))] @
     opt_string ''roleId'' (omRoleId m)"

definition session_columns :: "AuthTokenSessionsPG \<Rightarrow> (string \<times> db_value) list" where
  "session_columns t = opt_string ''id'' (atID t) @ [(''ip'', DbString (atIP t))] @ opt_string ''userAgent'' (atUserAgent t) @
     [(''refreshVersion'', DbInt (atRefreshVersion t)), (''accessVersion'', DbInt (atAccessVersion t)),
      (''userId'', DbString (atUserId t)), (''lastUsed'', DbTime (atLastUsed t))] @
     opt_time ''createdAt'' (atCreatedAt t) @ opt_time ''updatedAt'' (atUpdatedAt t)"

section \<open>What the vault works with\<close>

text \<open>The claims of a token, and its signature by the library of web tokens.\<close>

record tokenClaims =
  tcIssuedAt :: int
  tcExpiresAt :: int
  tcUserId :: string
  tcAuthTokenType :: string
  tcTokenVersionId :: string
  tcAccessVersion :: "int option"
  tcRefreshVersion :: "int option"
  tcOrganizationId :: string
  tcAuthMethod :: string

text \<open>The database answers a query with the outcome of scanning the first row, if there is one.
  \<open>voOrder\<close> is the order in which a map is traversed, \<open>voPolls\<close> bounds the attempts to connect.\<close>

record 'w vault_ops =
  voK8s :: "'w k8s"
  voConnect :: "string \<Rightarrow> ('w, unit) op"
  voExec :: "string \<Rightarrow> string \<Rightarrow> ('w, unit) op"
  voOrganization :: "string \<Rightarrow> string \<Rightarrow> (string \<times> string) list \<Rightarrow> ('w, OrganizationsPG res option) op"
  voKeys :: "string \<Rightarrow> string \<Rightarrow> (string \<times> string) list \<Rightarrow> ('w, UserEncryptionKeysPG res option) op"
  voSession :: "string \<Rightarrow> string \<Rightarrow> (string \<times> string) list \<Rightarrow> ('w, AuthTokenSessionsPG res option) op"
  voInsert :: "string \<Rightarrow> string \<Rightarrow> (string \<times> db_value) list \<Rightarrow> ('w, unit) op"
  voClose :: "string \<Rightarrow> ('w, unit) op"
  voUuid :: "('w, string) op"
  voGenerateKey :: "('w, byte list \<times> byte list) op"
  voRandom :: "nat \<Rightarrow> ('w, byte list) op"
  voNode :: "string list \<Rightarrow> ('w, string) op"
  voBox :: box_lib
  voSign :: "string \<Rightarrow> tokenClaims \<Rightarrow> string res"
  voOrder :: "string list \<Rightarrow> string list"
  voPolls :: nat

text \<open>The variables of the package; \<open>cfOrg\<close> is set by the initialisation.\<close>

record config =
  cfOrg :: string
  cfDBUser :: string
  cfDBName :: string
  cfDBAddr :: string
  cfAddr :: string
  cfPassword :: string

definition InfisicalNamespace :: string where "InfisicalNamespace = ''os-protected''"

text \<open>The initialisation of the package from the variables of the environment, which are empty when they
  are not set.\<close>

definition GetenvOrDefault :: "(string \<Rightarrow> string) \<Rightarrow> string \<Rightarrow> string \<Rightarrow> string" where
  "GetenvOrDefault getenv env d = (let v = getenv env in if v = [] then d else v)"

definition init_config :: "(string \<Rightarrow> string) \<Rightarrow> config" where
  "init_config getenv = \<lparr>cfOrg = [], cfDBUser = GetenvOrDefault getenv ''PG_USER'' ''infisical'',
     cfDBName = GetenvOrDefault getenv ''PG_DB'' ''infisical'', cfDBAddr = getenv ''PG_ADDR'',
     cfAddr = GetenvOrDefault getenv ''INFISICAL_URL'' (''http://infisical-service.'' @ InfisicalNamespace),
     cfPassword = getenv ''PASSWORD''\<rparr>"

definition vault :: "vault_call \<Rightarrow> ('w, 'a) op \<Rightarrow> ('w, 'a) prog" where
  "vault c = call (Svc (Vault c))"

definition deref_ptr :: "'a option \<Rightarrow> ('w, 'a) prog" where
  "deref_ptr p = (case p of None \<Rightarrow> panic ''nil pointer dereference'' | Some x \<Rightarrow> ret x)"

section \<open>The client (postgres.go)\<close>

definition NewClient_vault :: "'w vault_ops \<Rightarrow> string \<Rightarrow> ('w, unit) prog" where
  "NewClient_vault v dsn = call (Sql (Connect dsn)) (voConnect v dsn)"

definition Close_vault :: "'w vault_ops \<Rightarrow> string \<Rightarrow> ('w, unit) prog" where
  "Close_vault v dsn = ignorec (call (Sql (CloseDB dsn)) (voClose v dsn))"

definition ValueMapper :: "(string list \<Rightarrow> string list) \<Rightarrow> (string \<times> db_value) list \<Rightarrow> string list \<times> string list" where
  "ValueMapper ord cols = (let ks = ord (map fst cols) in
     (map (\<lambda>k. [CHR 0x22] @ k @ [CHR 0x22]) ks, map (\<lambda>k. '':'' @ k) ks))"

text \<open>\<open>insert\<close> returns the new identifier also when the statement fails.\<close>

definition insert_row :: "'w vault_ops \<Rightarrow> string \<Rightarrow> string \<Rightarrow> (string \<Rightarrow> (string \<times> db_value) list) \<Rightarrow>
    ('w, string \<times> go_error option) prog" where
  "insert_row v dsn table cols_with_id =
     seqc (vault UuidNew (voUuid v)) (\<lambda>newId.
     let cols = cols_with_id newId; (fields, ks) = ValueMapper (voOrder v) cols;
         sql = ''insert into '' @ table @ ''('' @ Join fields '','' @ '') values('' @ Join ks '','' @ '')'' in
     tryc (vault (InsertRow dsn sql cols) (voInsert v dsn sql cols)) (\<lambda>_. ret (newId, None)) (\<lambda>e. ret (newId, Some e)))"

definition delete_rows :: "'w vault_ops \<Rightarrow> string \<Rightarrow> string \<Rightarrow> string \<Rightarrow> ('w, unit) prog" where
  "delete_rows v dsn table whereClause =
     (let sql = ''delete from '' @ table @ '' '' @ whereClause in call (Sql (Exec dsn sql)) (voExec v dsn sql))"

definition Create_user :: "'w vault_ops \<Rightarrow> string \<Rightarrow> UserPG \<Rightarrow> ('w, string \<times> go_error option) prog" where
  "Create_user v dsn u = insert_row v dsn ''users'' (\<lambda>i. user_columns (u\<lparr>upID := Some i\<rparr>))"

definition Create_keys :: "'w vault_ops \<Rightarrow> string \<Rightarrow> UserEncryptionKeysPG \<Rightarrow> ('w, string \<times> go_error option) prog" where
  "Create_keys v dsn u = insert_row v dsn ''user_encryption_keys'' (\<lambda>i. key_columns (u\<lparr>ueID := Some i\<rparr>))"

definition Create_organization :: "'w vault_ops \<Rightarrow> string \<Rightarrow> OrganizationsPG \<Rightarrow> ('w, string \<times> go_error option) prog" where
  "Create_organization v dsn g = insert_row v dsn ''organizations'' (\<lambda>i. organization_columns (g\<lparr>ogID := Some i\<rparr>))"

definition Create_membership :: "'w vault_ops \<Rightarrow> string \<Rightarrow> OrgMembershipsPG \<Rightarrow> ('w, string \<times> go_error option) prog" where
  "Create_membership v dsn m = insert_row v dsn ''org_memberships'' (\<lambda>i. membership_columns (m\<lparr>omID := Some i\<rparr>))"

definition Create_session :: "'w vault_ops \<Rightarrow> string \<Rightarrow> AuthTokenSessionsPG \<Rightarrow> ('w, string \<times> go_error option) prog" where
  "Create_session v dsn t = insert_row v dsn ''auth_token_sessions'' (\<lambda>i. session_columns (t\<lparr>atID := Some i\<rparr>))"

definition checked :: "('w, string \<times> go_error option) prog \<Rightarrow> ('w, string) prog" where
  "checked m = seqc m (\<lambda>(x, err). case err of None \<Rightarrow> ret x | Some e \<Rightarrow> fail e)"

text \<open>The error of creating the organization is logged and dropped.\<close>

definition UpdateSuperAdmin :: "'w vault_ops \<Rightarrow> string \<Rightarrow> ('w, string) prog" where
  "UpdateSuperAdmin v dsn =
     (let sql = ''update super_admin set initialized = true'';
          query = ''select * from organizations where name = :name''; args = [(''name'', ''Terminus'')] in
      seqc (call (Sql (Exec dsn sql)) (voExec v dsn sql)) (\<lambda>_.
      seqc (call (Sql (NamedQuery dsn query args)) (voOrganization v dsn query args)) (\<lambda>row.
      case row of
        Some org \<Rightarrow> seqc (lift org) (\<lambda>org. deref_ptr (ogID org))
      | None \<Rightarrow> seqc (Create_organization v dsn \<lparr>ogID = None, ogName = ''Terminus'', ogCustomerId = [], ogSlug = [],
            ogAuthEnforced = False, ogScimEnabled = False, ogCreatedAt = None, ogUpdatedAt = None\<rparr>) (\<lambda>(orgId, err). ret orgId))))"

definition user_query :: string where
  "user_query = ''select b.*, c.'' @ [CHR 0x22] @ ''orgId'' @ [CHR 0x22] @
     '' from users a, user_encryption_keys b, org_memberships c where a.email=:email and a.id = b.'' @
     [CHR 0x22] @ ''userId'' @ [CHR 0x22] @ '' and a.id = c.'' @ [CHR 0x22] @ ''userId'' @ [CHR 0x22]"

definition GetUser_vault :: "'w vault_ops \<Rightarrow> string \<Rightarrow> string \<Rightarrow> ('w, UserEncryptionKeysPG option) prog" where
  "GetUser_vault v dsn email =
     (if email = [] then fail (Failure ''email is empty'')
      else let args = [(''email'', email)] in
        seqc (call (Sql (NamedQuery dsn user_query args)) (voKeys v dsn user_query args)) (\<lambda>row.
        case row of None \<Rightarrow> ret None | Some user \<Rightarrow> seqc (lift user) (\<lambda>user. ret (Some user))))"

definition session_query :: string where
  "session_query = ''select * from auth_token_sessions where '' @ [CHR 0x22] @ ''userId'' @ [CHR 0x22] @
     ''=:userId and ip = :ip and '' @ [CHR 0x22] @ ''userAgent'' @ [CHR 0x22] @ '' = :userAgent''"

definition GetUserTokenSession :: "'w vault_ops \<Rightarrow> string \<Rightarrow> string \<Rightarrow> string \<Rightarrow> string \<Rightarrow> ('w, AuthTokenSessionsPG) prog" where
  "GetUserTokenSession v dsn userId ip userAgent =
     (if userId = [] then fail (Failure ''user is empty'')
      else let args = [(''userId'', userId), (''ip'', ip), (''userAgent'', userAgent)] in
        seqc (call (Sql (NamedQuery dsn session_query args)) (voSession v dsn session_query args)) (\<lambda>row.
        case row of
          Some session \<Rightarrow> lift session
        | None \<Rightarrow> seqc (call (K8s GetNow) (getNow (voK8s v))) (\<lambda>now.
            let session = \<lparr>atID = None, atIP = ip, atUserAgent = Some userAgent, atRefreshVersion = 1, atAccessVersion = 1,
                  atUserId = userId, atLastUsed = now, atCreatedAt = None, atUpdatedAt = None\<rparr> in
            seqc (checked (Create_session v dsn session)) (\<lambda>sid. ret (session\<lparr>atID := Some sid\<rparr>)))))"

definition admin_membership :: "string \<Rightarrow> string \<Rightarrow> OrgMembershipsPG" where
  "admin_membership userId orgId = \<lparr>omID = None, omRole = ''admin'', omStatus = ''accepted'', omInviteEmail = [],
     omUserId = userId, omOrgId = orgId, omRoleId = None\<rparr>"

definition SaveUser :: "'w vault_ops \<Rightarrow> string \<Rightarrow> string \<Rightarrow> UserPG option \<Rightarrow> UserEncryptionKeysPG option \<Rightarrow> ('w, string) prog" where
  "SaveUser v dsn orgId user userEnc = (case user of None \<Rightarrow> fail (Failure ''user is empty'')
     | Some u \<Rightarrow>
       seqc (checked (Create_user v dsn u)) (\<lambda>uid.
       seqc (case userEnc of None \<Rightarrow> ret ()
             | Some enc \<Rightarrow> seqc (checked (Create_keys v dsn (enc\<lparr>ueUserID := uid\<rparr>))) (\<lambda>_. ret ())) (\<lambda>_.
       seqc (checked (Create_membership v dsn (admin_membership uid orgId))) (\<lambda>_. ret uid))))"

definition DeleteUser_vault :: "'w vault_ops \<Rightarrow> string \<Rightarrow> string \<Rightarrow> ('w, unit) prog" where
  "DeleteUser_vault v dsn userId =
     seqc (delete_rows v dsn ''user'' (''id = '' @ userId)) (\<lambda>_.
     seqc (ignorec (delete_rows v dsn ''user_encryption_keys'' (''userId = '' @ userId))) (\<lambda>_.
     ignorec (delete_rows v dsn ''org_memberships'' (''userId = '' @ userId))))"

section \<open>Users (init.go)\<close>

definition InitSuperAdmin :: "'w vault_ops \<Rightarrow> string \<Rightarrow> config \<Rightarrow> ('w, config) prog" where
  "InitSuperAdmin v dsn cf = seqc (UpdateSuperAdmin v dsn) (\<lambda>org. ret (cf\<lparr>cfOrg := org\<rparr>))"

definition node_env :: "string \<Rightarrow> string \<Rightarrow> string list" where
  "node_env email password = [''OWNER='' @ email, ''PASSWORD='' @ password, ''NODE_PATH=/usr/local/lib/node_modules'']"

definition new_user :: "string \<Rightarrow> string \<Rightarrow> UserPG" where
  "new_user username email = \<lparr>upID = None, upEmail = email, upAuthMethods = [], upSuperAdmin = False, upFirstName = [],
     upLastName = username, upIsAccepted = True, upIsMfaEnabled = False, upMfaMethods = [], upIsGhost = False, upUsername = username\<rparr>"

definition new_keys :: "string \<Rightarrow> string \<Rightarrow> string \<Rightarrow> string \<times> string \<times> string \<Rightarrow> UserEncryptionKeysPG" where
  "new_keys publicKey salt verifier encrypted = \<lparr>ueID = None, ueClientPublicKey = [], ueServerPrivateKey = [], ueEncryptionVersion = 1,
     ueProtectedKey = [], ueProtectedKeyIV = [], ueProtectedKeyTag = [], uePublicKey = publicKey,
     ueEncryptedPrivateKey = fst encrypted, ueIV = fst (snd encrypted), ueTag = snd (snd encrypted), ueSalt = salt,
     ueVerifier = verifier, ueUserID = [], ueOrgId = None\<rparr>"

definition InsertKsUserToPostgres :: "'w vault_ops \<Rightarrow> string \<Rightarrow> config \<Rightarrow> string \<Rightarrow> string \<Rightarrow> string \<Rightarrow> ('w, unit) prog" where
  "InsertKsUserToPostgres v dsn cf username email password =
     seqc (vault BoxGenerateKey (voGenerateKey v)) (\<lambda>(publicKeyBytes, privateKeyBytes).
     let publicKey = base64_EncodeToString publicKeyBytes; privateKey = base64_EncodeToString privateKeyBytes in
     seqc (Encrypt (voRandom v) privateKey (secretOfPassword password)) (\<lambda>encrypted.
     seqc (wrapv ''jsrp-client: '' (vault (RunNode (node_env email password)) (voNode v (node_env email password)))) (\<lambda>resStr.
     case Split resStr CHR '':'' of
       salt # verifier # _ \<Rightarrow>
         seqc (SaveUser v dsn (cfOrg cf) (Some (new_user username email)) (Some (new_keys publicKey salt verifier encrypted))) (\<lambda>_. ret ())
     | _ \<Rightarrow> fail (Failure (''jsrp-client: return invalid, '' @ resStr)))))"

definition DeleteUserFromPostgres :: "'w vault_ops \<Rightarrow> string \<Rightarrow> string \<Rightarrow> ('w, unit) prog" where
  "DeleteUserFromPostgres v dsn userId = DeleteUser_vault v dsn userId"

section \<open>Tokens (token.go)\<close>

definition vault_dsn :: "config \<Rightarrow> string \<Rightarrow> string \<Rightarrow> string" where
  "vault_dsn cf user password =
     ''postgres://'' @ user @ '':'' @ password @ ''@'' @ cfDBAddr cf @ ''/'' @ cfDBName cf @ ''?sslmode=disable''"

definition getSecretPwd :: "'w vault_ops \<Rightarrow> string \<Rightarrow> string \<Rightarrow> ('w, string) prog" where
  "getSecretPwd v secretName secretKey = seqc (Secrets_Get (voK8s v) InfisicalNamespace secretName) (\<lambda>data.
     ret (secret_value data secretKey))"

definition getPostgresUserAndPwd :: "'w vault_ops \<Rightarrow> config \<Rightarrow> ('w, string \<times> string) prog" where
  "getPostgresUserAndPwd v cf = seqc (getSecretPwd v ''infisical-postgres'' ''postgres-passwords'') (\<lambda>pwd. ret (cfDBUser cf, pwd))"

definition getUserFromInfisicalPostgres :: "'w vault_ops \<Rightarrow> config \<Rightarrow> string \<Rightarrow> ('w, UserEncryptionKeysPG \<times> AuthTokenSessionsPG) prog" where
  "getUserFromInfisicalPostgres v cf email =
     seqc (getPostgresUserAndPwd v cf) (\<lambda>(user, password).
     let dsn = vault_dsn cf user password in
     seqc (NewClient_vault v dsn) (\<lambda>_.
     deferc
       (seqc (GetUser_vault v dsn email) (\<lambda>userEnc.
        case userEnc of
          None \<Rightarrow> fail (Failure (''user '' @ email @ '' not found''))
        | Some enc \<Rightarrow> seqc (GetUserTokenSession v dsn (ueUserID enc) ''localhost'' ''tapr-sidecar'') (\<lambda>session. ret (enc, session))))
       (Close_vault v dsn)))"

definition getJwtSecret :: "'w vault_ops \<Rightarrow> ('w, string \<times> string) prog" where
  "getJwtSecret v = seqc (Secrets_Get (voK8s v) InfisicalNamespace ''infisical-backend'') (\<lambda>data.
     ret (secret_value data ''JWT_AUTH_SECRET'', secret_value data ''JWT_REFRESH_SECRET''))"

definition issueToken :: "'w vault_ops \<Rightarrow> string \<Rightarrow> string \<Rightarrow> int \<Rightarrow> string \<Rightarrow> string \<Rightarrow> string \<Rightarrow> ('w, string) prog" where
  "issueToken v userId key expireIn tokenType sessionId orgId =
     seqc (call (K8s GetNow) (getNow (voK8s v))) (\<lambda>issued.
     seqc (call (K8s GetNow) (getNow (voK8s v))) (\<lambda>now.
     lift (voSign v key \<lparr>tcIssuedAt = issued, tcExpiresAt = now + expireIn, tcUserId = userId, tcAuthTokenType = tokenType,
       tcTokenVersionId = sessionId, tcAccessVersion = (if tokenType = ''accessToken'' then Some 1 else None),
       tcRefreshVersion = (if tokenType = ''refreshToken'' then Some 1 else None), tcOrganizationId = orgId,
       tcAuthMethod = ''email''\<rparr>)))"

end
