(* ===== verification/Vault_App.thy ===== *)
theory Vault_App
  imports Vault_Store Middleware_App
begin

text \<open>The HTTP side of the vault (\<open>pkg/vault/infisical/controllers\<close>, \<open>cmd/vault/app\<close>): requests for
  secrets are authenticated by the platform, given a token for the store of secrets, and carried out
  there with the secrets encrypted under the key of the user's workspace.\<close>

section \<open>Data (types.go, appperm\_types.go)\<close>

record Secret =
  scName :: string
  scValue :: string
  scEnvironment :: string

record RequiredOp =
  roOp :: string
  roParams :: "(string \<times> string) list"

record Workspace =
  wsId :: string
  wsName :: string

record EncryptedKey =
  ekEncryptedkey :: string
  ekNonce :: string
  ekSender :: string

record PermissionRequire =
  pqGroup :: string
  pqDataType :: string
  pqVersion :: string
  pqOps :: "string list"

record ApplicationPermission =
  apApp :: string
  apPermission :: "PermissionRequire list"

definition DefaulSecretEnv :: string where "DefaulSecretEnv = ''prod''"

definition op_param :: "(string \<times> string) list \<Rightarrow> string \<Rightarrow> (string \<times> string) list" where
  "op_param params p = (if p = [] then params
     else let kv = Split p CHR ''='' in AList.update (hd kv) (case tl kv of [] \<Rightarrow> [] | v # _ \<Rightarrow> v) params)"

definition DecodeOps :: "string \<Rightarrow> RequiredOp" where
  "DecodeOps op = (let opTokenizer = Split op CHR ''?'' in
     \<lparr>roOp = hd opTokenizer,
      roParams = (case tl opTokenizer of [] \<Rightarrow> [] | ps # _ \<Rightarrow> foldl op_param [] (Split ps CHR ''&''))\<rparr>)"

section \<open>The store of secrets\<close>

text \<open>A response has a status, a text and the decoded result of its kind. The value of a key of a
  secret is a string or something else, and the key may be missing.\<close>

datatype json_value = JsonString string | JsonOther

type_synonym 'a response = "nat \<times> string \<times> 'a"

record 'w infisical =
  inPlain :: "http_request \<Rightarrow> ('w, unit response) op"
  inWorkspaces :: "http_request \<Rightarrow> ('w, Workspace list response) op"
  inProject :: "http_request \<Rightarrow> ('w, Workspace option response) op"
  inOrganizations :: "http_request \<Rightarrow> ('w, string list response) op"
  inKey :: "http_request \<Rightarrow> ('w, EncryptedKey response) op"
  inSecret :: "http_request \<Rightarrow> ('w, (string \<times> json_value) list response) op"
  inSecrets :: "http_request \<Rightarrow> ('w, (string \<times> json_value) list list response) op"

record 'w vault_server =
  vsOps :: "'w vault_ops"
  vsHttp :: "'w infisical"
  vsDyn :: "'w dyn"
  vsPerms :: "string \<Rightarrow> ('w, ApplicationPermission res list) op"
  vsAgg :: "go_error list \<Rightarrow> go_error"
  vsConfig :: config

definition http_ok :: "http_request \<Rightarrow> ('w, 'a response) op \<Rightarrow> ('w, 'a) prog" where
  "http_ok req f = seqc (vault (Http req) f) (\<lambda>(status, body, result).
     if status \<noteq> 200 then fail (Failure body) else ret result)"

definition request_to :: "'w vault_server \<Rightarrow> string \<Rightarrow> string \<Rightarrow> string \<Rightarrow> (string \<times> string) list \<Rightarrow>
    (string \<times> body_value) list \<Rightarrow> http_request" where
  "request_to v meth path token query body =
     \<lparr>hrMethod = meth, hrUrl = cfAddr (vsConfig v) @ path, hrToken = token, hrQuery = query, hrBody = body\<rparr>"

section \<open>Workspaces (workspace.go)\<close>

definition IsNotFound_ws :: "go_error \<Rightarrow> bool" where
  "IsNotFound_ws e = HasPrefix (Error e) ''not found''"

definition UserWorkspaceName :: "string \<Rightarrow> string \<Rightarrow> string" where
  "UserWorkspaceName workflowName user = workflowName @ ''-'' @ user"

definition workspaces_of :: "'w vault_server \<Rightarrow> string \<Rightarrow> string \<Rightarrow> ('w, Workspace list) prog" where
  "workspaces_of v token orgId =
     (let req = request_to v ''GET'' (''/api/v2/organizations/'' @ orgId @ ''/workspaces'') token [] [] in
      seqc (http_ok req (inWorkspaces (vsHttp v) req)) (\<lambda>items.
      if items = [] then fail (Failure ''not found the workspaces of user org'') else ret items))"

definition GetWorkspace :: "'w vault_server \<Rightarrow> string \<Rightarrow> string \<Rightarrow> string \<Rightarrow> ('w, string) prog" where
  "GetWorkspace v token orgId workspace =
     seqc (workspaces_of v token orgId) (\<lambda>items.
     case find (\<lambda>w. wsName w = workspace) items of
       Some w \<Rightarrow> ret (wsId w)
     | None \<Rightarrow> fail (Failure (''not found the workspace: '' @ workspace)))"

definition ListWorkspace :: "'w vault_server \<Rightarrow> string \<Rightarrow> string \<Rightarrow> ('w, string list) prog" where
  "ListWorkspace v token orgId = seqc (workspaces_of v token orgId) (\<lambda>items. ret (map wsName items))"

definition CreateWorkspace :: "'w vault_server \<Rightarrow> string \<Rightarrow> string \<Rightarrow> string \<Rightarrow> ('w, string) prog" where
  "CreateWorkspace v token orgId workspace =
     tryc (GetWorkspace v token orgId workspace) ret
       (\<lambda>e. if \<not> IsNotFound_ws e then fail e
          else let req = request_to v ''POST'' ''/api/v2/workspace'' token [] [(''projectName'', BodyString workspace)] in
            seqc (http_ok req (inProject (vsHttp v) req)) (\<lambda>project. seqc (deref_ptr project) (\<lambda>w. ret (wsId w))))"

definition DeleteWorkspace :: "'w vault_server \<Rightarrow> string \<Rightarrow> string \<Rightarrow> ('w, unit) prog" where
  "DeleteWorkspace v token workspaceId =
     (let req = request_to v ''DELETE'' (''/api/v1/workspace/'' @ workspaceId) token [] [] in
      http_ok req (inPlain (vsHttp v) req))"

definition uploadKeyToWorkspace :: "'w vault_server \<Rightarrow> UserEncryptionKeysPG \<Rightarrow> string \<Rightarrow> string \<Rightarrow> string \<Rightarrow> ('w, unit) prog" where
  "uploadKeyToWorkspace v user token workspaceId privateKey =
     seqc (rand_read (voRandom (vsOps v)) 16) (\<lambda>key.
     seqc (EncryptAssymmetric (voRandom (vsOps v)) (voBox (vsOps v)) (Hex key) (uePublicKey user) privateKey) (\<lambda>(ciphertext, nonce).
     let req = request_to v ''POST'' (''/api/v1/key/'' @ workspaceId) token []
           [(''key'', BodyObject [(''userId'', ueUserID user), (''encryptedKey'', ciphertext), (''nonce'', nonce)])] in
     http_ok req (inPlain (vsHttp v) req)))"

definition GetWorkspaceKey :: "'w vault_server \<Rightarrow> string \<Rightarrow> string \<Rightarrow> string \<Rightarrow> ('w, string) prog" where
  "GetWorkspaceKey v token workspaceId privateKey =
     (let req = request_to v ''GET'' (''/api/v2/workspace/'' @ workspaceId @ ''/encrypted-key'') token [] [] in
      seqc (http_ok req (inKey (vsHttp v) req)) (\<lambda>key.
      lift (DecryptAsymmetric (voBox (vsOps v)) (ekEncryptedkey key) (ekNonce key) (ekSender key) privateKey)))"

section \<open>Secrets in a workspace (secret.go)\<close>

definition env_or_default :: "string \<Rightarrow> string" where
  "env_or_default env = (if env = [] then DefaulSecretEnv else env)"

definition secret_path :: "string \<Rightarrow> string" where
  "secret_path secretName = ''/api/v3/secrets/'' @ secretName"

definition CreateSecretInWorkspace :: "'w vault_server \<Rightarrow> string \<Rightarrow> string \<Rightarrow> string \<Rightarrow> string \<Rightarrow> string \<Rightarrow> string \<Rightarrow> ('w, unit) prog" where
  "CreateSecretInWorkspace v token workspaceId projectKey secretName secretValue env =
     seqc (Encrypt (voRandom (vsOps v)) secretName projectKey) (\<lambda>(keyCiphertext, keyIV, keyTag).
     seqc (Encrypt (voRandom (vsOps v)) secretValue projectKey) (\<lambda>(valueCiphertext, valueIV, valueTag).
     let req = request_to v ''POST'' (secret_path secretName) token []
           [(''workspaceId'', BodyString workspaceId), (''environment'', BodyString (env_or_default env)), (''type'', BodyString ''shared''),
            (''secretKeyCiphertext'', BodyString keyCiphertext), (''secretKeyIV'', BodyString keyIV), (''secretKeyTag'', BodyString keyTag),
            (''secretValueCiphertext'', BodyString valueCiphertext), (''secretValueIV'', BodyString valueIV),
            (''secretValueTag'', BodyString valueTag)] in
     http_ok req (inPlain (vsHttp v) req)))"

definition secret_query :: "string \<Rightarrow> string \<Rightarrow> (string \<times> string) list" where
  "secret_query env workspaceId = [(''environment'', env_or_default env), (''workspaceId'', workspaceId), (''type'', ''shared'')]"

text \<open>A missing key reads as the empty string, a value that is no string panics.\<close>

definition valueOf :: "(string \<times> json_value) list \<Rightarrow> string \<Rightarrow> string res" where
  "valueOf result k = (case lookup result k of None \<Rightarrow> Val [] | Some (JsonString x) \<Rightarrow> Val x
     | Some JsonOther \<Rightarrow> Panic ''interface conversion'')"

definition decrypt_fields :: "(string \<times> json_value) list \<Rightarrow> string \<Rightarrow> string \<Rightarrow> string res" where
  "decrypt_fields result kind projectKey =
     bindR (valueOf result (kind @ ''Ciphertext'')) (\<lambda>c.
     bindR (valueOf result (kind @ ''IV'')) (\<lambda>iv.
     bindR (valueOf result (kind @ ''Tag'')) (\<lambda>tag. Decrypt c iv tag projectKey)))"

definition decrypt_secret :: "(string \<times> json_value) list \<Rightarrow> string \<Rightarrow> (string \<times> string) res" where
  "decrypt_secret result projectKey =
     bindR (decrypt_fields result ''secretKey'' projectKey) (\<lambda>name.
     bindR (decrypt_fields result ''secretValue'' projectKey) (\<lambda>val. Val (name, val)))"

definition GetSecretInWorkspace :: "'w vault_server \<Rightarrow> string \<Rightarrow> string \<Rightarrow> string \<Rightarrow> string \<Rightarrow> string \<Rightarrow> ('w, string \<times> string) prog" where
  "GetSecretInWorkspace v token workspaceId projectKey env secretName =
     (let req = request_to v ''GET'' (secret_path secretName) token (secret_query env workspaceId) [] in
      seqc (http_ok req (inSecret (vsHttp v) req)) (\<lambda>result. lift (decrypt_secret result projectKey)))"

definition ListSecretInWorkspace :: "'w vault_server \<Rightarrow> string \<Rightarrow> string \<Rightarrow> string \<Rightarrow> string \<Rightarrow> ('w, (string \<times> string) list) prog" where
  "ListSecretInWorkspace v token workspaceId projectKey env =
     (let req = request_to v ''GET'' (secret_path []) token (secret_query env workspaceId) [] in
      seqc (http_ok req (inSecrets (vsHttp v) req)) (\<lambda>results. lift (mapR (\<lambda>result. decrypt_secret result projectKey) results)))"

definition DeleteSecretInWorkspace :: "'w vault_server \<Rightarrow> string \<Rightarrow> string \<Rightarrow> string \<Rightarrow> string \<Rightarrow> ('w, unit) prog" where
  "DeleteSecretInWorkspace v token workspaceId env secretName =
     (let req = request_to v ''DELETE'' (secret_path secretName) token []
           [(''environment'', BodyString (env_or_default env)), (''workspaceId'', BodyString workspaceId), (''type'', BodyString ''shared'')] in
      http_ok req (inPlain (vsHttp v) req))"

definition UpdateSecretInWorkspace :: "'w vault_server \<Rightarrow> string \<Rightarrow> string \<Rightarrow> string \<Rightarrow> string \<Rightarrow> string \<Rightarrow> string \<Rightarrow> ('w, unit) prog" where
  "UpdateSecretInWorkspace v token workspaceId projectKey secretName secretValue env =
     seqc (Encrypt (voRandom (vsOps v)) secretValue projectKey) (\<lambda>(valueCiphertext, valueIV, valueTag).
     let req = request_to v ''PATCH'' (secret_path secretName) token []
           [(''workspaceId'', BodyString workspaceId), (''environment'', BodyString (env_or_default env)), (''type'', BodyString ''shared''),
            (''secretValueCiphertext'', BodyString valueCiphertext), (''secretValueIV'', BodyString valueIV),
            (''secretValueTag'', BodyString valueTag)] in
     http_ok req (inPlain (vsHttp v) req))"

section \<open>The context of a request (middlewares.go, token.go)\<close>

text \<open>The values that the checks put into the context; an assertion on a missing one panics.\<close>

record vault_ctx =
  cxUsername :: string
  cxEmail :: string
  cxPwd :: string
  cxUser :: "UserEncryptionKeysPG option"
  cxOrg :: "string option"
  cxToken :: "string option"
  cxRefreshToken :: "string option"
  cxPrivateKey :: "string option"

definition asserted :: "'a option \<Rightarrow> ('w, 'a) prog" where
  "asserted x = (case x of None \<Rightarrow> panic ''interface conversion'' | Some y \<Rightarrow> ret y)"

definition refuse_on :: "nat \<Rightarrow> string \<Rightarrow> ('w, 'a) prog \<Rightarrow> ('a \<Rightarrow> ('w, 'b answer) prog) \<Rightarrow> ('w, 'b answer) prog" where
  "refuse_on code msg m f = tryc m f (\<lambda>e. ret (Refused code (msg @ Error e)))"

definition ten_days :: int where "ten_days = 864000"

definition IssueInfisicalToken :: "'w vault_server \<Rightarrow> (vault_ctx \<Rightarrow> ('w, 'a answer) prog) \<Rightarrow> vault_ctx \<Rightarrow> ('w, 'a answer) prog" where
  "IssueInfisicalToken v next c = (let ops = vsOps v in
     refuse_on 401 ''get user from infisical error, '' (getUserFromInfisicalPostgres ops (vsConfig v) (cxEmail c)) (\<lambda>(user, session).
     seqc (deref_ptr (ueOrgId user)) (\<lambda>org.
     let c = c\<lparr>cxUser := Some user, cxOrg := Some org\<rparr>; uid = ueUserID user in
     refuse_on 401 ''get user jwt key error, '' (getJwtSecret ops) (\<lambda>(authKey, _).
     seqc (deref_ptr (atID session)) (\<lambda>sid.
     refuse_on 401 ''unable to sign refresh token, '' (issueToken ops uid authKey ten_days ''refreshToken'' sid org) (\<lambda>refreshToken.
     refuse_on 401 ''unable to sign auth token, '' (issueToken ops uid authKey ten_days ''accessToken'' sid org) (\<lambda>authToken.
     next (c\<lparr>cxRefreshToken := Some refreshToken, cxToken := Some authToken\<rparr>))))))))"

definition FetchUserPrivateKey :: "(vault_ctx \<Rightarrow> ('w, 'a answer) prog) \<Rightarrow> vault_ctx \<Rightarrow> ('w, 'a answer) prog" where
  "FetchUserPrivateKey next c = seqc (asserted (cxUser c)) (\<lambda>user.
     refuse_on 500 ''get user private key error, '' (lift (DecryptUserPrivateKeyHelper user (cxPwd c))) (\<lambda>userPrivateKey.
     next (c\<lparr>cxPrivateKey := Some userPrivateKey\<rparr>)))"

definition GetUserOrganizationId :: "'w vault_server \<Rightarrow> string \<Rightarrow> ('w, string) prog" where
  "GetUserOrganizationId v token =
     (let req = request_to v ''GET'' ''/api/v2/users/me/organizations'' token [] [] in
      seqc (http_ok req (inOrganizations (vsHttp v) req)) (\<lambda>orgs. case orgs of
        [] \<Rightarrow> fail (Failure ''user doesn't has organizations'') | org # _ \<Rightarrow> ret org))"

definition FetchUserOrganizationId :: "'w vault_server \<Rightarrow> (vault_ctx \<Rightarrow> ('w, 'a answer) prog) \<Rightarrow> vault_ctx \<Rightarrow> ('w, 'a answer) prog" where
  "FetchUserOrganizationId v next c = (case cxOrg c of
     Some _ \<Rightarrow> next c
   | None \<Rightarrow> seqc (asserted (cxToken c)) (\<lambda>token.
       refuse_on 500 ''get user organization error, '' (GetUserOrganizationId v token) (\<lambda>org.
       next (c\<lparr>cxOrg := Some org\<rparr>))))"

section \<open>Secrets of a user (secret.go)\<close>

text \<open>The common beginning of the handlers: the token, the decoded body, the workspace of the query,
  and the values of the context.\<close>

record session =
  seToken :: string
  seOrg :: string
  sePrivateKey :: string
  seWorkspace :: string

definition with_secret :: "vault_ctx \<Rightarrow> Secret res \<Rightarrow> string \<Rightarrow> (session \<Rightarrow> Secret \<Rightarrow> ('w, 'a answer) prog) \<Rightarrow> ('w, 'a answer) prog" where
  "with_secret c body reqWorkspaceName f = (case cxToken c of None \<Rightarrow> fail (Failure ''no auth token'')
     | Some token \<Rightarrow>
       seqc (lift body) (\<lambda>secret.
       if reqWorkspaceName = [] then ret (Refused 400 ''invalid request, none of the workspace param'')
       else seqc (asserted (cxOrg c)) (\<lambda>orgId. seqc (asserted (cxPrivateKey c)) (\<lambda>userPrivateKey.
         f \<lparr>seToken = token, seOrg = orgId, sePrivateKey = userPrivateKey,
            seWorkspace = UserWorkspaceName reqWorkspaceName (cxUsername c)\<rparr> secret))))"

definition with_project_key :: "'w vault_server \<Rightarrow> session \<Rightarrow> (string \<Rightarrow> string \<Rightarrow> ('w, 'a answer) prog) \<Rightarrow> ('w, 'a answer) prog" where
  "with_project_key v se f =
     refuse_on 500 ''get user workspace error, '' (GetWorkspace v (seToken se) (seOrg se) (seWorkspace se)) (\<lambda>workspaceId.
     refuse_on 500 ''get user workspace key error, '' (GetWorkspaceKey v (seToken se) workspaceId (sePrivateKey se)) (\<lambda>projectKey.
     f workspaceId projectKey))"

text \<open>Creating a secret creates the workspace when it is not there.\<close>

definition CreateSecret :: "'w vault_server \<Rightarrow> vault_ctx \<Rightarrow> Secret res \<Rightarrow> string \<Rightarrow> ('w, unit answer) prog" where
  "CreateSecret v c body reqWorkspaceName = with_secret c body reqWorkspaceName (\<lambda>se secret.
     seqc (asserted (cxUser c)) (\<lambda>user.
     let put = (\<lambda>workspaceId.
       refuse_on 500 ''get user workspace key error, '' (GetWorkspaceKey v (seToken se) workspaceId (sePrivateKey se)) (\<lambda>projectKey.
       refuse_on 500 ''create user secret error, ''
         (CreateSecretInWorkspace v (seToken se) workspaceId projectKey (scName secret) (scValue secret) (scEnvironment secret))
         (\<lambda>_. ret (Answer ())))) in
     tryc (GetWorkspace v (seToken se) (seOrg se) (seWorkspace se)) put
       (\<lambda>e. if \<not> IsNotFound_ws e then ret (Refused 500 (''get user workspace error, '' @ Error e))
          else refuse_on 500 ''create user workspace error, '' (CreateWorkspace v (seToken se) (seOrg se) (seWorkspace se)) put)))"

definition RetrieveSecret :: "'w vault_server \<Rightarrow> vault_ctx \<Rightarrow> Secret res \<Rightarrow> string \<Rightarrow> ('w, Secret answer) prog" where
  "RetrieveSecret v c body reqWorkspaceName = with_secret c body reqWorkspaceName (\<lambda>se secret.
     with_project_key v se (\<lambda>workspaceId projectKey.
     refuse_on 500 ''retrieve secret key error, ''
       (GetSecretInWorkspace v (seToken se) workspaceId projectKey (scEnvironment secret) (scName secret))
       (\<lambda>(name, val). ret (Answer \<lparr>scName = name, scValue = val, scEnvironment = scEnvironment secret\<rparr>))))"

definition ListSecret :: "'w vault_server \<Rightarrow> vault_ctx \<Rightarrow> Secret res \<Rightarrow> string \<Rightarrow> ('w, Secret list answer) prog" where
  "ListSecret v c body reqWorkspaceName = with_secret c body reqWorkspaceName (\<lambda>se secret.
     with_project_key v se (\<lambda>workspaceId projectKey.
     refuse_on 500 ''list secret keys error, '' (ListSecretInWorkspace v (seToken se) workspaceId projectKey (scEnvironment secret))
       (\<lambda>nvs. ret (Answer (map (\<lambda>(name, val). \<lparr>scName = name, scValue = val, scEnvironment = scEnvironment secret\<rparr>) nvs)))))"

definition DeleteSecret :: "'w vault_server \<Rightarrow> vault_ctx \<Rightarrow> Secret res \<Rightarrow> string \<Rightarrow> ('w, unit answer) prog" where
  "DeleteSecret v c body reqWorkspaceName = with_secret c body reqWorkspaceName (\<lambda>se secret.
     with_project_key v se (\<lambda>workspaceId projectKey.
     refuse_on 500 ''delete secret error, '' (DeleteSecretInWorkspace v (seToken se) workspaceId (scEnvironment secret) (scName secret))
       (\<lambda>_. ret (Answer ()))))"

definition UpdateSecret :: "'w vault_server \<Rightarrow> vault_ctx \<Rightarrow> Secret res \<Rightarrow> string \<Rightarrow> ('w, unit answer) prog" where
  "UpdateSecret v c body reqWorkspaceName = with_secret c body reqWorkspaceName (\<lambda>se secret.
     seqc (asserted (cxUser c)) (\<lambda>user.
     with_project_key v se (\<lambda>workspaceId projectKey.
     refuse_on 500 ''update user secret error, ''
       (UpdateSecretInWorkspace v (seToken se) workspaceId projectKey (scName secret) (scValue secret) (scEnvironment secret))
       (\<lambda>_. ret (Answer ())))))"

section \<open>Secrets of an application (admin.go)\<close>

definition ErrorNoPerm :: go_error where "ErrorNoPerm = Failure ''app didn't has perm on infisical secret''"

definition is_secret_perm :: "PermissionRequire \<Rightarrow> bool" where
  "is_secret_perm pr = (pqDataType pr = ''secret'' \<and> pqGroup pr = ''secret.infisical'' \<and> pqVersion pr = ''v1'')"

text \<open>The workspaces that a permission names: that of its first operation, if it has the parameter.\<close>

definition perm_workspaces :: "PermissionRequire list \<Rightarrow> string list" where
  "perm_workspaces prs = List.map_filter (\<lambda>pr. if is_secret_perm pr then
     (case pqOps pr of [] \<Rightarrow> None | op # _ \<Rightarrow> lookup (roParams (DecodeOps op)) ''workspace'') else None) prs"

definition list_perms :: "'w vault_server \<Rightarrow> string \<Rightarrow> ('w, ApplicationPermission res list) prog" where
  "list_perms v username = (let ns = ''user-system-'' @ username in vault (ListAppPerms ns) (vsPerms v ns))"

record app_workspace =
  awName :: string
  awId :: string
  awKey :: string

definition app_workspace_step :: "'w vault_server \<Rightarrow> string \<Rightarrow> string \<Rightarrow> string \<Rightarrow> string \<Rightarrow>
    app_workspace list \<times> go_error list \<Rightarrow> string \<Rightarrow> ('w, app_workspace list \<times> go_error list) prog" where
  "app_workspace_step v token orgId userPrivateKey username acc workspaceName =
     (let userWorkspace = UserWorkspaceName workspaceName username; (ws, errs) = acc in
      seqc (tryc (GetWorkspace v token orgId userWorkspace) (\<lambda>i. ret (i, errs))
             (\<lambda>e. if \<not> IsNotFound_ws e then fail e else ret ([], errs @ [e]))) (\<lambda>(workspaceId, errs).
      if workspaceId \<noteq> [] then
        seqc (GetWorkspaceKey v token workspaceId userPrivateKey) (\<lambda>projectKey.
        ret (ws @ [\<lparr>awName = userWorkspace, awId = workspaceId, awKey = projectKey\<rparr>], errs))
      else ret (ws @ [\<lparr>awName = userWorkspace, awId = [], awKey = []\<rparr>], errs)))"

definition app_perm_step :: "'w vault_server \<Rightarrow> string \<Rightarrow> string \<Rightarrow> string \<Rightarrow> string \<Rightarrow> string \<Rightarrow>
    (app_workspace list \<times> go_error list) \<times> bool \<Rightarrow> ApplicationPermission res \<Rightarrow> ('w, (app_workspace list \<times> go_error list) \<times> bool) prog" where
  "app_perm_step v token orgId userPrivateKey username appName acc data =
     seqc (lift data) (\<lambda>appperm.
     if apApp appperm = appName then
       seqc (foldM (app_workspace_step v token orgId userPrivateKey username) (fst acc) (perm_workspaces (apPermission appperm)))
         (\<lambda>found. ret (found, True))
     else ret acc)"

text \<open>The workspaces found, and the error that goes with them; the workspaces are nil together with an
  error that ends the search.\<close>

definition getAppSecretWorkspaces :: "'w vault_server \<Rightarrow> string \<Rightarrow> string \<Rightarrow> string \<Rightarrow> string \<Rightarrow> string \<Rightarrow>
    ('w, app_workspace list \<times> go_error option) prog" where
  "getAppSecretWorkspaces v token orgId userPrivateKey username appName =
     tryc (seqc (list_perms v username) (\<lambda>items.
           if items = [] then fail ErrorNoPerm
           else seqc (foldM (app_perm_step v token orgId userPrivateKey username appName) (([], []), False) items) (\<lambda>((ws, errs), foundPerm).
             if errs \<noteq> [] then ret (ws, Some (vsAgg v errs))
             else if \<not> foundPerm then fail ErrorNoPerm
             else ret (ws, None))))
       ret (\<lambda>e. ret ([], Some e))"

definition with_app :: "string \<Rightarrow> vault_ctx \<Rightarrow> (string \<Rightarrow> ('w, 'a answer) prog) \<Rightarrow> ('w, 'a answer) prog" where
  "with_app app c f = (if app = [] then fail (Failure ''app name is empty'')
     else case cxToken c of None \<Rightarrow> fail (Failure ''no auth token'') | Some token \<Rightarrow> f token)"

definition app_workspaces :: "'w vault_server \<Rightarrow> vault_ctx \<Rightarrow> string \<Rightarrow> string \<Rightarrow> ('w, app_workspace list \<times> go_error option) prog" where
  "app_workspaces v c app token = seqc (asserted (cxOrg c)) (\<lambda>orgId. seqc (asserted (cxPrivateKey c)) (\<lambda>userPrivateKey.
     getAppSecretWorkspaces v token orgId userPrivateKey (cxUsername c) app))"

definition CheckAppSecretPerm :: "'w vault_server \<Rightarrow> vault_ctx \<Rightarrow> string \<Rightarrow> ('w, bool answer) prog" where
  "CheckAppSecretPerm v c app = with_app app c (\<lambda>token.
     seqc (app_workspaces v c app token) (\<lambda>(ws, err).
     case err of
       Some e \<Rightarrow> if e \<noteq> ErrorNoPerm \<and> ws = [] then ret (Refused 500 (''check app secret permission error, '' @ Error e))
         else ret (Answer (e \<noteq> ErrorNoPerm \<and> ws \<noteq> []))
     | None \<Rightarrow> ret (Answer (ws \<noteq> []))))"

definition ListAppSecret :: "'w vault_server \<Rightarrow> vault_ctx \<Rightarrow> string \<Rightarrow> ('w, (string \<times> string) list answer) prog" where
  "ListAppSecret v c app = with_app app c (\<lambda>token.
     seqc (app_workspaces v c app token) (\<lambda>(ws, err).
     if err \<noteq> None \<and> ws = [] then ret (Refused 500 (''get app workspace key error, '' @ Error (the err)))
     else refuse_on 500 ''list secres in app workspace error, ''
       (append_each (filter (\<lambda>w. awId w \<noteq> []) ws) (\<lambda>w.
          seqc (ListSecretInWorkspace v token (awId w) (awKey w) DefaulSecretEnv) (\<lambda>nvs. ret (map (\<lambda>(name, _). (awName w, name)) nvs))))
       (\<lambda>secrets. ret (Answer secrets))))"

definition CreateAppSecret :: "'w vault_server \<Rightarrow> vault_ctx \<Rightarrow> string \<Rightarrow> (string \<times> string) res \<Rightarrow> ('w, unit answer) prog" where
  "CreateAppSecret v c app body = with_app app c (\<lambda>token.
     refuse_on 400 ''send data invalid, '' (lift body) (\<lambda>(key, val).
     seqc (asserted (cxUser c)) (\<lambda>user.
     seqc (app_workspaces v c app token) (\<lambda>(ws, err).
     case ws of
       [] \<Rightarrow> ret (Refused 404 ''app has not permission to create secret'')
     | w # _ \<Rightarrow>
       let put = (\<lambda>workspaceId projectKey. refuse_on 500 ''create secret error, ''
             (CreateSecretInWorkspace v token workspaceId projectKey key val DefaulSecretEnv) (\<lambda>_. ret (Answer ()))) in
       if awId w = [] then
         seqc (asserted (cxOrg c)) (\<lambda>orgId. seqc (asserted (cxPrivateKey c)) (\<lambda>userPrivateKey.
         refuse_on 500 ''create user workspace error, '' (CreateWorkspace v token orgId (awName w)) (\<lambda>workspaceId.
         refuse_on 500 ''get user workspace key error, '' (GetWorkspaceKey v token workspaceId userPrivateKey) (\<lambda>projectKey.
         put workspaceId projectKey))))
       else put (awId w) (awKey w)))))"

definition first_workspace :: "string \<Rightarrow> app_workspace list \<times> go_error option \<Rightarrow> (app_workspace \<Rightarrow> ('w, 'a answer) prog) \<Rightarrow> ('w, 'a answer) prog" where
  "first_workspace msg found f = (case found of (ws, Some e) \<Rightarrow> ret (Refused 500 (''get app workspace key error, '' @ Error e))
     | ([], None) \<Rightarrow> ret (Refused 404 msg)
     | (w # _, None) \<Rightarrow> f w)"

definition DeleteAppSecret :: "'w vault_server \<Rightarrow> vault_ctx \<Rightarrow> string \<Rightarrow> (string \<times> string) res \<Rightarrow> ('w, unit answer) prog" where
  "DeleteAppSecret v c app body = with_app app c (\<lambda>token.
     refuse_on 400 ''send data invalid, '' (lift body) (\<lambda>(key, val).
     seqc (app_workspaces v c app token) (\<lambda>found. first_workspace ''app has not permission to delete secret'' found (\<lambda>w.
     refuse_on 500 ''delete secret error, '' (DeleteSecretInWorkspace v token (awId w) DefaulSecretEnv key) (\<lambda>_. ret (Answer ()))))))"

definition UpdateAppSecret :: "'w vault_server \<Rightarrow> vault_ctx \<Rightarrow> string \<Rightarrow> (string \<times> string) res \<Rightarrow> ('w, unit answer) prog" where
  "UpdateAppSecret v c app body = with_app app c (\<lambda>token.
     refuse_on 400 ''send data invalid, '' (lift body) (\<lambda>(key, val).
     seqc (asserted (cxUser c)) (\<lambda>user.
     seqc (app_workspaces v c app token) (\<lambda>found. first_workspace ''app has not permission to delete secret'' found (\<lambda>w.
     refuse_on 500 ''update secret error, ''
       (UpdateSecretInWorkspace v token (awId w) (awKey w) key val DefaulSecretEnv) (\<lambda>_. ret (Answer ())))))))"

end
