(* ===== verification/Vault_Server.thy ===== *)
theory Vault_Server
  imports Vault_App
begin

text \<open>The rest of the vault: the callbacks for the users of the platform (\<open>controllers/user.go\<close>), the
  endpoints that hand out a token or a key (\<open>controllers/auth.go\<close>), and the initialisation and the routes
  of the server (\<open>cmd/vault/app/server.go\<close>).\<close>

section \<open>Users (user.go)\<close>

text \<open>The attempts to connect go on until one succeeds.\<close>

fun connect_loop :: "nat \<Rightarrow> 'w vault_ops \<Rightarrow> string \<Rightarrow> ('w, unit) prog" where
  "connect_loop 0 v dsn = looping"
| "connect_loop (Suc n) v dsn = tryc (NewClient_vault v dsn) ret (\<lambda>_. connect_loop n v dsn)"

definition with_pg_client :: "'w vault_ops \<Rightarrow> string \<Rightarrow> (string \<Rightarrow> ('w, 'a) prog) \<Rightarrow> ('w, 'a) prog" where
  "with_pg_client v dsn f = seqc (connect_loop (voPolls v) v dsn) (\<lambda>_. deferc (f dsn) (Close_vault v dsn))"

record post_user =
  puName :: string
  puEmail :: string

definition CreateUser_vault :: "'w vault_server \<Rightarrow> post_user res \<Rightarrow> ('w, unit) prog" where
  "CreateUser_vault v body = (let ops = vsOps v; cf = vsConfig v in
     seqc (getPostgresUserAndPwd ops cf) (\<lambda>(pguser, password).
     seqc (lift body) (\<lambda>info.
     with_pg_client ops (vault_dsn cf pguser password) (\<lambda>dsn.
     seqc (GetUser_vault ops dsn (puEmail info)) (\<lambda>u.
     case u of
       None \<Rightarrow> InsertKsUserToPostgres ops dsn cf (puName info) (puEmail info) (cfPassword cf)
     | Some _ \<Rightarrow> ret ())))))"

text \<open>A workspace that is not found stays in the list, without an identifier.\<close>

definition user_workspace_step :: "'w vault_server \<Rightarrow> string \<Rightarrow> string \<Rightarrow> string \<Rightarrow>
    (string \<times> string) list \<times> go_error list \<Rightarrow> string \<Rightarrow> ('w, (string \<times> string) list \<times> go_error list) prog" where
  "user_workspace_step v token orgId username acc workspaceName =
     (let userWorkspace = UserWorkspaceName workspaceName username; (ws, errs) = acc in
      tryc (GetWorkspace v token orgId userWorkspace) (\<lambda>workspaceId. ret (ws @ [(userWorkspace, workspaceId)], errs))
        (\<lambda>e. if \<not> IsNotFound_ws e then fail e else ret (ws @ [(userWorkspace, [])], errs @ [e])))"

definition getWorkspaces :: "'w vault_server \<Rightarrow> string \<Rightarrow> string \<Rightarrow> string \<Rightarrow> ('w, (string \<times> string) list \<times> go_error option) prog" where
  "getWorkspaces v token orgId username =
     tryc (seqc (list_perms v username) (\<lambda>items.
           seqc (foldM (\<lambda>acc data. seqc (lift data) (\<lambda>appperm.
               foldM (user_workspace_step v token orgId username) acc (perm_workspaces (apPermission appperm)))) ([], []) items)
             (\<lambda>(ws, errs). ret (ws, if errs \<noteq> [] then Some (vsAgg v errs) else None))))
       ret (\<lambda>e. ret ([], Some e))"

definition DeleteUser_callback :: "'w vault_server \<Rightarrow> vault_ctx \<Rightarrow> post_user res \<Rightarrow> ('w, unit) prog" where
  "DeleteUser_callback v c body = (let ops = vsOps v; cf = vsConfig v in
     seqc (getPostgresUserAndPwd ops cf) (\<lambda>(pguser, password).
     seqc (lift body) (\<lambda>info.
     with_pg_client ops (vault_dsn cf pguser password) (\<lambda>dsn.
     seqc (GetUser_vault ops dsn (puEmail info)) (\<lambda>u.
     case u of
       None \<Rightarrow> ret ()
     | Some user \<Rightarrow>
       seqc (DeleteUserFromPostgres ops dsn (ueUserID user)) (\<lambda>_.
       case cxToken c of None \<Rightarrow> fail (Failure ''no auth token'')
       | Some token \<Rightarrow>
         seqc (asserted (cxOrg c)) (\<lambda>orgId.
         seqc (getWorkspaces v token orgId (cxUsername c)) (\<lambda>(workspaces, err).
         forM workspaces (\<lambda>(_, workspaceId). ignorec (DeleteWorkspace v token workspaceId))))))))))"

section \<open>Tokens and keys (auth.go)\<close>

definition AuthToken :: "config \<Rightarrow> vault_ctx \<Rightarrow> ('w, string \<times> string) prog" where
  "AuthToken cf c = (case cxToken c of None \<Rightarrow> fail (Failure ''no auth token'') | Some token \<Rightarrow> ret (token, cfPassword cf))"

definition PrivateKey :: "vault_ctx \<Rightarrow> ('w, UserEncryptionKeysPG) prog" where
  "PrivateKey c = (case cxToken c of None \<Rightarrow> fail (Failure ''no auth token'')
     | Some _ \<Rightarrow> (case cxUser c of None \<Rightarrow> fail (Failure ''no user data'') | Some user \<Rightarrow> ret user))"

section \<open>The server (server.go)\<close>

definition Init_vault :: "'w vault_ops \<Rightarrow> config \<Rightarrow> ('w, config) prog" where
  "Init_vault v cf = seqc (getPostgresUserAndPwd v cf) (\<lambda>(pguser, password).
     with_pg_client v (vault_dsn cf pguser password) (\<lambda>dsn. InitSuperAdmin v dsn cf))"

datatype vault_endpoint =
    AuthToken_endpoint
  | PrivateKey_endpoint
  | CreateSecret_endpoint "Secret res" string
  | DeleteSecret_endpoint "Secret res" string
  | UpdateSecret_endpoint "Secret res" string
  | RetrieveSecret_endpoint "Secret res" string
  | ListSecret_endpoint "Secret res" string
  | Permission_endpoint string
  | ListApp_endpoint string
  | CreateApp_endpoint string "(string \<times> string) res"
  | DeleteApp_endpoint string "(string \<times> string) res"
  | UpdateApp_endpoint string "(string \<times> string) res"
  | UserCreate_endpoint "post_user res"
  | UserDelete_endpoint "post_user res"

datatype vault_data =
    TokenData "string \<times> string"
  | KeyData UserEncryptionKeysPG
  | SecretData Secret
  | SecretsData "Secret list"
  | PermissionData bool
  | KeysData "(string \<times> string) list"
  | DoneData

definition map_answer :: "('a \<Rightarrow> 'b) \<Rightarrow> ('w, 'a answer) prog \<Rightarrow> ('w, 'b answer) prog" where
  "map_answer f m = seqc m (\<lambda>a. ret (case a of Refused code msg \<Rightarrow> Refused code msg | Answer x \<Rightarrow> Answer (f x)))"

text \<open>The context after the check of the user; the password of all users is that of the vault.\<close>

definition user_ctx :: "'w vault_server \<Rightarrow> string \<Rightarrow> string \<Rightarrow> vault_ctx" where
  "user_ctx v name email = \<lparr>cxUsername = name, cxEmail = email, cxPwd = cfPassword (vsConfig v), cxUser = None, cxOrg = None,
     cxToken = None, cxRefreshToken = None, cxPrivateKey = None\<rparr>"

definition authenticated :: "'w vault_server \<Rightarrow> string \<Rightarrow> (vault_ctx \<Rightarrow> ('w, 'a answer) prog) \<Rightarrow> ('w, 'a answer) prog" where
  "authenticated v userName next = GetUserInfo (vsDyn v) userName (\<lambda>name email. IssueInfisicalToken v next (user_ctx v name email))"

definition with_keys :: "'w vault_server \<Rightarrow> string \<Rightarrow> (vault_ctx \<Rightarrow> ('w, 'a answer) prog) \<Rightarrow> ('w, 'a answer) prog" where
  "with_keys v userName next = authenticated v userName (FetchUserPrivateKey (FetchUserOrganizationId v next))"

definition serve_vault :: "'w vault_server \<Rightarrow> string \<Rightarrow> vault_endpoint \<Rightarrow> ('w, vault_data answer) prog" where
  "serve_vault v userName e = (case e of
     AuthToken_endpoint \<Rightarrow> authenticated v userName (\<lambda>c. answer (AuthToken (vsConfig v) c) TokenData)
   | PrivateKey_endpoint \<Rightarrow> authenticated v userName (\<lambda>c. answer (PrivateKey c) KeyData)
   | CreateSecret_endpoint body w \<Rightarrow> with_keys v userName (\<lambda>c. map_answer (\<lambda>_. DoneData) (CreateSecret v c body w))
   | DeleteSecret_endpoint body w \<Rightarrow> with_keys v userName (\<lambda>c. map_answer (\<lambda>_. DoneData) (DeleteSecret v c body w))
   | UpdateSecret_endpoint body w \<Rightarrow> with_keys v userName (\<lambda>c. map_answer (\<lambda>_. DoneData) (UpdateSecret v c body w))
   | RetrieveSecret_endpoint body w \<Rightarrow> with_keys v userName (\<lambda>c. map_answer SecretData (RetrieveSecret v c body w))
   | ListSecret_endpoint body w \<Rightarrow> with_keys v userName (\<lambda>c. map_answer SecretsData (ListSecret v c body w))
   | Permission_endpoint app \<Rightarrow> with_keys v userName (\<lambda>c. map_answer PermissionData (CheckAppSecretPerm v c app))
   | ListApp_endpoint app \<Rightarrow> with_keys v userName (\<lambda>c. map_answer KeysData (ListAppSecret v c app))
   | CreateApp_endpoint app body \<Rightarrow> with_keys v userName (\<lambda>c. map_answer (\<lambda>_. DoneData) (CreateAppSecret v c app body))
   | DeleteApp_endpoint app body \<Rightarrow> with_keys v userName (\<lambda>c. map_answer (\<lambda>_. DoneData) (DeleteAppSecret v c app body))
   | UpdateApp_endpoint app body \<Rightarrow> with_keys v userName (\<lambda>c. map_answer (\<lambda>_. DoneData) (UpdateAppSecret v c app body))
   | UserCreate_endpoint body \<Rightarrow> answer (CreateUser_vault v body) (\<lambda>_. DoneData)
   | UserDelete_endpoint body \<Rightarrow> authenticated v userName (\<lambda>c. answer (DeleteUser_callback v c body) (\<lambda>_. DoneData)))"

end
