(* ===== verification/Vault_Proofs.thy ===== *)
theory Vault_Proofs
  imports Vault_Server Results
begin

text \<open>Properties of the vault: what is encrypted can be read back, every request to the store of
  secrets is made in the name of the user it is made for, and the secrets of an application stay in
  the workspaces it was granted.\<close>

section \<open>Tokens\<close>

text \<open>Requests that bear a given token.\<close>

fun bears :: "string \<Rightarrow> call \<Rightarrow> bool" where
  "bears token (Svc (Vault (Http req))) = (hrToken req = token)"
| "bears token _ = True"

lemma token_request_to [simp]: "hrToken (request_to v m p token q b) = token"
  by (simp add: request_to_def)

lemma emits_deref_ptr [emits_intros]: "emits S (deref_ptr x)"
  and emits_asserted [emits_intros]: "emits S (asserted x)"
  by (auto simp: deref_ptr_def asserted_def intro: emits_intros split: option.splits)

lemma asserted_Some: "seqc (asserted (Some x)) f = f x"
  by (simp add: asserted_def seqc_def ret_def fun_eq_iff)

lemma emits_http [emits_intros]: "S (Svc (Vault (Http req))) \<Longrightarrow> emits S (http_ok req f)"
  unfolding http_ok_def vault_def by (auto intro!: emits_intros split: prod.splits)

lemma emits_refuse_on [emits_intros]: "emits S m \<Longrightarrow> (\<And>x. emits S (f x)) \<Longrightarrow> emits S (refuse_on code msg m f)"
  unfolding refuse_on_def by (auto intro: emits_intros)

lemma emits_rand_read [emits_intros]: "S (Misc (RandomBytes n)) \<Longrightarrow> emits S (rand_read rnd n)"
  unfolding rand_read_def by (intro emits_intros)

lemma emits_Encrypt [emits_intros]: "S (Misc (RandomBytes 16)) \<Longrightarrow> emits S (Encrypt rnd text secret)"
  unfolding Encrypt_def Let_def BLOCK_SIZE_BYTES_def by (intro emits_intros)

lemma emits_append_each [emits_intros]: "(\<And>x. x \<in> set xs \<Longrightarrow> emits S (f x)) \<Longrightarrow> emits S (append_each xs f)"
  unfolding append_each_def by (intro emits_intros)

lemmas vault_client_defs = workspaces_of_def GetWorkspace_def CreateWorkspace_def DeleteWorkspace_def GetWorkspaceKey_def
  CreateSecretInWorkspace_def GetSecretInWorkspace_def ListSecretInWorkspace_def DeleteSecretInWorkspace_def
  UpdateSecretInWorkspace_def GetUserOrganizationId_def Let_def

lemma bears_client [emits_intros]:
  "emits (bears t) (GetWorkspace v t orgId workspace)" "emits (bears t) (CreateWorkspace v t orgId workspace)"
  "emits (bears t) (DeleteWorkspace v t wid)" "emits (bears t) (GetWorkspaceKey v t wid sk)"
  "emits (bears t) (CreateSecretInWorkspace v t wid key name val env)"
  "emits (bears t) (GetSecretInWorkspace v t wid key env name)"
  "emits (bears t) (ListSecretInWorkspace v t wid key env)"
  "emits (bears t) (DeleteSecretInWorkspace v t wid env name)"
  "emits (bears t) (UpdateSecretInWorkspace v t wid key name val env)"
  "emits (bears t) (GetUserOrganizationId v t)"
  unfolding vault_client_defs by (auto intro!: emits_intros split: option.splits list.splits)

lemma emits_with_secret:
  assumes "cxToken c = Some t" "\<And>se secret. seToken se = t \<Longrightarrow> emits S (f se secret)"
  shows "emits S (with_secret c body w f)"
  unfolding with_secret_def using assms by (auto intro!: emits_intros)

lemma bears_project_key: "seToken se = t \<Longrightarrow> (\<And>i k. emits (bears t) (f i k)) \<Longrightarrow> emits (bears t) (with_project_key v se f)"
  unfolding with_project_key_def by (auto intro!: emits_intros)

lemma bears_secrets:
  assumes "cxToken c = Some t"
  shows "emits (bears t) (CreateSecret v c body w)" "emits (bears t) (RetrieveSecret v c body w)"
    "emits (bears t) (ListSecret v c body w)" "emits (bears t) (DeleteSecret v c body w)" "emits (bears t) (UpdateSecret v c body w)"
  unfolding CreateSecret_def RetrieveSecret_def ListSecret_def DeleteSecret_def UpdateSecret_def Let_def
  by (rule emits_with_secret [OF assms]; auto intro!: emits_intros bears_project_key)+

lemma bears_list_perms [emits_intros]: "emits (bears t) (list_perms v u)"
  by (simp add: list_perms_def Let_def vault_def emits_call)

lemma bears_app_workspaces [emits_intros]: "emits (bears t) (app_workspaces v c app t)"
  unfolding app_workspaces_def getAppSecretWorkspaces_def app_perm_step_def app_workspace_step_def Let_def
  by (auto intro!: emits_intros)

lemma bears_apps:
  assumes "cxToken c = Some t"
  shows "emits (bears t) (CheckAppSecretPerm v c app)" "emits (bears t) (ListAppSecret v c app)"
    "emits (bears t) (CreateAppSecret v c app sec)" "emits (bears t) (DeleteAppSecret v c app sec)"
    "emits (bears t) (UpdateAppSecret v c app sec)"
  unfolding CheckAppSecretPerm_def ListAppSecret_def CreateAppSecret_def DeleteAppSecret_def UpdateAppSecret_def
    with_app_def first_workspace_def Let_def assms
  by (auto intro!: emits_intros split: option.splits list.splits prod.splits)

text \<open>Programs that make no request at all.\<close>

fun offline :: "call \<Rightarrow> bool" where
  "offline (Svc (Vault (Http req))) = False"
| "offline _ = True"

lemma bears_offline: "emits offline m \<Longrightarrow> emits (bears t) m"
  by (erule emits_mono) (auto elim: offline.elims)

lemma offline_store [emits_intros]:
  "emits offline (Secrets_Get k ns n)" "emits offline (NewClient_vault o' dsn)" "emits offline (Close_vault o' dsn)"
  "emits offline (insert_row o' dsn table cols)" "emits offline (delete_rows o' dsn table cond)"
  unfolding Secrets_Get_def NewClient_vault_def Close_vault_def insert_row_def delete_rows_def vault_def Let_def
  by (auto intro!: emits_intros split: prod.splits)

lemma offline_checked [emits_intros]: "emits offline m \<Longrightarrow> emits offline (checked m)"
  unfolding checked_def by (auto intro!: emits_intros split: prod.splits option.splits)

lemma offline_users [emits_intros]:
  "emits offline (getPostgresUserAndPwd o' cf)" "emits offline (GetUser_vault o' dsn email)"
  "emits offline (GetUserTokenSession o' dsn uid ip agent)" "emits offline (DeleteUserFromPostgres o' dsn uid)"
  "emits offline (SaveUser o' dsn org u enc)" "emits offline (connect_loop n o' dsn)"
  "emits offline (issueToken o' uid key d typ sid org)" "emits offline (getJwtSecret o')"
  unfolding getPostgresUserAndPwd_def getSecretPwd_def GetUser_vault_def GetUserTokenSession_def DeleteUserFromPostgres_def
    DeleteUser_vault_def SaveUser_def Create_user_def Create_keys_def Create_membership_def Create_session_def
    issueToken_def getJwtSecret_def Let_def
  by (auto intro!: emits_intros split: option.splits) (induction n; auto intro!: emits_intros)

lemma offline_insert [emits_intros]: "emits offline (InsertKsUserToPostgres o' dsn cf name email pwd)"
  unfolding InsertKsUserToPostgres_def vault_def Let_def
  by (auto intro!: emits_intros split: list.splits prod.splits)

lemma emits_with_client: "emits offline (connect_loop n o' dsn) \<Longrightarrow> (\<And>c. offline c \<Longrightarrow> S c) \<Longrightarrow> emits S (f dsn) \<Longrightarrow>
    emits S (with_pg_client o' dsn f)"
  unfolding with_pg_client_def by (intro emits_intros) (auto intro: emits_mono [OF offline_users(6)] emits_mono [OF offline_store(3)])

lemma bears_delete_user:
  assumes "cxToken c = Some t"
  shows "emits (bears t) (DeleteUser_callback v c body)"
proof -
  have ws: "emits (bears t) (getWorkspaces v t org u)" for org u
    unfolding getWorkspaces_def user_workspace_step_def Let_def by (auto intro!: emits_intros)
  show ?thesis
    unfolding DeleteUser_callback_def Let_def assms
    by (auto intro!: emits_intros emits_with_client ws bears_offline [OF offline_users(1)] bears_offline [OF offline_users(2)]
        bears_offline [OF offline_users(4)] simp: assms split: option.splits prod.splits elim!: offline.elims)
qed

lemma offline_create_user: "emits offline (CreateUser_vault v body)"
  unfolding CreateUser_vault_def Let_def
  by (auto intro!: emits_intros emits_with_client split: option.splits prod.splits)

text \<open>\<open>user_token v userName t\<close>: the library signed \<open>t\<close> with claims for the identifier and the
  organization of a user whom the database has under the mail address that the platform gives for \<open>userName\<close>.\<close>

definition has_email :: "'w vault_server \<Rightarrow> string \<Rightarrow> string \<Rightarrow> bool" where
  "has_email v userName email = (\<exists>w w' ks. getKSUser (vsDyn v) userName w = (Val ks, w') \<and> ksEmail ks = Val email)"

definition has_row :: "'w vault_server \<Rightarrow> string \<Rightarrow> UserEncryptionKeysPG \<Rightarrow> bool" where
  "has_row v email user = (\<exists>dsn w w'. voKeys (vsOps v) dsn user_query [(''email'', email)] w = (Val (Some (Val user)), w'))"

definition user_token :: "'w vault_server \<Rightarrow> string \<Rightarrow> string \<Rightarrow> bool" where
  "user_token v userName t = (\<exists>email user key claims. has_email v userName email \<and> has_row v email user \<and>
     voSign (vsOps v) key claims = Val t \<and> tcUserId claims = ueUserID user \<and> ueOrgId user = Some (tcOrganizationId claims) \<and>
     tcAuthTokenType claims = ''accessToken'')"

lemma yields_GetUser: "yields (has_email v userName) (GetUser (vsDyn v) userName)"
  unfolding GetUser_def dyn_def
proof (rule yields_seqc [where Q = "\<lambda>ks. \<exists>w w'. getKSUser (vsDyn v) userName w = (Val ks, w')"])
  fix ks
  assume "\<exists>w w'. getKSUser (vsDyn v) userName w = (Val ks, w')"
  then show "yields (has_email v userName) (lift (ksEmail ks))"
    by (intro yields_lift) (unfold has_email_def, blast)
qed (rule yields_call, blast)

lemma yields_row: "yields (\<lambda>u. \<forall>user. u = Some user \<longrightarrow> has_row v email user) (GetUser_vault (vsOps v) dsn email)"
proof -
  let ?args = "[(''email'', email)]"
  have "yields (\<lambda>u. \<forall>user. u = Some user \<longrightarrow> has_row v email user)
      (seqc (call c (voKeys (vsOps v) dsn user_query ?args))
        (case_option (ret None) (\<lambda>user. seqc (lift user) (\<lambda>user. ret (Some user)))))" for c :: call
  proof (rule yields_seqc [where Q = "\<lambda>row. \<exists>w w'. voKeys (vsOps v) dsn user_query ?args w = (Val row, w')"])
    fix row
    assume row: "\<exists>w w'. voKeys (vsOps v) dsn user_query ?args w = (Val row, w')"
    have "yields (\<lambda>u. \<forall>user. u = Some user \<longrightarrow> has_row v email user) (seqc (lift r) (\<lambda>user. ret (Some user)))"
      if "row = Some r" for r
      using row that by (intro yields_seqc [where Q = "has_row v email"] yields_lift yields_ret) (auto simp: has_row_def)
    then show "yields (\<lambda>u. \<forall>user. u = Some user \<longrightarrow> has_row v email user)
        (case_option (ret None) (\<lambda>user. seqc (lift user) (\<lambda>user. ret (Some user))) row)"
      by (cases row) (auto intro: yields_ret)
  qed (rule yields_call, blast)
  then show ?thesis unfolding GetUser_vault_def Let_def by (simp add: yields_fail)
qed

lemma yields_from_postgres: "yields (\<lambda>x. has_row v email (fst x)) (getUserFromInfisicalPostgres (vsOps v) cf email)"
proof -
  have found: "yields (\<lambda>x. has_row v email (fst x)) (seqc (GetUser_vault (vsOps v) dsn email) (\<lambda>userEnc.
      case userEnc of None \<Rightarrow> fail (Failure (''user '' @ email @ '' not found''))
      | Some enc \<Rightarrow> seqc (GetUserTokenSession (vsOps v) dsn (ueUserID enc) ip agent) (\<lambda>session. ret (enc, session))))" for dsn ip agent
    by (rule yields_seqc [OF yields_row])
       (auto intro!: yields_fail yields_ret yields_seqc [OF yields_True] split: option.splits)
  show ?thesis
    unfolding getUserFromInfisicalPostgres_def Let_def split_beta
    by (intro found yields_deferc yields_seqc [OF yields_True])
qed

lemma yields_issueToken:
  "yields (\<lambda>t. \<exists>key claims. voSign o' key claims = Val t \<and> tcUserId claims = uid \<and> tcOrganizationId claims = org \<and>
     tcAuthTokenType claims = typ) (issueToken o' uid key d typ sid org)"
  unfolding issueToken_def
  by (intro yields_seqc [OF yields_True] yields_lift exI conjI) (assumption | simp)+

text \<open>The requests of a user: those with a token of this user.\<close>

fun own :: "'w vault_server \<Rightarrow> string \<Rightarrow> call \<Rightarrow> bool" where
  "own v userName (Svc (Vault (Http req))) = (userName \<noteq> [] \<and> user_token v userName (hrToken req))"
| "own v userName _ = True"

lemma own_offline: "emits offline m \<Longrightarrow> emits (own v userName) m"
  by (erule emits_mono) (auto elim: offline.elims)

lemma own_bears: "emits (bears t) m \<Longrightarrow> userName \<noteq> [] \<Longrightarrow> user_token v userName t \<Longrightarrow> emits (own v userName) m"
  by (erule emits_mono) (auto elim!: bears.elims)

lemma offline_from_postgres: "emits offline (getUserFromInfisicalPostgres o' cf email)"
  unfolding getUserFromInfisicalPostgres_def Let_def split_beta
  by (auto intro!: emits_intros split: option.splits)

lemma emits_refuse_yields:
  "emits S m \<Longrightarrow> yields Q m \<Longrightarrow> (\<And>x. Q x \<Longrightarrow> emits S (f x)) \<Longrightarrow> emits S (refuse_on code msg m f)"
  unfolding refuse_on_def by (rule emits_tryc_yields [where Q = Q]) (auto intro: emits_intros)

lemma yields_deref_ptr: "yields (\<lambda>x. p = Some x) (deref_ptr p)"
  by (auto simp: deref_ptr_def intro: yields_panic yields_ret split: option.splits)

text \<open>Past the checks, the context has a token of the user.\<close>

lemma own_token:
  assumes "has_email v userName (cxEmail c)" "userName \<noteq> []"
    and "\<And>c' t. user_token v userName t \<Longrightarrow> cxToken c' = Some t \<Longrightarrow> cxUsername c' = cxUsername c \<Longrightarrow> emits (own v userName) (next c')"
  shows "emits (own v userName) (IssueInfisicalToken v next c)"
proof -
  have "emits (own v userName) (next (c'\<lparr>cxRefreshToken := r, cxToken := Some t\<rparr>))"
    if "has_row v (cxEmail c) user" "ueOrgId user = Some org" "cxUsername c' = cxUsername c"
      "\<exists>key claims. voSign (vsOps v) key claims = Val t \<and> tcUserId claims = ueUserID user \<and> tcOrganizationId claims = org \<and>
         tcAuthTokenType claims = ''accessToken''" for user org c' r t
  proof (rule assms(3))
    show "user_token v userName t"
      unfolding user_token_def using that(1,2,4) assms(1) by metis
  qed (simp_all add: that(3))
  then show ?thesis
    unfolding IssueInfisicalToken_def Let_def split_beta
    by (intro emits_refuse_yields [OF own_offline [OF offline_from_postgres] yields_from_postgres]
        emits_seqc_yields [OF emits_deref_ptr yields_deref_ptr] emits_refuse_on own_offline [OF offline_users(8)]
        emits_seqc [OF emits_deref_ptr] emits_refuse_yields [OF own_offline [OF offline_users(7)] yields_issueToken]) simp_all
qed

lemma offline_GetUser: "emits offline (GetUser d u)"
  unfolding GetUser_def dyn_def by (intro emits_intros) simp_all

lemma own_authenticated:
  assumes "\<And>c t. userName \<noteq> [] \<Longrightarrow> user_token v userName t \<Longrightarrow> cxToken c = Some t \<Longrightarrow> cxUsername c = userName \<Longrightarrow>
    emits (own v userName) (next c)"
  shows "emits (own v userName) (authenticated v userName next)"
proof (cases "userName = []")
  case False
  have "emits (own v userName) (IssueInfisicalToken v next (user_ctx v userName email))" if "has_email v userName email" for email
    using that False assms by (intro own_token) (simp_all add: user_ctx_def)
  then show ?thesis
    unfolding authenticated_def GetUserInfo_def using False
    by (simp add: emits_tryc_yields [OF own_offline [OF offline_GetUser] yields_GetUser] emits_ret)
qed (simp add: authenticated_def GetUserInfo_def emits_ret)

lemma own_with_keys:
  assumes "\<And>c t. cxToken c = Some t \<Longrightarrow> emits (bears t) (next c)"
  shows "emits (own v userName) (with_keys v userName next)"
  unfolding with_keys_def
proof (rule own_authenticated)
  fix c :: vault_ctx and t
  assume name: "userName \<noteq> []" and t: "user_token v userName t" "cxToken c = Some t" "cxUsername c = userName"
  have "emits (bears t) (FetchUserPrivateKey (FetchUserOrganizationId v next) c)"
    unfolding FetchUserPrivateKey_def FetchUserOrganizationId_def
    using t(2) by (auto intro!: emits_intros assms split: option.splits simp: asserted_Some)
  then show "emits (own v userName) (FetchUserPrivateKey (FetchUserOrganizationId v next) c)"
    by (rule own_bears [OF _ name t(1)])
qed

lemma emits_answer [emits_intros]: "emits S m \<Longrightarrow> emits S (answer m f)"
  and emits_map_answer [emits_intros]: "emits S m' \<Longrightarrow> emits S (map_answer g m')"
  unfolding answer_def map_answer_def by (auto intro: emits_intros)

lemma own_endpoint: "emits (own v userName) (serve_vault v userName e)"
  unfolding serve_vault_def
  by (cases e) (auto intro!: own_with_keys own_authenticated emits_intros bears_secrets bears_apps own_offline [OF offline_create_user]
      own_bears [OF bears_delete_user] simp: AuthToken_def PrivateKey_def split: option.splits)

text \<open>C25. Nobody acts for somebody else: every request that the vault makes to the store of secrets, at
  whichever endpoint, bears an access token signed for the identifier and the organization of the user
  whom the database has under the mail address that the platform gives for the user named in the header;
  without a name in the header there is no request.\<close>

theorem vault_own_token:
  assumes "serve_vault v userName e s = (r, s')" "snd s' = snd s @ cs" "Svc (Vault (Http req)) \<in> set cs"
  shows "userName \<noteq> [] \<and> (\<exists>w w' ks email dsn u u' user key claims.
     getKSUser (vsDyn v) userName w = (Val ks, w') \<and> ksEmail ks = Val email \<and>
     voKeys (vsOps v) dsn user_query [(''email'', email)] u = (Val (Some (Val user)), u') \<and>
     voSign (vsOps v) key claims = Val (hrToken req) \<and> tcUserId claims = ueUserID user \<and>
     ueOrgId user = Some (tcOrganizationId claims) \<and> tcAuthTokenType claims = ''accessToken'')"
proof -
  have "list_all (own v userName) cs" using emitsD [OF own_endpoint assms(1)] assms(2) by auto
  with assms(3) have "own v userName (Svc (Vault (Http req)))" by (auto simp: list_all_iff)
  then show ?thesis unfolding own.simps user_token_def has_email_def has_row_def by metis
qed

definition demo_keys :: UserEncryptionKeysPG where
  "demo_keys = (new_keys ''pk'' ''salt'' ''verifier'' (''c'', ''iv'', ''tag''))\<lparr>ueUserID := ''u1'', ueOrgId := Some ''o1''\<rparr>"

definition demo_ops :: "'w vault_ops" where
  "demo_ops = \<lparr>voK8s = idle_k8s\<lparr>getSecret := (\<lambda>_. ok []), getNow := ok 0 ()\<rparr>, voConnect = ok (), voExec = (\<lambda>_. ok ()),
       voOrganization = (\<lambda>_ _. ok None), voKeys = (\<lambda>_ _. ok (Some (Val demo_keys))),
       voSession = (\<lambda>_ _. ok (Some (Val \<lparr>atID = Some ''s1'', atIP = [], atUserAgent = None, atRefreshVersion = 1, atAccessVersion = 1,
         atUserId = ''u1'', atLastUsed = 0, atCreatedAt = None, atUpdatedAt = None\<rparr>))),
       voInsert = (\<lambda>_ _. ok ()), voClose = ok (), voUuid = ok ''i'' (), voGenerateKey = ok ([], []) (), voRandom = ok [],
       voNode = ok ''s:v'', voBox = \<lparr>boxSeal = (\<lambda>m _ _ _. m), boxOpen = (\<lambda>m _ _ _. Some m)\<rparr>,
       voSign = (\<lambda>_ claims. Val (''token of '' @ tcUserId claims)), voOrder = (\<lambda>ks. ks), voPolls = 1\<rparr>"

definition demo_vault :: "unit vault_server" where
  "demo_vault = \<lparr>vsOps = demo_ops,
     vsHttp = \<lparr>inPlain = ok (200, [], ()), inWorkspaces = ok (200, [], [\<lparr>wsId = ''w1'', wsName = ''w-alice''\<rparr>]),
       inProject = ok (200, [], None), inOrganizations = ok (200, [], []),
       inKey = ok (200, [], \<lparr>ekEncryptedkey = [], ekNonce = [], ekSender = []\<rparr>),
       inSecret = ok (200, [], []), inSecrets = ok (200, [], [])\<rparr>,
     vsDyn = idle_dyn\<lparr>getKSUser := ok \<lparr>ksEmail = Val ''a@b'', ksAnnotations = []\<rparr>\<rparr>,
     vsPerms = ok [Val \<lparr>apApp = ''app'', apPermission = [\<lparr>pqGroup = ''secret.infisical'', pqDataType = ''secret'', pqVersion = ''v1'',
       pqOps = [''Get?workspace=w'']\<rparr>]\<rparr>],
     vsAgg = hd,
     vsConfig = \<lparr>cfOrg = [], cfDBUser = [], cfDBName = [], cfDBAddr = [], cfAddr = ''http:'', cfPassword = ''pw''\<rparr>\<rparr>"

lemmas vault_run_defs = authenticated_def GetUserInfo_def GetUser_def dyn_def IssueInfisicalToken_def refuse_on_def
  getUserFromInfisicalPostgres_def getPostgresUserAndPwd_def getSecretPwd_def Secrets_Get_def NewClient_vault_def Close_vault_def
  GetUser_vault_def GetUserTokenSession_def getJwtSecret_def issueToken_def deref_ptr_def asserted_def deferc_def ignorec_def answer_def
  map_answer_def user_ctx_def vault_def http_ok_def

theorem vault_own_token_witness:
  "\<exists>req. Svc (Vault (Http req)) \<in> set (snd (snd (serve_vault demo_vault ''alice'' (UserDelete_endpoint (Val \<lparr>puName = ''x'', puEmail = ''x@b''\<rparr>)) ((), []))))
     \<and> hrToken req = ''token of u1'' \<and>
     (\<exists>w w' ks email dsn u u' user key claims.
     getKSUser (vsDyn demo_vault) ''alice'' w = (Val ks, w') \<and> ksEmail ks = Val email \<and>
     voKeys (vsOps demo_vault) dsn user_query [(''email'', email)] u = (Val (Some (Val user)), u') \<and>
     voSign (vsOps demo_vault) key claims = Val (hrToken req) \<and> tcUserId claims = ueUserID user \<and>
     ueOrgId user = Some (tcOrganizationId claims) \<and> tcAuthTokenType claims = ''accessToken'')"
proof -
  let ?e = "UserDelete_endpoint (Val \<lparr>puName = ''x'', puEmail = ''x@b''\<rparr>)"
  let ?req = "request_to demo_vault ''DELETE'' ''/api/v1/workspace/w1'' ''token of u1'' [] []"
  have req: "Svc (Vault (Http ?req)) \<in> set (snd (snd (serve_vault demo_vault ''alice'' ?e ((), []))))"
    by (simp add: serve_vault_def vault_run_defs DeleteUser_callback_def with_pg_client_def DeleteUserFromPostgres_def DeleteUser_vault_def
        delete_rows_def getWorkspaces_def list_perms_def user_workspace_step_def perm_workspaces_def is_secret_perm_def DecodeOps_def
        op_param_def GetWorkspace_def workspaces_of_def DeleteWorkspace_def UserWorkspaceName_def List.map_filter_simps
        demo_vault_def demo_ops_def demo_keys_def new_keys_def request_to_def io_defs idle_defs idle_dyn_def Let_def)
  show ?thesis
    using vault_own_token [where v = demo_vault and userName = "''alice''" and e = ?e and s = "((), [])", OF surjective_pairing _ req] req by (intro exI [of _ ?req]) simp
qed

end
