(* ===== verification/Vault_Access.thy ===== *)
theory Vault_Access
  imports Vault_Proofs
begin

text \<open>The secrets of an application: which workspaces the requests made for it may touch.\<close>

section \<open>Granted and known workspaces\<close>

text \<open>The names of the workspaces that the permissions of the user's namespace grant to the application,
  and the identifiers that the store gives for a name, in a listing or on creation.\<close>

definition granted :: "'w vault_server \<Rightarrow> string \<Rightarrow> string \<Rightarrow> string \<Rightarrow> bool" where
  "granted v userName app name = (\<exists>w w' perms p ws.
     vsPerms v (''user-system-'' @ userName) w = (Val perms, w') \<and> Val p \<in> set perms \<and> apApp p = app \<and>
     ws \<in> set (perm_workspaces (apPermission p)) \<and> name = UserWorkspaceName ws userName)"

definition listed :: "'w vault_server \<Rightarrow> string \<Rightarrow> string \<Rightarrow> bool" where
  "listed v name wid = (\<exists>req w w' body items x. inWorkspaces (vsHttp v) req w = (Val (200, body, items), w') \<and>
     x \<in> set items \<and> wsName x = name \<and> wsId x = wid)"

definition made :: "'w vault_server \<Rightarrow> string \<Rightarrow> string \<Rightarrow> bool" where
  "made v name wid = (\<exists>req w w' body x. inProject (vsHttp v) req w = (Val (200, body, Some x), w') \<and>
     lookup (hrBody req) ''projectName'' = Some (BodyString name) \<and> wsId x = wid)"

definition known :: "'w vault_server \<Rightarrow> string \<Rightarrow> string \<Rightarrow> bool" where
  "known v name wid = (listed v name wid \<or> made v name wid)"

text \<open>A request is confined when it only reads, and of secrets only those in a granted workspace, or
  creates a granted workspace, or changes a secret in one.\<close>

definition confined_request :: "'w vault_server \<Rightarrow> string \<Rightarrow> string \<Rightarrow> http_request \<Rightarrow> bool" where
  "confined_request v userName app req =
     (hrMethod req = ''GET'' \<and> (\<forall>wid. lookup (hrQuery req) ''workspaceId'' = Some wid \<longrightarrow>
        (\<exists>name. granted v userName app name \<and> known v name wid)) \<or>
      hrMethod req = ''POST'' \<and> (\<exists>name. hrBody req = [(''projectName'', BodyString name)] \<and> granted v userName app name) \<or>
      (\<exists>name wid. lookup (hrBody req) ''workspaceId'' = Some (BodyString wid) \<and> granted v userName app name \<and> known v name wid))"

fun confined :: "'w vault_server \<Rightarrow> string \<Rightarrow> string \<Rightarrow> call \<Rightarrow> bool" where
  "confined v userName app (Svc (Vault (Http req))) = confined_request v userName app req"
| "confined v userName app _ = True"

section \<open>What the clients return and request\<close>

lemma yields_http: "(\<And>w body x w'. f w = (Val (200, body, x), w') \<Longrightarrow> P x) \<Longrightarrow> yields P (http_ok req f)"
  unfolding http_ok_def vault_def
  by (rule yields_seqc [where Q = "\<lambda>r. \<exists>w w'. f w = (Val r, w')"]) (auto intro!: yields_call yields_ret yields_fail split: if_splits)

lemma yields_if: "(b \<Longrightarrow> yields P m) \<Longrightarrow> (\<not> b \<Longrightarrow> yields P m') \<Longrightarrow> yields P (if b then m else m')"
  by simp

lemma listedI: "inWorkspaces (vsHttp v) req w = (Val (200, body, items), w') \<Longrightarrow> x \<in> set items \<Longrightarrow> listed v (wsName x) (wsId x)"
  unfolding listed_def by blast

lemma yields_GetWorkspace: "yields (known v workspace) (GetWorkspace v token orgId workspace)"
  unfolding GetWorkspace_def
proof (rule yields_seqc [where Q = "\<lambda>items. \<forall>x \<in> set items. listed v (wsName x) (wsId x)"])
  show "yields (\<lambda>items. \<forall>x \<in> set items. listed v (wsName x) (wsId x)) (workspaces_of v token orgId)"
    unfolding workspaces_of_def Let_def
    by (rule yields_seqc [where Q = "\<lambda>items. \<forall>x \<in> set items. listed v (wsName x) (wsId x)"])
       (auto intro!: yields_http yields_ret yields_fail intro: listedI split: if_splits)
next
  fix items
  assume l: "\<forall>x \<in> set items. listed v (wsName x) (wsId x)"
  show "yields (known v workspace) (case find (\<lambda>w. wsName w = workspace) items of Some w \<Rightarrow> ret (wsId w)
      | None \<Rightarrow> fail (Failure (''not found the workspace: '' @ workspace)))"
    using l by (auto simp: known_def find_Some_iff intro!: yields_ret yields_fail split: option.splits)
qed

lemma yields_CreateWorkspace: "yields (known v workspace) (CreateWorkspace v token orgId workspace)"
proof -
  let ?req = "request_to v ''POST'' ''/api/v2/workspace'' token [] [(''projectName'', BodyString workspace)]"
  have "yields (known v workspace) (seqc (http_ok ?req (inProject (vsHttp v) ?req)) (\<lambda>project. seqc (deref_ptr project) (\<lambda>w. ret (wsId w))))"
  proof (rule yields_seqc [where Q = "\<lambda>p. \<forall>x. p = Some x \<longrightarrow> made v workspace (wsId x)"])
    show "yields (\<lambda>p. \<forall>x. p = Some x \<longrightarrow> made v workspace (wsId x)) (http_ok ?req (inProject (vsHttp v) ?req))"
    proof (rule yields_http, intro allI impI)
      fix w body p w' x
      assume "inProject (vsHttp v) ?req w = (Val (200, body, p), w')" "p = Some x"
      then have "inProject (vsHttp v) ?req w = (Val (200, body, Some x), w')" by simp
      moreover have "lookup (hrBody ?req) ''projectName'' = Some (BodyString workspace)" by (simp add: request_to_def)
      ultimately show "made v workspace (wsId x)" unfolding made_def by blast
    qed
  qed (auto intro!: yields_seqc [OF yields_deref_ptr] yields_ret simp: known_def)
  then show ?thesis
    unfolding CreateWorkspace_def Let_def
    by (intro yields_tryc [OF yields_GetWorkspace]) (auto intro: yields_ret yields_fail)
qed

lemma confined_reads [emits_intros]:
  "emits (confined v u a) (GetWorkspace v t orgId workspace)" "emits (confined v u a) (GetWorkspaceKey v t wid sk)"
  unfolding GetWorkspace_def workspaces_of_def GetWorkspaceKey_def Let_def
  by (auto intro!: emits_intros split: option.splits simp: confined_request_def request_to_def)

lemma confined_create [emits_intros]: "granted v u a workspace \<Longrightarrow> emits (confined v u a) (CreateWorkspace v t orgId workspace)"
  unfolding CreateWorkspace_def Let_def
  by (auto intro!: emits_intros simp: confined_request_def request_to_def)

lemma confined_secrets:
  assumes "granted v u a name" "known v name wid"
  shows "emits (confined v u a) (CreateSecretInWorkspace v t wid key n x env)"
    "emits (confined v u a) (ListSecretInWorkspace v t wid key env)"
    "emits (confined v u a) (DeleteSecretInWorkspace v t wid env n)"
    "emits (confined v u a) (UpdateSecretInWorkspace v t wid key n x env)"
  unfolding CreateSecretInWorkspace_def ListSecretInWorkspace_def DeleteSecretInWorkspace_def UpdateSecretInWorkspace_def Let_def
  using assms by (auto intro!: emits_intros split: prod.splits simp: confined_request_def request_to_def secret_query_def)

section \<open>The workspaces of an application\<close>

text \<open>Every workspace found is granted, and its identifier is known unless an error goes with the list.\<close>

definition found_ok :: "'w vault_server \<Rightarrow> string \<Rightarrow> string \<Rightarrow> app_workspace list \<Rightarrow> bool \<Rightarrow> bool" where
  "found_ok v u a ws clean = (\<forall>w \<in> set ws. granted v u a (awName w) \<and> (awId w \<noteq> [] \<or> clean \<longrightarrow> known v (awName w) (awId w)))"

lemma found_ok_append:
  "found_ok v u a ws clean \<Longrightarrow> granted v u a (awName w) \<Longrightarrow> (awId w \<noteq> [] \<or> clean' \<longrightarrow> known v (awName w) (awId w)) \<Longrightarrow>
   (clean' \<Longrightarrow> clean) \<Longrightarrow> found_ok v u a (ws @ [w]) clean'"
  by (auto simp: found_ok_def)

lemma yields_app_workspace_step:
  assumes "found_ok v u a (fst acc) (snd acc = [])" "granted v u a (UserWorkspaceName name u)"
  shows "yields (\<lambda>acc. found_ok v u a (fst acc) (snd acc = [])) (app_workspace_step v t org sk u acc name)"
proof -
  obtain ws errs where acc: "acc = (ws, errs)" by (cases acc)
  let ?name = "UserWorkspaceName name u"
  let ?Q = "\<lambda>(i, errs'). (i \<noteq> [] \<or> errs' = [] \<longrightarrow> known v ?name i) \<and> (errs' = [] \<longrightarrow> errs = [])"
  have look: "yields ?Q (tryc (GetWorkspace v t org ?name) (\<lambda>i. ret (i, errs))
      (\<lambda>e. if \<not> IsNotFound_ws e then fail e else ret ([], errs @ [e])))"
    by (rule yields_tryc [OF yields_GetWorkspace]) (auto intro!: yields_ret yields_fail)
  have ok: "found_ok v u a (ws @ [\<lparr>awName = ?name, awId = i, awKey = k\<rparr>]) (errs' = [])" if "?Q (i, errs')" for i k errs'
    using that assms acc by (intro found_ok_append [of _ _ _ _ "errs = []"]) auto
  have rest: "yields (\<lambda>acc. found_ok v u a (fst acc) (snd acc = [])) (case x of (workspaceId, errs) \<Rightarrow>
      if workspaceId \<noteq> [] then seqc (GetWorkspaceKey v t workspaceId sk) (\<lambda>projectKey.
        ret (ws @ [\<lparr>awName = ?name, awId = workspaceId, awKey = projectKey\<rparr>], errs))
      else ret (ws @ [\<lparr>awName = ?name, awId = [], awKey = []\<rparr>], errs))" if "?Q x" for x
  proof -
    obtain i errs' where x: "x = (i, errs')" by (cases x)
    show ?thesis
      unfolding x prod.case
      by (intro yields_if yields_seqc [OF yields_True] yields_ret) (use ok [of i errs'] that x in \<open>simp_all add: yields_ret\<close>)
  qed
  show ?thesis
    unfolding app_workspace_step_def Let_def acc prod.case by (rule yields_seqc [OF look rest])
qed

lemma perms_granted:
  assumes "vsPerms v (''user-system-'' @ u) w = (Val perms, w')" "Val p \<in> set perms" "apApp p = a" "ws \<in> set (perm_workspaces (apPermission p))"
  shows "granted v u a (UserWorkspaceName ws u)"
  using assms unfolding granted_def by blast

lemma confined_app_perm_step:
  assumes "vsPerms v (''user-system-'' @ u) w = (Val perms, w')" "data \<in> set perms" "found_ok v u a (fst (fst acc)) (snd (fst acc) = [])"
  shows "yields (\<lambda>acc. found_ok v u a (fst (fst acc)) (snd (fst acc) = [])) (app_perm_step v t org sk u a acc data)"
    and "emits (confined v u a) (app_perm_step v t org sk u a acc data)"
proof -
  have step: "yields (\<lambda>acc. found_ok v u a (fst acc) (snd acc = [])) (foldM (app_workspace_step v t org sk u) (fst acc) (perm_workspaces (apPermission p)))"
    if "data = Val p" "apApp p = a" for p
    using that assms by (auto intro!: yields_foldM yields_app_workspace_step perms_granted)
  show "yields (\<lambda>acc. found_ok v u a (fst (fst acc)) (snd (fst acc) = [])) (app_perm_step v t org sk u a acc data)"
    unfolding app_perm_step_def
    by (rule yields_seqc [where Q = "\<lambda>p. data = Val p"])
       (auto intro!: yields_lift yields_ret yields_seqc [OF step] assms(3) split: if_splits)
  show "emits (confined v u a) (app_perm_step v t org sk u a acc data)"
    unfolding app_perm_step_def app_workspace_step_def Let_def by (auto intro!: emits_intros split: prod.splits)
qed

abbreviation found :: "'w vault_server \<Rightarrow> string \<Rightarrow> string \<Rightarrow> app_workspace list \<times> go_error option \<Rightarrow> bool" where
  "found v u a x \<equiv> found_ok v u a (fst x) (snd x = None)"

lemma confined_getAppSecretWorkspaces:
  shows "yields (found v u a) (getAppSecretWorkspaces v t org sk u a)"
    and "emits (confined v u a) (getAppSecretWorkspaces v t org sk u a)"
proof -
  let ?perms = "\<lambda>items. \<exists>w w'. vsPerms v (''user-system-'' @ u) w = (Val items, w')"
  have perms: "yields ?perms (list_perms v u)" "emits (confined v u a) (list_perms v u)"
    unfolding list_perms_def Let_def vault_def by (rule yields_call, blast) (simp add: emits_call)
  have walk: "yields (\<lambda>acc. found_ok v u a (fst (fst acc)) (snd (fst acc) = []))
      (foldM (app_perm_step v t org sk u a) (([], []), False) items)"
    "emits (confined v u a) (foldM (app_perm_step v t org sk u a) (([], []), False) items)" if "?perms items" for items
  proof -
    from that obtain w w' where items: "vsPerms v (''user-system-'' @ u) w = (Val items, w')" by blast
    have start: "found_ok v u a (fst (fst (([], []), False))) (snd (fst (([] :: app_workspace list, [] :: go_error list), False)) = [])"
      by (simp add: found_ok_def)
    show "yields (\<lambda>acc. found_ok v u a (fst (fst acc)) (snd (fst acc) = []))
      (foldM (app_perm_step v t org sk u a) (([], []), False) items)"
      by (rule yields_foldM [OF start confined_app_perm_step(1) [OF items]])
    show "emits (confined v u a) (foldM (app_perm_step v t org sk u a) (([], []), False) items)"
      by (rule emits_foldM_yields [OF start confined_app_perm_step(1) [OF items] confined_app_perm_step(2) [OF items]])
  qed
  have none: "found v u a ([], Some e)" for e by (simp add: found_ok_def)
  have finish: "yields (found v u a) (if snd (fst x) \<noteq> [] then ret (fst (fst x), Some (vsAgg v (snd (fst x))))
      else if \<not> snd x then fail ErrorNoPerm else ret (fst (fst x), None))"
    if "found_ok v u a (fst (fst x)) (snd (fst x) = [])" for x
    using that by (intro yields_if yields_ret yields_fail) simp_all
  show "yields (found v u a) (getAppSecretWorkspaces v t org sk u a)"
    unfolding getAppSecretWorkspaces_def split_beta
    by (rule yields_tryc [where Q = "found v u a"], rule yields_seqc [OF perms(1)])
       (assumption | rule yields_fail yields_ret none yields_if finish yields_seqc [OF walk(1)])+
  show "emits (confined v u a) (getAppSecretWorkspaces v t org sk u a)"
    unfolding getAppSecretWorkspaces_def split_beta
    by (rule emits_tryc, rule emits_seqc_yields [OF perms(2,1)])
       (assumption | rule emits_fail emits_ret emits_if emits_seqc walk(2))+
qed

lemma confined_app_workspaces:
  shows "yields (found v (cxUsername c) a) (app_workspaces v c a t)"
    and "emits (confined v (cxUsername c) a) (app_workspaces v c a t)"
  unfolding app_workspaces_def
  by (intro yields_seqc [OF yields_True] confined_getAppSecretWorkspaces(1)) (intro emits_intros confined_getAppSecretWorkspaces(2))

lemma found_hd: "found v u a (w # ws, None) \<Longrightarrow> granted v u a (awName w) \<and> known v (awName w) (awId w)"
  and found_mem: "found v u a x \<Longrightarrow> w \<in> set (fst x) \<Longrightarrow> awId w \<noteq> [] \<Longrightarrow> granted v u a (awName w) \<and> known v (awName w) (awId w)"
  and found_granted: "found v u a x \<Longrightarrow> w \<in> set (fst x) \<Longrightarrow> granted v u a (awName w)"
  by (auto simp: found_ok_def)

lemma confined_with_app: "(\<And>t. emits S (f t)) \<Longrightarrow> emits S (with_app app c f)"
  unfolding with_app_def by (auto intro: emits_intros split: option.splits)

lemma confined_first_workspace:
  assumes "found v u a x" "\<And>w. granted v u a (awName w) \<Longrightarrow> known v (awName w) (awId w) \<Longrightarrow> emits S (f w)"
  shows "emits S (first_workspace msg x f)"
  using assms found_hd unfolding first_workspace_def
  by (cases x) (fastforce intro: emits_intros split: option.splits list.splits)

lemma confined_apps:
  fixes c :: vault_ctx
  defines "S v a \<equiv> confined v (cxUsername c) a"
  shows "emits (S v a) (CheckAppSecretPerm v c a)" "emits (S v a) (ListAppSecret v c a)"
    "emits (S v a) (CreateAppSecret v c a sec)" "emits (S v a) (DeleteAppSecret v c a sec)" "emits (S v a) (UpdateAppSecret v c a sec)"
proof -
  note ws = confined_app_workspaces(2,1) [of v c a]
  show "emits (S v a) (CheckAppSecretPerm v c a)"
    unfolding S_def CheckAppSecretPerm_def
    by (intro confined_with_app emits_seqc [OF ws(1)]) (auto intro: emits_intros split: option.splits)
  show "emits (S v a) (ListAppSecret v c a)"
    unfolding S_def ListAppSecret_def split_beta
    by (intro confined_with_app emits_seqc_yields [OF ws] emits_if emits_refuse_on emits_append_each emits_ret emits_seqc)
       (auto intro: confined_secrets(2) dest: found_mem)
  show "emits (S v a) (DeleteAppSecret v c a sec)"
    unfolding S_def DeleteAppSecret_def split_beta
    by (intro confined_with_app emits_refuse_on emits_lift emits_seqc_yields [OF ws] confined_first_workspace)
       (auto intro: confined_secrets(3) emits_ret)
  show "emits (S v a) (UpdateAppSecret v c a sec)"
    unfolding S_def UpdateAppSecret_def split_beta
    by (intro confined_with_app emits_refuse_on emits_lift emits_seqc [OF emits_asserted] emits_seqc_yields [OF ws] confined_first_workspace)
       (auto intro: confined_secrets(4) emits_ret)
  have put: "emits (confined v (cxUsername c) a)
      (refuse_on 500 m (CreateSecretInWorkspace v t (awId w) (awKey w) key val DefaulSecretEnv) (\<lambda>_. ret (Answer ())))"
    if "found_ok v (cxUsername c) a (w # ws') clean" "awId w \<noteq> []" for w ws' clean t key val m
    using that by (intro emits_refuse_on emits_ret confined_secrets(1) [of _ _ _ "awName w"]) (simp_all add: found_ok_def)
  have make: "emits (confined v (cxUsername c) a)
      (refuse_on 500 m1 (CreateWorkspace v t orgId (awName w)) (\<lambda>workspaceId.
       refuse_on 500 m2 (GetWorkspaceKey v t workspaceId userPrivateKey) (\<lambda>projectKey.
       refuse_on 500 m3 (CreateSecretInWorkspace v t workspaceId projectKey key val DefaulSecretEnv) (\<lambda>_. ret (Answer ())))))"
    if "found_ok v (cxUsername c) a (w # ws') clean" for w ws' clean t key val m1 m2 m3 orgId userPrivateKey
  proof -
    have g: "granted v (cxUsername c) a (awName w)" using that by (simp add: found_ok_def)
    show ?thesis
      by (intro emits_refuse_yields [OF confined_create [OF g] yields_CreateWorkspace] emits_refuse_on confined_reads
          confined_secrets(1) [OF g] emits_ret)
  qed
  show "emits (S v a) (CreateAppSecret v c a sec)"
    unfolding S_def CreateAppSecret_def Let_def
    by (intro confined_with_app emits_refuse_on emits_lift)
       (auto intro!: emits_seqc [OF emits_asserted] emits_seqc_yields [OF ws] emits_ret intro: put make split: list.splits)
qed

section \<open>Behind the checks\<close>

lemma confined_offline: "emits offline m \<Longrightarrow> emits (confined v u a) m"
  by (erule emits_mono) (auto elim: offline.elims)

lemma confined_issue:
  assumes "\<And>c'. cxUsername c' = cxUsername c \<Longrightarrow> emits (confined v u a) (next c')"
  shows "emits (confined v u a) (IssueInfisicalToken v next c)"
  unfolding IssueInfisicalToken_def Let_def split_beta
  by (intro emits_refuse_on emits_seqc [OF emits_deref_ptr] assms confined_offline [OF offline_from_postgres]
      confined_offline [OF offline_users(7)] confined_offline [OF offline_users(8)]) simp

lemma confined_with_keys:
  assumes "\<And>c. cxUsername c = userName \<Longrightarrow> emits (confined v userName a) (next c)"
  shows "emits (confined v userName a) (with_keys v userName next)"
proof -
  have org: "emits (confined v userName a) (GetUserOrganizationId v t)" for t
    unfolding GetUserOrganizationId_def Let_def
    by (auto intro!: emits_intros split: list.splits simp: confined_request_def request_to_def)
  have "emits (confined v userName a) (FetchUserPrivateKey (FetchUserOrganizationId v next) c)" if "cxUsername c = userName" for c
    unfolding FetchUserPrivateKey_def FetchUserOrganizationId_def
    by (auto intro!: emits_intros assms org simp: that split: option.splits)
  then show ?thesis
    unfolding with_keys_def authenticated_def GetUserInfo_def
    by (intro emits_if emits_ret emits_tryc confined_offline [OF offline_GetUser] confined_issue) (simp add: user_ctx_def)
qed


text \<open>A user whose private key is stored encrypted under the password of the vault.\<close>

definition sealed_keys :: "string \<Rightarrow> string \<Rightarrow> byte list \<Rightarrow> UserEncryptionKeysPG" where
  "sealed_keys privateKey password nonce = (let sealed = gcm_Seal (bytes_of (secretOfPassword password)) nonce (bytes_of privateKey) [] in
     (new_keys ''pk'' ''salt'' ''verifier'' (base64_EncodeToString (take (length privateKey) sealed), base64_EncodeToString nonce,
        base64_EncodeToString (drop (length privateKey) sealed)))\<lparr>ueUserID := ''u1'', ueOrgId := Some ''o1''\<rparr>)"

lemma sealed_keys_open: "length nonce = 16 \<Longrightarrow> DecryptUserPrivateKeyHelper (sealed_keys sk pwd nonce) pwd = Val sk"
  unfolding DecryptUserPrivateKeyHelper_def sealed_keys_def Let_def
  by (simp add: new_keys_def) (rule Decrypt_encoded, simp_all)

definition keyed_vault :: "unit vault_server" where
  "keyed_vault = demo_vault\<lparr>vsOps := (vsOps demo_vault)\<lparr>voKeys := (\<lambda>_ _. ok (Some (Val (sealed_keys [] ''pw'' (replicate 16 0)))))\<rparr>\<rparr>"


end
