(* ===== verification/Vault_Secrets.thy ===== *)
theory Vault_Secrets
  imports Vault_Access
begin

text \<open>What the vault encrypts can be read back: single texts, the private key of a new user, and
  secrets in a workspace.\<close>

section \<open>Texts\<close>



section \<open>Users\<close>

lemma checked_insert:
  assumes "checked (insert_row v dsn table cols) s = (Val i, s')"
  shows "\<exists>sql. snd s' = snd s @ [Svc (Vault UuidNew), Svc (Vault (InsertRow dsn sql (cols i)))]"
  using assms unfolding checked_def insert_row_def vault_def Let_def split_beta
  by (auto simp: io_defs split: prod.splits res.splits)

lemma SaveUser_rows:
  assumes "SaveUser v dsn orgId (Some u) (Some enc) s = (Val uid, s')"
  shows "\<exists>i j sql1 sql2 sql3. snd s' = snd s @
      [Svc (Vault UuidNew), Svc (Vault (InsertRow dsn sql1 (user_columns (u\<lparr>upID := Some uid\<rparr>)))),
       Svc (Vault UuidNew), Svc (Vault (InsertRow dsn sql2 (key_columns (enc\<lparr>ueUserID := uid, ueID := Some i\<rparr>)))),
       Svc (Vault UuidNew), Svc (Vault (InsertRow dsn sql3 (membership_columns (admin_membership uid orgId\<lparr>omID := Some j\<rparr>))))]"
proof -
  obtain s1 where 1: "checked (Create_user v dsn u) s = (Val uid, s1)"
    and rest: "seqc (seqc (checked (Create_keys v dsn (enc\<lparr>ueUserID := uid\<rparr>))) (\<lambda>_. ret ())) (\<lambda>_.
      seqc (checked (Create_membership v dsn (admin_membership uid orgId))) (\<lambda>_. ret uid)) s1 = (Val uid, s')"
  proof -
    obtain x s1 where x: "checked (Create_user v dsn u) s = (Val x, s1)"
      "seqc (seqc (checked (Create_keys v dsn (enc\<lparr>ueUserID := x\<rparr>))) (\<lambda>_. ret ())) (\<lambda>_.
        seqc (checked (Create_membership v dsn (admin_membership x orgId))) (\<lambda>_. ret x)) s1 = (Val uid, s')"
      using seqc_Val [OF assms [unfolded SaveUser_def option.case]] by auto
    then have "x = uid" by (auto simp: seqc_def ret_def split: prod.splits res.splits)
    with x show thesis using that by simp
  qed
  obtain i s2 where 2: "checked (Create_keys v dsn (enc\<lparr>ueUserID := uid\<rparr>)) s1 = (Val i, s2)"
    and 3: "seqc (checked (Create_membership v dsn (admin_membership uid orgId))) (\<lambda>_. ret uid) s2 = (Val uid, s')"
    using rest by (auto simp: seqc_def ret_def split: prod.splits res.splits)
  obtain j where 4: "checked (Create_membership v dsn (admin_membership uid orgId)) s2 = (Val j, s')"
    using 3 by (auto simp: seqc_def ret_def split: prod.splits res.splits)
  show ?thesis
    using checked_insert [OF 1 [unfolded Create_user_def]] checked_insert [OF 2 [unfolded Create_keys_def]]
      checked_insert [OF 4 [unfolded Create_membership_def]] by auto
qed

lemma call_traced: "call c f s = (Val x, s') \<Longrightarrow> (\<exists>w'. f (fst s) = (Val x, w')) \<and> snd s' = snd s @ [c]"
  by (auto simp: call_def split: prod.splits)

lemma Encrypt_trace: "Encrypt rnd plain secret s = (Val r, s') \<Longrightarrow> snd s' = snd s @ [Misc (RandomBytes 16)]"
  by (auto simp: Encrypt_def rand_read_def BLOCK_SIZE_BYTES_def seqc_def ret_def lift_def Let_def split: prod.splits res.splits
      dest!: call_traced)

lemma wrapv_Val: "wrapv msg m s = (Val x, s') \<Longrightarrow> m s = (Val x, s')"
  by (auto simp: wrapv_def tryc_def ret_def fail_def split: prod.splits res.splits)



section \<open>Secrets\<close>

text \<open>The store answers with the encrypted fields that a request has put there, the first one for each
  name.\<close>

definition secret_fields :: "string list" where
  "secret_fields = [''secretKeyCiphertext'', ''secretKeyIV'', ''secretKeyTag'', ''secretValueCiphertext'', ''secretValueIV'', ''secretValueTag'']"

definition answers_with :: "(string \<times> body_value) list \<Rightarrow> (string \<times> json_value) list \<Rightarrow> bool" where
  "answers_with body result = list_all (\<lambda>k. case lookup body k of Some (BodyString x) \<Rightarrow> lookup result k = Some (JsonString x) | _ \<Rightarrow> False)
     secret_fields"

lemma decrypt_secret_Val:
  assumes "lookup r ''secretKeyCiphertext'' = Some (JsonString kc)" "lookup r ''secretKeyIV'' = Some (JsonString ki)"
    "lookup r ''secretKeyTag'' = Some (JsonString kt)" "lookup r ''secretValueCiphertext'' = Some (JsonString vc)"
    "lookup r ''secretValueIV'' = Some (JsonString vi)" "lookup r ''secretValueTag'' = Some (JsonString vt)"
    "Decrypt kc ki kt key = Val name" "Decrypt vc vi vt key = Val val"
  shows "decrypt_secret r key = Val (name, val)"
  using assms by (simp add: decrypt_secret_def decrypt_fields_def valueOf_def)

lemma http_ok_Val: "http_ok req f s = (Val x, s') \<Longrightarrow> snd s' = snd s @ [Svc (Vault (Http req))]"
  by (auto simp: http_ok_def vault_def fail_def ret_def dest!: seqc_Val call_traced split: prod.splits if_splits)

lemma CreateSecretInWorkspace_Val:
  assumes "CreateSecretInWorkspace v token wid key name val env s = (Val (), s')"
  obtains kc ki kt vc vi vt where "Decrypt kc ki kt key = Val name" "Decrypt vc vi vt key = Val val"
    "snd s' = snd s @ [Misc (RandomBytes 16), Misc (RandomBytes 16), Svc (Vault (Http (request_to v ''POST'' (secret_path name) token []
       [(''workspaceId'', BodyString wid), (''environment'', BodyString (env_or_default env)), (''type'', BodyString ''shared''),
        (''secretKeyCiphertext'', BodyString kc), (''secretKeyIV'', BodyString ki), (''secretKeyTag'', BodyString kt),
        (''secretValueCiphertext'', BodyString vc), (''secretValueIV'', BodyString vi), (''secretValueTag'', BodyString vt)])))]"
proof -
  obtain kc ki kt s1 where k: "Encrypt (voRandom (vsOps v)) name key s = (Val (kc, ki, kt), s1)"
    and r: "seqc (Encrypt (voRandom (vsOps v)) val key) (\<lambda>(vc, vi, vt).
     let req = request_to v ''POST'' (secret_path name) token []
           [(''workspaceId'', BodyString wid), (''environment'', BodyString (env_or_default env)), (''type'', BodyString ''shared''),
            (''secretKeyCiphertext'', BodyString kc), (''secretKeyIV'', BodyString ki), (''secretKeyTag'', BodyString kt),
            (''secretValueCiphertext'', BodyString vc), (''secretValueIV'', BodyString vi), (''secretValueTag'', BodyString vt)] in
     http_ok req (inPlain (vsHttp v) req)) s1 = (Val (), s')"
    using seqc_Val [OF assms [unfolded CreateSecretInWorkspace_def]] by auto
  obtain vc vi vt s2 where e: "Encrypt (voRandom (vsOps v)) val key s1 = (Val (vc, vi, vt), s2)"
    and h: "http_ok (request_to v ''POST'' (secret_path name) token []
           [(''workspaceId'', BodyString wid), (''environment'', BodyString (env_or_default env)), (''type'', BodyString ''shared''),
            (''secretKeyCiphertext'', BodyString kc), (''secretKeyIV'', BodyString ki), (''secretKeyTag'', BodyString kt),
            (''secretValueCiphertext'', BodyString vc), (''secretValueIV'', BodyString vi), (''secretValueTag'', BodyString vt)])
       (inPlain (vsHttp v) (request_to v ''POST'' (secret_path name) token []
           [(''workspaceId'', BodyString wid), (''environment'', BodyString (env_or_default env)), (''type'', BodyString ''shared''),
            (''secretKeyCiphertext'', BodyString kc), (''secretKeyIV'', BodyString ki), (''secretKeyTag'', BodyString kt),
            (''secretValueCiphertext'', BodyString vc), (''secretValueIV'', BodyString vi), (''secretValueTag'', BodyString vt)])) s2 = (Val (), s')"
    using seqc_Val [OF r] by (auto simp: Let_def)
  show thesis
    using that [OF Encrypt_Val(1) [OF k] Encrypt_Val(1) [OF e]] Encrypt_trace [OF k] Encrypt_trace [OF e] http_ok_Val [OF h] by simp
qed

lemma UpdateSecretInWorkspace_Val:
  assumes "UpdateSecretInWorkspace v token wid key name val env s = (Val (), s')"
  obtains vc vi vt where "Decrypt vc vi vt key = Val val"
    "snd s' = snd s @ [Misc (RandomBytes 16), Svc (Vault (Http (request_to v ''PATCH'' (secret_path name) token []
       [(''workspaceId'', BodyString wid), (''environment'', BodyString (env_or_default env)), (''type'', BodyString ''shared''),
        (''secretValueCiphertext'', BodyString vc), (''secretValueIV'', BodyString vi), (''secretValueTag'', BodyString vt)])))]"
proof -
  obtain vc vi vt s2 where e: "Encrypt (voRandom (vsOps v)) val key s = (Val (vc, vi, vt), s2)"
    and h: "http_ok (request_to v ''PATCH'' (secret_path name) token []
           [(''workspaceId'', BodyString wid), (''environment'', BodyString (env_or_default env)), (''type'', BodyString ''shared''),
            (''secretValueCiphertext'', BodyString vc), (''secretValueIV'', BodyString vi), (''secretValueTag'', BodyString vt)])
       (inPlain (vsHttp v) (request_to v ''PATCH'' (secret_path name) token []
           [(''workspaceId'', BodyString wid), (''environment'', BodyString (env_or_default env)), (''type'', BodyString ''shared''),
            (''secretValueCiphertext'', BodyString vc), (''secretValueIV'', BodyString vi), (''secretValueTag'', BodyString vt)])) s2 = (Val (), s')"
    using seqc_Val [OF assms [unfolded UpdateSecretInWorkspace_def]] by (auto simp: Let_def)
  show thesis
    using that [OF Encrypt_Val(1) [OF e]] Encrypt_trace [OF e] http_ok_Val [OF h] by simp
qed

lemma GetSecretInWorkspace_run:
  assumes "inSecret (vsHttp v) (request_to v ''GET'' (secret_path name) token (secret_query env wid) []) w = (Val (200, msg, result), w')"
  shows "GetSecretInWorkspace v token wid key env name (w, tr) = (decrypt_secret result key,
     (w', tr @ [Svc (Vault (Http (request_to v ''GET'' (secret_path name) token (secret_query env wid) [])))]))"
  using assms by (simp add: GetSecretInWorkspace_def http_ok_def vault_def io_defs Let_def)

text \<open>C31. A secret that was put into a workspace is what is read from it: creating a secret sends one POST and
  updating it one PATCH to the path of its name, each with fresh nonces; when the store answers a later GET for the same name
  with the encrypted fields of the POST, or with those of the PATCH in front of the others, then reading under the key of the workspace
  returns the name together with the value that was created, or with the value of the update.\<close>

theorem secret_round_trip:
  assumes "CreateSecretInWorkspace v token wid key name val env s = (Val (), s1)"
    and "UpdateSecretInWorkspace v token wid key name val' env s2 = (Val (), s3)"
  shows "\<exists>post patch. snd s1 = snd s @ [Misc (RandomBytes 16), Misc (RandomBytes 16), Svc (Vault (Http post))] \<and>
     snd s3 = snd s2 @ [Misc (RandomBytes 16), Svc (Vault (Http patch))] \<and>
     hrMethod post = ''POST'' \<and> hrMethod patch = ''PATCH'' \<and> hrUrl post = cfAddr (vsConfig v) @ secret_path name \<and> hrUrl patch = hrUrl post \<and>
     lookup (hrBody post) ''workspaceId'' = Some (BodyString wid) \<and> lookup (hrBody patch) ''workspaceId'' = Some (BodyString wid) \<and>
     (\<forall>w w' msg result tr token'. let get = request_to v ''GET'' (secret_path name) token' (secret_query env wid) [];
          read = GetSecretInWorkspace v token' wid key env name (w, tr); s' = (w', tr @ [Svc (Vault (Http get))]) in
        inSecret (vsHttp v) get w = (Val (200, msg, result), w') \<longrightarrow>
        (answers_with (hrBody post) result \<longrightarrow> read = (Val (name, val), s')) \<and>
        (answers_with (hrBody patch @ hrBody post) result \<longrightarrow> read = (Val (name, val'), s')))"
proof -
  from CreateSecretInWorkspace_Val [OF assms(1)] obtain kc ki kt vc vi vt
    where c: "Decrypt kc ki kt key = Val name" "Decrypt vc vi vt key = Val val"
    "snd s1 = snd s @ [Misc (RandomBytes 16), Misc (RandomBytes 16), Svc (Vault (Http (request_to v ''POST'' (secret_path name) token []
       [(''workspaceId'', BodyString wid), (''environment'', BodyString (env_or_default env)), (''type'', BodyString ''shared''),
        (''secretKeyCiphertext'', BodyString kc), (''secretKeyIV'', BodyString ki), (''secretKeyTag'', BodyString kt),
        (''secretValueCiphertext'', BodyString vc), (''secretValueIV'', BodyString vi), (''secretValueTag'', BodyString vt)])))]" .
  from UpdateSecretInWorkspace_Val [OF assms(2)] obtain uc ui ut
    where u: "Decrypt uc ui ut key = Val val'"
    "snd s3 = snd s2 @ [Misc (RandomBytes 16), Svc (Vault (Http (request_to v ''PATCH'' (secret_path name) token []
       [(''workspaceId'', BodyString wid), (''environment'', BodyString (env_or_default env)), (''type'', BodyString ''shared''),
        (''secretValueCiphertext'', BodyString uc), (''secretValueIV'', BodyString ui), (''secretValueTag'', BodyString ut)])))]" .
  show ?thesis
    unfolding c(3) u(2) Let_def
    by (intro exI conjI allI impI, rule refl, rule refl)
      (simp_all add: request_to_def [where meth = "''POST''"] request_to_def [where meth = "''PATCH''"] GetSecretInWorkspace_run
        answers_with_def secret_fields_def decrypt_secret_Val c(1,2) u(1))
qed

text \<open>A store for one secret, whose state is what was sent to it.\<close>

definition demo_store :: "(string \<times> body_value) list vault_server" where
  "demo_store = \<lparr>vsOps = demo_ops,
     vsHttp = \<lparr>inPlain = (\<lambda>req st. (Val (200, [], ()), hrBody req @ st)), inWorkspaces = ok (200, [], []), inProject = ok (200, [], None),
       inOrganizations = ok (200, [], []), inKey = ok (200, [], \<lparr>ekEncryptedkey = [], ekNonce = [], ekSender = []\<rparr>),
       inSecret = (\<lambda>_ st. (Val (200, [], List.map_filter (\<lambda>(k, x). case x of BodyString y \<Rightarrow> Some (k, JsonString y) | _ \<Rightarrow> None) st), st)),
       inSecrets = ok (200, [], [])\<rparr>,
     vsDyn = idle_dyn, vsPerms = ok [], vsAgg = hd,
     vsConfig = \<lparr>cfOrg = [], cfDBUser = [], cfDBName = [], cfDBAddr = [], cfAddr = ''http:'', cfPassword = ''pw''\<rparr>\<rparr>"

theorem secret_round_trip_witness:
  "\<exists>s1 s3 s4 s5. CreateSecretInWorkspace demo_store ''t'' ''w'' ''0123456789abcdef'' ''k'' ''v'' [] ([], []) = (Val (), s1) \<and>
     UpdateSecretInWorkspace demo_store ''t'' ''w'' ''0123456789abcdef'' ''k'' ''new'' [] s1 = (Val (), s3) \<and>
     GetSecretInWorkspace demo_store ''t'' ''w'' ''0123456789abcdef'' [] ''k'' s1 = (Val (''k'', ''v''), s4) \<and>
     GetSecretInWorkspace demo_store ''t'' ''w'' ''0123456789abcdef'' [] ''k'' s3 = (Val (''k'', ''new''), s5)"
proof -
  let ?key = "''0123456789abcdef''"
  have typed: "\<exists>c iv t. Encrypt (ok []) plain ?key (st, tr) = (Val (c, iv, t), (st, tr @ [Misc (RandomBytes 16)]))" for plain and st :: "(string \<times> body_value) list" and tr
    by (simp add: Encrypt_def rand_read_def BLOCK_SIZE_BYTES_def aes_NewCipher_def io_defs ok_def Let_def)
  obtain kc ki kt where k: "Encrypt (ok []) ''k'' ?key ([], []) = (Val (kc, ki, kt), ([] :: (string \<times> body_value) list, [Misc (RandomBytes 16)]))"
    using typed [of "''k''" "[]" "[]"] by auto
  obtain vc vi vt where e: "Encrypt (ok []) ''v'' ?key ([], [Misc (RandomBytes 16)]) =
      (Val (vc, vi, vt), ([] :: (string \<times> body_value) list, [Misc (RandomBytes 16), Misc (RandomBytes 16)]))"
    using typed [of "''v''" "[]" "[Misc (RandomBytes 16)]"] by auto
  define body where "body = [(''workspaceId'', BodyString ''w''), (''environment'', BodyString ''prod''), (''type'', BodyString ''shared''),
        (''secretKeyCiphertext'', BodyString kc), (''secretKeyIV'', BodyString ki), (''secretKeyTag'', BodyString kt),
        (''secretValueCiphertext'', BodyString vc), (''secretValueIV'', BodyString vi), (''secretValueTag'', BodyString vt)]"
  define s1 where "s1 = (body, [Misc (RandomBytes 16), Misc (RandomBytes 16), Svc (Vault (Http (request_to demo_store ''POST'' (secret_path ''k'') ''t'' [] body)))])"
  have c: "CreateSecretInWorkspace demo_store ''t'' ''w'' ?key ''k'' ''v'' [] ([], []) = (Val (), s1)"
    using k e by (simp add: CreateSecretInWorkspace_def s1_def body_def demo_store_def demo_ops_def http_ok_def vault_def io_defs env_or_default_def
        DefaulSecretEnv_def request_to_def Let_def)
  obtain uc ui ut where u: "Encrypt (ok []) ''new'' ?key s1 = (Val (uc, ui, ut), (body, snd s1 @ [Misc (RandomBytes 16)]))"
    using typed [of "''new''" "body" "snd s1"] by (auto simp: s1_def)
  define change where "change = [(''workspaceId'', BodyString ''w''), (''environment'', BodyString ''prod''), (''type'', BodyString ''shared''),
        (''secretValueCiphertext'', BodyString uc), (''secretValueIV'', BodyString ui), (''secretValueTag'', BodyString ut)]"
  define s3 where "s3 = (change @ body, snd s1 @ [Misc (RandomBytes 16), Svc (Vault (Http (request_to demo_store ''PATCH'' (secret_path ''k'') ''t'' [] change)))])"
  have p: "UpdateSecretInWorkspace demo_store ''t'' ''w'' ?key ''k'' ''new'' [] s1 = (Val (), s3)"
    using u by (simp add: UpdateSecretInWorkspace_def s3_def change_def demo_store_def demo_ops_def http_ok_def vault_def io_defs env_or_default_def
        DefaulSecretEnv_def request_to_def Let_def)
  have get: "\<And>w w' msg result tr token'. let get = request_to demo_store ''GET'' (secret_path ''k'') token' (secret_query [] ''w'') [];
          read = GetSecretInWorkspace demo_store token' ''w'' ?key [] ''k'' (w, tr); s' = (w', tr @ [Svc (Vault (Http get))]) in
        inSecret (vsHttp demo_store) get w = (Val (200, msg, result), w') \<longrightarrow>
        (answers_with body result \<longrightarrow> read = (Val (''k'', ''v''), s')) \<and>
        (answers_with (change @ body) result \<longrightarrow> read = (Val (''k'', ''new''), s'))"
    using secret_round_trip [OF c p] by (auto simp: s1_def s3_def request_to_def)
  let ?json = "List.map_filter (\<lambda>(k, x). case x of BodyString y \<Rightarrow> Some (k, JsonString y) | _ \<Rightarrow> None)"
  have answer: "inSecret (vsHttp demo_store) req st = (Val (200, [], ?json st), st)" for req st by (simp add: demo_store_def)
  have "answers_with body (?json body)" "answers_with (change @ body) (?json (change @ body))"
    by (simp_all add: body_def change_def answers_with_def secret_fields_def List.map_filter_simps)
  then show ?thesis
    using c p get [where w = body and w' = body and tr = "snd s1" and token' = "''t''", unfolded Let_def, rule_format, OF answer]
      get [where w = "change @ body" and w' = "change @ body" and tr = "snd s3" and token' = "''t''", unfolded Let_def, rule_format, OF answer]
    by (simp add: s1_def s3_def)
qed

end
