(* ===== verification/Vault_Mongo.thy ===== *)
theory Vault_Mongo
  imports Vault_Secrets
begin

text \<open>The users of the vault in a MongoDB database (\<open>pkg/vault/infisical/mongo.go\<close>, with \<open>InsertKsUserToMongo\<close> of
  \<open>init.go\<close> and \<open>getUserFromInfisicalMongoDB\<close> of \<open>token.go\<close>), the variant beside the one on PostgreSQL.\<close>

section \<open>Documents\<close>

record MongoClient_vault =
  vcUser :: string
  vcPassword :: string
  vcDatabase :: string
  vcAddr :: string

text \<open>An object identifier is written as its hexadecimal form; the zero identifier is empty and is omitted.\<close>

record UserMDB =
  umID :: string
  umEmail :: string
  umFirstName :: string
  umLastName :: string
  umEncryptionVersion :: int
  umProtectedKey :: string
  umProtectedKeyIV :: string
  umProtectedKeyTag :: string
  umPublicKey :: string
  umEncryptedPrivateKey :: string
  umIV :: string
  umTag :: string
  umSalt :: string
  umVerifier :: string
  umRefreshVersion :: int
  umIsMfaEnabled :: bool
  umMfaMethods :: "string list option"

record OrganizationMDB =
  gmID :: string
  gmName :: string

record MembershipOrgMDB =
  mmID :: string
  mmOrganization :: string
  mmRole :: string
  mmStatus :: string
  mmUser :: string

definition object_id :: "string \<Rightarrow> (string \<times> db_value) list" where
  "object_id i = (if i = [] then [] else [(''_id'', DbObjectId i)])"

definition user_document :: "UserMDB \<Rightarrow> (string \<times> db_value) list" where
  "user_document u = object_id (umID u) @
     [(''email'', DbString (umEmail u)), (''firstName'', DbString (umFirstName u)), (''lastName'', DbString (umLastName u)),
      (''encryptionVersion'', DbInt (umEncryptionVersion u)), (''protectedKey'', DbString (umProtectedKey u)),
      (''protectedKeyIV'', DbString (umProtectedKeyIV u)), (''protectedKeyTag'', DbString (umProtectedKeyTag u)),
      (''publicKey'', DbString (umPublicKey u)), (''encryptedPrivateKey'', DbString (umEncryptedPrivateKey u)),
      (''iv'', DbString (umIV u)), (''tag'', DbString (umTag u)), (''salt'', DbString (umSalt u)),
      (''verifier'', DbString (umVerifier u)), (''refreshVersion'', DbInt (umRefreshVersion u)),
      (''isMfaEnabled'', DbBool (umIsMfaEnabled u)),
      (''mfaMethods'', case umMfaMethods u of None \<Rightarrow> DbNull | Some ms \<Rightarrow> DbStrings ms)]"

definition organization_document :: "OrganizationMDB \<Rightarrow> (string \<times> db_value) list" where
  "organization_document g = object_id (gmID g) @ [(''name'', DbString (gmName g))]"

definition membership_document :: "MembershipOrgMDB \<Rightarrow> (string \<times> db_value) list" where
  "membership_document m = object_id (mmID m) @
     [(''organization'', DbObjectId (mmOrganization m)), (''role'', DbString (mmRole m)), (''status'', DbString (mmStatus m)),
      (''user'', DbObjectId (mmUser m))]"

section \<open>Operations (mongo.go)\<close>

text \<open>The driver and the library that fills a struct from a document. An insert answers with the identifier of the new
  document, which need not be an object identifier.\<close>

datatype inserted_id = ObjectID string | OtherID

record 'w vmongo_ops =
  vmMongo :: "'w mongo_ops"
  vmFindOne :: "string \<Rightarrow> string \<Rightarrow> ('w, (string \<times> db_value) list) op"
  vmInsertOne :: "string \<Rightarrow> (string \<times> db_value) list \<Rightarrow> ('w, inserted_id) op"
  vmDecode :: "(string \<times> db_value) list \<Rightarrow> UserMDB res"

definition mongo_dsn :: "MongoClient_vault \<Rightarrow> string" where
  "mongo_dsn m = ''mongodb://'' @ vcUser m @ '':'' @ vcPassword m @ ''@'' @ vcAddr m @ ''/'' @ vcDatabase m"

text \<open>Every operation opens a connection and closes it at its end.\<close>

definition with_client :: "'w vmongo_ops \<Rightarrow> MongoClient_vault \<Rightarrow> ('w, 'a) prog \<Rightarrow> ('w, 'a) prog" where
  "with_client v m body =
     seqc (call (Svc (Mongo (MongoConnect (mongo_dsn m)))) (mongoConnect (vmMongo v) (mongo_dsn m))) (\<lambda>_.
     deferc body (call (Svc (Mongo MongoDisconnect)) (mongoDisconnect (vmMongo v))))"

definition TryConnect :: "'w vmongo_ops \<Rightarrow> MongoClient_vault \<Rightarrow> ('w, unit) prog" where
  "TryConnect v m = with_client v m (call (Svc (Mongo MongoPing)) (mongoPing (vmMongo v)))"

definition GetUser_mongo :: "'w vmongo_ops \<Rightarrow> MongoClient_vault \<Rightarrow> string \<Rightarrow> ('w, UserMDB) prog" where
  "GetUser_mongo v m email = (if email = [] then fail (Failure ''email is empty'') else
     with_client v m (seqc (vault (FindDocument (vcDatabase m) ''users'' email) (vmFindOne v ''users'' email)) (\<lambda>result.
       lift (vmDecode v result))))"

definition insert_document :: "'w vmongo_ops \<Rightarrow> MongoClient_vault \<Rightarrow> string \<Rightarrow> (string \<times> db_value) list \<Rightarrow> ('w, inserted_id) prog" where
  "insert_document v m collection doc = vault (InsertDocument (vcDatabase m) collection doc) (vmInsertOne v collection doc)"

text \<open>The assertion that an identifier is an object identifier panics when it is not.\<close>

definition as_ObjectID :: "inserted_id \<Rightarrow> ('w, string) prog" where
  "as_ObjectID i = (case i of ObjectID h \<Rightarrow> ret h | OtherID \<Rightarrow> panic ''interface conversion'')"

definition owner_membership :: "string \<Rightarrow> string \<Rightarrow> MembershipOrgMDB" where
  "owner_membership org user = \<lparr>mmID = [], mmOrganization = org, mmRole = ''owner'', mmStatus = ''accepted'', mmUser = user\<rparr>"

definition SaveUser_mongo :: "'w vmongo_ops \<Rightarrow> MongoClient_vault \<Rightarrow> UserMDB option \<Rightarrow> ('w, string) prog" where
  "SaveUser_mongo v m user = (case user of None \<Rightarrow> fail (Failure ''user is empty'')
   | Some u \<Rightarrow> with_client v m
      (seqc (insert_document v m ''users'' (user_document u)) (\<lambda>userresult.
       seqc (insert_document v m ''organizations'' (organization_document \<lparr>gmID = [], gmName = ''Terminus''\<rparr>)) (\<lambda>orgRes.
       seqc (as_ObjectID orgRes) (\<lambda>org.
       seqc (as_ObjectID userresult) (\<lambda>uid.
       seqc (insert_document v m ''membershiporgs'' (membership_document (owner_membership org uid))) (\<lambda>_.
       ret uid)))))))"

section \<open>Users (init.go, token.go)\<close>

definition new_user_mongo :: "string \<Rightarrow> string \<Rightarrow> string \<Rightarrow> string \<Rightarrow> string \<Rightarrow> string \<times> string \<times> string \<Rightarrow> UserMDB" where
  "new_user_mongo username email publicKey salt verifier encrypted =
     \<lparr>umID = [], umEmail = email, umFirstName = [], umLastName = username, umEncryptionVersion = 1, umProtectedKey = [],
      umProtectedKeyIV = [], umProtectedKeyTag = [], umPublicKey = publicKey, umEncryptedPrivateKey = fst encrypted,
      umIV = fst (snd encrypted), umTag = snd (snd encrypted), umSalt = salt, umVerifier = verifier, umRefreshVersion = 0,
      umIsMfaEnabled = False, umMfaMethods = None\<rparr>"

definition InsertKsUserToMongo :: "'w vault_ops \<Rightarrow> 'w vmongo_ops \<Rightarrow> MongoClient_vault \<Rightarrow> string \<Rightarrow> string \<Rightarrow> string \<Rightarrow> ('w, unit) prog" where
  "InsertKsUserToMongo v vm m username email password =
     seqc (vault BoxGenerateKey (voGenerateKey v)) (\<lambda>(publicKeyBytes, privateKeyBytes).
     let publicKey = base64_EncodeToString publicKeyBytes; privateKey = base64_EncodeToString privateKeyBytes in
     seqc (Encrypt (voRandom v) privateKey (secretOfPassword password)) (\<lambda>encrypted.
     seqc (wrapv ''jsrp-client: '' (vault (RunNode (node_env email password)) (voNode v (node_env email password)))) (\<lambda>resStr.
     case Split resStr CHR '':'' of
       salt # verifier # _ \<Rightarrow>
         seqc (SaveUser_mongo vm m (Some (new_user_mongo username email publicKey salt verifier encrypted))) (\<lambda>_. ret ())
     | _ \<Rightarrow> fail (Failure (''jsrp-client: return invalid, '' @ resStr)))))"

text \<open>The source of the credentials is a field of the issuer of tokens.\<close>

definition getUserFromInfisicalMongoDB :: "'w vmongo_ops \<Rightarrow> config \<Rightarrow> ('w, string \<times> string) prog \<Rightarrow> string \<Rightarrow> ('w, UserMDB) prog" where
  "getUserFromInfisicalMongoDB v cf getUserAndPwd email =
     seqc getUserAndPwd (\<lambda>(user, password).
     GetUser_mongo v \<lparr>vcUser = user, vcPassword = password, vcDatabase = cfDBName cf, vcAddr = cfDBAddr cf\<rparr> email)"

section \<open>What a new user consists of\<close>

lemma with_client_Val:
  assumes "with_client v m body s = (Val x, s')"
  shows "\<exists>s1 s2. body s1 = (Val x, s2) \<and> snd s1 = snd s @ [Svc (Mongo (MongoConnect (mongo_dsn m)))] \<and>
     snd s' = snd s2 @ [Svc (Mongo MongoDisconnect)]"
  using assms by (auto simp: with_client_def seqc_def deferc_def call_def split: prod.splits res.splits) blast

text \<open>A saved user has three documents, and the membership refers to the other two by the identifiers under which they
  were stored.\<close>

lemma SaveUser_mongo_documents:
  assumes "SaveUser_mongo v m (Some u) s = (Val uid, s')"
  shows "\<exists>org w1 w2 w3. snd s' = snd s @
      [Svc (Mongo (MongoConnect (mongo_dsn m))),
       Svc (Vault (InsertDocument (vcDatabase m) ''users'' (user_document u))),
       Svc (Vault (InsertDocument (vcDatabase m) ''organizations'' [(''name'', DbString ''Terminus'')])),
       Svc (Vault (InsertDocument (vcDatabase m) ''membershiporgs'' (membership_document (owner_membership org uid)))),
       Svc (Mongo MongoDisconnect)] \<and>
     vmInsertOne v ''users'' (user_document u) w1 = (Val (ObjectID uid), w2) \<and>
     vmInsertOne v ''organizations'' [(''name'', DbString ''Terminus'')] w2 = (Val (ObjectID org), w3)"
proof -
  from assms obtain s1 s2 where
    run: "seqc (insert_document v m ''users'' (user_document u)) (\<lambda>userresult.
       seqc (insert_document v m ''organizations'' (organization_document \<lparr>gmID = [], gmName = ''Terminus''\<rparr>)) (\<lambda>orgRes.
       seqc (as_ObjectID orgRes) (\<lambda>org. seqc (as_ObjectID userresult) (\<lambda>uid.
       seqc (insert_document v m ''membershiporgs'' (membership_document (owner_membership org uid))) (\<lambda>_. ret uid))))) s1 = (Val uid, s2)"
    and s1: "snd s1 = snd s @ [Svc (Mongo (MongoConnect (mongo_dsn m)))]" and s': "snd s' = snd s2 @ [Svc (Mongo MongoDisconnect)]"
    unfolding SaveUser_mongo_def option.case by (blast dest: with_client_Val)
  have "organization_document \<lparr>gmID = [], gmName = ''Terminus''\<rparr> = [(''name'', DbString ''Terminus'')]"
    by (simp add: organization_document_def object_id_def)
  with run s1 s' show ?thesis
    by (auto simp: insert_document_def vault_def seqc_def call_def as_ObjectID_def ret_def panic_def
        split: prod.splits res.splits inserted_id.splits) blast
qed

text \<open>The document of a new user carries what \<open>DecryptUserPrivateKeyHelper\<close> needs, in the fields of the same names: the
  password of the user gets the private key back from it.\<close>

definition mongo_keys :: "UserMDB \<Rightarrow> UserEncryptionKeysPG" where
  "mongo_keys u = new_keys (umPublicKey u) (umSalt u) (umVerifier u) (umEncryptedPrivateKey u, umIV u, umTag u)"

lemma mongo_user_key_opens:
  assumes "InsertKsUserToMongo v vm m username email password s = (Val (), s')"
  shows "\<exists>pub priv w u. voGenerateKey v (fst s) = (Val (pub, priv), w) \<and>
     Svc (Vault (InsertDocument (vcDatabase m) ''users'' (user_document u))) \<in> set (snd s') \<and>
     umEmail u = email \<and> umLastName u = username \<and> base64_DecodeString (umPublicKey u) = Val pub \<and>
     bindR (DecryptUserPrivateKeyHelper (mongo_keys u) password) base64_DecodeString = Val priv"
proof -
  obtain pub priv s1 where gen: "vault BoxGenerateKey (voGenerateKey v) s = (Val (pub, priv), s1)"
    and r1: "seqc (Encrypt (voRandom v) (base64_EncodeToString priv) (secretOfPassword password)) (\<lambda>encrypted.
      seqc (wrapv ''jsrp-client: '' (vault (RunNode (node_env email password)) (voNode v (node_env email password)))) (\<lambda>resStr.
      case Split resStr CHR '':'' of
        salt # verifier # _ \<Rightarrow>
          seqc (SaveUser_mongo vm m (Some (new_user_mongo username email (base64_EncodeToString pub) salt verifier encrypted))) (\<lambda>_. ret ())
      | _ \<Rightarrow> fail (Failure (''jsrp-client: return invalid, '' @ resStr)))) s1 = (Val (), s')"
    using seqc_Val [OF assms [unfolded InsertKsUserToMongo_def Let_def]] by auto
  obtain c iv tag s2 res s3 where enc: "Encrypt (voRandom v) (base64_EncodeToString priv) (secretOfPassword password) s1 = (Val (c, iv, tag), s2)"
    and r2: "(case Split res CHR '':'' of
        salt # verifier # _ \<Rightarrow>
          seqc (SaveUser_mongo vm m (Some (new_user_mongo username email (base64_EncodeToString pub) salt verifier (c, iv, tag)))) (\<lambda>_. ret ())
      | _ \<Rightarrow> fail (Failure (''jsrp-client: return invalid, '' @ res))) s3 = (Val (), s')"
    using seqc_Val [OF r1] by (auto dest!: seqc_Val)
  obtain salt verifier uid where
    save: "SaveUser_mongo vm m (Some (new_user_mongo username email (base64_EncodeToString pub) salt verifier (c, iv, tag))) s3 = (Val uid, s')"
    using r2 by (auto simp: fail_def seqc_def ret_def split: list.splits prod.splits res.splits)
  let ?u = "new_user_mongo username email (base64_EncodeToString pub) salt verifier (c, iv, tag)"
  have "base64_DecodeString (umPublicKey ?u) = Val pub" "bindR (DecryptUserPrivateKeyHelper (mongo_keys ?u) password) base64_DecodeString = Val priv"
    using Encrypt_Val(1) [OF enc] by (simp_all add: new_user_mongo_def mongo_keys_def new_keys_def DecryptUserPrivateKeyHelper_def base64_round_trip)
  moreover have "Svc (Vault (InsertDocument (vcDatabase m) ''users'' (user_document ?u))) \<in> set (snd s')"
    using SaveUser_mongo_documents [OF save] by auto
  moreover obtain w where "voGenerateKey v (fst s) = (Val (pub, priv), w)" using call_traced [OF gen [unfolded vault_def]] by auto
  moreover have "umEmail ?u = email" "umLastName ?u = username" by (simp_all add: new_user_mongo_def)
  ultimately show ?thesis by blast
qed

text \<open>A failure after the first document leaves the earlier ones behind: they are written one by one, without a
  transaction. When the organization cannot be stored, the user stays without one, and saving the user again adds a
  second document.\<close>

lemma SaveUser_mongo_partial:
  assumes "mongoConnect (vmMongo v) (mongo_dsn m) (fst s) = (Val (), w1)"
    and "vmInsertOne v ''users'' (user_document u) w1 = (Val i, w2)"
    and "vmInsertOne v ''organizations'' [(''name'', DbString ''Terminus'')] w2 = (Err e, w3)"
  shows "fst (SaveUser_mongo v m (Some u) s) = Err e \<and>
    snd (snd (SaveUser_mongo v m (Some u) s)) = snd s @
      [Svc (Mongo (MongoConnect (mongo_dsn m))),
       Svc (Vault (InsertDocument (vcDatabase m) ''users'' (user_document u))),
       Svc (Vault (InsertDocument (vcDatabase m) ''organizations'' [(''name'', DbString ''Terminus'')])),
       Svc (Mongo MongoDisconnect)]"
  using assms by (simp add: SaveUser_mongo_def with_client_def insert_document_def vault_def organization_document_def object_id_def
      io_defs deferc_def split: prod.splits)

end
