(* ===== verification/Sys_Events.thy ===== *)
theory Sys_Events
  imports Corefile World "HOL-Library.Log_Nat" Prom_Templates
begin

text \<open>The system event watcher (\<open>cmd/sys-event\<close>) apart from the Corefile: the client that sends
  notifications to a user, the callbacks that other parts of the platform have registered, the queue of events
  and the subscribers that handle them, and the watchers of users and of metrics.\<close>

section \<open>Floating point\<close>

text \<open>\<open>float64\<close>: the finite values are rationals, and a product is rounded to the nearest value with 53 binary
  digits, to the even one of two. The sign of zero, which no comparison sees, is left out.\<close>

datatype float64 = NaN | Infinite bool | Finite rat

definition pow2 :: "int \<Rightarrow> rat" where
  "pow2 e = (if 0 \<le> e then 2 ^ nat e else 1 / 2 ^ nat (- e))"

definition round_even :: "rat \<Rightarrow> int" where
  "round_even q = (let n = \<lfloor>q\<rfloor>; d = q - of_int n in
     if d < 1 / 2 then n else if 1 / 2 < d then n + 1 else if even n then n else n + 1)"

definition exponent :: "rat \<Rightarrow> int" where
  "exponent x = (case quotient_of x of (p, q) \<Rightarrow> let e = bitlen p - bitlen q in if pow2 e \<le> x then e else e - 1)"

definition round_pos :: "rat \<Rightarrow> rat" where
  "round_pos x = (let e = max (- 1074) (exponent x - 52) in of_int (round_even (x / pow2 e)) * pow2 e)"

definition float_of :: "rat \<Rightarrow> float64" where
  "float_of x = (if x = 0 then Finite 0
     else let y = round_pos \<bar>x\<bar> in if 2 ^ 1024 \<le> y then Infinite (x < 0) else Finite (if x < 0 then - y else y))"

fun float_mult :: "float64 \<Rightarrow> float64 \<Rightarrow> float64" where
  "float_mult (Finite x) (Finite y) = float_of (x * y)"
| "float_mult (Infinite a) (Infinite b) = Infinite (a \<noteq> b)"
| "float_mult (Infinite a) (Finite y) = (if y = 0 then NaN else Infinite (a \<noteq> (y < 0)))"
| "float_mult (Finite x) (Infinite b) = (if x = 0 then NaN else Infinite (b \<noteq> (x < 0)))"
| "float_mult _ _ = NaN"

fun float_less :: "float64 \<Rightarrow> float64 \<Rightarrow> bool" where
  "float_less (Finite x) (Finite y) = (x < y)"
| "float_less (Infinite a) (Infinite b) = (a \<and> \<not> b)"
| "float_less (Infinite a) (Finite y) = a"
| "float_less (Finite x) (Infinite b) = (\<not> b)"
| "float_less _ _ = False"

section \<open>Data\<close>

datatype event_action = UNKNOWN_event | ADD_event | UPDATE_event | DELETE_event | SUSPEND_event

record SysEventRegistry =
  reName :: string
  reUid :: string
  reVersion :: string
  reType :: string
  reEvent :: string
  reCallback :: string

definition Subscriber :: string where "Subscriber = ''subscriber''"
definition UserCreate :: string where "UserCreate = ''user.create''"
definition UserDelete :: string where "UserDelete = ''user.delete''"
definition UserActive :: string where "UserActive = ''user.active''"
definition UserLogin :: string where "UserLogin = ''user.login''"
definition AppInstall :: string where "AppInstall = ''app.install''"
definition AppUninstall :: string where "AppUninstall = ''app.uninstall''"
definition AppSuspend :: string where "AppSuspend = ''app.suspend''"
definition MemoryHigh :: string where "MemoryHigh = ''metrics.memory.high''"
definition CPUHigh :: string where "CPUHigh = ''metrics.cpu.high''"
definition UserMemoryHigh :: string where "UserMemoryHigh = ''metrics.user.memory.high''"
definition UserCPUHigh :: string where "UserCPUHigh = ''metrics.user.cpu.high''"
definition RecommendInstall :: string where "RecommendInstall = ''recommend.install''"
definition RecommendUninstall :: string where "RecommendUninstall = ''recommend.uninstall''"

text \<open>The metadata that the filter on recent objects looks at, in nanoseconds.\<close>

record object_times =
  otCreated :: int
  otDeleted :: "int option"

record platform_user =
  kuName :: string
  kuEmail :: string
  kuAnnotations :: "(string \<times> string) list"
  kuTimes :: object_times

record Application =
  afName :: string
  afNamespace :: string
  afOwner :: string
  afAnnotations :: "(string \<times> string) list"
  afTimes :: object_times

record Namespace =
  nmName :: string
  nmLabels :: "(string \<times> string) list"
  nmAnnotations :: "(string \<times> string) list"

record LoginRecord =
  lrLabels :: "(string \<times> string) list"
  lrSourceIP :: string
  lrTimes :: object_times

record CustomEvent =
  ceType :: string
  ceData :: string
  ceMessage :: string
  ceUser :: string

text \<open>A value of a metric has its labels and the value of its sample; the time of the sample is
  never read.\<close>

record MetricValue =
  mvMetadata :: "(string \<times> string) list"
  mvSample :: float64

record Metric =
  mtName :: string
  mtValues :: "MetricValue list"
  mtError :: string

datatype event_obj =
    UserObj platform_user
  | AppObj Application
  | NamespaceObj Namespace
  | PodObj "(string \<times> string) list"
  | NodeObj "(string \<times> string) list"
  | CustomObj CustomEvent
  | MetricObj Metric
  | LoginObj LoginRecord

datatype subscriber = UsersSubscriber | AppsSubscriber | WorkflowsSubscriber | PodSubscriber | NodeSubscriber
  | CustomSubscriber | MetricsSubscriber | LoginSubscriber

record EnqueueObj =
  eoObj :: event_obj
  eoAction :: event_action
  eoSubscribe :: subscriber

datatype payload = NoPayload | NamePayload string | UserPayload string | AnyPayload string

record EventPayload =
  epType :: string
  epData :: payload

record AccessTokenRequest =
  arAppKey :: string
  arTimestamp :: int
  arToken :: string
  arGroup :: string
  arVersion :: string
  arDataType :: string
  arOps :: "string list"

record Event =
  evtType :: string
  evtVersion :: string
  evtMessage :: string
  evtPayload :: EventPayload

datatype callback_body =
    NewUserBody string string string
  | UserBody string string
  | NameBody string
  | MetricBody float64 float64
  | UserMetricBody float64 float64 string

section \<open>The world\<close>

datatype ev_call =
    EvDns dns_call
  | EvNow
  | GetAppPerm string string
  | Bcrypt string
  | PostAccess string AccessTokenRequest
  | PostEvent string string Event
  | ListRegistries
  | PostCallback string callback_body
  | ListCronWorkflows string
  | QueryMetric string
  | EnqueueEvent EnqueueObj
  | WatchUsers
  | WatchRegistries
  | CheckContext
  | SelectEvent
  | StopUserWatch
  | StopRegistryWatch
  | GetItem
  | RequeueItem EnqueueObj
  | ForgetItem "EnqueueObj option"
  | DoneItem "EnqueueObj option"

type_synonym ('w, 'a) ev = "(ev_call, 'w, 'a) io"

text \<open>The object of a user event is of the expected type or not, and its conversion to a user can fail.
  A closed channel gives no event.\<close>

record user_object =
  uoUid :: string
  uoVersion :: string
  uoUser :: "platform_user res"

datatype ev_selected =
    ContextDone
  | UserEvent "(event_type \<times> user_object option) option"
  | RegistryEvent "(event_type \<times> SysEventRegistry option) option"

text \<open>A response has a status, a text and a decoded result: code, message and token. An item of the
  queue is what was put there or, as \<open>None\<close>, something else. \<open>evTries\<close> is the number of attempts that the backoff
  allows, \<open>evFinish\<close> the order in which the goroutines of a query of several metrics end.\<close>

record 'w ev_ops =
  evDns :: "'w dns_ops"
  evParse :: "string \<Rightarrow> corefile res"
  evPrint :: "corefile \<Rightarrow> string"
  evMaxUsers :: string
  evNow :: "('w, int) op"
  evAppPerm :: "string \<Rightarrow> string \<Rightarrow> ('w, (string \<times> string) res) op"
  evBcrypt :: "string \<Rightarrow> ('w, string) op"
  evAccess :: "string \<Rightarrow> AccessTokenRequest \<Rightarrow> ('w, nat \<times> string \<times> int \<times> string \<times> string) op"
  evEvent :: "string \<Rightarrow> string \<Rightarrow> Event \<Rightarrow> ('w, nat \<times> string \<times> int \<times> string) op"
  evRegistries :: "('w, SysEventRegistry list) op"
  evCallback :: "string \<Rightarrow> callback_body \<Rightarrow> ('w, nat) op"
  evCronWorkflows :: "string \<Rightarrow> ('w, (string \<times> string) list option list) op"
  evQuery :: "string \<Rightarrow> ('w, ((string \<times> string) list \<times> float64) list) op"
  evQuantity :: "string \<Rightarrow> float64 res"
  evEnqueue :: "EnqueueObj \<Rightarrow> 'w \<Rightarrow> 'w"
  evWatchUsers :: "('w, unit) op"
  evWatchRegistries :: "('w, unit) op"
  evSelect :: "'w \<Rightarrow> ev_selected \<times> 'w"
  evStop :: "'w \<Rightarrow> 'w"
  evUsers :: "('w, platform_user res list) op"
  evCancelled :: "'w \<Rightarrow> bool \<times> 'w"
  evGet :: "'w \<Rightarrow> EnqueueObj option option \<times> 'w"
  evSettle :: "'w \<Rightarrow> 'w"
  evTries :: nat
  evFinish :: "Metric list \<Rightarrow> Metric list"

text \<open>A program that makes calls of another kind.\<close>

definition via :: "('c \<Rightarrow> 'd) \<Rightarrow> ('c, 'w, 'a) io \<Rightarrow> ('d, 'w, 'a) io" where
  "via f m s = (case m (fst s, []) of (r, (w, cs)) \<Rightarrow> (r, (w, snd s @ map f cs)))"

definition total :: "('w \<Rightarrow> 'w) \<Rightarrow> ('w, unit) op" where
  "total f w = (Val (), f w)"

definition now :: "'w ev_ops \<Rightarrow> ('w, int) ev" where
  "now v = call EvNow (evNow v)"

definition ctx_done :: "'w ev_ops \<Rightarrow> ('w, bool) ev" where
  "ctx_done v = call CheckContext (\<lambda>w. case evCancelled v w of (b, w') \<Rightarrow> (Val b, w'))"

definition second :: int where "second = 10 ^ 9"

section \<open>Recent objects (filters.go)\<close>

definition ValidWatchDuration :: "'w ev_ops \<Rightarrow> object_times \<Rightarrow> ('w, bool) ev" where
  "ValidWatchDuration v meta =
     seqc (now v) (\<lambda>t. if t - otCreated meta < 60 * second then ret True
       else case otDeleted meta of None \<Rightarrow> ret False
         | Some deleted \<Rightarrow> seqc (now v) (\<lambda>t. ret (t - deleted < 60 * second)))"

section \<open>Events (event.go)\<close>

definition GroupID :: string where "GroupID = ''message-disptahcer.system-server''"
definition EventVersion :: string where "EventVersion = ''v1''"

record EventClient =
  ecServer :: string
  ecAppKey :: string
  ecAppSecret :: string

definition getAccessToken :: "'w ev_ops \<Rightarrow> EventClient \<Rightarrow> ('w, string) ev" where
  "getAccessToken v c = (let url = ''http://'' @ ecServer c @ ''/permission/v1alpha1/access'' in
     seqc (now v) (\<lambda>t. let ts = t div second; password = ecAppKey c @ Itoa_int ts @ ecAppSecret c in
     seqc (call (Bcrypt password) (evBcrypt v password)) (\<lambda>encode.
     let perm = \<lparr>arAppKey = ecAppKey c, arTimestamp = ts, arToken = encode, arGroup = GroupID, arVersion = EventVersion,
           arDataType = ''event'', arOps = [''Create'']\<rparr> in
     seqc (call (PostAccess url perm) (evAccess v url perm)) (\<lambda>(status, body, code, message, token).
     if status \<noteq> 200 then fail (Failure body)
     else if code \<noteq> 0 then fail (Failure message)
     else ret token))))"

definition CreateEvent :: "'w ev_ops \<Rightarrow> EventClient \<Rightarrow> string \<Rightarrow> string \<Rightarrow> EventPayload \<Rightarrow> ('w, unit) ev" where
  "CreateEvent v c eventType msg data =
     (let url = ''http://'' @ ecServer c @ ''/system-server/v1alpha1/event/message-disptahcer.system-server/v1'' in
      seqc (getAccessToken v c) (\<lambda>token.
      let event = \<lparr>evtType = eventType, evtVersion = EventVersion, evtMessage = msg, evtPayload = data\<rparr> in
      seqc (call (PostEvent url token event) (evEvent v url token event)) (\<lambda>(status, body, code, message).
      if status \<noteq> 200 then fail (Failure body)
      else if code \<noteq> 0 then fail (Failure message)
      else ret ())))"

section \<open>Notifications (notification.go)\<close>

definition getUserAppKey :: "'w ev_ops \<Rightarrow> string \<Rightarrow> ('w, string \<times> string) ev" where
  "getUserAppKey v user = (let namespace = ''user-system-'' @ user in
     seqc (call (GetAppPerm namespace ''bfl'') (evAppPerm v namespace ''bfl'')) lift)"

definition Send_notification :: "'w ev_ops \<Rightarrow> string \<Rightarrow> string \<Rightarrow> EventPayload \<Rightarrow> ('w, unit) ev" where
  "Send_notification v user msg data =
     seqc (getUserAppKey v user) (\<lambda>(appKey, appSecret).
     CreateEvent v \<lparr>ecServer = ''system-server.user-system-'' @ user, ecAppKey = appKey, ecAppSecret = appSecret\<rparr> ''notification'' msg data)"

definition list_users :: "'w ev_ops \<Rightarrow> ('w, dns_user list) ev" where
  "list_users v = call (EvDns ListUsers) (listUsers (evDns v))"

definition AdminUser :: "'w ev_ops \<Rightarrow> ('w, string) ev" where
  "AdminUser v = seqc (list_users v) (\<lambda>us.
     case find (\<lambda>u. lookup (duAnnotations u) ''bytetrade.io/owner-role'' = Some ''owner'') us of
       Some u \<Rightarrow> ret (duName u)
     | None \<Rightarrow> fail (Failure ''admin not found''))"

section \<open>Callbacks (callback.go)\<close>

text \<open>\<open>retry.OnError\<close>: at most \<open>n\<close> attempts; the last error is returned.\<close>

fun retry_OnError :: "nat \<Rightarrow> (go_error \<Rightarrow> bool) \<Rightarrow> ('w, unit) ev \<Rightarrow> go_error option \<Rightarrow> ('w, unit) ev" where
  "retry_OnError 0 retriable m last_error = (case last_error of None \<Rightarrow> ret () | Some e \<Rightarrow> fail e)"
| "retry_OnError (Suc n) retriable m last_error = tryc m ret (\<lambda>e.
     if retriable e then retry_OnError n retriable m (Some e) else fail e)"

definition sendEvent :: "'w ev_ops \<Rightarrow> SysEventRegistry \<Rightarrow> callback_body \<Rightarrow> ('w, unit) ev" where
  "sendEvent v cb data =
     seqc (call (PostCallback (reCallback cb) data) (evCallback v (reCallback cb) data)) (\<lambda>status.
     if 400 \<le> status then
       if status = 493 then fail (Failure (''['' @ reName cb @ ''] response forbidden, canceled''))
       else fail (Failure (''invoke callback ['' @ reName cb @ ''] response error''))
     else ret ())"

text \<open>The loop over the callbacks, which ends with the first one that fails.\<close>

definition invoke_each :: "'w ev_ops \<Rightarrow> (go_error \<Rightarrow> bool) \<Rightarrow> (SysEventRegistry \<Rightarrow> bool) \<Rightarrow> (SysEventRegistry \<Rightarrow> ('w, unit) ev) \<Rightarrow>
    SysEventRegistry list \<Rightarrow> ('w, unit) ev" where
  "invoke_each v retriable trigger action cbs = forM cbs (\<lambda>cb.
     if trigger cb then
       if reCallback cb = [] then fail (Failure ''callback url is empty'')
       else retry_OnError (evTries v) retriable (action cb) None
     else ret ())"

definition list_registries :: "'w ev_ops \<Rightarrow> ('w, SysEventRegistry list) ev" where
  "list_registries v = call ListRegistries (evRegistries v)"

definition Invoke :: "'w ev_ops \<Rightarrow> (go_error \<Rightarrow> bool) \<Rightarrow> (SysEventRegistry \<Rightarrow> bool) \<Rightarrow> callback_body \<Rightarrow> ('w, unit) ev" where
  "Invoke v retriable trigger data = seqc (list_registries v) (invoke_each v retriable trigger (\<lambda>cb. sendEvent v cb data))"

definition subscribed :: "string \<Rightarrow> SysEventRegistry \<Rightarrow> bool" where
  "subscribed event cb = (reType cb = Subscriber \<and> reEvent cb = event)"

text \<open>Both invokers are made with a filter that takes every error as one to try again.\<close>

definition Invoke_event :: "'w ev_ops \<Rightarrow> string \<Rightarrow> callback_body \<Rightarrow> ('w, unit) ev" where
  "Invoke_event v event data = Invoke v (\<lambda>_. True) (subscribed event) data"

section \<open>Subscribers\<close>

text \<open>\<open>RegenerateCorefile\<close> with the clients of a subscriber.\<close>

definition regenerate :: "'w ev_ops \<Rightarrow> ('w, unit) ev" where
  "regenerate v = via EvDns (RegenerateCorefile (evParse v) (evPrint v) (evMaxUsers v) (evDns v))"

text \<open>\<open>users/subscriber.go\<close>: the tasks in their order, the notification and the Corefile.\<close>

definition notify_admin :: "'w ev_ops \<Rightarrow> platform_user \<Rightarrow> string \<Rightarrow> string \<Rightarrow> ('w, unit) ev" where
  "notify_admin v user what event = seqc (AdminUser v) (\<lambda>admin.
     Send_notification v admin (''user '' @ kuName user @ what) \<lparr>epType = event, epData = UserPayload (kuName user)\<rparr>)"

definition Do_users :: "'w ev_ops \<Rightarrow> platform_user \<Rightarrow> event_action \<Rightarrow> ('w, unit) ev" where
  "Do_users v user action = (case action of
     ADD_event \<Rightarrow> notify_admin v user '' is created'' UserCreate
   | DELETE_event \<Rightarrow> seqc (notify_admin v user '' is deleted'' UserDelete) (\<lambda>_. regenerate v)
   | UPDATE_event \<Rightarrow> regenerate v
   | _ \<Rightarrow> ret ())"

text \<open>\<open>apps/applications.go\<close>: what is queued, and what is done with it.\<close>

definition suspendAnnotation :: string where "suspendAnnotation = ''bytetrade.io/suspend-by''"
definition suspendCauseAnnotation :: string where "suspendCauseAnnotation = ''bytetrade.io/suspend-cause''"

datatype 'a informed = AddedObj 'a | UpdatedObj 'a 'a | DeletedObj 'a

definition enqueue_event :: "'w ev_ops \<Rightarrow> event_obj \<Rightarrow> event_action \<Rightarrow> subscriber \<Rightarrow> ('w, unit) ev" where
  "enqueue_event v obj action sub = (let eobj = \<lparr>eoObj = obj, eoAction = action, eoSubscribe = sub\<rparr> in
     call (EnqueueEvent eobj) (total (evEnqueue v eobj)))"

definition user_namespace :: "string \<Rightarrow> bool" where
  "user_namespace ns = (HasPrefix ns ''user-space-'' \<or> HasPrefix ns ''user-system-'')"

definition filter_app :: "Application \<Rightarrow> bool" where
  "filter_app app = (\<not> user_namespace (afNamespace app))"

text \<open>\<open>AddToWatchers\<close>: objects are converted before the filter and before the handler; one that cannot be
  converted is dropped, and a tombstone, which an informer delivers for a deletion it has missed,
  is no object at all. \<open>cache.FilteringResourceEventHandler\<close> passes an update on as such when both objects pass the filter,
  as an addition or a deletion when only the new or only the old one does.\<close>

datatype 'a delivered = Converted 'a | Unconvertible | Tombstone

definition passes :: "('a \<Rightarrow> bool) \<Rightarrow> 'a delivered \<Rightarrow> 'a option res" where
  "passes f x = (case x of
     Converted y \<Rightarrow> Val (if f y then Some y else None)
   | Unconvertible \<Rightarrow> Val None
   | Tombstone \<Rightarrow> Panic ''interface conversion'')"

definition filtered :: "('a \<Rightarrow> bool) \<Rightarrow> 'a delivered informed \<Rightarrow> 'a informed option res" where
  "filtered f e = (case e of
     AddedObj x \<Rightarrow> bindR (passes f x) (\<lambda>x. Val (map_option AddedObj x))
   | DeletedObj x \<Rightarrow> bindR (passes f x) (\<lambda>x. Val (map_option DeletedObj x))
   | UpdatedObj old new \<Rightarrow> bindR (passes f new) (\<lambda>n. bindR (passes f old) (\<lambda>o'. Val (case (o', n) of
       (Some x, Some y) \<Rightarrow> Some (UpdatedObj x y)
     | (None, Some y) \<Rightarrow> Some (AddedObj y)
     | (Some x, None) \<Rightarrow> Some (DeletedObj x)
     | (None, None) \<Rightarrow> None))))"

definition AddToWatchers :: "('a \<Rightarrow> bool) \<Rightarrow> ('a informed \<Rightarrow> ('w, unit) ev) \<Rightarrow> 'a delivered informed \<Rightarrow> ('w, unit) ev" where
  "AddToWatchers f handler e = seqc (lift (filtered f e)) (\<lambda>r. case r of None \<Rightarrow> ret () | Some e \<Rightarrow> handler e)"

definition handle_app :: "'w ev_ops \<Rightarrow> Application informed \<Rightarrow> ('w, unit) ev" where
  "handle_app v e = (case e of
     AddedObj app \<Rightarrow> seqc (ValidWatchDuration v (afTimes app)) (\<lambda>recent.
       if recent then enqueue_event v (AppObj app) ADD_event AppsSubscriber else ret ())
   | DeletedObj app \<Rightarrow> enqueue_event v (AppObj app) DELETE_event AppsSubscriber
   | UpdatedObj old new \<Rightarrow> (case lookup (afAnnotations new) suspendAnnotation of
       Some a \<Rightarrow> if a \<noteq> label (afAnnotations old) suspendAnnotation
         then enqueue_event v (AppObj new) SUSPEND_event AppsSubscriber else ret ()
     | None \<Rightarrow> ret ()))"

definition HandleEvent_apps :: "'w ev_ops \<Rightarrow> Application delivered informed \<Rightarrow> ('w, unit) ev" where
  "HandleEvent_apps v = AddToWatchers filter_app (handle_app v)"

definition app_title :: "Application \<Rightarrow> string" where
  "app_title app = ''app '' @ afNamespace app @ ''/'' @ afName app"

definition Do_apps :: "'w ev_ops \<Rightarrow> Application \<Rightarrow> event_action \<Rightarrow> ('w, unit) ev" where
  "Do_apps v app action = (case action of
     ADD_event \<Rightarrow> Send_notification v (afOwner app) (app_title app @ '' is installed'') \<lparr>epType = AppInstall, epData = NamePayload (afName app)\<rparr>
   | DELETE_event \<Rightarrow> Send_notification v (afOwner app) (app_title app @ '' is uninstalled'') \<lparr>epType = AppUninstall, epData = NamePayload (afName app)\<rparr>
   | SUSPEND_event \<Rightarrow> seqc (AdminUser v) (\<lambda>admin.
       Send_notification v admin (afOwner app @ [CHR 0x27] @ ''s '' @ app_title app @ '' was suspended, cause: '' @ label (afAnnotations app) suspendCauseAnnotation)
         \<lparr>epType = AppSuspend, epData = NamePayload (afName app)\<rparr>)
   | _ \<Rightarrow> ret ())"

text \<open>\<open>workflows/subscriber.go\<close>.\<close>

definition WorkflowNameLabel :: string where "WorkflowNameLabel = ''workflows.app.bytetrade.io/name''"
definition WorkflowTitleAnnotation :: string where "WorkflowTitleAnnotation = ''workflows.app.bytetrade.io/title''"

definition filter_namespace :: "Namespace \<Rightarrow> bool" where
  "filter_namespace ns = (\<not> user_namespace (nmName ns))"

definition handle_namespace :: "'w ev_ops \<Rightarrow> Namespace informed \<Rightarrow> ('w, unit) ev" where
  "handle_namespace v e = (case e of
     AddedObj ns \<Rightarrow> ret ()
   | DeletedObj ns \<Rightarrow> if lookup (nmLabels ns) WorkflowNameLabel \<noteq> None
       then enqueue_event v (NamespaceObj ns) DELETE_event WorkflowsSubscriber else ret ()
   | UpdatedObj old new \<Rightarrow> if lookup (nmLabels new) WorkflowNameLabel \<noteq> None \<and> lookup (nmLabels old) WorkflowNameLabel = None
       then enqueue_event v (NamespaceObj new) ADD_event WorkflowsSubscriber else ret ())"

definition HandleEvent_workflows :: "'w ev_ops \<Rightarrow> Namespace delivered informed \<Rightarrow> ('w, unit) ev" where
  "HandleEvent_workflows v = AddToWatchers filter_namespace (handle_namespace v)"

definition workflow_owner :: "(string \<times> string) list option list \<Rightarrow> string option" where
  "workflow_owner ws = List.find (\<lambda>owner. owner \<noteq> [])
     (List.map_filter (\<lambda>ls. case ls of None \<Rightarrow> None | Some m \<Rightarrow> lookup m ''workflows.app.bytetrade.io/owner'') ws)"

definition getWorkflowOwner :: "'w ev_ops \<Rightarrow> string \<Rightarrow> ('w, string) ev" where
  "getWorkflowOwner v namespace = (let notFound = fail (Failure ''owner not found'') in
     tryc (call (ListCronWorkflows namespace) (evCronWorkflows v namespace))
       (\<lambda>ws. case workflow_owner ws of Some owner \<Rightarrow> ret owner | None \<Rightarrow> notFound) (\<lambda>_. notFound))"

definition recommend :: "'w ev_ops \<Rightarrow> Namespace \<Rightarrow> string \<Rightarrow> string \<Rightarrow> ('w, unit) ev" where
  "recommend v ns event what = (let name = label (nmLabels ns) WorkflowNameLabel; title = label (nmAnnotations ns) WorkflowTitleAnnotation in
     seqc (ignorec (Invoke_event v event (NameBody name))) (\<lambda>_.
     seqc (case lookup (nmLabels ns) ''bytetrade.io/ns-owner'' of Some owner \<Rightarrow> ret owner
           | None \<Rightarrow> tryc (getWorkflowOwner v (nmName ns)) ret (\<lambda>_. ret [])) (\<lambda>owner.
     if owner \<noteq> [] then Send_notification v owner (''recommend '' @ title @ what) \<lparr>epType = event, epData = NamePayload name\<rparr>
     else ret ())))"

definition Do_workflows :: "'w ev_ops \<Rightarrow> Namespace \<Rightarrow> event_action \<Rightarrow> ('w, unit) ev" where
  "Do_workflows v ns action = (case action of
     ADD_event \<Rightarrow> recommend v ns RecommendInstall '' is installed''
   | DELETE_event \<Rightarrow> recommend v ns RecommendUninstall '' is uninstalled''
   | _ \<Rightarrow> ret ())"

text \<open>\<open>dnspod\<close>: pods and nodes that matter for the Corefile.\<close>

definition filter_pod :: "(string \<times> string) list \<Rightarrow> bool" where
  "filter_pod labels = (label labels ''applications.app.bytetrade.io/name'' = ''adguardhome'' \<or> label labels ''tier'' = ''bfl'' \<or>
     label labels ''app.bytetrade.io/shared-entrance'' = ''true'')"

definition filter_node :: "(string \<times> string) list \<Rightarrow> bool" where
  "filter_node labels = (lookup labels ''node-role.kubernetes.io/control-plane'' \<noteq> None)"

definition handle_any :: "'w ev_ops \<Rightarrow> ('a \<Rightarrow> event_obj) \<Rightarrow> subscriber \<Rightarrow> 'a informed \<Rightarrow> ('w, unit) ev" where
  "handle_any v mk sub e = (case e of
     DeletedObj x \<Rightarrow> enqueue_event v (mk x) DELETE_event sub
   | UpdatedObj _ x \<Rightarrow> enqueue_event v (mk x) ADD_event sub
   | AddedObj x \<Rightarrow> enqueue_event v (mk x) ADD_event sub)"

definition HandleEvent_pods :: "'w ev_ops \<Rightarrow> (string \<times> string) list delivered informed \<Rightarrow> ('w, unit) ev" where
  "HandleEvent_pods v = AddToWatchers filter_pod (handle_any v PodObj PodSubscriber)"

definition HandleEvent_nodes :: "'w ev_ops \<Rightarrow> (string \<times> string) list delivered informed \<Rightarrow> ('w, unit) ev" where
  "HandleEvent_nodes v = AddToWatchers filter_node (handle_any v NodeObj NodeSubscriber)"

text \<open>\<open>custom/subscriber.go\<close>, with the endpoint that queues such events (\<open>apiserver/server.go\<close>).\<close>

definition Do_custom :: "'w ev_ops \<Rightarrow> CustomEvent \<Rightarrow> event_action \<Rightarrow> ('w, unit) ev" where
  "Do_custom v event action = (case action of
     ADD_event \<Rightarrow> Send_notification v (ceUser event) (ceMessage event) \<lparr>epType = ceType event, epData = AnyPayload (ceData event)\<rparr>
   | _ \<Rightarrow> ret ())"

definition fireEvent :: "'w ev_ops \<Rightarrow> CustomEvent res \<Rightarrow> ('w, unit) ev" where
  "fireEvent v body = seqc (lift body) (\<lambda>event. enqueue_event v (CustomObj event) ADD_event CustomSubscriber)"

text \<open>\<open>login/record.go\<close>.\<close>

definition HandleEvent_login :: "'w ev_ops \<Rightarrow> LoginRecord delivered informed \<Rightarrow> ('w, unit) ev" where
  "HandleEvent_login v = AddToWatchers (\<lambda>_. True) (\<lambda>e. case e of
     AddedObj login \<Rightarrow> seqc (ValidWatchDuration v (lrTimes login)) (\<lambda>recent.
       if recent then enqueue_event v (LoginObj login) ADD_event LoginSubscriber else ret ())
   | _ \<Rightarrow> ret ())"

definition Do_login :: "'w ev_ops \<Rightarrow> LoginRecord \<Rightarrow> event_action \<Rightarrow> ('w, unit) ev" where
  "Do_login v login action = (if action \<noteq> ADD_event then ret ()
     else seqc (AdminUser v) (\<lambda>admin.
       let user = label (lrLabels login) ''iam.kubesphere.io/user-ref''; msg = user @ '' login from '' @ lrSourceIP login;
           data = \<lparr>epType = UserLogin, epData = UserPayload user\<rparr> in
       seqc (Send_notification v admin msg data) (\<lambda>_.
       if user \<noteq> admin then Send_notification v user msg data else ret ())))"

section \<open>Metrics (metrics)\<close>

definition DefaultMetricThreshold :: float64 where
  "DefaultMetricThreshold = Finite (8106479329266893 / 2 ^ 53)"

definition GetValue :: "Metric \<Rightarrow> float64" where
  "GetValue m = (case mtValues m of [] \<Rightarrow> Finite 0 | x # _ \<Rightarrow> mvSample x)"

definition metric_user :: "Metric \<Rightarrow> ('w, string) ev" where
  "metric_user m = (case mtValues m of [] \<Rightarrow> panic ''index out of range'' | x # _ \<Rightarrow> ret (label (mvMetadata x) ''user''))"

text \<open>The alert about a user goes to the administrator and to the user, at most once an hour; \<open>latestSend\<close> is a
  variable of the package and keeps the time of the last alert by the name of the metric. A metric that is not
  there reads as a time long ago.\<close>

definition since :: "int \<Rightarrow> (string \<times> int) list \<Rightarrow> string \<Rightarrow> int \<Rightarrow> bool" where
  "since t latest name d = (case lookup latest name of None \<Rightarrow> True | Some t' \<Rightarrow> d < t - t')"

definition collect :: "('w, unit) ev \<Rightarrow> go_error list \<Rightarrow> ('w, go_error list) ev" where
  "collect m errs = tryc m (\<lambda>_. ret errs) (\<lambda>e. ret (errs @ [e]))"

definition user_alert :: "'w ev_ops \<Rightarrow> string \<Rightarrow> string \<Rightarrow> string \<Rightarrow> string \<Rightarrow> string \<Rightarrow> (string \<times> int) list \<Rightarrow>
    ('w, unit res \<times> (string \<times> int) list) ev" where
  "user_alert v admin user name what event latestSend =
     seqc (now v) (\<lambda>t.
     if since t latestSend name (3600 * second) then
       let data = \<lparr>epType = event, epData = NoPayload\<rparr> in
       seqc (collect (Send_notification v admin (''user: '' @ user @ '' '' @ what) data) []) (\<lambda>errs.
       seqc (collect (Send_notification v user what data) errs) (\<lambda>errs.
       ret (case AggregateErrs errs of None \<Rightarrow> Val () | Some e \<Rightarrow> Err e, AList.update name t latestSend)))
     else ret (Val (), latestSend))"

definition Do_metrics :: "'w ev_ops \<Rightarrow> Metric \<Rightarrow> (string \<times> int) list \<Rightarrow> ('w, unit res \<times> (string \<times> int) list) ev" where
  "Do_metrics v metric latestSend = (let alert = (\<lambda>m. tryc m (\<lambda>_. ret (Val (), latestSend)) (\<lambda>e. ret (Err e, latestSend))) in
     tryc (AdminUser v) (\<lambda>admin.
       if mtName metric = ''cluster_cpu_utilisation'' then
         seqc (ignorec (Invoke_event v CPUHigh (MetricBody (GetValue metric) (Finite 0)))) (\<lambda>_.
         alert (Send_notification v admin ''High CPU load alert'' \<lparr>epType = CPUHigh, epData = NoPayload\<rparr>))
       else if mtName metric = ''cluster_memory_utilisation'' then
         seqc (ignorec (Invoke_event v MemoryHigh (MetricBody (Finite 0) (GetValue metric)))) (\<lambda>_.
         alert (Send_notification v admin ''High memory usage alert'' \<lparr>epType = MemoryHigh, epData = NoPayload\<rparr>))
       else if mtName metric = ''user_cpu_usage'' then
         seqc (metric_user metric) (\<lambda>user.
         seqc (ignorec (Invoke_event v UserCPUHigh (UserMetricBody (GetValue metric) (Finite 0) user))) (\<lambda>_.
         user_alert v admin user (mtName metric) ''High cpu usage alert'' UserCPUHigh latestSend))
       else if mtName metric = ''user_memory_usage'' then
         seqc (metric_user metric) (\<lambda>user.
         seqc (ignorec (Invoke_event v UserMemoryHigh (UserMetricBody (Finite 0) (GetValue metric) user))) (\<lambda>_.
         user_alert v admin user (mtName metric) ''High memory usage alert'' UserMemoryHigh latestSend))
       else ret (Val (), latestSend))
     (\<lambda>e. ret (Err e, latestSend)))"

text \<open>\<open>prometheus.go\<close>: the expressions for the metrics that are asked for, and the query.\<close>

definition makeUserMetricExpr :: "string \<Rightarrow> string \<Rightarrow> string" where
  "makeUserMetricExpr tmpl username =
     (let userSelector = (if username \<noteq> [] then ''user=~'' @ [CHR 0x22] @ username @ [CHR 0x22] else []) in ReplaceStr tmpl ''$1'' userSelector)"

datatype query_options = LevelCluster | LevelUser string

definition makeExpr :: "string \<Rightarrow> query_options \<Rightarrow> string" where
  "makeExpr metric opts = (let tmpl = label promQLTemplates metric in
     case opts of LevelCluster \<Rightarrow> tmpl | LevelUser username \<Rightarrow> makeUserMetricExpr tmpl username)"

definition parseQueryResp :: "((string \<times> string) list \<times> float64) list \<Rightarrow> MetricValue list" where
  "parseQueryResp data = map (\<lambda>(labels, x). \<lparr>mvMetadata = labels, mvSample = x\<rparr>) data"

definition query_metric :: "'w ev_ops \<Rightarrow> query_options \<Rightarrow> string \<Rightarrow> ('w, Metric) ev" where
  "query_metric v opts metric = (let e = makeExpr metric opts in
     tryc (call (QueryMetric e) (evQuery v e))
       (\<lambda>data. ret \<lparr>mtName = metric, mtValues = parseQueryResp data, mtError = []\<rparr>)
       (\<lambda>err. ret \<lparr>mtName = metric, mtValues = [], mtError = Error err\<rparr>))"

definition GetNamedMetrics :: "'w ev_ops \<Rightarrow> string list \<Rightarrow> query_options \<Rightarrow> ('w, Metric list) ev" where
  "GetNamedMetrics v metrics opts =
     seqc (foldM (\<lambda>res metric. seqc (query_metric v opts metric) (\<lambda>m. ret (res @ [m]))) [] metrics) (\<lambda>res. ret (evFinish v res))"

text \<open>\<open>monitoring.go\<close>: an alert is queued when the value is above the threshold and the last one for this
  metric is more than a minute ago.\<close>

definition queue_alert :: "'w ev_ops \<Rightarrow> float64 \<Rightarrow> (string \<times> int) list \<Rightarrow> Metric \<Rightarrow> ('w, (string \<times> int) list) ev" where
  "queue_alert v threshold latestSend m =
     (if float_less threshold (GetValue m) then
        seqc (now v) (\<lambda>t. if since t latestSend (mtName m) (60 * second) then
          seqc (enqueue_event v (MetricObj m) UNKNOWN_event MetricsSubscriber) (\<lambda>_. ret (AList.update (mtName m) t latestSend))
        else ret latestSend)
      else ret latestSend)"

definition user_limits :: "'w ev_ops \<Rightarrow> dns_user \<Rightarrow> (string \<times> float64 \<times> float64) option" where
  "user_limits v u = (case (evQuantity v (label (duAnnotations u) ''bytetrade.io/user-cpu-limit''),
       evQuantity v (label (duAnnotations u) ''bytetrade.io/user-memory-limit'')) of
     (Val c, Val m) \<Rightarrow> Some (duName u, c, m) | _ \<Rightarrow> None)"

definition user_threshold :: "float64 \<times> float64 \<Rightarrow> Metric \<Rightarrow> float64 option" where
  "user_threshold limits m = (if mtName m = ''user_cpu_usage'' then Some (float_mult (fst limits) DefaultMetricThreshold)
     else if mtName m = ''user_memory_usage'' then Some (float_mult (snd limits) DefaultMetricThreshold) else None)"

text \<open>The limits are looked up in a map by name, so the last of several users of one name decides.\<close>

definition user_alerts :: "'w ev_ops \<Rightarrow> (string \<times> float64 \<times> float64) list \<Rightarrow> (string \<times> int) list \<Rightarrow> string \<Rightarrow> ('w, (string \<times> int) list) ev" where
  "user_alerts v limits latestSend username =
     seqc (now v) (\<lambda>_. seqc (GetNamedMetrics v [''user_cpu_usage'', ''user_memory_usage''] (LevelUser username)) (\<lambda>metrics.
     foldM (\<lambda>latest m. case lookup (rev limits) username of None \<Rightarrow> ret latest
       | Some l \<Rightarrow> (case user_threshold l m of None \<Rightarrow> ret latest | Some threshold \<Rightarrow> queue_alert v threshold latest m)) latestSend metrics))"

definition metrics_round :: "'w ev_ops \<Rightarrow> (string \<times> int) list \<Rightarrow> ('w, (string \<times> int) list) ev" where
  "metrics_round v latestSend =
     seqc (now v) (\<lambda>_. seqc (GetNamedMetrics v [''cluster_cpu_utilisation'', ''cluster_memory_utilisation''] LevelCluster) (\<lambda>metrics.
     seqc (foldM (queue_alert v DefaultMetricThreshold) latestSend metrics) (\<lambda>latestSend.
     seqc (list_users v) (\<lambda>us. let limits = List.map_filter (user_limits v) us in
     foldM (user_alerts v limits) latestSend (map fst limits)))))"

text \<open>\<open>wait.PollImmediateInfiniteWithContext\<close> ends with the first error of the condition.\<close>

fun metrics_loop :: "nat \<Rightarrow> 'w ev_ops \<Rightarrow> (string \<times> int) list \<Rightarrow> ('w, unit) ev" where
  "metrics_loop 0 v latestSend = looping"
| "metrics_loop (Suc n) v latestSend = seqc (ctx_done v) (\<lambda>stop. if stop then ret ()
     else seqc (metrics_round v latestSend) (metrics_loop n v))"

definition metric_names :: "string list" where
  "metric_names = [''cluster_cpu_utilisation'', ''cluster_memory_utilisation'', ''user_cpu_usage'', ''user_memory_usage'']"

definition Run_metrics :: "nat \<Rightarrow> 'w ev_ops \<Rightarrow> ('w, unit) ev" where
  "Run_metrics n v = seqc (foldM (\<lambda>latest name. seqc (now v) (\<lambda>t. ret (AList.update name (t - 120 * second) latest))) [] metric_names)
     (\<lambda>latest. ignorec (metrics_loop n v latest))"

section \<open>The queue (app.go)\<close>

text \<open>\<open>Do\<close> of the subscriber of an item. The subscriber and the object of an item go together, otherwise the
  assertion on the type of the object panics.\<close>

definition plain :: "('w, unit) ev \<Rightarrow> (string \<times> int) list \<Rightarrow> ('w, unit res \<times> (string \<times> int) list) ev" where
  "plain m latest = tryc m (\<lambda>_. ret (Val (), latest)) (\<lambda>e. ret (Err e, latest))"

definition Do_event :: "'w ev_ops \<Rightarrow> EnqueueObj \<Rightarrow> (string \<times> int) list \<Rightarrow> ('w, unit res \<times> (string \<times> int) list) ev" where
  "Do_event v eobj latest = (let action = eoAction eobj; mismatch = panic ''interface conversion'' in case eoSubscribe eobj of
     UsersSubscriber \<Rightarrow> (case eoObj eobj of UserObj user \<Rightarrow> plain (Do_users v user action) latest | _ \<Rightarrow> mismatch)
   | AppsSubscriber \<Rightarrow> (case eoObj eobj of AppObj app \<Rightarrow> plain (Do_apps v app action) latest | _ \<Rightarrow> mismatch)
   | WorkflowsSubscriber \<Rightarrow> (case eoObj eobj of NamespaceObj ns \<Rightarrow> plain (Do_workflows v ns action) latest | _ \<Rightarrow> mismatch)
   | PodSubscriber \<Rightarrow> plain (regenerate v) latest
   | NodeSubscriber \<Rightarrow> plain (regenerate v) latest
   | CustomSubscriber \<Rightarrow> (case eoObj eobj of CustomObj event \<Rightarrow> plain (Do_custom v event action) latest | _ \<Rightarrow> mismatch)
   | MetricsSubscriber \<Rightarrow> (case eoObj eobj of MetricObj metric \<Rightarrow> Do_metrics v metric latest | _ \<Rightarrow> mismatch)
   | LoginSubscriber \<Rightarrow> (case eoObj eobj of LoginObj login \<Rightarrow> plain (Do_login v login action) latest | _ \<Rightarrow> mismatch))"

definition settle :: "ev_call \<Rightarrow> 'w ev_ops \<Rightarrow> ('w, unit) ev" where
  "settle c v = call c (total (evSettle v))"

definition process_event :: "'w ev_ops \<Rightarrow> EnqueueObj option \<Rightarrow> (string \<times> int) list \<Rightarrow> ('w, (string \<times> int) list) ev" where
  "process_event v obj latest = deferc
     (case obj of
        None \<Rightarrow> seqc (settle (ForgetItem None) v) (\<lambda>_. ret latest)
      | Some eobj \<Rightarrow> seqc (Do_event v eobj latest) (\<lambda>(r, latest).
          seqc (case r of Val _ \<Rightarrow> settle (ForgetItem (Some eobj)) v | _ \<Rightarrow> settle (RequeueItem eobj) v) (\<lambda>_. ret latest)))
     (settle (DoneItem obj) v)"

definition processNextWorkItem_ev :: "'w ev_ops \<Rightarrow> (string \<times> int) list \<Rightarrow> ('w, bool \<times> (string \<times> int) list) ev" where
  "processNextWorkItem_ev v latest =
     seqc (call GetItem (\<lambda>w. case evGet v w of (i, w') \<Rightarrow> (Val i, w'))) (\<lambda>i. case i of
       None \<Rightarrow> ret (False, latest)
     | Some obj \<Rightarrow> seqc (process_event v obj latest) (\<lambda>latest. ret (True, latest)))"

fun runWorker_ev :: "nat \<Rightarrow> 'w ev_ops \<Rightarrow> (string \<times> int) list \<Rightarrow> ('w, unit) ev" where
  "runWorker_ev 0 v latest = looping"
| "runWorker_ev (Suc n) v latest = seqc (processNextWorkItem_ev v latest) (\<lambda>(more, latest). if more then runWorker_ev n v latest else ret ())"

section \<open>Users (users/users.go)\<close>

record user_watcher =
  uwCache :: "(string \<times> (event_type \<times> string) list) list"
  uwActiving :: "(string \<times> string) list"

definition eventRecord :: "string \<Rightarrow> event_type \<Rightarrow> string \<Rightarrow> user_watcher \<Rightarrow> user_watcher" where
  "eventRecord uid typ version w = w\<lparr>uwCache := AList.update uid
     (AList.update typ version (case lookup (uwCache w) uid of None \<Rightarrow> [] | Some m \<Rightarrow> m)) (uwCache w)\<rparr>"

definition isDupEvent :: "string \<Rightarrow> event_type \<Rightarrow> string \<Rightarrow> user_watcher \<Rightarrow> bool" where
  "isDupEvent uid typ version w = (case lookup (uwCache w) uid of None \<Rightarrow> False
     | Some m \<Rightarrow> (case lookup m typ of None \<Rightarrow> False | Some old \<Rightarrow> old = version))"

definition invokeCallbacks :: "'w ev_ops \<Rightarrow> SysEventRegistry list option \<Rightarrow> (SysEventRegistry \<Rightarrow> bool) \<Rightarrow> (SysEventRegistry \<Rightarrow> ('w, unit) ev) \<Rightarrow>
    ('w, unit) ev" where
  "invokeCallbacks v callbacks trigger action =
     seqc (case callbacks of None \<Rightarrow> list_registries v | Some cbs \<Rightarrow> ret cbs) (invoke_each v (\<lambda>_. True) trigger action)"

text \<open>The action common to the three callbacks about users.\<close>

definition post_callback :: "'w ev_ops \<Rightarrow> callback_body \<Rightarrow> SysEventRegistry \<Rightarrow> ('w, unit) ev" where
  "post_callback v body cb =
     seqc (call (PostCallback (reCallback cb) body) (evCallback v (reCallback cb) body)) (\<lambda>status.
     if 400 \<le> status then fail (Failure ''invoke callback response error'') else ret ())"

definition invokeUserCreatedCB :: "'w ev_ops \<Rightarrow> SysEventRegistry list option \<Rightarrow> platform_user \<Rightarrow> ('w, unit) ev" where
  "invokeUserCreatedCB v callbacks user = invokeCallbacks v callbacks (subscribed UserCreate)
     (post_callback v (NewUserBody (kuName user) (label (kuAnnotations user) ''bytetrade.io/owner-role'') (kuEmail user)))"

definition invokeUserDeletedCB :: "'w ev_ops \<Rightarrow> SysEventRegistry list option \<Rightarrow> platform_user \<Rightarrow> ('w, unit) ev" where
  "invokeUserDeletedCB v callbacks user = invokeCallbacks v callbacks (subscribed UserDelete) (post_callback v (UserBody (kuName user) (kuEmail user)))"

definition invokeUserActivedCB :: "'w ev_ops \<Rightarrow> SysEventRegistry list option \<Rightarrow> platform_user \<Rightarrow> ('w, unit) ev" where
  "invokeUserActivedCB v callbacks user = invokeCallbacks v callbacks (subscribed UserActive) (post_callback v (UserBody (kuName user) (kuEmail user)))"

definition UserTerminusWizardStatus :: string where "UserTerminusWizardStatus = ''bytetrade.io/wizard-status''"
definition Completed :: string where "Completed = ''completed''"

text \<open>One event of a user. An error of a callback is logged, and the event is then not recorded.\<close>

definition on_status :: "'w ev_ops \<Rightarrow> platform_user \<Rightarrow> (user_watcher \<Rightarrow> user_watcher) \<Rightarrow> user_watcher \<Rightarrow> ('w, user_watcher) ev" where
  "on_status v user mark w = (case lookup (kuAnnotations user) UserTerminusWizardStatus of
     None \<Rightarrow> ret (mark w)
   | Some status \<Rightarrow>
     if status = Completed then (case lookup (uwActiving w) (kuName user) of
         Some s \<Rightarrow> if s \<noteq> Completed then
             let w = w\<lparr>uwActiving := delete_key (kuName user) (uwActiving w)\<rparr> in
             tryc (invokeUserActivedCB v None user) (\<lambda>_. ret (mark w)) (\<lambda>_. ret w)
           else ret (mark w)
       | None \<Rightarrow> ret (mark w))
     else ret (mark (w\<lparr>uwActiving := AList.update (kuName user) status (uwActiving w)\<rparr>)))"

definition on_user :: "'w ev_ops \<Rightarrow> event_type \<Rightarrow> platform_user \<Rightarrow> (user_watcher \<Rightarrow> user_watcher) \<Rightarrow> user_watcher \<Rightarrow> ('w, user_watcher) ev" where
  "on_user v typ user mark w = (case typ of
     Added \<Rightarrow> seqc (ValidWatchDuration v (kuTimes user)) (\<lambda>recent.
       seqc (if recent then enqueue_event v (UserObj user) ADD_event UsersSubscriber else ret ()) (\<lambda>_.
       tryc (invokeUserCreatedCB v None user) (\<lambda>_. ret (mark w)) (\<lambda>_. ret w)))
   | Deleted \<Rightarrow> seqc (enqueue_event v (UserObj user) DELETE_event UsersSubscriber) (\<lambda>_.
       tryc (invokeUserDeletedCB v None user) (\<lambda>_. ret (mark w)) (\<lambda>_. ret w))
   | Modified \<Rightarrow> seqc (enqueue_event v (UserObj user) UPDATE_event UsersSubscriber) (\<lambda>_. on_status v user mark w)
   | _ \<Rightarrow> ret (mark w))"

definition on_user_event :: "'w ev_ops \<Rightarrow> event_type \<Rightarrow> user_object option \<Rightarrow> user_watcher \<Rightarrow> ('w, user_watcher) ev" where
  "on_user_event v typ obj w = (case obj of None \<Rightarrow> ret w
   | Some ob \<Rightarrow>
     if isDupEvent (uoUid ob) typ (uoVersion ob) w then ret w
     else tryc (lift (uoUser ob)) (\<lambda>user. on_user v typ user (eventRecord (uoUid ob) typ (uoVersion ob)) w) (\<lambda>_. ret w))"

text \<open>One event of a registration: all users are sent to a new callback.\<close>

definition on_registry_event :: "'w ev_ops \<Rightarrow> event_type \<Rightarrow> SysEventRegistry option \<Rightarrow> user_watcher \<Rightarrow>
    ('w, user_watcher) ev" where
  "on_registry_event v typ obj w = (case obj of None \<Rightarrow> ret w
   | Some cb \<Rightarrow>
     let mark = eventRecord (reUid cb) typ (reVersion cb) in
     if isDupEvent (reUid cb) typ (reVersion cb) w then ret w
     else if reType cb \<noteq> Subscriber \<or> reEvent cb \<noteq> UserCreate then ret w
     else case typ of
       Added \<Rightarrow> tryc (call (EvDns ListUsers) (evUsers v)) (\<lambda>us.
           seqc (forM us (\<lambda>u. tryc (lift u) (\<lambda>user. ignorec (invokeUserCreatedCB v (Some [cb]) user)) (\<lambda>_. ret ()))) (\<lambda>_. ret (mark w)))
         (\<lambda>_. ret w)
     | _ \<Rightarrow> ret (mark w))"

text \<open>The loops of \<open>Start\<close>. The flags of the two watches are declared inside the outer loop, so both watches are
  opened in each of its rounds; only the end of the context stops them.\<close>

fun event_loop :: "nat \<Rightarrow> 'w ev_ops \<Rightarrow> user_watcher \<Rightarrow> ('w, bool \<times> user_watcher) ev" where
  "event_loop 0 v w = looping"
| "event_loop (Suc n) v w =
     seqc (call SelectEvent (\<lambda>x. case evSelect v x of (sel, x') \<Rightarrow> (Val sel, x'))) (\<lambda>sel. case sel of
       ContextDone \<Rightarrow> seqc (call StopUserWatch (total (evStop v))) (\<lambda>_.
         seqc (call StopRegistryWatch (total (evStop v))) (\<lambda>_. ret (False, w)))
     | UserEvent None \<Rightarrow> ret (True, w)
     | UserEvent (Some (typ, obj)) \<Rightarrow> seqc (on_user_event v typ obj w) (event_loop n v)
     | RegistryEvent None \<Rightarrow> ret (True, w)
     | RegistryEvent (Some (typ, obj)) \<Rightarrow> seqc (on_registry_event v typ obj w) (event_loop n v))"

fun Start_users :: "nat \<Rightarrow> nat \<Rightarrow> 'w ev_ops \<Rightarrow> user_watcher \<Rightarrow> ('w, unit) ev" where
  "Start_users 0 n v w = looping"
| "Start_users (Suc k) n v w = seqc (ctx_done v) (\<lambda>stop. if stop then ret ()
     else tryc (call WatchUsers (evWatchUsers v)) (\<lambda>_.
       tryc (call WatchRegistries (evWatchRegistries v)) (\<lambda>_.
         seqc (event_loop n v w) (\<lambda>(again, w). if again then Start_users k n v w else ret ()))
       (\<lambda>_. Start_users k n v w))
     (\<lambda>_. Start_users k n v w))"

end
