(* ===== verification/Sys_Proofs.thy ===== *)
theory Sys_Proofs
  imports Sys_Events Results
begin

text \<open>Properties of the system event watcher: what a round of callbacks has delivered, that events of
  users are handled once, and to whom notifications go.\<close>

section \<open>Callbacks\<close>

definition accepted :: "'w ev_ops \<Rightarrow> string \<Rightarrow> callback_body \<Rightarrow> bool" where
  "accepted v url body = (\<exists>w status w'. evCallback v url body w = (Val status, w') \<and> status < 400)"

lemma sendEvent_traces:
  "traces (\<lambda>r cs. cs = [PostCallback (reCallback cb) body] \<and> (r = Val () \<longrightarrow> accepted v (reCallback cb) body)) (sendEvent v cb body)"
  unfolding sendEvent_def traces_def accepted_def
  by (auto simp: io_defs split: prod.splits res.splits if_splits) (meson not_le)+

lemma post_callback_traces:
  "traces (\<lambda>r cs. cs = [PostCallback (reCallback cb) body] \<and> (r = Val () \<longrightarrow> accepted v (reCallback cb) body)) (post_callback v body cb)"
  unfolding post_callback_def traces_def accepted_def
  by (auto simp: io_defs split: prod.splits res.splits if_splits) (meson not_le)

text \<open>Attempts at one callback: a success is the last one, an error comes after all of them.\<close>

definition attempts :: "nat \<Rightarrow> bool \<Rightarrow> ev_call \<Rightarrow> unit res \<Rightarrow> ev_call list \<Rightarrow> bool" where
  "attempts n acc c r cs = (\<exists>k. cs = replicate k c \<and> k \<le> n \<and> (r = Val () \<longrightarrow> 0 < k \<and> acc) \<and> (\<forall>e. r = Err e \<longrightarrow> k = n))"

lemma attempts_again: "attempts n acc c r ds \<Longrightarrow> attempts (Suc n) acc c r (c # ds)"
  unfolding attempts_def by (metis Suc_le_mono replicate_Suc zero_less_Suc)

lemma retry_traces:
  assumes m: "traces (\<lambda>r cs. cs = [c] \<and> (r = Val () \<longrightarrow> acc)) m"
    and "last_error \<noteq> None \<or> 0 < n"
  shows "traces (attempts n acc c) (retry_OnError n (\<lambda>_. True) m last_error)"
  using assms(2)
proof (induction n arbitrary: last_error)
  case 0
  then show ?case by (auto intro!: traces_fail simp: attempts_def)
next
  case (Suc n)
  show ?case unfolding retry_OnError.simps
  proof (rule traces_tryc [OF m])
    fix x cs
    assume "cs = [c] \<and> (Val x = Val () \<longrightarrow> acc)"
    then show "traces (\<lambda>r ds. attempts (Suc n) acc c r (cs @ ds)) (ret x)"
      by (auto intro!: traces_ret exI [of _ 1] simp: attempts_def)
  next
    fix e cs
    assume "cs = [c] \<and> (Err e = Val () \<longrightarrow> acc)"
    moreover have "traces (\<lambda>r ds. attempts (Suc n) acc c r (c # ds)) (retry_OnError n (\<lambda>_. True) m (Some e))"
      by (rule traces_mono [OF Suc.IH]) (simp_all add: attempts_again)
    ultimately show "traces (\<lambda>r ds. attempts (Suc n) acc c r (cs @ ds)) (if True then retry_OnError n (\<lambda>_. True) m (Some e) else fail e)"
      by simp
  qed (auto simp: attempts_def intro!: exI [of _ 1])
qed

text \<open>The calls of a round in which every callback of the list that is triggered was accepted after at
  most \<open>n\<close> attempts.\<close>

fun delivered_to :: "'w ev_ops \<Rightarrow> callback_body \<Rightarrow> (SysEventRegistry \<Rightarrow> bool) \<Rightarrow> SysEventRegistry list \<Rightarrow> ev_call list \<Rightarrow> bool" where
  "delivered_to v body trigger [] cs = (cs = [])"
| "delivered_to v body trigger (cb # cbs) cs = (if trigger cb
     then \<exists>k ds. 0 < k \<and> k \<le> evTries v \<and> cs = replicate k (PostCallback (reCallback cb) body) @ ds \<and>
       reCallback cb \<noteq> [] \<and> accepted v (reCallback cb) body \<and> delivered_to v body trigger cbs ds
     else delivered_to v body trigger cbs cs)"

definition round_of :: "'w ev_ops \<Rightarrow> callback_body \<Rightarrow> (SysEventRegistry \<Rightarrow> bool) \<Rightarrow> SysEventRegistry list \<Rightarrow> unit res \<Rightarrow> ev_call list \<Rightarrow> bool" where
  "round_of v body trigger cbs r cs =
     ((r = Val () \<longrightarrow> delivered_to v body trigger cbs cs) \<and>
      (\<forall>e. r = Err e \<longrightarrow> (\<exists>before cb after ds. cbs = before @ cb # after \<and> trigger cb \<and> delivered_to v body trigger before ds \<and>
         cs = ds @ (if reCallback cb = [] then [] else replicate (evTries v) (PostCallback (reCallback cb) body)))))"

lemma round_of_skip: "\<not> trigger cb \<Longrightarrow> round_of v body trigger cbs r cs \<Longrightarrow> round_of v body trigger (cb # cbs) r cs"
  unfolding round_of_def by (metis append_Cons delivered_to.simps(2))

lemma round_of_accepted:
  assumes "trigger cb" "reCallback cb \<noteq> []" "attempts (evTries v) (accepted v (reCallback cb) body) (PostCallback (reCallback cb) body) (Val ()) cs"
    and "round_of v body trigger cbs r ds"
  shows "round_of v body trigger (cb # cbs) r (cs @ ds)"
proof -
  obtain k where k: "cs = replicate k (PostCallback (reCallback cb) body)" "0 < k" "k \<le> evTries v" "accepted v (reCallback cb) body"
    using assms(3) by (auto simp: attempts_def)
  have more: "delivered_to v body trigger (cb # before) (cs @ es)" if "delivered_to v body trigger before es" for before es
    using that k assms(1,2) by auto
  show ?thesis unfolding round_of_def
  proof (intro conjI impI allI)
    fix e assume "r = Err e"
    then obtain before cb' after es where "cbs = before @ cb' # after" "trigger cb'" "delivered_to v body trigger before es"
      "ds = es @ (if reCallback cb' = [] then [] else replicate (evTries v) (PostCallback (reCallback cb') body))"
      using assms(4) unfolding round_of_def by blast
    then show "\<exists>before cb' after es. cb # cbs = before @ cb' # after \<and> trigger cb' \<and> delivered_to v body trigger before es \<and>
        cs @ ds = es @ (if reCallback cb' = [] then [] else replicate (evTries v) (PostCallback (reCallback cb') body))"
      using more by - (rule exI [of _ "cb # before"], rule exI [of _ cb'], rule exI [of _ after], rule exI [of _ "cs @ es"], simp del: delivered_to.simps)
  qed (use assms(4) more in \<open>auto simp: round_of_def\<close>)
qed

lemma round_of_failed:
  assumes "trigger cb" "cs = (if reCallback cb = [] then [] else replicate (evTries v) (PostCallback (reCallback cb) body))"
  shows "round_of v body trigger (cb # cbs) (Err e) cs"
  unfolding round_of_def
proof (intro conjI allI impI)
  show "\<exists>before cb' after ds. cb # cbs = before @ cb' # after \<and> trigger cb' \<and> delivered_to v body trigger before ds \<and>
      cs = ds @ (if reCallback cb' = [] then [] else replicate (evTries v) (PostCallback (reCallback cb') body))"
    by (rule exI [of _ "[]"], rule exI [of _ cb], rule exI [of _ cbs], rule exI [of _ "[]"]) (simp add: assms)
qed simp

lemma invoke_each_traces:
  assumes action: "\<And>cb. traces (\<lambda>r cs. cs = [PostCallback (reCallback cb) body] \<and> (r = Val () \<longrightarrow> accepted v (reCallback cb) body)) (action cb)"
    and tries: "0 < evTries v"
  shows "traces (round_of v body trigger cbs) (invoke_each v (\<lambda>_. True) trigger action cbs)"
  unfolding invoke_each_def
proof (induction cbs)
  case Nil
  then show ?case by (auto intro!: traces_ret simp: round_of_def)
next
  case (Cons cb cbs)
  let ?c = "PostCallback (reCallback cb) body"
  let ?body = "\<lambda>cb. if trigger cb then if reCallback cb = [] then fail (Failure ''callback url is empty'')
       else retry_OnError (evTries v) (\<lambda>_. True) (action cb) None else ret ()"
  consider "\<not> trigger cb" | "trigger cb" "reCallback cb = []" | "trigger cb" "reCallback cb \<noteq> []" by blast
  then show ?case
  proof cases
    case 1
    have "forM (cb # cbs) ?body = forM cbs ?body" by (rule ext) (simp add: 1 seqc_def ret_def)
    then show ?thesis using traces_mono [OF Cons.IH round_of_skip [of trigger cb, OF 1]] by simp
  next
    case 2
    have "round_of v body trigger (cb # cbs) (Err e) []" for e
      using 2 by (intro round_of_failed) simp_all
    then show ?thesis using 2 by (simp add: seqc_tryc tryc_def fail_def traces_def)
  next
    case 3
    have fails: "round_of v body trigger (cb # cbs) (Err e) cs" if "attempts (evTries v) (accepted v (reCallback cb) body) ?c (Err e) cs" for e cs
      using 3 that by (intro round_of_failed) (auto simp: attempts_def)
    have retry: "traces (attempts (evTries v) (accepted v (reCallback cb) body) ?c) (?body cb)"
      using retry_traces [OF action, of None "evTries v" cb] tries 3 by simp
    show ?thesis unfolding forM.simps
    proof (rule traces_seqc [OF retry])
      fix x cs
      assume "attempts (evTries v) (accepted v (reCallback cb) body) ?c (Val x) cs"
      then have "attempts (evTries v) (accepted v (reCallback cb) body) ?c (Val ()) cs" by simp
      from traces_mono [OF Cons.IH round_of_accepted [of trigger cb, OF 3 this]]
      show "traces (\<lambda>r ds. round_of v body trigger (cb # cbs) r (cs @ ds)) (forM cbs ?body)" by simp
    qed (use fails in \<open>auto simp: round_of_def\<close>)
  qed
qed

text \<open>C20. What a round of callbacks has delivered: when it reports success, each subscriber of the event that the listing
  showed was called, in the order of the listing and at most as often as the backoff allows, until it accepted the data, and nobody
  else was called. An error is that of the listing, or all subscribers up to one have accepted, this one has used up its attempts or has
  no address, and those after it were not called.\<close>

theorem callbacks_delivered:
  assumes "Invoke_event v event body s = (r, s')" and "0 < evTries v"
  shows "\<exists>cs. snd s' = snd s @ ListRegistries # cs \<and>
     (r = Val () \<longrightarrow> (\<exists>w w' cbs. evRegistries v w = (Val cbs, w') \<and> delivered_to v body (subscribed event) cbs cs)) \<and>
     (\<forall>e. r = Err e \<longrightarrow> cs = [] \<and> (\<exists>w w'. evRegistries v w = (Err e, w')) \<or>
       (\<exists>w w' before cb after ds. evRegistries v w = (Val (before @ cb # after), w') \<and> subscribed event cb \<and>
         delivered_to v body (subscribed event) before ds \<and>
         cs = ds @ (if reCallback cb = [] then [] else replicate (evTries v) (PostCallback (reCallback cb) body))))"
proof -
  have posts: "traces (round_of v body (subscribed event) cbs) (invoke_each v (\<lambda>_. True) (subscribed event) (\<lambda>cb. sendEvent v cb body) cbs)" for cbs
    by (rule invoke_each_traces [OF sendEvent_traces assms(2)])
  obtain res w' where list: "evRegistries v (fst s) = (res, w')" by (cases "evRegistries v (fst s)")
  show ?thesis
  proof (cases res)
    case (Val cbs)
    then have "invoke_each v (\<lambda>_. True) (subscribed event) (\<lambda>cb. sendEvent v cb body) cbs (w', snd s @ [ListRegistries]) = (r, s')"
      using assms(1) list by (simp add: Invoke_event_def Invoke_def list_registries_def call_def seqc_def)
    from tracesD [OF posts this] obtain cs where cs: "snd s' = snd s @ ListRegistries # cs" "round_of v body (subscribed event) cbs r cs" by auto
    have "evRegistries v (fst s) = (Val cbs, w')" using list Val by simp
    with cs show ?thesis unfolding round_of_def by (intro exI [of _ cs]) blast
  next
    case (Err e)
    then have "snd s' = snd s @ [ListRegistries]" "r = Err e"
      using assms(1) list by (auto simp: Invoke_event_def Invoke_def list_registries_def call_def seqc_def)
    then show ?thesis using list Err by (intro exI [of _ "[]"]) blast
  qed (use assms(1) list in \<open>auto simp: Invoke_event_def Invoke_def list_registries_def call_def seqc_def\<close>)
qed

text \<open>A cluster with one subscriber, which accepts everything.\<close>

definition demo_registry :: SysEventRegistry where
  "demo_registry = \<lparr>reName = ''cb'', reUid = ''c1'', reVersion = ''1'', reType = Subscriber, reEvent = UserCreate, reCallback = ''http://cb''\<rparr>"

definition demo_events :: "unit ev_ops" where
  "demo_events = \<lparr>evDns = \<lparr>getCorefile = denied (), listUsers = ok [\<lparr>duName = ''alice'', duAnnotations = [(''bytetrade.io/owner-role'', ''owner'')]\<rparr>] (),
       listNodes = denied (), getBflPod = denied, listApplications = denied (), listNamespaces = denied (), getEntranceService = (\<lambda>_. denied),
       listAdguardPods = denied (), updateCorefile = denied\<rparr>,
     evParse = (\<lambda>_. Val []), evPrint = (\<lambda>_. []), evMaxUsers = [], evNow = ok 0 (), evAppPerm = (\<lambda>_. ok (Val (''key'', ''secret''))),
     evBcrypt = ok ''hash'', evAccess = (\<lambda>_. ok (200, [], 0, [], ''token'')), evEvent = (\<lambda>_ _. ok (200, [], 0, [])),
     evRegistries = ok [demo_registry] (), evCallback = (\<lambda>_. ok 200), evCronWorkflows = denied, evQuery = denied,
     evQuantity = (\<lambda>_. Err (Failure [])), evEnqueue = (\<lambda>_ w. w), evWatchUsers = ok () (), evWatchRegistries = ok () (),
     evSelect = (\<lambda>w. (ContextDone, w)), evStop = (\<lambda>w. w), evUsers = denied (), evCancelled = (\<lambda>w. (True, w)), evGet = (\<lambda>w. (None, w)), evSettle = (\<lambda>w. w),
     evTries = 7, evFinish = (\<lambda>ms. ms)\<rparr>"

lemmas demo_defs = demo_events_def demo_registry_def ok_def denied_def

theorem callbacks_delivered_witness:
  "\<exists>cs. snd (snd (Invoke_event demo_events UserCreate (NameBody ''x'') ((), []))) = ListRegistries # cs \<and>
     delivered_to demo_events (NameBody ''x'') (subscribed UserCreate) [demo_registry] cs"
proof -
  let ?run = "Invoke_event demo_events UserCreate (NameBody ''x'') ((), [])"
  have tries: "0 < evTries demo_events" by (simp add: demo_defs)
  have val: "fst ?run = Val ()"
    by (simp add: Invoke_event_def Invoke_def list_registries_def invoke_each_def subscribed_def sendEvent_def demo_defs io_defs numeral_eq_Suc)
  then have run: "?run = (Val (), snd ?run)" by (metis prod.collapse)
  have only: "evRegistries demo_events w = (Val cbs, w') \<Longrightarrow> cbs = [demo_registry]" for w cbs w' by (simp add: demo_defs)
  from callbacks_delivered [OF run tries] only show ?thesis by fastforce
qed

section \<open>Events of users\<close>

text \<open>What the cache of events holds.\<close>

definition cached :: "user_watcher \<Rightarrow> string \<times> event_type \<Rightarrow> string option" where
  "cached w key = (case lookup (uwCache w) (fst key) of None \<Rightarrow> None | Some m \<Rightarrow> lookup m (snd key))"

lemma isDupEvent_cached: "isDupEvent uid typ version w = (cached w (uid, typ) = Some version)"
  by (auto simp: isDupEvent_def cached_def split: option.splits)

lemma cached_eventRecord [simp]: "cached (eventRecord uid typ version w) = (cached w)((uid, typ) \<mapsto> version)"
  by (rule ext) (auto simp: eventRecord_def cached_def split: option.splits)

lemma cached_activing [simp]: "cached (w\<lparr>uwActiving := a\<rparr>) = cached w"
  by (rule ext) (simp add: cached_def)

text \<open>Programs that return a value with a property, whatever state they start in.\<close>

definition succeeds :: "('a \<Rightarrow> bool) \<Rightarrow> ('c, 'w, 'a) io \<Rightarrow> bool" where
  "succeeds P m = (\<forall>s. \<exists>x s'. m s = (Val x, s') \<and> P x)"

lemma succeeds_ret: "P x \<Longrightarrow> succeeds P (ret x)"
  by (simp add: succeeds_def ret_def)

lemma succeeds_call: "(\<And>w. \<exists>x w'. f w = (Val x, w') \<and> P x) \<Longrightarrow> succeeds P (call c f)"
  unfolding succeeds_def call_def by (metis (mono_tags, lifting) case_prod_conv)

lemma succeeds_seqc:
  assumes "succeeds P m" "\<And>x. P x \<Longrightarrow> succeeds Q (f x)"
  shows "succeeds Q (seqc m f)"
  unfolding succeeds_def
proof
  fix s
  obtain x s1 where "m s = (Val x, s1)" "P x" using assms(1) unfolding succeeds_def by blast
  moreover from this obtain y s2 where "f x s1 = (Val y, s2)" "Q y" using assms(2) unfolding succeeds_def by blast
  ultimately show "\<exists>x s'. seqc m f s = (Val x, s') \<and> Q x" by (simp add: seqc_def)
qed

lemma succeeds_tryc:
  assumes "succeeds P m" "\<And>x. P x \<Longrightarrow> succeeds Q (f x)"
  shows "succeeds Q (tryc m f h)"
  unfolding succeeds_def
proof
  fix s
  obtain x s1 where "m s = (Val x, s1)" "P x" using assms(1) unfolding succeeds_def by blast
  moreover from this obtain y s2 where "f x s1 = (Val y, s2)" "Q y" using assms(2) unfolding succeeds_def by blast
  ultimately show "\<exists>x s'. tryc m f h s = (Val x, s') \<and> Q x" by (simp add: tryc_def)
qed

lemma succeeds_forM: "(\<And>x. x \<in> set xs \<Longrightarrow> succeeds (\<lambda>_. True) (f x)) \<Longrightarrow> succeeds (\<lambda>_. True) (forM xs f)"
  by (induction xs) (auto intro!: succeeds_ret succeeds_seqc)

text \<open>A cluster in good health: calls are answered, callbacks have an address and accept what they are sent.\<close>

definition healthy :: "'w ev_ops \<Rightarrow> bool" where
  "healthy v = (0 < evTries v \<and> (\<forall>w. \<exists>t w'. evNow v w = (Val t, w')) \<and>
     (\<forall>w. \<exists>cbs w'. evRegistries v w = (Val cbs, w') \<and> (\<forall>cb \<in> set cbs. reCallback cb \<noteq> [])) \<and>
     (\<forall>url body w. \<exists>status w'. evCallback v url body w = (Val status, w') \<and> status < 400))"

lemma healthy_post: "healthy v \<Longrightarrow> succeeds (\<lambda>_. True) (post_callback v body cb)"
  unfolding post_callback_def healthy_def
  by (rule succeeds_seqc [where P = "\<lambda>status. status < 400"]) (auto intro!: succeeds_call succeeds_ret)

lemma healthy_callbacks:
  assumes "healthy v"
  shows "succeeds (\<lambda>_. True) (invokeCallbacks v None trigger (post_callback v body))"
proof -
  obtain n where n: "evTries v = Suc n" using assms unfolding healthy_def by (metis gr0_conv_Suc)
  show ?thesis
    unfolding invokeCallbacks_def invoke_each_def option.case list_registries_def n retry_OnError.simps
    by (rule succeeds_seqc [where P = "\<lambda>cbs. \<forall>cb \<in> set cbs. reCallback cb \<noteq> []"])
      (use assms in \<open>auto simp: healthy_def intro!: succeeds_call succeeds_forM succeeds_ret succeeds_tryc [OF healthy_post [OF assms]]\<close>)
qed

lemma healthy_recent: "healthy v \<Longrightarrow> succeeds (\<lambda>_. True) (ValidWatchDuration v meta)"
  unfolding ValidWatchDuration_def now_def healthy_def
  by (auto intro!: succeeds_seqc [where P = "\<lambda>_. True"] succeeds_call succeeds_ret split: option.splits)

lemma succeeds_enqueue: "succeeds (\<lambda>_. True) (enqueue_event v obj action sub)"
  by (simp add: enqueue_event_def succeeds_def call_def total_def Let_def)

text \<open>In such a cluster every event is recorded.\<close>

lemma on_user_event_healthy:
  assumes "healthy v" "uoUser ob = Val user"
  shows "succeeds (\<lambda>w'. cached w' = (cached w)((uoUid ob, typ) \<mapsto> uoVersion ob)) (on_user_event v typ (Some ob) w)"
proof (cases "isDupEvent (uoUid ob) typ (uoVersion ob) w")
  case True
  then have "cached w = (cached w)((uoUid ob, typ) \<mapsto> uoVersion ob)" by (auto simp: isDupEvent_cached)
  then show ?thesis using True by (simp add: on_user_event_def succeeds_ret)
next
  case False
  note intros = succeeds_ret succeeds_seqc [OF succeeds_enqueue] succeeds_seqc [OF healthy_recent [OF assms(1)]] succeeds_seqc [where P = "\<lambda>_. True"]
    succeeds_enqueue succeeds_tryc [OF healthy_callbacks [OF assms(1)]]
  let ?mark = "eventRecord (uoUid ob) typ (uoVersion ob)"
  have "on_user_event v typ (Some ob) w = on_user v typ user ?mark w"
    by (rule ext) (simp add: False assms(2) on_user_event_def tryc_def lift_def)
  moreover have "succeeds (\<lambda>w'. cached w' = (cached w)((uoUid ob, typ) \<mapsto> uoVersion ob)) (on_status v user ?mark w)"
    unfolding on_status_def invokeUserActivedCB_def Let_def by (auto intro!: intros split: option.splits)
  ultimately show ?thesis
    unfolding on_user_def invokeUserCreatedCB_def invokeUserDeletedCB_def
    by (auto intro!: intros split: event_type.splits)
qed

text \<open>The events that the select statement takes from the watch of users, one after the other.\<close>

definition on_user_events :: "'w ev_ops \<Rightarrow> (event_type \<times> user_object) list \<Rightarrow> user_watcher \<Rightarrow> ('w, user_watcher) ev" where
  "on_user_events v evs w = foldM (\<lambda>w e. on_user_event v (fst e) (Some (snd e)) w) w evs"

definition event_versions :: "(event_type \<times> user_object) list \<Rightarrow> ((string \<times> event_type) \<times> string) list" where
  "event_versions evs = map (\<lambda>(typ, ob). ((uoUid ob, typ), uoVersion ob)) evs"

definition last_version :: "(event_type \<times> user_object) list \<Rightarrow> string \<times> event_type \<Rightarrow> string option" where
  "last_version evs = map_of (rev (event_versions evs))"

lemma on_user_events_healthy:
  assumes "healthy v" "\<forall>e \<in> set evs. \<exists>user. uoUser (snd e) = Val user"
  shows "succeeds (\<lambda>w'. cached w' = cached w ++ last_version evs) (on_user_events v evs w)"
  using assms(2)
proof (induction evs arbitrary: w)
  case Nil
  then show ?case by (simp add: on_user_events_def last_version_def event_versions_def succeeds_ret)
next
  case (Cons e evs)
  obtain kind ob where e: "e = (kind, ob)" by (cases e)
  obtain user where "uoUser ob = Val user" using Cons.prems e by auto
  from on_user_event_healthy [OF assms(1) this]
  have step: "succeeds (\<lambda>w'. cached w' = (cached w)((uoUid ob, kind) \<mapsto> uoVersion ob)) (on_user_event v kind (Some ob) w)" .
  have map: "cached w ++ last_version (e # evs) = (cached w)((uoUid ob, kind) \<mapsto> uoVersion ob) ++ last_version evs"
    by (simp add: e last_version_def event_versions_def map_add_def map_of_append fun_eq_iff split: option.splits)
  have rest: "succeeds (\<lambda>w''. cached w'' = m ++ last_version evs) (foldM (\<lambda>w e. on_user_event v (fst e) (Some (snd e)) w) w' evs)"
    if "cached w' = m" for w' m
    using Cons.IH [of w'] Cons.prems that unfolding on_user_events_def by simp
  show ?case
    unfolding on_user_events_def map foldM.simps unfolding e fst_conv snd_conv by (rule succeeds_seqc [OF step rest])
qed

lemma on_user_events_duplicates:
  assumes "\<forall>e \<in> set evs. cached w (uoUid (snd e), fst e) = Some (uoVersion (snd e))"
  shows "on_user_events v evs w s = (Val w, s)"
  using assms by (induction evs) (auto simp: on_user_events_def on_user_event_def isDupEvent_cached seqc_def ret_def)

text \<open>C29. Events of users are handled once: in a cluster where calls are answered and callbacks accept what they are sent, every sequence of
  events is worked off without a failure, and when afterwards events of it are delivered again, such as
  when a watch that broke is opened again, each in the latest version that was seen of the object with this kind of event, they cause no call
  and leave the watcher as it is.\<close>

theorem user_events_once:
  assumes "healthy v" and "\<forall>e \<in> set evs. \<exists>user. uoUser (snd e) = Val user"
  shows "\<exists>w' s'. on_user_events v evs w s = (Val w', s') \<and>
     (\<forall>again t. (\<forall>e \<in> set again. last_version evs (uoUid (snd e), fst e) = Some (uoVersion (snd e))) \<longrightarrow>
        on_user_events v again w' t = (Val w', t))"
proof -
  obtain w' s' where run: "on_user_events v evs w s = (Val w', s')" "cached w' = cached w ++ last_version evs"
    using on_user_events_healthy [OF assms, of w] unfolding succeeds_def by blast
  then show ?thesis
    by (intro exI [of _ w'] exI [of _ s'] conjI allI impI) (simp_all add: on_user_events_duplicates)
qed

definition demo_event :: "event_type \<times> user_object" where
  "demo_event = (Added, \<lparr>uoUid = ''u1'', uoVersion = ''7'', uoUser = Val \<lparr>kuName = ''bob'', kuEmail = ''b@c'', kuAnnotations = [],
     kuTimes = \<lparr>otCreated = 0, otDeleted = None\<rparr>\<rparr>\<rparr>)"

theorem user_events_once_witness:
  "\<exists>w' s'. on_user_events demo_events [demo_event] \<lparr>uwCache = [], uwActiving = []\<rparr> ((), []) = (Val w', s') \<and>
     snd s' = [EvNow, EnqueueEvent \<lparr>eoObj = UserObj \<lparr>kuName = ''bob'', kuEmail = ''b@c'', kuAnnotations = [], kuTimes = \<lparr>otCreated = 0, otDeleted = None\<rparr>\<rparr>,
         eoAction = ADD_event, eoSubscribe = UsersSubscriber\<rparr>, ListRegistries, PostCallback ''http://cb'' (NewUserBody ''bob'' [] ''b@c'')] \<and>
     on_user_events demo_events [demo_event, demo_event] w' s' = (Val w', s')"
proof -
  let ?w = "\<lparr>uwCache = [], uwActiving = []\<rparr>" and ?s = "((), [])"
  have h: "healthy demo_events" by (simp add: healthy_def demo_defs)
  have u: "\<forall>e \<in> set [demo_event]. \<exists>user. uoUser (snd e) = Val user" by (simp add: demo_event_def)
  obtain w' s' where run: "on_user_events demo_events [demo_event] ?w ?s = (Val w', s')"
    and again: "\<And>again t. (\<forall>e \<in> set again. last_version [demo_event] (uoUid (snd e), fst e) = Some (uoVersion (snd e))) \<Longrightarrow>
        on_user_events demo_events again w' t = (Val w', t)"
    using user_events_once [OF h u, of ?w ?s] by blast
  have "on_user_events demo_events [demo_event, demo_event] w' s' = (Val w', s')"
    by (rule again) (simp add: last_version_def event_versions_def demo_event_def)
  moreover have "snd (snd (on_user_events demo_events [demo_event] ?w ?s)) =
      [EvNow, EnqueueEvent \<lparr>eoObj = UserObj \<lparr>kuName = ''bob'', kuEmail = ''b@c'', kuAnnotations = [], kuTimes = \<lparr>otCreated = 0, otDeleted = None\<rparr>\<rparr>,
         eoAction = ADD_event, eoSubscribe = UsersSubscriber\<rparr>, ListRegistries, PostCallback ''http://cb'' (NewUserBody ''bob'' [] ''b@c'')]"
    by (simp add: on_user_events_def on_user_event_def isDupEvent_def on_user_def demo_event_def ValidWatchDuration_def now_def second_def
        enqueue_event_def total_def invokeUserCreatedCB_def invokeCallbacks_def list_registries_def invoke_each_def subscribed_def
        post_callback_def label_def demo_defs io_defs numeral_eq_Suc Let_def)
  ultimately show ?thesis using run by (intro exI [of _ w'] exI [of _ s']) simp
qed

text \<open>An activation whose callback fails is lost: the user is taken out of the table before the callbacks are
  called, so that further events with the status \<open>completed\<close> do not call them again.\<close>

lemma failed_activation_lost:
  assumes "lookup (kuAnnotations user) UserTerminusWizardStatus = Some Completed"
    and "lookup (uwActiving w) (kuName user) = Some status" "status \<noteq> Completed"
    and "invokeUserActivedCB v None user s = (Err e, s')"
  shows "on_status v user mark w s = (Val (w\<lparr>uwActiving := delete_key (kuName user) (uwActiving w)\<rparr>), s')"
    and "on_status v user mark (w\<lparr>uwActiving := delete_key (kuName user) (uwActiving w)\<rparr>) t =
       (Val (mark (w\<lparr>uwActiving := delete_key (kuName user) (uwActiving w)\<rparr>)), t)"
  using assms by (simp_all add: on_status_def tryc_def ret_def Let_def)

section \<open>Notifications\<close>

definition event_url :: "string \<Rightarrow> string" where
  "event_url user = ''http://system-server.user-system-'' @ user @ ''/system-server/v1alpha1/event/message-disptahcer.system-server/v1''"

definition access_url :: "string \<Rightarrow> string" where
  "access_url user = ''http://system-server.user-system-'' @ user @ ''/permission/v1alpha1/access''"

text \<open>The owner of the platform, and the users whom an event is about.\<close>

definition platform_owner :: "'w ev_ops \<Rightarrow> string \<Rightarrow> bool" where
  "platform_owner v user = (\<exists>w us w' u. listUsers (evDns v) w = (Val us, w') \<and> u \<in> set us \<and> duName u = user \<and>
     lookup (duAnnotations u) ''bytetrade.io/owner-role'' = Some ''owner'')"

definition concerned :: "'w ev_ops \<Rightarrow> event_obj \<Rightarrow> string \<Rightarrow> bool" where
  "concerned v obj user = (case obj of
     AppObj app \<Rightarrow> user = afOwner app
   | NamespaceObj ns \<Rightarrow> lookup (nmLabels ns) ''bytetrade.io/ns-owner'' = Some user \<or>
       (\<exists>w ws w'. evCronWorkflows v (nmName ns) w = (Val ws, w') \<and> workflow_owner ws = Some user)
   | CustomObj event \<Rightarrow> user = ceUser event
   | MetricObj metric \<Rightarrow> (\<exists>x xs. mtValues metric = x # xs \<and> user = label (mvMetadata x) ''user'')
   | LoginObj login \<Rightarrow> user = label (lrLabels login) ''iam.kubesphere.io/user-ref''
   | _ \<Rightarrow> False)"

abbreviation entitled :: "'w ev_ops \<Rightarrow> event_obj \<Rightarrow> string \<Rightarrow> bool" where
  "entitled v obj user \<equiv> platform_owner v user \<or> concerned v obj user"

definition key_of :: "'w ev_ops \<Rightarrow> string \<Rightarrow> string \<Rightarrow> bool" where
  "key_of v user key = (\<exists>w secret w'. evAppPerm v (''user-system-'' @ user) ''bfl'' w = (Val (Val (key, secret)), w'))"

definition addressed :: "'w ev_ops \<Rightarrow> event_obj \<Rightarrow> ev_call \<Rightarrow> bool" where
  "addressed v obj c = (case c of
     PostEvent url token event \<Rightarrow> (\<exists>user. entitled v obj user \<and> url = event_url user)
   | PostAccess url perm \<Rightarrow> (\<exists>user. entitled v obj user \<and> url = access_url user \<and> key_of v user (arAppKey perm))
   | _ \<Rightarrow> True)"

lemma addressed_simps [simp]:
  "addressed v obj EvNow" "addressed v obj (EvDns d)" "addressed v obj (GetAppPerm n a)" "addressed v obj (Bcrypt p)"
  "addressed v obj ListRegistries" "addressed v obj (PostCallback url body)" "addressed v obj (ListCronWorkflows n)"
  "addressed v obj (ForgetItem i)" "addressed v obj (RequeueItem e)" "addressed v obj (DoneItem i)"
  by (simp_all add: addressed_def)

lemma emits_via [emits_intros]: "(\<And>c. S (f c)) \<Longrightarrow> emits S (via f m)"
  unfolding emits_def via_def by (auto simp: list_all_iff split: prod.splits)

lemma emits_retry_OnError: "emits S m \<Longrightarrow> emits S (retry_OnError n retriable m e)"
  by (induction n arbitrary: e) (auto intro!: emits_intros split: option.splits)

lemma Send_addressed [emits_intros]:
  assumes "entitled v obj user"
  shows "emits (addressed v obj) (Send_notification v user msg data)"
proof -
  have perm: "yields (\<lambda>(key, secret). key_of v user key) (getUserAppKey v user)"
    unfolding getUserAppKey_def Let_def
    by (rule yields_seqc [where Q = "\<lambda>x. \<exists>w w'. evAppPerm v (''user-system-'' @ user) ''bfl'' w = (Val x, w')"])
      (auto intro!: yields_call yields_lift simp: key_of_def)
  have access: "emits (addressed v obj) (getAccessToken v \<lparr>ecServer = ''system-server.user-system-'' @ user, ecAppKey = key, ecAppSecret = secret\<rparr>)"
    if "key_of v user key" for key secret
  proof -
    have "addressed v obj (PostAccess (access_url user) perm)" if "arAppKey perm = key" for perm
      using assms \<open>key_of v user key\<close> that by (auto simp: addressed_def)
    then show ?thesis
      unfolding getAccessToken_def now_def Let_def access_url_def
      by (auto intro!: emits_intros split: prod.splits)
  qed
  have "addressed v obj (PostEvent (event_url user) token event)" for token event
    using assms by (auto simp: addressed_def)
  with access show ?thesis
    unfolding Send_notification_def CreateEvent_def Let_def
    by (intro emits_seqc_yields [OF _ perm]) (auto simp: getUserAppKey_def Let_def event_url_def intro!: emits_intros split: prod.splits)
qed

lemma AdminUser_owner: "yields (platform_owner v) (AdminUser v)"
  unfolding AdminUser_def list_users_def
  by (rule yields_seqc [where Q = "\<lambda>us. \<exists>w w'. listUsers (evDns v) w = (Val us, w')"])
    (auto intro!: yields_call yields_ret yields_fail simp: platform_owner_def find_Some_iff split: option.splits, metis nth_mem)

lemma AdminUser_addressed [emits_intros]: "emits (addressed v obj) (AdminUser v)"
  by (auto intro!: emits_intros simp: AdminUser_def list_users_def split: option.splits)

lemma Invoke_addressed [emits_intros]: "emits (addressed v obj) (Invoke_event v event body)"
  by (auto intro!: emits_intros emits_retry_OnError simp: Invoke_event_def Invoke_def list_registries_def invoke_each_def sendEvent_def)

lemma to_admin:
  "(\<And>admin. platform_owner v admin \<Longrightarrow> emits (addressed v obj) (f admin)) \<Longrightarrow> emits (addressed v obj) (seqc (AdminUser v) f)"
  by (rule emits_seqc_yields [OF AdminUser_addressed AdminUser_owner])

lemma Do_users_addressed: "emits (addressed v (UserObj user)) (Do_users v user action)"
  unfolding Do_users_def notify_admin_def regenerate_def by (auto intro!: emits_intros to_admin split: event_action.splits)

lemma Do_apps_addressed: "emits (addressed v (AppObj app)) (Do_apps v app action)"
  unfolding Do_apps_def by (auto intro!: emits_intros to_admin simp: concerned_def split: event_action.splits)

lemma Do_custom_addressed: "emits (addressed v (CustomObj event)) (Do_custom v event action)"
  unfolding Do_custom_def by (auto intro!: emits_intros simp: concerned_def split: event_action.splits)

lemma Do_login_addressed: "emits (addressed v (LoginObj login)) (Do_login v login action)"
  unfolding Do_login_def Let_def by (auto intro!: emits_intros to_admin simp: concerned_def)

lemma recommend_addressed: "emits (addressed v (NamespaceObj ns)) (recommend v ns event what)"
proof -
  have owner: "yields (\<lambda>owner. owner \<noteq> [] \<longrightarrow> concerned v (NamespaceObj ns) owner)
      (case lookup (nmLabels ns) ''bytetrade.io/ns-owner'' of Some owner \<Rightarrow> ret owner
           | None \<Rightarrow> tryc (getWorkflowOwner v (nmName ns)) ret (\<lambda>_. ret []))"
  proof (cases "lookup (nmLabels ns) ''bytetrade.io/ns-owner''")
    case None
    have listed: "concerned v (NamespaceObj ns) u" if "evCronWorkflows v (nmName ns) w = (Val ws, w')" "workflow_owner ws = Some u" for w ws w' u
      unfolding concerned_def event_obj.case using that by blast
    have "yields (concerned v (NamespaceObj ns)) (getWorkflowOwner v (nmName ns))"
      unfolding getWorkflowOwner_def Let_def
      by (rule yields_tryc [where Q = "\<lambda>ws. \<exists>w w'. evCronWorkflows v (nmName ns) w = (Val ws, w')"])
        (auto intro!: yields_call yields_ret yields_fail intro: listed split: option.splits)
    then show ?thesis unfolding None option.case by (rule yields_tryc) (auto intro!: yields_ret)
  qed (auto intro!: yields_ret simp: concerned_def)
  show ?thesis
    unfolding recommend_def Let_def
    by (rule emits_seqc, intro emits_intros, rule emits_seqc_yields [OF _ owner])
      (auto intro!: emits_intros simp: getWorkflowOwner_def Let_def split: option.splits)
qed

lemma Do_workflows_addressed: "emits (addressed v (NamespaceObj ns)) (Do_workflows v ns action)"
  unfolding Do_workflows_def by (auto intro!: emits_ret recommend_addressed split: event_action.splits)

lemma Do_metrics_addressed: "emits (addressed v (MetricObj metric)) (Do_metrics v metric latest)"
proof -
  have user: "yields (concerned v (MetricObj metric)) (metric_user metric)"
    by (auto intro!: yields_ret yields_panic simp: metric_user_def concerned_def split: list.splits)
  have user_emits: "emits (addressed v (MetricObj metric)) (metric_user metric)"
    by (auto intro!: emits_intros simp: metric_user_def split: list.splits)
  have alert: "emits (addressed v (MetricObj metric)) (user_alert v admin user name what event latest)"
    if "platform_owner v admin" "concerned v (MetricObj metric) user" for admin user name what event
    using that by (auto intro!: emits_intros simp: user_alert_def collect_def now_def Let_def)
  show ?thesis
    unfolding Do_metrics_def Let_def
    by (rule emits_tryc_yields [OF AdminUser_addressed AdminUser_owner])
      (auto intro!: emits_intros alert emits_seqc_yields [OF user_emits user])
qed

lemma process_event_addressed: "emits (addressed v (eoObj eobj)) (process_event v (Some eobj) latest)"
proof -
  have "emits (addressed v (eoObj eobj)) (Do_event v eobj latest)"
    unfolding Do_event_def plain_def regenerate_def Let_def
    by (auto intro!: emits_intros Do_users_addressed Do_apps_addressed Do_custom_addressed Do_login_addressed Do_workflows_addressed
        Do_metrics_addressed split: subscriber.splits event_obj.splits)
  then show ?thesis
    unfolding process_event_def settle_def by (auto intro!: emits_intros split: prod.splits res.splits)
qed



section \<open>Metrics\<close>

text \<open>An error of a round, such as a failed listing of the users, ends the watch of the metrics for good.\<close>

lemma metrics_loop_ends:
  assumes "ctx_done v s = (Val False, s1)" "metrics_round v latest s1 = (Err e, s2)"
  shows "ignorec (metrics_loop (Suc n) v latest) s = (Val (), s2)"
  using assms by (simp add: ignorec_def seqc_def tryc_def ret_def)

text \<open>The time of the last alert is kept by the name of the metric alone: within a minute of an alert about one
  user, none is queued about another.\<close>

lemma alert_about_other_user_dropped:
  assumes "mtName other = mtName m" "t' - t \<le> 60 * second"
    and "evNow v w = (Val t', w')" "float_less threshold (GetValue other)"
  shows "queue_alert v threshold (AList.update (mtName m) t latest) other (w, tr) = (Val (AList.update (mtName m) t latest), (w', tr @ [EvNow]))"
  using assms by (simp add: queue_alert_def since_def now_def seqc_def call_def ret_def)


text \<open>Every query at the level of users is restricted to the user it is made for.\<close>

lemma Contains_ReplaceStr: "Contains s old \<Longrightarrow> old \<noteq> [] \<Longrightarrow> Contains (ReplaceStr s old new) new"
proof (induction s old new rule: ReplaceStr.induct)
  case (2 c s old new)
  show ?case
  proof (cases "HasPrefix (c # s) old")
    case True
    then show ?thesis using 2(4) by (auto simp: Contains_iff intro: exI [of _ "[]"])
  next
    case False
    then have "Contains s old" using 2(3) by (auto simp: Contains_iff HasPrefix_iff Cons_eq_append_conv)
    then have "Contains (ReplaceStr s old new) new" using 2 False by simp
    then obtain a b where "ReplaceStr s old new = a @ new @ b" by (auto simp: Contains_iff)
    then have "ReplaceStr (c # s) old new = (c # a) @ new @ b" using False by simp
    then show ?thesis unfolding Contains_iff by blast
  qed
qed (simp add: Contains_iff)

lemma user_query_restricted:
  assumes "e \<in> set promQL_user" "username \<noteq> []"
  shows "Contains (makeUserMetricExpr (snd e) username) (''user=~'' @ [CHR 0x22] @ username @ [CHR 0x22])"
  using assms user_templates_restricted Contains_ReplaceStr [of "snd e" "''$1''"]
  by (simp add: makeUserMetricExpr_def list_all_iff)

end
