(* ===== verification/Uploader.thy ===== *)
theory Uploader
  imports Middleware_App
begin

text \<open>The uploader of images (\<open>cmd/images/uploader\<close>, \<open>pkg/images\<close>), the check of tokens in front of it
  (\<open>pkg/app/middleware\<close>, \<open>pkg/kubesphere\<close>), the policies of applications (\<open>pkg/terminus\<close>), and the client of the
  Zinc server (\<open>pkg/workload/zinc\<close>).\<close>

section \<open>Parameters\<close>

text \<open>\<open>upDecode\<close> is the part of the token library that reads a token before the key is asked for: whether it is signed with
  a keyed hash and which user it names. \<open>upVerify\<close> checks signature and times. \<open>upLower\<close> is
  \<open>strings.ToLower\<close> on strings that are not ASCII. A response to a query of policies has a status, a text and the decoded
  result: code, message and data.\<close>

record 'w upload_ops =
  upK8s :: "'w k8s"
  upDyn :: "'w dyn"
  upFs :: "'w fs"
  upDecode :: "string \<Rightarrow> (bool \<times> string) res"
  upVerify :: "string \<Rightarrow> string \<Rightarrow> ('w, bool) op"
  upUuid :: "('w, string) op"
  upSave :: "string \<Rightarrow> ('w, unit) op"
  upLower :: "string \<Rightarrow> string"
  upGetPolicy :: "string \<Rightarrow> string \<Rightarrow> ('w, nat \<times> string \<times> int \<times> string \<times> (string \<times> SettingsPolicy option) list) op"
  upPostPolicy :: "string \<Rightarrow> string \<Rightarrow> SettingsPolicy \<Rightarrow> ('w, nat \<times> string \<times> int \<times> string) op"
  upBfl :: string

section \<open>Tokens (kubesphere.go, middleware.go)\<close>

definition getLLdapJwtKey :: "'w upload_ops \<Rightarrow> ('w, string) prog" where
  "getLLdapJwtKey v = seqc (Secrets_Get (upK8s v) ''os-platform'' ''lldap-credentials'') (\<lambda>data.
     case lookup data ''lldap-jwt-secret'' of
       None \<Rightarrow> fail (Failure ''failed to get lldap jwt secret'')
     | Some key \<Rightarrow> ret key)"

definition ValidateToken :: "'w upload_ops \<Rightarrow> string \<Rightarrow> ('w, string) prog" where
  "ValidateToken v tokenString =
     seqc (lift (upDecode v tokenString)) (\<lambda>(hmac, username).
     if \<not> hmac then fail (Failure ''unexpected signing method'')
     else seqc (getLLdapJwtKey v) (\<lambda>key.
       seqc (call (Svc (Upload (VerifyToken tokenString key))) (upVerify v tokenString key)) (\<lambda>valid.
       if valid then ret username else fail (Failure ''invalid token, or claims not match''))))"

text \<open>The configuration of the platform, decoded by \<open>parse\<close>: the secret of the authentication options, if there are any.
  Nothing calls it; tokens are checked with the key of \<open>getLLdapJwtKey\<close>.\<close>

definition getKubersphereConfig :: "'w clusters \<Rightarrow> (string \<Rightarrow> string option res) \<Rightarrow> ('w, string option) prog" where
  "getKubersphereConfig c parse =
     seqc (call (Svc (Cluster (GetConfigMap ''kubesphere-system'' ''kubesphere-config''))) (getConfigMap c ''kubesphere-system'' ''kubesphere-config'')) (\<lambda>data.
     case lookup data ''kubesphere.yaml'' of
       None \<Rightarrow> fail (Failure ''failed to get configmap kubesphere.yaml value'')
     | Some value \<Rightarrow> wrapv ''failed to unmarshal value from configmap. err: '' (lift (parse value)))"

text \<open>A request: the header, the cookie, the file of the form with its name and size, and the policy.\<close>

record upload_request =
  rqHeader :: string
  rqCookie :: string
  rqFile :: "(string \<times> int) res"
  rqPolicy :: string

definition RequireAuth :: "'w upload_ops \<Rightarrow> upload_request \<Rightarrow> (string \<Rightarrow> string \<Rightarrow> ('w, 'a answer) prog) \<Rightarrow> ('w, 'a answer) prog" where
  "RequireAuth v rq next = (let authToken = (if rqHeader rq = [] then rqCookie rq else rqHeader rq) in
     if authToken = [] then ret (Refused 401 ''Auth token not found'')
     else tryc (ValidateToken v authToken) (\<lambda>username.
         tryc (GetUser (upDyn v) username) (\<lambda>_. next username authToken)
           (\<lambda>e. ret (Refused 401 (''User info error, '' @ Error e))))
       (\<lambda>e. ret (Refused 401 (''Auth token invalid, '' @ Error e))))"

section \<open>Policies (policy.go)\<close>

definition oneFactor :: string where "oneFactor = ''one_factor''"

text \<open>The first sub-policy of the address is changed, or a new one is appended.\<close>

fun set_sub_policy :: "string \<Rightarrow> string \<Rightarrow> SubPolicy list \<Rightarrow> SubPolicy list" where
  "set_sub_policy uri policy [] = [\<lparr>spURI = uri, spPolicy = policy, spOneTime = False, spDuration = 0\<rparr>]"
| "set_sub_policy uri policy (p # ps) = (if spURI p = uri
     then p\<lparr>spPolicy := policy, spDuration := 0, spOneTime := False\<rparr> # ps
     else p # set_sub_policy uri policy ps)"

definition new_policy :: "SubPolicy list \<Rightarrow> SettingsPolicy" where
  "new_policy subs = \<lparr>stDefaultPolicy = oneFactor, stSubPolicies = subs, stOneTime = False, stDuration = 0\<rparr>"

definition updated_policy :: "string \<Rightarrow> string \<Rightarrow> string \<Rightarrow> int \<Rightarrow> (string \<times> SettingsPolicy option) list \<Rightarrow> SettingsPolicy res" where
  "updated_policy uri entrance policy code current =
     (if code \<noteq> 0 then Val (new_policy (set_sub_policy uri policy []))
      else case lookup current entrance of
        None \<Rightarrow> Val (new_policy (set_sub_policy uri policy []))
      | Some None \<Rightarrow> Panic ''nil pointer dereference''
      | Some (Some p) \<Rightarrow> Val (p\<lparr>stSubPolicies := set_sub_policy uri policy (stSubPolicies p)\<rparr>))"

definition UpdatePolicy :: "'w upload_ops \<Rightarrow> string \<Rightarrow> string \<Rightarrow> string \<Rightarrow> string \<Rightarrow> string \<Rightarrow> ('w, unit) prog" where
  "UpdatePolicy v uri app entrance token policy =
     (let base = ''http://'' @ upBfl v @ ''/bfl/settings/v1alpha1/applications/'' @ app;
          policyUrl = base @ ''/setup/policy''; updatePolicyUrl = base @ ''/'' @ entrance @ ''/setup/policy'' in
      seqc (call (Svc (Upload (GetPolicy policyUrl token))) (upGetPolicy v policyUrl token)) (\<lambda>(status, body, code, message, current).
      if status \<noteq> 200 then fail (Failure body)
      else seqc (lift (updated_policy uri entrance policy code current)) (\<lambda>p.
        seqc (call (Svc (Upload (PostPolicy updatePolicyUrl token p))) (upPostPolicy v updatePolicyUrl token p)) (\<lambda>(status, body, code, message).
        if status \<noteq> 200 then fail (Failure body)
        else if code \<noteq> 0 then fail (Failure message)
        else ret ()))))"

section \<open>Uploads (utils.go, server.go)\<close>

definition ascii_lower :: "char \<Rightarrow> char" where
  "ascii_lower c = (let n = of_char c :: nat in if 65 \<le> n \<and> n \<le> 90 then char_of (n + 32) else c)"

definition ToLower :: "(string \<Rightarrow> string) \<Rightarrow> string \<Rightarrow> string" where
  "ToLower lower s = (if list_all (\<lambda>c. (of_char c :: nat) < 128) s then map ascii_lower s else lower s)"

definition IsImage :: "(string \<Rightarrow> string) \<Rightarrow> string \<Rightarrow> bool" where
  "IsImage lower ext = (ToLower lower ext \<in> {''png'', ''jpeg'', ''jpg'', ''gif''})"

definition ensureUploadPath :: "'w fs \<Rightarrow> ('w, string) prog" where
  "ensureUploadPath f = (let uploadPath = ''/data/Upload'';
       mkdir = seqc (call (Fs (Mkdir uploadPath)) (fsMkdir f uploadPath)) (\<lambda>_. ret uploadPath) in
     tryc (call (Fs (Stat uploadPath)) (fsStat f uploadPath))
       (\<lambda>isDir. if \<not> isDir then seqc (call (Fs (RemoveFile uploadPath)) (fsRemove f uploadPath)) (\<lambda>_. mkdir) else ret uploadPath)
       (\<lambda>e. if IsNotFound e then mkdir else fail e))"

definition write_image :: "'w upload_ops \<Rightarrow> string \<Rightarrow> string \<Rightarrow> string \<Rightarrow> string \<Rightarrow> ('w, string) prog" where
  "write_image v user token policy filename =
     seqc (call (Svc (Vault UuidNew)) (upUuid v)) (\<lambda>uniqueId. let name = ReplaceAll uniqueId CHR ''-'' [] in
     case Split filename CHR ''.'' of
       _ # fileExt # _ \<Rightarrow>
         if \<not> IsImage (upLower v) fileExt then fail (Failure ''just uploading image file is allowed'')
         else let image = name @ ''.'' @ fileExt in
           seqc (ensureUploadPath (upFs v)) (\<lambda>uploadDir. let path = uploadDir @ ''/'' @ image in
           seqc (call (Svc (Upload (SaveUpload path))) (upSave v path)) (\<lambda>_.
           seqc (GetUserZone (upDyn v) user) (\<lambda>userZone.
           let uri = ''/resources/Home/Pictures/Upload/'' @ image; imageUrl = ''https://files.'' @ userZone @ uri in
           seqc (if policy = ''public'' then UpdatePolicy v uri ''olares-app'' ''files'' token policy else ret ()) (\<lambda>_.
           ret imageUrl))))
     | _ \<Rightarrow> fail (Failure ''just uploading image file is allowed''))"

definition handleFileupload :: "'w upload_ops \<Rightarrow> upload_request \<Rightarrow> string \<Rightarrow> string \<Rightarrow> ('w, (string \<times> int) answer) prog" where
  "handleFileupload v rq user token =
     (let policy = (if rqPolicy rq = [] then ''private'' else rqPolicy rq) in
      tryc (lift (rqFile rq)) (\<lambda>(filename, size).
        tryc (write_image v user token policy filename) (\<lambda>imageUrl. ret (Answer (imageUrl, size)))
          (\<lambda>e. ret (Refused 500 ''Save image error'')))
        (\<lambda>e. ret (Refused 500 ''Upload image error'')))"

definition serve_upload :: "'w upload_ops \<Rightarrow> upload_request \<Rightarrow> ('w, (string \<times> int) answer) prog" where
  "serve_upload v rq = RequireAuth v rq (handleFileupload v rq)"

section \<open>Zinc (helper.go)\<close>

text \<open>A response has a status. A status of 400 or more is logged, and the error that is then returned is the one of the
  request, which is nil.\<close>

record 'w zinc_ops =
  znConfigMap :: "string \<Rightarrow> string \<Rightarrow> ('w, (string \<times> string) list) op"
  znSend :: "string \<Rightarrow> string \<Rightarrow> string \<Rightarrow> zinc_body \<Rightarrow> ('w, nat) op"
  znParse :: "string \<Rightarrow> unit res"

definition zinc_host :: string where "zinc_host = ''zinc-server-svc.os-platform''"

definition zinc_send :: "'w zinc_ops \<Rightarrow> string \<Rightarrow> string \<Rightarrow> string \<Rightarrow> zinc_body \<Rightarrow> ('w, unit) prog" where
  "zinc_send z auth meth url body = seqc (call (Svc (Zinc_svc (ZincSend auth meth url body))) (znSend z auth meth url body)) (\<lambda>_. ret ())"

definition basic_auth :: "string \<Rightarrow> string \<Rightarrow> string" where
  "basic_auth user pwd = user @ '':'' @ pwd"

definition FindIndexConfig :: "'w zinc_ops \<Rightarrow> string \<Rightarrow> string \<Rightarrow> string \<Rightarrow> ('w, string) prog" where
  "FindIndexConfig z namespace config key =
     seqc (call (Svc (Cluster (GetConfigMap namespace config))) (znConfigMap z namespace config)) (\<lambda>data.
     ret (case lookup data key of None \<Rightarrow> [] | Some schema \<Rightarrow> schema))"

definition CreateOrUpdateIndex :: "'w zinc_ops \<Rightarrow> string \<Rightarrow> string \<Rightarrow> string \<Rightarrow> string \<Rightarrow> string \<Rightarrow> ('w, unit) prog" where
  "CreateOrUpdateIndex z admin pwd namespace index schema =
     seqc (lift (znParse z schema)) (\<lambda>_.
     zinc_send z (basic_auth admin pwd) ''PUT'' (''http://'' @ zinc_host @ ''/api/index'') (ZincIndex (GetIndexName_zinc namespace index) schema))"

definition DeleteIndex_zinc :: "'w zinc_ops \<Rightarrow> string \<Rightarrow> string \<Rightarrow> string \<Rightarrow> string \<Rightarrow> ('w, unit) prog" where
  "DeleteIndex_zinc z admin pwd namespace index =
     (if namespace = [] \<or> index = [] then fail (Failure ''namespace or index is empty'')
      else zinc_send z (basic_auth admin pwd) ''DELETE'' (''http://'' @ zinc_host @ ''/api/index/'' @ GetIndexName_zinc namespace index) ZincNothing)"

definition CreateOrUpdateUser_zinc :: "'w zinc_ops \<Rightarrow> string \<Rightarrow> string \<Rightarrow> string \<Rightarrow> string \<Rightarrow> ('w, unit) prog" where
  "CreateOrUpdateUser_zinc z admin adminPwd user pwd =
     zinc_send z (basic_auth admin adminPwd) ''POST'' (''http://'' @ zinc_host @ ''/api/user'') (ZincUser user pwd ''user'')"

definition DeleteUser_zinc :: "'w zinc_ops \<Rightarrow> string \<Rightarrow> string \<Rightarrow> string \<Rightarrow> ('w, unit) prog" where
  "DeleteUser_zinc z admin adminPwd user =
     (if user = [] then fail (Failure ''user is empty'')
      else zinc_send z (basic_auth admin adminPwd) ''DELETE'' (''http://'' @ zinc_host @ ''/api/user/'' @ user) ZincNothing)"

definition RoleUser :: "string \<times> string list" where
  "RoleUser = (''user'', [''document.Bulk'', ''document.Multi'', ''document.Create'', ''document.Get'', ''document.Update'', ''document.Delete'',
     ''search.SearchDSL'', ''index.List'', ''index.IndexNameList'', ''index.Get'', ''index.Exists'', ''index.Refresh'', ''index.GetMapping'',
     ''index.GetSettings'', ''index.Analyze'', ''search.MultipleSearch'', ''search.DeleteByQuery'', ''index.ListTemplate'', ''index.GetTemplate'',
     ''elastic.PutDataStream'', ''elastic.GetDataStream'', ''index.GetESMapping'', ''index.GetESAliases'', ''document.ESBulk'', ''document.CreateUpdate''])"

text \<open>The role is sent until a request goes through; \<open>n\<close> bounds the attempts.\<close>

fun InitRole :: "nat \<Rightarrow> 'w zinc_ops \<Rightarrow> string \<Rightarrow> string \<Rightarrow> ('w, unit) prog" where
  "InitRole 0 z admin adminPwd = looping"
| "InitRole (Suc n) z admin adminPwd =
     tryc (zinc_send z (basic_auth admin adminPwd) ''POST'' (''http://'' @ zinc_host @ ''/api/role'') (ZincRole (fst RoleUser) (snd RoleUser)))
       ret (\<lambda>_. InitRole n z admin adminPwd)"

end
