(* ===== verification/Upload_Proofs.thy ===== *)
theory Upload_Proofs
  imports Uploader Results
begin

text \<open>Properties of the uploader: where it writes and for whom, what it answers, and what an update of a policy keeps.\<close>

section \<open>Where uploads go\<close>

definition image_path :: "(string \<Rightarrow> string) \<Rightarrow> string \<Rightarrow> bool" where
  "image_path lower path = (\<exists>name ext. path = ''/data/Upload/'' @ name @ ''.'' @ ext \<and> CHR ''/'' \<notin> set name \<and> CHR ''/'' \<notin> set ext \<and> IsImage lower ext)"

definition confined :: "(string \<Rightarrow> string) \<Rightarrow> call \<Rightarrow> bool" where
  "confined lower c = (case c of
     Svc (Upload (SaveUpload path)) \<Rightarrow> image_path lower path
   | Fs f \<Rightarrow> f \<in> {Stat ''/data/Upload'', Mkdir ''/data/Upload'', RemoveFile ''/data/Upload''}
   | _ \<Rightarrow> True)"

lemma confined_simps [simp]:
  "confined lower (K8s k)" "confined lower (Svc (Vault u))" "confined lower (Svc (Dyn d))" "confined lower (Svc (Upload (VerifyToken a b)))"
  "confined lower (Svc (Upload (GetPolicy a b)))" "confined lower (Svc (Upload (PostPolicy a b p)))"
  "confined lower (Svc (Upload (SaveUpload path))) = image_path lower path"
  "confined lower (Fs f) = (f \<in> {Stat ''/data/Upload'', Mkdir ''/data/Upload'', RemoveFile ''/data/Upload''})"
  by (simp_all add: confined_def)

lemma slash_ascii_lower: "CHR ''/'' \<in> set s \<Longrightarrow> CHR ''/'' \<in> set (map ascii_lower s)"
proof -
  have "ascii_lower CHR ''/'' = CHR ''/''" by (simp add: ascii_lower_def)
  then show "CHR ''/'' \<in> set s \<Longrightarrow> CHR ''/'' \<in> set (map ascii_lower s)" by (metis image_eqI list.set_map)
qed

lemma IsImage_no_slash:
  assumes "\<And>s. CHR ''/'' \<in> set s \<Longrightarrow> CHR ''/'' \<in> set (lower s)" "IsImage lower ext"
  shows "CHR ''/'' \<notin> set ext"
proof
  assume "CHR ''/'' \<in> set ext"
  then have "CHR ''/'' \<in> set (ToLower lower ext)" using slash_ascii_lower assms(1) by (auto simp: ToLower_def simp del: list.set_map)
  with assms(2) show False by (auto simp: IsImage_def)
qed

lemma ensureUploadPath_path: "yields (\<lambda>p. p = ''/data/Upload'') (ensureUploadPath f)"
  unfolding ensureUploadPath_def Let_def
  by (auto intro!: yields_tryc [OF yields_True] yields_seqc [OF yields_True] yields_ret yields_fail)

lemma ensureUploadPath_confined: "emits (confined lower) (ensureUploadPath f)"
  unfolding ensureUploadPath_def Let_def by (auto intro!: emits_intros)

lemma UpdatePolicy_confined: "emits (confined lower) (UpdatePolicy v uri app entrance token policy)"
  unfolding UpdatePolicy_def Let_def by (auto intro!: emits_intros split: prod.splits)

lemma write_image_confined:
  assumes uuid: "\<And>w x w'. upUuid v w = (Val x, w') \<Longrightarrow> CHR ''/'' \<notin> set x"
    and lower: "\<And>s. CHR ''/'' \<in> set s \<Longrightarrow> CHR ''/'' \<in> set (upLower v s)"
  shows "emits (confined (upLower v)) (write_image v user token policy filename)"
proof -
  have id: "yields (\<lambda>x. CHR ''/'' \<notin> set x) (call (Svc (Vault UuidNew)) (upUuid v))"
    by (rule yields_call) (rule uuid)
  have path: "confined (upLower v) (Svc (Upload (SaveUpload (''/data/Upload'' @ ''/'' @ ReplaceAll x CHR ''-'' [] @ ''.'' @ ext))))"
    if "CHR ''/'' \<notin> set x" "IsImage (upLower v) ext" for x ext
  proof -
    have "CHR ''/'' \<notin> set (ReplaceAll x CHR ''-'' [])" using that(1) by (auto simp: ReplaceAll_def split: if_splits)
    then show ?thesis
      unfolding confined_simps image_path_def using that(2) IsImage_no_slash [OF lower that(2)]
      by - (rule exI [of _ "ReplaceAll x CHR ''-'' []"], rule exI [of _ ext], simp)
  qed
  show ?thesis
    unfolding write_image_def Let_def
    apply (rule emits_seqc_yields [OF _ id])
     apply (simp add: emits_call)
    apply (split list.split)+
    apply (auto intro!: emits_intros UpdatePolicy_confined emits_seqc_yields [OF ensureUploadPath_confined ensureUploadPath_path] path [simplified]
        simp: GetUserZone_def GetUserAnnotation_def dyn_def split: option.splits)
    done
qed

text \<open>A request is authentic when its token, from the header or else from the cookie, names a user and was found valid.\<close>

definition authentic :: "'w upload_ops \<Rightarrow> upload_request \<Rightarrow> bool" where
  "authentic v rq = (\<exists>token user key w w'. token \<noteq> [] \<and> token = (if rqHeader rq = [] then rqCookie rq else rqHeader rq) \<and>
     upDecode v token = Val (True, user) \<and> upVerify v token key w = (Val True, w'))"

definition writes :: "call \<Rightarrow> bool" where
  "writes c = (case c of Svc (Upload (SaveUpload path)) \<Rightarrow> True | Svc (Upload (PostPolicy a b p)) \<Rightarrow> True | Fs f \<Rightarrow> True | _ \<Rightarrow> False)"

lemma writes_simps [simp]: "\<not> writes (K8s k)" "\<not> writes (Svc (Dyn d))" "\<not> writes (Svc (Upload (VerifyToken a b)))"
  by (simp_all add: writes_def)

lemma ValidateToken_valid:
  "yields (\<lambda>user. \<exists>key w w'. upDecode v token = Val (True, user) \<and> upVerify v token key w = (Val True, w')) (ValidateToken v token)"
  unfolding ValidateToken_def
  apply (rule yields_seqc [OF yields_lift [of _ "\<lambda>x. upDecode v token = Val x"]], assumption)
  apply (clarsimp split: if_splits simp: yields_fail)
  apply (rule yields_seqc [OF yields_True])
  apply (rule yields_seqc [OF yields_call [of _ "\<lambda>b. \<exists>key w w'. upVerify v token key w = (Val b, w')"]])
   apply blast
  apply (auto intro!: yields_ret yields_fail)
  apply blast
  done

lemma serve_upload_emits:
  assumes "\<And>w x w'. upUuid v w = (Val x, w') \<Longrightarrow> CHR ''/'' \<notin> set x"
    and "\<And>s. CHR ''/'' \<in> set s \<Longrightarrow> CHR ''/'' \<in> set (upLower v s)"
  shows "emits (\<lambda>c. confined (upLower v) c \<and> (writes c \<longrightarrow> authentic v rq)) (serve_upload v rq)"
proof -
  let ?token = "if rqHeader rq = [] then rqCookie rq else rqHeader rq"
  let ?S = "\<lambda>c. confined (upLower v) c \<and> (writes c \<longrightarrow> authentic v rq)"
  note image = write_image_confined [OF assms]
  have token: "emits ?S (ValidateToken v t)" for t
    unfolding ValidateToken_def getLLdapJwtKey_def Secrets_Get_def by (auto intro!: emits_intros split: prod.splits option.splits)
  show ?thesis
    unfolding serve_upload_def RequireAuth_def Let_def
  proof (rule emits_if, rule emits_ret, rule emits_tryc_yields [OF token ValidateToken_valid])
    fix user
    assume "?token \<noteq> []" "\<exists>key w w'. upDecode v ?token = Val (True, user) \<and> upVerify v ?token key w = (Val True, w')"
    then have "authentic v rq" unfolding authentic_def by blast
    then show "emits ?S (tryc (GetUser (upDyn v) user) (\<lambda>_. handleFileupload v rq user ?token)
        (\<lambda>e. ret (Refused 401 (''User info error, '' @ Error e))))"
      unfolding handleFileupload_def Let_def GetUser_def dyn_def by (auto intro!: emits_intros image split: prod.splits)
  qed (rule emits_ret)
qed

text \<open>C19. The uploader writes only images, only into its directory and only for users it knows: when fresh identifiers have no
  slash, and lower case does not remove one, then whatever is requested, every file saved lies directly in the upload directory and has one of the four
  extensions of images, no other path is looked at, created or removed than the directory itself, and all of this, as well as a change of
  a policy, happens only after the token of the request was found valid.\<close>

theorem upload_confined:
  assumes "serve_upload v rq s = (r, s')" and "c \<in> set (drop (length (snd s)) (snd s'))"
    and "\<forall>w x w'. upUuid v w = (Val x, w') \<longrightarrow> CHR ''/'' \<notin> set x"
    and "\<forall>s. CHR ''/'' \<in> set s \<longrightarrow> CHR ''/'' \<in> set (upLower v s)"
  shows "(\<forall>path. c = Svc (Upload (SaveUpload path)) \<longrightarrow> (\<exists>name ext. path = ''/data/Upload/'' @ name @ ''.'' @ ext \<and>
       CHR ''/'' \<notin> set name \<and> CHR ''/'' \<notin> set ext \<and> IsImage (upLower v) ext) \<and> authentic v rq) \<and>
     (\<forall>f. c = Fs f \<longrightarrow> f \<in> {Stat ''/data/Upload'', Mkdir ''/data/Upload'', RemoveFile ''/data/Upload''} \<and> authentic v rq) \<and>
     (\<forall>url token p. c = Svc (Upload (PostPolicy url token p)) \<longrightarrow> authentic v rq)"
proof -
  have "confined (upLower v) c \<and> (writes c \<longrightarrow> authentic v rq)"
    using emitsD [OF serve_upload_emits [of v rq] assms(1)] assms(2-) by (auto simp: list_all_iff)
  then show ?thesis by (auto simp: writes_def image_path_def)
qed

definition demo_upload :: "unit upload_ops" where
  "demo_upload = \<lparr>upK8s = idle_k8s\<lparr>getSecret := (\<lambda>_. ok [(''lldap-jwt-secret'', ''k'')])\<rparr>,
     upDyn = idle_dyn\<lparr>getKSUser := ok \<lparr>ksEmail = Val ''a@b'', ksAnnotations = [(''bytetrade.io/zone'', ''alice.io'')]\<rparr>\<rparr>,
     upFs = idle_fs, upDecode = (\<lambda>_. Val (True, ''alice'')), upVerify = (\<lambda>_. ok True), upUuid = ok ''0-1'' (), upSave = ok (), upLower = (\<lambda>s. s),
     upGetPolicy = (\<lambda>_. ok (200, [], 0, [], [])), upPostPolicy = (\<lambda>_ _. ok (200, [], 0, [])), upBfl = ''bfl''\<rparr>"

theorem upload_confined_witness:
  "Svc (Upload (SaveUpload ''/data/Upload/01.png'')) \<in> set (snd (snd (serve_upload (demo_upload\<lparr>upFs := idle_fs\<lparr>fsStat := ok True\<rparr>\<rparr>)
     \<lparr>rqHeader = ''t'', rqCookie = [], rqFile = Val (''cat.png'', 9), rqPolicy = ''public''\<rparr> ((), [])))) \<and>
   authentic (demo_upload\<lparr>upFs := idle_fs\<lparr>fsStat := ok True\<rparr>\<rparr>) \<lparr>rqHeader = ''t'', rqCookie = [], rqFile = Val (''cat.png'', 9), rqPolicy = ''public''\<rparr>"
proof -
  let ?v = "demo_upload\<lparr>upFs := idle_fs\<lparr>fsStat := ok True\<rparr>\<rparr>"
  let ?rq = "\<lparr>rqHeader = ''t'', rqCookie = [], rqFile = Val (''cat.png'', 9), rqPolicy = ''public''\<rparr>"
  have "Svc (Upload (SaveUpload ''/data/Upload/01.png'')) \<in> set (snd (snd (serve_upload ?v ?rq ((), []))))"
    by (simp add: serve_upload_def RequireAuth_def ValidateToken_def getLLdapJwtKey_def Secrets_Get_def GetUser_def dyn_def handleFileupload_def
        write_image_def IsImage_def ToLower_def ascii_lower_def ensureUploadPath_def GetUserZone_def GetUserAnnotation_def UserAnnotationZoneKey_ks_def
        UpdatePolicy_def updated_policy_def ReplaceAll_def demo_upload_def io_defs idle_defs idle_dyn_def idle_fs_def Let_def)
  then show ?thesis
    using upload_confined [of ?v ?rq "((), [])", OF surjective_pairing, of "Svc (Upload (SaveUpload ''/data/Upload/01.png''))"]
    by (auto simp: demo_upload_def ok_def)
qed

section \<open>Policies\<close>

text \<open>An update changes the policy of one address only: all other entries stay in their order.\<close>

lemma set_sub_policy_others: "filter (\<lambda>p. spURI p \<noteq> uri) (set_sub_policy uri policy ps) = filter (\<lambda>p. spURI p \<noteq> uri) ps"
  by (induction ps) auto

lemma set_sub_policy_first:
  "find (\<lambda>p. spURI p = uri) (set_sub_policy uri policy ps) = Some \<lparr>spURI = uri, spPolicy = policy, spOneTime = False, spDuration = 0\<rparr>"
  by (induction ps) auto

text \<open>When the policies could not be read, the update replaces all of them.\<close>

lemma unread_policy_replaced:
  assumes "code \<noteq> 0"
  shows "updated_policy uri entrance policy code current = Val (new_policy [\<lparr>spURI = uri, spPolicy = policy, spOneTime = False, spDuration = 0\<rparr>])"
  using assms by (simp add: updated_policy_def)

section \<open>Zinc\<close>

text \<open>A refusal by the Zinc server is reported as a success.\<close>

lemma zinc_refusal_lost:
  assumes "znSend z auth meth url body w = (Val status, w')"
  shows "zinc_send z auth meth url body (w, tr) = (Val (), (w', tr @ [Svc (Zinc_svc (ZincSend auth meth url body))]))"
  using assms by (simp add: zinc_send_def io_defs)

end
