(* ===== verification/Controller_Run.thy ===== *)
theory Controller_Run
  imports Controllers_Proofs
begin

text \<open>The life of a controller (\<open>NewController\<close>, \<open>Run\<close> and \<open>Cancel\<close> of every \<open>controller.go\<close>): the events of its
  informer, its workers and \<open>Run\<close> itself are goroutines that meet at the work queue. They form a step
  relation, in which any of them may be the next to move. The informer factory and the work queue belong to
  a library.\<close>

section \<open>Event handlers (NewController)\<close>

datatype 'o informer_event =
    OnAdd "'o informer_obj"
  | OnUpdate "'o informer_obj" "'o informer_obj"
  | OnDelete "'o informer_obj"

definition resource_handlers :: "('w, 'o) workqueue \<Rightarrow> 'o informer_event \<Rightarrow> ('w, 'o, unit) worker" where
  "resource_handlers q ev = (case ev of
      OnAdd obj \<Rightarrow> handleAddObject q obj
    | OnUpdate old new \<Rightarrow> handleUpdateObject q new
    | OnDelete obj \<Rightarrow> handleDeleteObject q obj)"

text \<open>The controller of the config maps registers no handler for deletions, and its handler of updates is empty.\<close>

definition handleUpdateObject_cm :: "('w, ConfigMap) workqueue \<Rightarrow> ConfigMap informer_obj \<Rightarrow> ('w, ConfigMap, unit) worker" where
  "handleUpdateObject_cm q obj = ret ()"

definition resource_handlers_cm :: "('w, ConfigMap) workqueue \<Rightarrow> ConfigMap informer_event \<Rightarrow> ('w, ConfigMap, unit) worker" where
  "resource_handlers_cm q ev = (case ev of
      OnAdd obj \<Rightarrow> handleAddObject_cm q obj
    | OnUpdate old new \<Rightarrow> handleUpdateObject_cm q new
    | OnDelete obj \<Rightarrow> ret ())"

section \<open>Run\<close>

text \<open>\<open>Working\<close> is the wait for the end of the context at the end of \<open>Run\<close>; \<open>Ended\<close> has what it returned.\<close>

datatype run_phase = Created | Syncing | Working | Ended "unit res"

record 'w lifecycle =
  lcStart :: "'w \<Rightarrow> 'w"
  lcShutDown :: "'w \<Rightarrow> 'w"
  lcFactoryShutdown :: "'w \<Rightarrow> 'w"

text \<open>A controller with its goroutines: the number of workers that wait for an item, the items that the other
  workers have taken and not yet settled, and the events that the informer has delivered.\<close>

record ('w, 'o) controller =
  ctWorld :: 'w
  ctCalls :: "'o wq_call list"
  ctPhase :: run_phase
  ctWaiting :: nat
  ctTaken :: "'o item list"
  ctCancelled :: bool
  ctEvents :: "'o informer_event list"

definition NewController :: "'w \<Rightarrow> ('w, 'o) controller" where
  "NewController w = \<lparr>ctWorld = w, ctCalls = [], ctPhase = Created, ctWaiting = 0, ctTaken = [], ctCancelled = False, ctEvents = []\<rparr>"

definition Run_start :: "'w lifecycle \<Rightarrow> ('w, 'o) controller \<Rightarrow> ('w, 'o) controller" where
  "Run_start lc c = c\<lparr>ctWorld := lcStart lc (ctWorld c), ctPhase := Syncing\<rparr>"

definition Run_return :: "'w lifecycle \<Rightarrow> unit res \<Rightarrow> ('w, 'o) controller \<Rightarrow> ('w, 'o) controller" where
  "Run_return lc r c = c\<lparr>ctWorld := lcFactoryShutdown lc (lcShutDown lc (ctWorld c)), ctPhase := Ended r\<rparr>"

definition Run_synced :: "'w lifecycle \<Rightarrow> nat \<Rightarrow> bool \<Rightarrow> ('w, 'o) controller \<Rightarrow> ('w, 'o) controller" where
  "Run_synced lc workers good c =
     (if \<not> good then Run_return lc (Err (Failure ''failed to wait for caches to sync'')) c
      else c\<lparr>ctPhase := Working, ctWaiting := workers\<rparr>)"

definition Run_done :: "'w lifecycle \<Rightarrow> ('w, 'o) controller \<Rightarrow> ('w, 'o) controller" where
  "Run_done lc c = Run_return lc (Val ()) c"

definition Cancel :: "('w, 'o) controller \<Rightarrow> ('w, 'o) controller" where
  "Cancel c = c\<lparr>ctCancelled := True\<rparr>"

text \<open>A worker takes an item. When the queue is shut down \<open>runWorker\<close> returns, and \<open>wait.Until\<close> starts it again unless
  the context is done.\<close>

definition take_item :: "('w, 'o) workqueue \<Rightarrow> ('w, 'o) controller \<Rightarrow> ('w, 'o) controller" where
  "take_item q c = (case wqGet q (ctWorld c) of
      (Some i, w) \<Rightarrow> c\<lparr>ctWorld := w, ctCalls := ctCalls c @ [WqGet], ctTaken := i # ctTaken c, ctWaiting := ctWaiting c - 1\<rparr>
    | (None, w) \<Rightarrow> c\<lparr>ctWorld := w, ctCalls := ctCalls c @ [WqGet],
        ctWaiting := (if ctCancelled c then ctWaiting c - 1 else ctWaiting c)\<rparr>)"

text \<open>The steps. The caches fail to synchronise only when the context ends; the informers deliver events from the
  start of the factory to its end; \<open>outside\<close> is what the world does by itself. A panic of a handler ends the program
  and is no step of the controller.\<close>

inductive ctl_step :: "'w lifecycle \<Rightarrow> ('w, 'o) workqueue \<Rightarrow> ('o enqueueObj \<Rightarrow> ('w, 'o, unit) worker) \<Rightarrow>
    ('o informer_event \<Rightarrow> ('w, 'o, unit) worker) \<Rightarrow> ('w \<Rightarrow> 'w \<Rightarrow> bool) \<Rightarrow> nat \<Rightarrow> ('w, 'o) controller \<Rightarrow> ('w, 'o) controller \<Rightarrow> bool"
  for lc q sync handlers outside workers where
  ctl_start: "ctPhase c = Created \<Longrightarrow> ctl_step lc q sync handlers outside workers c (Run_start lc c)"
| ctl_synced: "ctPhase c = Syncing \<Longrightarrow> good \<or> ctCancelled c \<Longrightarrow>
    ctl_step lc q sync handlers outside workers c (Run_synced lc workers good c)"
| ctl_event: "ctPhase c \<in> {Syncing, Working} \<Longrightarrow> handlers ev (ctWorld c, ctCalls c) = (Val (), (w, cs)) \<Longrightarrow>
    ctl_step lc q sync handlers outside workers c (c\<lparr>ctWorld := w, ctCalls := cs, ctEvents := ctEvents c @ [ev]\<rparr>)"
| ctl_take: "0 < ctWaiting c \<Longrightarrow> ctl_step lc q sync handlers outside workers c (take_item q c)"
| ctl_settle: "i \<in> set (ctTaken c) \<Longrightarrow> process_item q sync i (ctWorld c, ctCalls c) = (Val (), (w, cs)) \<Longrightarrow>
    ctl_step lc q sync handlers outside workers c
      (c\<lparr>ctWorld := w, ctCalls := cs, ctTaken := remove1 i (ctTaken c), ctWaiting := Suc (ctWaiting c)\<rparr>)"
| ctl_cancel: "ctl_step lc q sync handlers outside workers c (Cancel c)"
| ctl_done: "ctPhase c = Working \<Longrightarrow> ctCancelled c \<Longrightarrow> ctl_step lc q sync handlers outside workers c (Run_done lc c)"
| ctl_outside: "outside (ctWorld c) w \<Longrightarrow> ctl_step lc q sync handlers outside workers c (c\<lparr>ctWorld := w\<rparr>)"

definition ctl_reach :: "'w lifecycle \<Rightarrow> ('w, 'o) workqueue \<Rightarrow> ('o enqueueObj \<Rightarrow> ('w, 'o, unit) worker) \<Rightarrow>
    ('o informer_event \<Rightarrow> ('w, 'o, unit) worker) \<Rightarrow> ('w \<Rightarrow> 'w \<Rightarrow> bool) \<Rightarrow> nat \<Rightarrow> 'w \<Rightarrow> ('w, 'o) controller \<Rightarrow> bool" where
  "ctl_reach lc q sync handlers outside workers w = (ctl_step lc q sync handlers outside workers)\<^sup>*\<^sup>* (NewController w)"

text \<open>The eight controllers of the operator: the states each can reach.\<close>

definition request_controller :: "nat \<Rightarrow> 'w env \<Rightarrow> 'w lifecycle \<Rightarrow> ('w, MiddlewareRequest) workqueue \<Rightarrow> ('w \<Rightarrow> 'w \<Rightarrow> bool) \<Rightarrow> nat \<Rightarrow> 'w \<Rightarrow>
    ('w, MiddlewareRequest) controller \<Rightarrow> bool" where
  "request_controller tries e lc q outside = ctl_reach lc q (sync_until tries q (request_handler e)) (resource_handlers q) outside"

definition configmap_controller :: "'w env \<Rightarrow> 'w lifecycle \<Rightarrow> ('w, ConfigMap) workqueue \<Rightarrow> ('w \<Rightarrow> 'w \<Rightarrow> bool) \<Rightarrow> nat \<Rightarrow> 'w \<Rightarrow>
    ('w, ConfigMap) controller \<Rightarrow> bool" where
  "configmap_controller e lc q outside = ctl_reach lc q
     (sync_or_requeue q (\<lambda>action cm. configmap_handler (envFs e) (cmData cm))) (resource_handlers_cm q) outside"

definition pgcluster_controller :: "nat \<Rightarrow> 'w env \<Rightarrow> (nat \<Rightarrow> ('w, byte list) op) \<Rightarrow> 'w lifecycle \<Rightarrow> ('w, PGCluster) workqueue \<Rightarrow>
    ('w \<Rightarrow> 'w \<Rightarrow> bool) \<Rightarrow> nat \<Rightarrow> 'w \<Rightarrow> ('w, PGCluster) controller \<Rightarrow> bool" where
  "pgcluster_controller polls e rnd lc q outside = ctl_reach lc q
     (sync_or_requeue q (pgcluster_handler polls (envK8s e) (envApr e) (envSql e) rnd)) (resource_handlers q) outside"

definition pgbackup_controller :: "nat \<Rightarrow> nat \<Rightarrow> string \<Rightarrow> 'w env \<Rightarrow> 'w lifecycle \<Rightarrow> ('w, PGClusterBackup) workqueue \<Rightarrow>
    ('w \<Rightarrow> 'w \<Rightarrow> bool) \<Rightarrow> nat \<Rightarrow> 'w \<Rightarrow> ('w, PGClusterBackup) controller \<Rightarrow> bool" where
  "pgbackup_controller m polls subPath e lc q outside = ctl_reach lc q (sync_or_requeue q (\<lambda>action backup.
     seqc (pgbackup_handler m polls subPath (envK8s e) (envApr e) (envFs e) action backup) (\<lambda>_. ret ()))) (resource_handlers q) outside"

definition pgrestore_controller :: "nat \<Rightarrow> 'w env \<Rightarrow> 'w lifecycle \<Rightarrow> ('w, PGClusterRestore) workqueue \<Rightarrow>
    ('w \<Rightarrow> 'w \<Rightarrow> bool) \<Rightarrow> nat \<Rightarrow> 'w \<Rightarrow> ('w, PGClusterRestore) controller \<Rightarrow> bool" where
  "pgrestore_controller polls e lc q outside = ctl_reach lc q (sync_or_requeue q (\<lambda>action restore.
     seqc (pgrestore_handler polls (envK8s e) (envApr e) action restore) (\<lambda>_. ret ()))) (resource_handlers q) outside"

definition redixcluster_controller :: "bool \<Rightarrow> nat \<Rightarrow> nat \<Rightarrow> 'w env \<Rightarrow> 'w lifecycle \<Rightarrow> ('w, RedixCluster) workqueue \<Rightarrow>
    ('w \<Rightarrow> 'w \<Rightarrow> bool) \<Rightarrow> nat \<Rightarrow> 'w \<Rightarrow> ('w, RedixCluster) controller \<Rightarrow> bool" where
  "redixcluster_controller zeroOnError steps polls e lc q outside = ctl_reach lc q
     (sync_or_requeue q (redixcluster_handler zeroOnError steps polls (envK8s e))) (resource_handlers q) outside"

definition kvbackup_controller :: "nat \<Rightarrow> 'w env \<Rightarrow> 'w kvapr \<Rightarrow> 'w lifecycle \<Rightarrow> ('w, KVRocksBackup) workqueue \<Rightarrow>
    ('w \<Rightarrow> 'w \<Rightarrow> bool) \<Rightarrow> nat \<Rightarrow> 'w \<Rightarrow> ('w, KVRocksBackup) controller \<Rightarrow> bool" where
  "kvbackup_controller polls e kv lc q outside = ctl_reach lc q
     (sync_or_requeue q (kvbackup_handler polls (envK8s e) (envApr e) kv (envFs e) (envRedis e))) (resource_handlers q) outside"

definition kvrestore_controller :: "nat \<Rightarrow> 'w env \<Rightarrow> 'w kvapr \<Rightarrow> 'w lifecycle \<Rightarrow> ('w, KVRocksRestore) workqueue \<Rightarrow>
    ('w \<Rightarrow> 'w \<Rightarrow> bool) \<Rightarrow> nat \<Rightarrow> 'w \<Rightarrow> ('w, KVRocksRestore) controller \<Rightarrow> bool" where
  "kvrestore_controller polls e kv lc q outside = ctl_reach lc q
     (sync_or_requeue q (kvrestore_handler polls (envK8s e) (envApr e) kv (envFs e))) (resource_handlers q) outside"

section \<open>What is owed\<close>

text \<open>The items that a handler still has to succeed on: those added after its last success.\<close>

fun owe :: "'o item set \<Rightarrow> 'o wq_call \<Rightarrow> 'o item set" where
  "owe I (WqAdd i) = insert i I"
| "owe I (Sync e good) = (if good then I - {Enqueued e} else I)"
| "owe I _ = I"

definition owed :: "'o wq_call list \<Rightarrow> 'o item set" where
  "owed cs = foldl owe {} cs"

lemma owed_Nil [simp]: "owed [] = {}"
  by (simp add: owed_def)

lemma owed_snoc [simp]: "owed (cs @ [c]) = owe (owed cs) c"
  by (simp add: owed_def)

lemma owed_append: "owed (cs @ ds) = foldl owe (owed cs) ds"
  by (simp add: owed_def)

lemma foldl_owe_failed [simp]: "foldl owe I (replicate k (Sync e False)) = I"
  by (induction k) simp_all

lemma foldl_owe_adds [simp]: "foldl owe I (map WqAdd is) = I \<union> set is"
  by (induction "is" arbitrary: I) auto

text \<open>The laws of the library: \<open>held\<close> are the items in the queue, those that wait for their delay included.
  Until the queue is shut down nothing that is added gets lost, and only taking an item removes it.\<close>

definition keeps :: "('w \<Rightarrow> 'o item set) \<Rightarrow> ('w \<Rightarrow> bool) \<Rightarrow> 'o item set \<Rightarrow> 'w \<Rightarrow> 'w \<Rightarrow> bool" where
  "keeps held shut I w w' \<longleftrightarrow> shut w' = shut w \<and> (\<not> shut w \<longrightarrow> held w \<union> I \<subseteq> held w')"

definition queue_laws :: "('w, 'o) workqueue \<Rightarrow> 'w lifecycle \<Rightarrow> ('w \<Rightarrow> 'w \<Rightarrow> bool) \<Rightarrow> ('w \<Rightarrow> 'o item set) \<Rightarrow> ('w \<Rightarrow> bool) \<Rightarrow> bool" where
  "queue_laws q lc outside held shut \<longleftrightarrow>
     (\<forall>w i w'. wqGet q w = (Some i, w') \<longrightarrow> shut w' = shut w \<and> (\<not> shut w \<longrightarrow> held w \<subseteq> insert i (held w'))) \<and>
     (\<forall>w w'. wqGet q w = (None, w') \<longrightarrow> keeps held shut {} w w') \<and>
     (\<forall>w i. keeps held shut {i} w (wqAdd q i w)) \<and>
     (\<forall>w i. keeps held shut {i} w (wqAddRateLimited q i w)) \<and>
     (\<forall>w i n. keeps held shut {i} w (wqAddAfter q i n w)) \<and>
     (\<forall>w i. keeps held shut {} w (wqDone q i w)) \<and>
     (\<forall>w i. keeps held shut {} w (wqForget q i w)) \<and>
     (\<forall>w. keeps held shut {} w (lcStart lc w)) \<and>
     (\<forall>w. shut (lcFactoryShutdown lc (lcShutDown lc w))) \<and>
     (\<forall>w w'. outside w w' \<longrightarrow> keeps held shut {} w w')"

text \<open>A handler leaves the queue of its controller alone.\<close>

definition spares :: "(Action \<Rightarrow> 'o \<Rightarrow> ('w, unit) prog) \<Rightarrow> ('w \<Rightarrow> 'o item set) \<Rightarrow> ('w \<Rightarrow> bool) \<Rightarrow> bool" where
  "spares handler held shut \<longleftrightarrow> (\<forall>a x w. keeps held shut {} w (snd (as_op (handler a x) w)))"

lemma keeps_trans: "keeps held shut I w w1 \<Longrightarrow> keeps held shut J w1 w2 \<Longrightarrow> keeps held shut (I \<union> J) w w2"
  by (auto simp: keeps_def)

lemma keeps_trans_empty:
  "keeps held shut I w w1 \<Longrightarrow> keeps held shut {} w1 w2 \<Longrightarrow> keeps held shut I w w2"
  "keeps held shut {} w w1 \<Longrightarrow> keeps held shut I w1 w2 \<Longrightarrow> keeps held shut I w w2"
  using keeps_trans [of held shut I w w1 "{}" w2] keeps_trans [of held shut "{}" w w1 I w2] by simp_all

lemma keeps_refl [simp]: "keeps held shut {} w w"
  by (simp add: keeps_def)

lemma queue_lawsD:
  assumes "queue_laws q lc outside held shut"
  shows "wqGet q w = (Some i, w') \<Longrightarrow> shut w' = shut w" "wqGet q w = (Some i, w') \<Longrightarrow> \<not> shut w \<Longrightarrow> held w \<subseteq> insert i (held w')"
    "wqGet q w = (None, w') \<Longrightarrow> keeps held shut {} w w'"
    "keeps held shut {i} w (wqAdd q i w)" "keeps held shut {i} w (wqAddRateLimited q i w)" "keeps held shut {i} w (wqAddAfter q i n w)"
    "keeps held shut {} w (wqDone q i w)" "keeps held shut {} w (wqForget q i w)" "keeps held shut {} w (lcStart lc w)"
    "shut (lcFactoryShutdown lc (lcShutDown lc w))" "outside w w' \<Longrightarrow> keeps held shut {} w w'"
  using assms by (simp_all add: queue_laws_def)


section \<open>The invariant of a controller\<close>

definition added :: "'o wq_call \<Rightarrow> 'o item option" where
  "added c = (case c of WqAdd i \<Rightarrow> Some i | _ \<Rightarrow> None)"

definition handled :: "'o wq_call \<Rightarrow> bool" where
  "handled c \<longleftrightarrow> (case c of Sync _ _ \<Rightarrow> True | _ \<Rightarrow> False)"

lemma added_simps [simp]:
  "added (WqAdd i) = Some i" "added WqGet = None" "added (WqDone i) = None" "added (WqForget i) = None"
  "added (WqAddRateLimited i) = None" "added (WqAddAfter i n) = None" "added (Sync e good) = None"
  by (simp_all add: added_def)

lemma handled_simps [simp]:
  "\<not> handled (WqAdd i)" "handled (Sync e good)"
  by (simp_all add: handled_def)

lemma owed_added: "owed cs \<subseteq> set (events added cs)"
proof (induction cs rule: rev_induct)
  case (snoc c cs)
  then show ?case by (cases c) auto
qed simp

lemma events_adds [simp]: "events added (map WqAdd is) = is"
  by (induction "is") simp_all

lemma events_failed [simp]: "events added (replicate k (Sync e good)) = []"
  by (induction k) simp_all

text \<open>Before the workers start, and when they never start, no handler has run; \<open>Run\<close> returns only after the context
  has ended, with the queue shut down.\<close>

definition before_work :: "run_phase \<Rightarrow> bool" where
  "before_work p \<longleftrightarrow> (case p of Created \<Rightarrow> True | Syncing \<Rightarrow> True | Working \<Rightarrow> False | Ended r \<Rightarrow> r \<noteq> Val ())"

definition ctl_inv :: "('w \<Rightarrow> 'o item set) \<Rightarrow> ('w \<Rightarrow> bool) \<Rightarrow> ('o informer_event \<Rightarrow> 'o item list) \<Rightarrow> ('w, 'o) controller \<Rightarrow> bool" where
  "ctl_inv held shut items c \<longleftrightarrow>
     events added (ctCalls c) = concat (map items (ctEvents c)) \<and>
     (\<not> shut (ctWorld c) \<longrightarrow> owed (ctCalls c) \<subseteq> held (ctWorld c) \<union> set (ctTaken c)) \<and>
     (before_work (ctPhase c) \<longrightarrow> ctWaiting c = 0 \<and> ctTaken c = [] \<and> list_all (\<lambda>c. \<not> handled c) (ctCalls c)) \<and>
     (\<forall>r. ctPhase c = Ended r \<longrightarrow> ctCancelled c \<and> shut (ctWorld c))"

text \<open>What a controller relies on: an attempt at an item ends with a success or puts the item back, and the handler
  of an event adds the items of the event to the queue.\<close>

locale controller_run =
  fixes q :: "('w, 'o) workqueue"
    and handler :: "Action \<Rightarrow> 'o \<Rightarrow> ('w, unit) prog"
    and sync :: "'o enqueueObj \<Rightarrow> ('w, 'o, unit) worker"
    and handlers :: "'o informer_event \<Rightarrow> ('w, 'o, unit) worker"
    and items :: "'o informer_event \<Rightarrow> 'o item list"
  assumes attempt: "queue_laws q lc outside held shut \<Longrightarrow> spares handler held shut \<Longrightarrow>
      sync e (w, cs) = (r, (w', cs')) \<Longrightarrow> returned r \<Longrightarrow>
      (r = Val () \<and> (\<exists>k. cs' = cs @ replicate k (Sync e False) @ [Sync e True]) \<and> keeps held shut {} w w') \<or>
      ((\<exists>err. r = Err err) \<and> (\<exists>c\<in>{WqAddRateLimited (Enqueued e), WqAddAfter (Enqueued e) 5}. cs' = cs @ [Sync e False, c]) \<and>
        keeps held shut {Enqueued e} w w')"
    and delivered: "handlers ev (w, cs) = (r, (w', cs')) \<Longrightarrow> w' = fold (wqAdd q) (items ev) w \<and> cs' = cs @ map WqAdd (items ev)"
    and enqueued: "ForeignItem \<notin> set (items ev)"
begin

lemma adds_keep:
  assumes "queue_laws q lc outside held shut"
  shows "keeps held shut (set is) w (fold (wqAdd q) is w)"
proof (induction "is" arbitrary: w)
  case (Cons i "is")
  from keeps_trans [OF queue_lawsD(4) [OF assms] Cons] show ?case by simp
qed simp

lemma settle:
  assumes laws: "queue_laws q lc outside held shut" and h: "spares handler held shut"
    and run: "process_item q sync i (w, cs) = (Val (), (w', cs'))"
  shows "events added cs' = events added cs \<and> shut w' = shut w \<and>
    (\<not> shut w \<longrightarrow> held w \<subseteq> held w' \<and> owed cs' \<subseteq> owed cs \<and> (i \<in> owed cs' \<longrightarrow> i = ForeignItem \<or> i \<in> held w'))"
proof (cases i)
  case ForeignItem
  with run have "w' = wqDone q i (wqForget q i w)" "cs' = cs @ [WqForget i] @ [WqDone i]"
    by (auto simp: process_item_def ignorec_def deferc_def wq_def io_defs)
  moreover have "keeps held shut {} w (wqDone q i (wqForget q i w))"
    by (rule keeps_trans_empty [OF queue_lawsD(8) [OF laws] queue_lawsD(7) [OF laws]])
  ultimately show ?thesis using ForeignItem by (simp add: keeps_def owed_append)
next
  case (Enqueued e)
  obtain r w1 cs1 where s: "sync e (w, cs) = (r, (w1, cs1))" by (metis prod_cases3)
  have "returned r" using run Enqueued s
    by (cases r) (auto simp: process_item_def ignorec_def deferc_def wq_def io_defs)
  from attempt [OF laws h s this] show ?thesis
  proof (elim disjE conjE exE bexE)
    fix k
    assume r: "r = Val ()" and cs1: "cs1 = cs @ replicate k (Sync e False) @ [Sync e True]" and keep: "keeps held shut {} w w1"
    have "w' = wqDone q i (wqForget q i w1)" "cs' = cs1 @ [WqForget i] @ [WqDone i]"
      using run Enqueued s r by (auto simp: process_item_def ignorec_def deferc_def wq_def io_defs)
    moreover have "keeps held shut {} w (wqDone q i (wqForget q i w1))"
      by (rule keeps_trans_empty [OF keep keeps_trans_empty(1) [OF queue_lawsD(8) [OF laws] queue_lawsD(7) [OF laws]]])
    ultimately show ?thesis using Enqueued cs1 by (auto simp: keeps_def owed_append)
  next
    fix err c
    assume r: "r = Err err" and c: "c \<in> {WqAddRateLimited (Enqueued e), WqAddAfter (Enqueued e) 5}"
      and cs1: "cs1 = cs @ [Sync e False, c]" and keep: "keeps held shut {Enqueued e} w w1"
    have "w' = wqDone q i w1" "cs' = cs1 @ [WqDone i]"
      using run Enqueued s r by (auto simp: process_item_def ignorec_def deferc_def wq_def io_defs)
    moreover have "keeps held shut {i} w (wqDone q i w1)"
      using keeps_trans_empty(1) [OF keep queue_lawsD(7) [OF laws]] Enqueued by simp
    ultimately show ?thesis using Enqueued cs1 c by (auto simp: keeps_def owed_append)
  qed
qed

lemma step_keeps_inv:
  assumes laws: "queue_laws q lc outside held shut" and h: "spares handler held shut"
    and step: "ctl_step lc q sync handlers outside workers c c'" and inv: "ctl_inv held shut items c"
  shows "ctl_inv held shut items c'"
  using step
proof cases
  case ctl_start
  with inv queue_lawsD(9) [OF laws, of "ctWorld c"] show ?thesis
    by (auto simp: ctl_inv_def Run_start_def before_work_def keeps_def)
next
  case (ctl_synced good)
  with inv queue_lawsD(10) [OF laws] show ?thesis
    by (auto simp: ctl_inv_def Run_synced_def Run_return_def before_work_def)
next
  case (ctl_event ev w cs)
  then have w: "w = fold (wqAdd q) (items ev) (ctWorld c)" and cs: "cs = ctCalls c @ map WqAdd (items ev)"
    using delivered [of ev "ctWorld c" "ctCalls c"] by auto
  have "keeps held shut (set (items ev)) (ctWorld c) w"
    unfolding w by (rule adds_keep [OF laws])
  with ctl_event inv cs show ?thesis
    by (auto simp: ctl_inv_def keeps_def owed_append list_all_iff)
next
  case ctl_take
  with inv queue_lawsD(1-3) [OF laws, of "ctWorld c"] show ?thesis
    by (auto simp: ctl_inv_def take_item_def keeps_def split: prod.splits option.splits)
next
  case (ctl_settle i w cs)
  have "ForeignItem \<notin> owed (ctCalls c)"
    using inv owed_added [of "ctCalls c"] enqueued unfolding ctl_inv_def by auto
  moreover have "before_work (ctPhase c) \<Longrightarrow> False"
    using inv ctl_settle(2) unfolding ctl_inv_def by auto
  moreover have "x \<in> set (remove1 i (ctTaken c))" if "x \<in> set (ctTaken c)" "x \<noteq> i" for x
    using that by (simp add: in_set_remove1)
  ultimately show ?thesis
    using ctl_settle(1) settle [OF laws h ctl_settle(3)] inv unfolding ctl_inv_def by (simp, blast)
next
  case ctl_cancel
  with inv show ?thesis by (simp add: ctl_inv_def Cancel_def)
next
  case ctl_done
  with inv queue_lawsD(10) [OF laws] show ?thesis
    by (auto simp: ctl_inv_def Run_done_def Run_return_def before_work_def)
next
  case (ctl_outside w)
  with inv queue_lawsD(11) [OF laws, of "ctWorld c" w] show ?thesis
    by (auto simp: ctl_inv_def keeps_def)
qed

lemma reach_inv:
  assumes laws: "queue_laws q lc outside held shut" and h: "spares handler held shut"
    and "ctl_reach lc q sync handlers outside workers w0 c"
  shows "ctl_inv held shut items c"
  using assms(3) unfolding ctl_reach_def
proof (induction rule: rtranclp_induct)
  case base
  then show ?case by (simp add: ctl_inv_def NewController_def)
next
  case (step c c')
  then show ?case using step_keeps_inv [OF laws h] by blast
qed

end

section \<open>The controllers\<close>

definition event_items :: "'o informer_event \<Rightarrow> 'o item list" where
  "event_items ev = (case ev of
      OnAdd obj \<Rightarrow> [Enqueued \<lparr>eqAction = ADD, eqObj = obj\<rparr>]
    | OnUpdate old new \<Rightarrow> [Enqueued \<lparr>eqAction = UPDATE, eqObj = new\<rparr>]
    | OnDelete obj \<Rightarrow> [Enqueued \<lparr>eqAction = DELETE, eqObj = obj\<rparr>])"

definition config_items :: "ConfigMap informer_event \<Rightarrow> ConfigMap item list" where
  "config_items ev = (case ev of
      OnAdd (Object cm) \<Rightarrow> if cmName cm = ''nats-config'' then [Enqueued \<lparr>eqAction = ADD, eqObj = Object cm\<rparr>] else []
    | _ \<Rightarrow> [])"

lemma resource_handlers_adds:
  "resource_handlers q ev (w, cs) = (r, (w', cs')) \<Longrightarrow>
     w' = fold (wqAdd q) (event_items ev) w \<and> cs' = cs @ map WqAdd (event_items ev)"
  by (cases ev) (auto simp: resource_handlers_def event_items_def handleAddObject_def handleUpdateObject_def handleDeleteObject_def
      enqueue_def wq_def call_def)

lemma resource_handlers_cm_adds:
  "resource_handlers_cm q ev (w, cs) = (r, (w', cs')) \<Longrightarrow>
     w' = fold (wqAdd q) (config_items ev) w \<and> cs' = cs @ map WqAdd (config_items ev)"
  by (auto simp: resource_handlers_cm_def config_items_def handleAddObject_cm_def handleUpdateObject_cm_def enqueue_def wq_def call_def
      ret_def split: informer_event.splits informer_obj.splits if_splits)

lemma items_enqueued: "ForeignItem \<notin> set (event_items ev)" "ForeignItem \<notin> set (config_items ev')"
  by (auto simp: event_items_def config_items_def split: informer_event.splits informer_obj.splits)

lemma sync_spared:
  assumes "spares handler held shut" "syncHandler handler e (w, cs) = (r, (w', cs'))"
  shows "cs' = cs @ [Sync e (r = Val ())] \<and> keeps held shut {} w w'"
proof (cases "eqObj e")
  case (Object x)
  have "keeps held shut {} w (snd (as_op (handler (eqAction e) x) w))" using assms(1) by (simp add: spares_def)
  then show ?thesis using assms(2) Object by (auto simp: syncHandler_def split: prod.splits)
next
  case (DeletedFinalStateUnknown key)
  then show ?thesis using assms(2) by (auto simp: syncHandler_def as_op_def fail_def)
qed

lemma sync_or_requeue_attempt:
  assumes laws: "queue_laws q lc outside held shut" and h: "spares handler held shut"
    and run: "sync_or_requeue q handler e (w, cs) = (r, (w', cs'))" and "returned r"
  shows "(r = Val () \<and> cs' = cs @ [Sync e True] \<and> keeps held shut {} w w') \<or>
    ((\<exists>err. r = Err err) \<and> cs' = cs @ [Sync e False, WqAddRateLimited (Enqueued e)] \<and> keeps held shut {Enqueued e} w w')"
proof -
  obtain r1 w1 cs1 where s: "syncHandler handler e (w, cs) = (r1, (w1, cs1))" by (metis prod_cases3)
  note k = sync_spared [OF h s]
  show ?thesis
  proof (cases r1)
    case (Err err)
    then have "r = Err err" "w' = wqAddRateLimited q (Enqueued e) w1" "cs' = cs1 @ [WqAddRateLimited (Enqueued e)]"
      using run s by (auto simp: sync_or_requeue_def wq_def io_defs)
    moreover have "keeps held shut {Enqueued e} w (wqAddRateLimited q (Enqueued e) w1)"
      using keeps_trans_empty(2) [OF _ queue_lawsD(5) [OF laws]] k by blast
    ultimately show ?thesis using k Err by simp
  qed (use run s k assms(4) in \<open>auto simp: sync_or_requeue_def io_defs\<close>)
qed

lemma sync_until_attempt:
  assumes laws: "queue_laws q lc outside held shut" and h: "spares handler held shut"
    and "sync_until n q handler e (w, cs) = (r, (w', cs'))" and "returned r"
  shows "(r = Val () \<and> (\<exists>k. cs' = cs @ replicate k (Sync e False) @ [Sync e True]) \<and> keeps held shut {} w w') \<or>
    ((\<exists>err. r = Err err) \<and> eqAction e \<noteq> DELETE \<and> cs' = cs @ [Sync e False, WqAddAfter (Enqueued e) 5] \<and> keeps held shut {Enqueued e} w w')"
  using assms(3)
proof (induction n arbitrary: w cs)
  case 0
  then show ?case using assms(4) by (auto simp: looping_def)
next
  case (Suc n)
  obtain r1 w1 cs1 where s: "syncHandler handler e (w, cs) = (r1, (w1, cs1))" by (metis prod_cases3)
  note k = sync_spared [OF h s]
  consider (good) "r1 = Val ()" | (retry) err where "r1 = Err err" "eqAction e = DELETE"
    | (requeue) err where "r1 = Err err" "eqAction e \<noteq> DELETE"
    using Suc.prems s assms(4) by (cases r1) (auto simp: tryc_def)
  then show ?case
  proof cases
    case good
    then show ?thesis using Suc.prems s k by (auto simp: tryc_def ret_def intro!: exI [of _ 0])
  next
    case retry
    then have "sync_until n q handler e (w1, cs1) = (r, (w', cs'))" using Suc.prems s by (simp add: tryc_def)
    from Suc.IH [OF this] obtain k' where "r = Val ()" "cs' = cs1 @ replicate k' (Sync e False) @ [Sync e True]" "keeps held shut {} w1 w'"
      using retry by auto
    then show ?thesis using k retry keeps_trans_empty(1) [of held shut "{}" w w1 w']
      by (auto intro!: exI [of _ "Suc k'"])
  next
    case requeue
    then have "r = Err err" "w' = wqAddAfter q (Enqueued e) 5 w1" "cs' = cs1 @ [WqAddAfter (Enqueued e) 5]"
      using Suc.prems s by (auto simp: wq_def io_defs)
    moreover have "keeps held shut {Enqueued e} w (wqAddAfter q (Enqueued e) 5 w1)"
      using keeps_trans_empty(2) [OF _ queue_lawsD(6) [OF laws]] k by blast
    ultimately show ?thesis using k requeue by simp
  qed
qed

interpretation usual_run: controller_run q handler "sync_or_requeue q handler" "resource_handlers q" event_items for q handler
proof (unfold_locales, goal_cases)
  case (1 lc outside held shut e w cs r w' cs')
  from sync_or_requeue_attempt [OF this] show ?case by (auto intro!: exI [of _ 0])
qed (simp_all add: resource_handlers_adds items_enqueued)

interpretation request_run: controller_run q handler "sync_until n q handler" "resource_handlers q" event_items for n q handler
proof (unfold_locales, goal_cases)
  case (1 lc outside held shut e w cs r w' cs')
  from sync_until_attempt [OF this] show ?case by auto
qed (simp_all add: resource_handlers_adds items_enqueued)

interpretation config_run: controller_run q handler "sync_or_requeue q handler" "resource_handlers_cm q" config_items for q handler
proof (unfold_locales, goal_cases)
  case (1 lc outside held shut e w cs r w' cs')
  from sync_or_requeue_attempt [OF this] show ?case by (auto intro!: exI [of _ 0])
qed (simp_all add: resource_handlers_cm_adds items_enqueued)


text \<open>The invariant for the controllers of the operator.\<close>

lemma request_controller_inv:
  "queue_laws q lc outside held shut \<Longrightarrow> spares (request_handler e) held shut \<Longrightarrow>
     request_controller tries e lc q outside workers w c \<Longrightarrow> ctl_inv held shut event_items c"
  unfolding request_controller_def by (rule request_run.reach_inv)

lemma configmap_controller_inv:
  "queue_laws q lc outside held shut \<Longrightarrow> spares (\<lambda>action cm. configmap_handler (envFs e) (cmData cm)) held shut \<Longrightarrow>
     configmap_controller e lc q outside workers w c \<Longrightarrow> ctl_inv held shut config_items c"
  unfolding configmap_controller_def by (rule config_run.reach_inv)

lemma pgcluster_controller_inv:
  "queue_laws q lc outside held shut \<Longrightarrow> spares (pgcluster_handler polls (envK8s e) (envApr e) (envSql e) rnd) held shut \<Longrightarrow>
     pgcluster_controller polls e rnd lc q outside workers w c \<Longrightarrow> ctl_inv held shut event_items c"
  unfolding pgcluster_controller_def by (rule usual_run.reach_inv)

lemma redixcluster_controller_inv:
  "queue_laws q lc outside held shut \<Longrightarrow> spares (redixcluster_handler zeroOnError steps polls (envK8s e)) held shut \<Longrightarrow>
     redixcluster_controller zeroOnError steps polls e lc q outside workers w c \<Longrightarrow> ctl_inv held shut event_items c"
  unfolding redixcluster_controller_def by (rule usual_run.reach_inv)

text \<open>C26. No event is lost on its way from the informer to the handler, however the goroutines of a controller
  interleave. In every reachable state the items added to the queue are those of the delivered events, in order, each
  with its action and the new object; until the queue is shut down, an item on which the handler has not succeeded
  since its event is in the queue or in the hands of a worker; no handler runs before the caches are synchronised;
  and \<open>Run\<close> returns only after the context was cancelled, with the queue shut down.\<close>

theorem no_event_lost:
  assumes "queue_laws q lc outside held shut" "spares handler held shut"
    and "ctl_reach lc q (sync_until tries q handler) (resource_handlers q) outside workers w0 c \<or>
      ctl_reach lc q (sync_or_requeue q handler) (resource_handlers q) outside workers w0 c"
  shows "events added (ctCalls c) = concat (map event_items (ctEvents c)) \<and>
    (\<not> shut (ctWorld c) \<longrightarrow> owed (ctCalls c) \<subseteq> held (ctWorld c) \<union> set (ctTaken c)) \<and>
    (ctPhase c \<in> {Created, Syncing} \<longrightarrow> list_all (\<lambda>call. \<not> handled call) (ctCalls c)) \<and>
    (\<forall>r. ctPhase c = Ended r \<longrightarrow> ctCancelled c \<and> shut (ctWorld c) \<and> (r \<noteq> Val () \<longrightarrow> list_all (\<lambda>call. \<not> handled call) (ctCalls c)))"
proof -
  have "ctl_inv held shut event_items c"
    using assms(3) request_run.reach_inv [OF assms(1,2)] usual_run.reach_inv [OF assms(1,2)] by blast
  then show ?thesis unfolding ctl_inv_def by (auto simp: before_work_def)
qed

text \<open>A queue that holds its items in a list until it is shut down, and a handler that succeeds on the first of two
  additions and fails on the second one.\<close>

type_synonym list_world = "ConfigMap item list \<times> bool"

definition append_item :: "ConfigMap item \<Rightarrow> list_world \<Rightarrow> list_world" where
  "append_item i w = (if snd w then w else (fst w @ [i], False))"

definition holding_queue :: "(list_world, ConfigMap) workqueue" where
  "holding_queue = \<lparr>wqGet = (\<lambda>w. case fst w of [] \<Rightarrow> (None, w) | i # is \<Rightarrow> (Some i, (is, snd w))), wqAdd = append_item,
     wqDone = (\<lambda>_ w. w), wqForget = (\<lambda>_ w. w), wqAddRateLimited = append_item, wqAddAfter = (\<lambda>i _. append_item i)\<rparr>"

definition holding_lc :: "list_world lifecycle" where
  "holding_lc = \<lparr>lcStart = (\<lambda>w. w), lcShutDown = (\<lambda>w. (fst w, True)), lcFactoryShutdown = (\<lambda>w. w)\<rparr>"

definition needs_data :: "Action \<Rightarrow> ConfigMap \<Rightarrow> (list_world, unit) prog" where
  "needs_data action cm = (if cmData cm = [] then fail (Failure ''nats.conf not found in configmap data'') else ret ())"

definition cm_obj :: "(string \<times> string) list \<Rightarrow> ConfigMap informer_obj" where
  "cm_obj data = Object \<lparr>cmName = ''nats-config'', cmData = data\<rparr>"

lemma cm_item_obj: "Enqueued \<lparr>eqAction = ADD, eqObj = cm_obj data\<rparr> = cm_item data"
  by (simp add: cm_item_def cm_obj_def)

definition run_example :: "(list_world, ConfigMap) controller" where
  "run_example = \<lparr>ctWorld = ([cm_item []], False),
     ctCalls = [WqAdd (cm_item [(''nats.conf'', ''port: 4222'')]), WqAdd (cm_item []), WqGet,
       Sync \<lparr>eqAction = ADD, eqObj = cm_obj [(''nats.conf'', ''port: 4222'')]\<rparr> True,
       WqForget (cm_item [(''nats.conf'', ''port: 4222'')]), WqDone (cm_item [(''nats.conf'', ''port: 4222'')])],
     ctPhase = Working, ctWaiting = 1, ctTaken = [], ctCancelled = False,
     ctEvents = [OnAdd (cm_obj [(''nats.conf'', ''port: 4222'')]), OnAdd (cm_obj [])]\<rparr>"

lemma run_example_reached:
  "ctl_reach holding_lc holding_queue (sync_or_requeue holding_queue needs_data) (resource_handlers holding_queue) (=) 1 ([], False) run_example"
proof -
  let ?step = "ctl_step holding_lc holding_queue (sync_or_requeue holding_queue needs_data) (resource_handlers holding_queue) (=) 1"
  let ?a = "cm_item [(''nats.conf'', ''port: 4222'')]" and ?b = "cm_item []"
  let ?c0 = "NewController ([], False) :: (list_world, ConfigMap) controller"
  let ?c1 = "?c0\<lparr>ctPhase := Syncing\<rparr>"
  let ?c2 = "?c1\<lparr>ctWorld := ([?a], False), ctCalls := [WqAdd ?a], ctEvents := [OnAdd (cm_obj [(''nats.conf'', ''port: 4222'')])]\<rparr>"
  let ?c3 = "?c2\<lparr>ctWorld := ([?a, ?b], False), ctCalls := [WqAdd ?a, WqAdd ?b], ctEvents := ctEvents run_example\<rparr>"
  let ?c4 = "?c3\<lparr>ctPhase := Working, ctWaiting := 1\<rparr>"
  let ?c5 = "?c4\<lparr>ctWorld := ([?b], False), ctCalls := [WqAdd ?a, WqAdd ?b, WqGet], ctTaken := [?a], ctWaiting := 0\<rparr>"
  note defs = NewController_def holding_queue_def holding_lc_def append_item_def resource_handlers_def handleAddObject_def enqueue_def
    wq_def io_defs cm_item_obj run_example_def
  have "?step ?c0 ?c1" using ctl_start [of ?c0 holding_lc] by (simp add: defs Run_start_def)
  moreover have "?step ?c1 ?c2"
    using ctl_event [of ?c1 "resource_handlers holding_queue" "OnAdd (cm_obj [(''nats.conf'', ''port: 4222'')])" "([?a], False)" "[WqAdd ?a]"]
    by (simp add: defs)
  moreover have "?step ?c2 ?c3"
    using ctl_event [of ?c2 "resource_handlers holding_queue" "OnAdd (cm_obj [])" "([?a, ?b], False)" "[WqAdd ?a, WqAdd ?b]"]
    by (simp add: defs)
  moreover have "?step ?c3 ?c4" using ctl_synced [of ?c3 True holding_lc _ _ _ _ 1] by (simp add: defs Run_synced_def)
  moreover have "?step ?c4 ?c5" using ctl_take [of ?c4 holding_lc holding_queue] by (simp add: defs take_item_def)
  moreover have "process_item holding_queue (sync_or_requeue holding_queue needs_data) ?a (ctWorld ?c5, ctCalls ?c5) =
      (Val (), (ctWorld run_example, ctCalls run_example))"
    by (simp add: defs process_item_def sync_or_requeue_def syncHandler_def as_op_def needs_data_def ignorec_def deferc_def
        cm_item_def cm_obj_def)
  then have "?step ?c5 run_example"
    using ctl_settle [of ?a ?c5 holding_queue "sync_or_requeue holding_queue needs_data"] by (simp add: defs)
  ultimately show ?thesis unfolding ctl_reach_def
    by (meson rtranclp.rtrancl_into_rtrancl rtranclp.rtrancl_refl)
qed

theorem no_event_lost_witness:
  "cm_item [] \<in> owed (ctCalls run_example) \<and> cm_item [(''nats.conf'', ''port: 4222'')] \<notin> owed (ctCalls run_example) \<and>
   owed (ctCalls run_example) \<subseteq> set (fst (ctWorld run_example)) \<union> set (ctTaken run_example)"
proof -
  have laws: "queue_laws holding_queue holding_lc (=) (\<lambda>w. set (fst w)) snd"
    by (auto simp: queue_laws_def keeps_def holding_queue_def holding_lc_def append_item_def split: list.splits)
  have handler: "spares needs_data (\<lambda>w. set (fst w)) snd"
    by (simp add: spares_def as_op_def needs_data_def fail_def ret_def)
  show ?thesis
    using no_event_lost [OF laws handler disjI2 [OF run_example_reached]]
    by (simp add: run_example_def owed_def cm_item_def cm_obj_def)
qed

end
