(* ===== verification/Programs.thy ===== *)
theory Programs
  imports Controller_Run
begin

text \<open>The programs: the handler of the termination signals (\<open>pkg/signals/signal.go\<close>), the middleware operator
  (\<open>cmd/middleware/main.go\<close>), which runs eight controllers next to an HTTP server, and the system event watcher
  (\<open>cmd/sys-event/main.go\<close>). Their goroutines share a context and a channel; the models are step relations in which
  any goroutine may be the next to move.\<close>

datatype ending = Exit nat | Crash string

section \<open>Signals (signal.go)\<close>

text \<open>The goroutine waits for a signal or for the end of the context; after a first signal it waits for a second one.
  The channel of the signals has room for two, further ones are dropped; \<open>sgCount\<close> counts all that were sent.\<close>

datatype handler_phase = AwaitSignal | AwaitSecond

record signal_state =
  sgQueued :: nat
  sgCount :: nat
  sgStop :: bool
  sgCancelled :: bool
  sgPhase :: handler_phase

definition SetupSignalHandler :: signal_state where
  "SetupSignalHandler = \<lparr>sgQueued = 0, sgCount = 0, sgStop = False, sgCancelled = False, sgPhase = AwaitSignal\<rparr>"

definition send_signal :: "signal_state \<Rightarrow> signal_state" where
  "send_signal g = g\<lparr>sgQueued := min 2 (Suc (sgQueued g)), sgCount := Suc (sgCount g)\<rparr>"

text \<open>Closing a closed channel panics.\<close>

definition close_stop :: "signal_state \<Rightarrow> ending + signal_state" where
  "close_stop g = (if sgStop g then Inl (Crash ''close of closed channel'') else Inr (g\<lparr>sgStop := True\<rparr>))"

definition first_signal :: "signal_state \<Rightarrow> ending + signal_state" where
  "first_signal g = (case close_stop g of
      Inl e \<Rightarrow> Inl e
    | Inr g \<Rightarrow> Inr (g\<lparr>sgQueued := sgQueued g - 1, sgCancelled := True, sgPhase := AwaitSecond\<rparr>))"

definition context_done :: "signal_state \<Rightarrow> ending + signal_state" where
  "context_done g = (case close_stop g of Inl e \<Rightarrow> Inl e | Inr g \<Rightarrow> Inl (Exit 1))"

inductive signal_step :: "signal_state \<Rightarrow> ending + signal_state \<Rightarrow> bool" where
  signal_sent: "signal_step g (Inr (send_signal g))"
| signal_first: "sgPhase g = AwaitSignal \<Longrightarrow> 0 < sgQueued g \<Longrightarrow> signal_step g (first_signal g)"
| signal_second: "sgPhase g = AwaitSecond \<Longrightarrow> 0 < sgQueued g \<Longrightarrow> signal_step g (Inl (Exit 1))"
| signal_context: "sgPhase g = AwaitSignal \<Longrightarrow> sgCancelled g \<Longrightarrow> signal_step g (context_done g)"

text \<open>As long as only the handler cancels the context, it has seen a signal when the context ends, and the channel is
  closed once.\<close>

definition signals_ok :: "signal_state \<Rightarrow> bool" where
  "signals_ok g \<longleftrightarrow> sgStop g = (sgPhase g = AwaitSecond) \<and> (sgCancelled g \<longrightarrow> sgPhase g = AwaitSecond) \<and>
     sgQueued g + (if sgPhase g = AwaitSecond then 1 else 0) \<le> sgCount g"

lemma signals_ok_init [simp]: "signals_ok SetupSignalHandler"
  by (simp add: signals_ok_def SetupSignalHandler_def)

lemma signals_ok_cancel: "signals_ok g \<Longrightarrow> sgStop g \<Longrightarrow> signals_ok (g\<lparr>sgCancelled := True\<rparr>)"
  by (auto simp: signals_ok_def)

lemma signal_step_ok:
  assumes "signal_step g r" "signals_ok g"
  shows "(\<exists>g'. r = Inr g' \<and> signals_ok g' \<and> sgCount g \<le> sgCount g' \<and> (sgStop g \<longrightarrow> sgStop g')) \<or> (r = Inl (Exit 1) \<and> 2 \<le> sgCount g)"
  using assms
  by cases (auto simp: signals_ok_def send_signal_def first_signal_def close_stop_def)

section \<open>The controllers seen from the program\<close>

text \<open>How \<open>Run\<close> of a controller proceeds, by its phases.\<close>

inductive run_step :: "bool \<Rightarrow> run_phase \<Rightarrow> run_phase \<Rightarrow> bool" where
  run_starts: "run_step cancelled Created Syncing"
| run_works: "run_step cancelled Syncing Working"
| run_fails: "run_step True Syncing (Ended (Err (Failure ''failed to wait for caches to sync'')))"
| run_ends: "run_step True Working (Ended (Val ()))"

inductive_cases run_stepE: "run_step cancelled p p'"

text \<open>The controllers refine this: each of their steps is one of these or leaves the phase as it is.\<close>

lemma ctl_step_phase:
  assumes "ctl_step lc q sync handlers outside workers c c'"
  shows "ctPhase c' = ctPhase c \<or> run_step (ctCancelled c) (ctPhase c) (ctPhase c')"
  using assms
proof cases
  case (ctl_synced good)
  then show ?thesis by (cases good) (auto simp: Run_synced_def Run_return_def intro: run_step.intros)
next
  case ctl_take
  then show ?thesis by (simp add: take_item_def split: prod.splits option.splits)
qed (auto simp: Run_start_def Run_done_def Run_return_def Cancel_def intro: run_step.intros)

section \<open>The middleware operator (cmd/middleware/main.go)\<close>

text \<open>The HTTP server, as far as \<open>ServerRun\<close> has come. \<open>Closed\<close> is after the return of \<open>Listen\<close>, and \<open>Returned\<close> after
  \<open>main\<close> has cancelled the context.\<close>

datatype server_phase = Starting | Serving | Closed | Returned

record operator =
  opSignals :: signal_state
  opRuns :: "run_phase list"
  opStopper :: bool
  opServer :: server_phase
  opEnd :: "ending option"

text \<open>The eight controllers, in the order of \<open>runControllers\<close>; \<open>opStopper\<close> is the goroutine that waits for the stop
  channel to shut the server down.\<close>

definition operator_main :: operator where
  "operator_main = \<lparr>opSignals = SetupSignalHandler, opRuns = replicate 8 Created, opStopper = True, opServer = Starting, opEnd = None\<rparr>"

definition with_signals :: "operator \<Rightarrow> ending + signal_state \<Rightarrow> operator" where
  "with_signals s r = (case r of Inl e \<Rightarrow> s\<lparr>opEnd := Some e\<rparr> | Inr g \<Rightarrow> s\<lparr>opSignals := g\<rparr>)"

text \<open>\<open>utilruntime.Must\<close> panics on the error of a controller.\<close>

definition must_run :: "nat \<Rightarrow> run_phase \<Rightarrow> operator \<Rightarrow> operator" where
  "must_run i p s = (let s = s\<lparr>opRuns := (opRuns s)[i := p]\<rparr> in
     case p of Ended (Err e) \<Rightarrow> s\<lparr>opEnd := Some (Crash (Error e))\<rparr> | _ \<Rightarrow> s)"

text \<open>A shutdown that comes before the server listens either has no effect or dereferences the nil pointer of the
  application, depending on how far \<open>ServerRun\<close> has come.\<close>

definition nil_pointer :: string where
  "nil_pointer = ''invalid memory address or nil pointer dereference''"

definition cancel_context :: "operator \<Rightarrow> operator" where
  "cancel_context s = s\<lparr>opSignals := (opSignals s)\<lparr>sgCancelled := True\<rparr>\<rparr>"

inductive operator_step :: "operator \<Rightarrow> operator \<Rightarrow> bool" where
  op_signal: "opEnd s = None \<Longrightarrow> signal_step (opSignals s) r \<Longrightarrow> operator_step s (with_signals s r)"
| op_run: "opEnd s = None \<Longrightarrow> i < length (opRuns s) \<Longrightarrow> run_step (sgCancelled (opSignals s)) (opRuns s ! i) p \<Longrightarrow>
    operator_step s (must_run i p s)"
| op_listen: "opEnd s = None \<Longrightarrow> opServer s = Starting \<Longrightarrow> operator_step s (s\<lparr>opServer := Serving\<rparr>)"
| op_listen_fails: "opEnd s = None \<Longrightarrow> opServer s \<in> {Starting, Serving} \<Longrightarrow> operator_step s (s\<lparr>opEnd := Some (Exit 255)\<rparr>)"
| op_shutdown: "opEnd s = None \<Longrightarrow> opStopper s \<Longrightarrow> sgStop (opSignals s) \<Longrightarrow> opServer s = Serving \<Longrightarrow>
    operator_step s (s\<lparr>opStopper := False, opServer := Closed\<rparr>)"
| op_shutdown_early: "opEnd s = None \<Longrightarrow> opStopper s \<Longrightarrow> sgStop (opSignals s) \<Longrightarrow> opServer s = Starting \<Longrightarrow>
    operator_step s (s\<lparr>opStopper := False\<rparr>)"
| op_shutdown_nil: "opEnd s = None \<Longrightarrow> opStopper s \<Longrightarrow> sgStop (opSignals s) \<Longrightarrow> opServer s = Starting \<Longrightarrow>
    operator_step s (s\<lparr>opStopper := False, opEnd := Some (Crash nil_pointer)\<rparr>)"
| op_cancel: "opEnd s = None \<Longrightarrow> opServer s = Closed \<Longrightarrow> operator_step s (cancel_context (s\<lparr>opServer := Returned\<rparr>))"
| op_return: "opEnd s = None \<Longrightarrow> opServer s = Returned \<Longrightarrow> operator_step s (s\<lparr>opEnd := Some (Exit 0)\<rparr>)"

definition operator_reach :: "operator \<Rightarrow> bool" where
  "operator_reach = operator_step\<^sup>*\<^sup>* operator_main"

text \<open>How the operator may have ended, given the number of signals that were sent to it.\<close>

definition ending_ok :: "nat \<Rightarrow> run_phase list \<Rightarrow> ending \<Rightarrow> bool" where
  "ending_ok sent runs e \<longleftrightarrow> (case e of
      Exit n \<Rightarrow> (n = 0 \<and> 1 \<le> sent) \<or> (n = 1 \<and> 2 \<le> sent) \<or> n = 255
    | Crash m \<Rightarrow> 1 \<le> sent \<and> (m = nil_pointer \<or>
        m = ''failed to wait for caches to sync'' \<and> Ended (Err (Failure ''failed to wait for caches to sync'')) \<in> set runs))"

lemma ending_ok_mono: "ending_ok n runs e \<Longrightarrow> n \<le> n' \<Longrightarrow> ending_ok n' runs e"
  by (auto simp: ending_ok_def split: ending.splits)

definition op_inv :: "operator \<Rightarrow> bool" where
  "op_inv s \<longleftrightarrow> signals_ok (opSignals s) \<and>
     (opServer s \<in> {Closed, Returned} \<or> \<not> opStopper s \<longrightarrow> sgStop (opSignals s)) \<and>
     (\<forall>r. Ended r \<in> set (opRuns s) \<longrightarrow> sgStop (opSignals s)) \<and>
     (\<forall>e. opEnd s = Some e \<longrightarrow> ending_ok (sgCount (opSignals s)) (opRuns s) e)"

lemma stop_sent: "signals_ok g \<Longrightarrow> sgStop g \<Longrightarrow> 1 \<le> sgCount g"
  by (auto simp: signals_ok_def)

lemma stop_cancelled: "signals_ok g \<Longrightarrow> sgCancelled g \<Longrightarrow> sgStop g"
  by (simp add: signals_ok_def)

lemma must_run_inv:
  assumes "op_inv s" "opEnd s = None" "i < length (opRuns s)" "run_step (sgCancelled (opSignals s)) (opRuns s ! i) p"
  shows "op_inv (must_run i p s)"
proof -
  have stop: "sgStop (opSignals s)" if "p = Ended r" for r
    using assms(1,4) that stop_cancelled unfolding op_inv_def by (auto elim!: run_stepE)
  have runs: "sgStop (opSignals s)" if "Ended r \<in> set ((opRuns s)[i := p])" for r
    using that set_update_subset_insert [of "opRuns s" i p] stop assms(1) unfolding op_inv_def by auto
  have "m = ''failed to wait for caches to sync''" if "p = Ended (Err e)" "Error e = m" for e m
    using assms(4) that by (auto elim!: run_stepE)
  moreover have "p \<in> set ((opRuns s)[i := p])" using assms(3) by (simp add: set_update_memI)
  moreover have "p = Ended (Err e) \<Longrightarrow> e = Failure ''failed to wait for caches to sync''" for e
    using assms(4) by (auto elim!: run_stepE)
  ultimately show ?thesis
    using assms(1,2) runs stop stop_sent unfolding op_inv_def must_run_def Let_def
    by (auto simp: ending_ok_def split: run_phase.splits res.splits)
qed

lemma operator_step_inv: "operator_step s s' \<Longrightarrow> op_inv s \<Longrightarrow> op_inv s'"
proof (induction rule: operator_step.induct)
  case (op_signal s r)
  then have "signals_ok (opSignals s)" by (simp add: op_inv_def)
  from signal_step_ok [OF op_signal(2) this] show ?case
    using op_signal(1,3) by (auto simp: op_inv_def with_signals_def ending_ok_def)
next
  case (op_run s i p)
  then show ?case by (rule_tac must_run_inv)
next
  case (op_cancel s)
  then show ?case by (auto simp: op_inv_def cancel_context_def intro: signals_ok_cancel)
qed (auto simp: op_inv_def ending_ok_def dest: stop_sent)

lemma operator_reach_inv: "operator_reach s \<Longrightarrow> op_inv s"
  unfolding operator_reach_def
proof (induction rule: rtranclp_induct)
  case base
  then show ?case by (simp add: op_inv_def operator_main_def SetupSignalHandler_def signals_ok_def)
next
  case (step s s')
  then show ?case by (blast intro: operator_step_inv)
qed


text \<open>One signal is enough to end an operator that serves requests, at most one more when some were sent already.\<close>

lemma operator_stop:
  assumes "opEnd s = None" "opServer s = Serving" "opStopper s" "sgStop (opSignals s)"
  shows "\<exists>s'. operator_step\<^sup>*\<^sup>* s s' \<and> opEnd s' = Some (Exit 0) \<and> opRuns s' = opRuns s \<and> sgCount (opSignals s') = sgCount (opSignals s)"
proof -
  let ?s1 = "s\<lparr>opStopper := False, opServer := Closed\<rparr>"
  let ?s2 = "cancel_context (?s1\<lparr>opServer := Returned\<rparr>)"
  have "operator_step s ?s1" using assms by (intro op_shutdown)
  moreover have "operator_step ?s1 ?s2" using assms by (intro op_cancel) simp_all
  moreover have "operator_step ?s2 (?s2\<lparr>opEnd := Some (Exit 0)\<rparr>)" using assms by (intro op_return) (simp_all add: cancel_context_def)
  ultimately have "operator_step\<^sup>*\<^sup>* s (?s2\<lparr>opEnd := Some (Exit 0)\<rparr>)"
    by (meson rtranclp.rtrancl_into_rtrancl rtranclp.rtrancl_refl)
  then show ?thesis by (intro exI [of _ "?s2\<lparr>opEnd := Some (Exit 0)\<rparr>"] conjI) (simp_all add: cancel_context_def)
qed

lemma operator_signalled:
  assumes "opEnd s = None" "signals_ok (opSignals s)" "\<not> sgStop (opSignals s)"
  shows "\<exists>g. operator_step\<^sup>*\<^sup>* s (s\<lparr>opSignals := g\<rparr>) \<and> sgStop g \<and> sgCount g = Suc (sgCount (opSignals s))"
proof -
  let ?g1 = "send_signal (opSignals s)"
  let ?g2 = "?g1\<lparr>sgStop := True, sgQueued := sgQueued ?g1 - 1, sgCancelled := True, sgPhase := AwaitSecond\<rparr>"
  have phase: "sgPhase (opSignals s) = AwaitSignal"
    using assms(2,3) by (cases "sgPhase (opSignals s)") (auto simp: signals_ok_def)
  have "operator_step s (s\<lparr>opSignals := ?g1\<rparr>)"
    using op_signal [OF assms(1) signal_sent] by (simp add: with_signals_def)
  moreover have "first_signal ?g1 = Inr ?g2" using assms(3) by (simp add: first_signal_def close_stop_def send_signal_def)
  then have "signal_step ?g1 (Inr ?g2)"
    using signal_first [of ?g1] phase by (simp add: send_signal_def)
  then have "operator_step (s\<lparr>opSignals := ?g1\<rparr>) (s\<lparr>opSignals := ?g2\<rparr>)"
    using op_signal [of "s\<lparr>opSignals := ?g1\<rparr>" "Inr ?g2"] assms(1) by (simp add: with_signals_def)
  ultimately have "operator_step\<^sup>*\<^sup>* s (s\<lparr>opSignals := ?g2\<rparr>)" by (meson rtranclp.rtrancl_into_rtrancl rtranclp.rtrancl_refl)
  then show ?thesis by (intro exI [of _ ?g2] conjI) (simp_all add: send_signal_def)
qed

lemma operator_stoppable:
  assumes "op_inv s" "opEnd s = None" "opServer s = Serving" "opStopper s"
  shows "\<exists>s'. operator_step\<^sup>*\<^sup>* s s' \<and> opEnd s' = Some (Exit 0) \<and> opRuns s' = opRuns s \<and> sgCount (opSignals s') \<le> Suc (sgCount (opSignals s))"
proof (cases "sgStop (opSignals s)")
  case True
  from operator_stop [OF assms(2-4) this] show ?thesis by (metis le_SucI le_refl)
next
  case False
  obtain g where g: "operator_step\<^sup>*\<^sup>* s (s\<lparr>opSignals := g\<rparr>)" "sgStop g" "sgCount g = Suc (sgCount (opSignals s))"
    using operator_signalled [OF assms(2) _ False] assms(1) unfolding op_inv_def by blast
  obtain s' where "operator_step\<^sup>*\<^sup>* (s\<lparr>opSignals := g\<rparr>) s'" "opEnd s' = Some (Exit 0)" "opRuns s' = opRuns s" "sgCount (opSignals s') = sgCount g"
    using operator_stop [of "s\<lparr>opSignals := g\<rparr>"] assms(2-4) g(2) by auto
  then show ?thesis using g(1,3) by (metis rtranclp_trans le_refl)
qed


text \<open>The operator once all controllers work and the server listens.\<close>

definition operator_up :: operator where
  "operator_up = operator_main\<lparr>opRuns := replicate 8 Working, opServer := Serving\<rparr>"

lemma runs_start:
  assumes "opEnd s = None"
  shows "operator_step\<^sup>*\<^sup>* (s\<lparr>opRuns := ps @ replicate n Created\<rparr>) (s\<lparr>opRuns := ps @ replicate n Working\<rparr>)"
proof (induction n arbitrary: ps)
  case (Suc n)
  have go: "operator_step (s\<lparr>opRuns := ps @ p # ws\<rparr>) (s\<lparr>opRuns := ps @ p' # ws\<rparr>)"
    if "run_step (sgCancelled (opSignals s)) p p'" "\<And>r. p' \<noteq> Ended r" for p p' ws
    using op_run [of "s\<lparr>opRuns := ps @ p # ws\<rparr>" "length ps" p'] that assms
    by (cases p') (auto simp: must_run_def)
  have "operator_step (s\<lparr>opRuns := ps @ Created # replicate n Created\<rparr>) (s\<lparr>opRuns := ps @ Syncing # replicate n Created\<rparr>)"
    "operator_step (s\<lparr>opRuns := ps @ Syncing # replicate n Created\<rparr>) (s\<lparr>opRuns := ps @ Working # replicate n Created\<rparr>)"
    by (simp_all add: go run_starts run_works)
  moreover have "operator_step\<^sup>*\<^sup>* (s\<lparr>opRuns := ps @ Working # replicate n Created\<rparr>) (s\<lparr>opRuns := ps @ Working # replicate n Working\<rparr>)"
    using Suc [of "ps @ [Working]"] by simp
  ultimately show ?case by (simp add: converse_rtranclp_into_rtranclp)
qed simp

lemma operator_up_reached: "operator_reach operator_up"
proof -
  have "operator_step operator_main (operator_main\<lparr>opServer := Serving\<rparr>)"
    by (rule op_listen) (simp_all add: operator_main_def)
  moreover have "operator_step\<^sup>*\<^sup>* (operator_main\<lparr>opServer := Serving\<rparr>) operator_up"
    using runs_start [of "operator_main\<lparr>opServer := Serving\<rparr>" "[]" 8] by (simp add: operator_up_def operator_main_def)
  ultimately show ?thesis unfolding operator_reach_def by (rule converse_rtranclp_into_rtranclp)
qed


text \<open>The exit does not wait for the controllers: it may come while all of them still work.\<close>

lemma exit_with_work: "\<exists>s. operator_reach s \<and> opEnd s = Some (Exit 0) \<and> opRuns s = replicate 8 Working"
proof -
  have "op_inv operator_up" by (rule operator_reach_inv [OF operator_up_reached])
  then obtain s where "operator_step\<^sup>*\<^sup>* operator_up s" "opEnd s = Some (Exit 0)" "opRuns s = opRuns operator_up"
    using operator_stoppable [of operator_up] by (auto simp: operator_up_def operator_main_def)
  then show ?thesis using operator_up_reached unfolding operator_reach_def operator_up_def by (auto intro: rtranclp_trans)
qed

section \<open>The system event watcher (cmd/sys-event/main.go)\<close>

text \<open>\<open>main\<close> waits for the end of the context, shuts the server down and returns. The goroutine of the server calls
  \<open>klog.Fatal\<close> with whatever \<open>Listen\<close> returns (\<open>apiserver/server.go\<close>), also after a shutdown.\<close>

text \<open>\<open>Run\<close> of the watchers (\<open>watchers/app.go\<close>) looks at the outcome of the synchronisation of each kind of resource; the
  factory of its informers is not shut down at the end.\<close>

definition Watchers_synced :: "(string \<times> bool) list \<Rightarrow> run_phase" where
  "Watchers_synced res = (case filter (\<lambda>(t, good). \<not> good) res of
      [] \<Rightarrow> Working
    | (t, good) # _ \<Rightarrow> Ended (Err (Failure (''failed to wait for caches to sync, '' @ t))))"

inductive Watchers_Run :: "bool \<Rightarrow> run_phase \<Rightarrow> run_phase \<Rightarrow> bool" where
  watchers_start: "Watchers_Run cancelled Created Syncing"
| watchers_synced: "cancelled \<or> list_all snd res \<Longrightarrow> Watchers_Run cancelled Syncing (Watchers_synced res)"
| watchers_done: "Watchers_Run True Working (Ended (Val ()))"

inductive_cases Watchers_RunE: "Watchers_Run cancelled p p'"

lemma Watchers_synced_all: "list_all snd res \<Longrightarrow> Watchers_synced res = Working"
proof -
  assume "list_all snd res"
  then have "filter (\<lambda>(t, good). \<not> good) res = []" by (auto simp: filter_empty_conv list_all_iff)
  then show ?thesis unfolding Watchers_synced_def by simp
qed

text \<open>It ends only after the context.\<close>

lemma Watchers_Run_ended: "Watchers_Run cancelled p (Ended r) \<Longrightarrow> cancelled"
  by (erule Watchers_RunE) (auto dest: Watchers_synced_all)

record event_program =
  epSignals :: signal_state
  epRun :: run_phase
  epServer :: server_phase
  epEnd :: "ending option"

definition event_main :: event_program where
  "event_main = \<lparr>epSignals = SetupSignalHandler, epRun = Created, epServer = Starting, epEnd = None\<rparr>"

inductive event_step :: "event_program \<Rightarrow> event_program \<Rightarrow> bool" where
  ep_signal: "epEnd s = None \<Longrightarrow> signal_step (epSignals s) r \<Longrightarrow>
    event_step s (case r of Inl e \<Rightarrow> s\<lparr>epEnd := Some e\<rparr> | Inr g \<Rightarrow> s\<lparr>epSignals := g\<rparr>)"
| ep_run: "epEnd s = None \<Longrightarrow> Watchers_Run (sgCancelled (epSignals s)) (epRun s) p \<Longrightarrow> event_step s (s\<lparr>epRun := p\<rparr>)"
| ep_listen: "epEnd s = None \<Longrightarrow> epServer s = Starting \<Longrightarrow> event_step s (s\<lparr>epServer := Serving\<rparr>)"
| ep_fatal: "epEnd s = None \<Longrightarrow> event_step s (s\<lparr>epEnd := Some (Exit 255)\<rparr>)"
| ep_shutdown: "epEnd s = None \<Longrightarrow> sgCancelled (epSignals s) \<Longrightarrow> epServer s \<in> {Starting, Serving} \<Longrightarrow> event_step s (s\<lparr>epServer := Closed\<rparr>)"
| ep_return: "epEnd s = None \<Longrightarrow> epServer s = Closed \<Longrightarrow> event_step s (s\<lparr>epEnd := Some (Exit 0)\<rparr>)"

definition ep_inv :: "event_program \<Rightarrow> bool" where
  "ep_inv s \<longleftrightarrow> signals_ok (epSignals s) \<and> (epServer s = Closed \<or> (\<exists>r. epRun s = Ended r) \<longrightarrow> sgStop (epSignals s)) \<and>
     (\<forall>e. epEnd s = Some e \<longrightarrow> (e = Exit 0 \<and> 1 \<le> sgCount (epSignals s)) \<or> (e = Exit 1 \<and> 2 \<le> sgCount (epSignals s)) \<or> e = Exit 255)"

lemma event_step_inv: "event_step s s' \<Longrightarrow> ep_inv s \<Longrightarrow> ep_inv s'"
proof (induction rule: event_step.induct)
  case (ep_signal s r)
  then have "signals_ok (epSignals s)" by (simp add: ep_inv_def)
  from signal_step_ok [OF ep_signal(2) this] show ?case using ep_signal(1,3) by (auto simp: ep_inv_def)
next
  case (ep_run s p)
  then show ?case using Watchers_Run_ended [of _ "epRun s"] stop_cancelled [of "epSignals s"] by (auto simp: ep_inv_def)
qed (auto simp: ep_inv_def dest: stop_sent stop_cancelled)

text \<open>The watcher exits with 0 only after a signal and with 1 only after a second one; it never crashes, and its
  queue is worked on until a signal arrives.\<close>

lemma event_endings: "event_step\<^sup>*\<^sup>* event_main s \<Longrightarrow> ep_inv s"
proof (induction rule: rtranclp_induct)
  case base
  then show ?case by (simp add: ep_inv_def event_main_def signals_ok_def SetupSignalHandler_def)
next
  case (step s s')
  then show ?case by (blast intro: event_step_inv)
qed

text \<open>After a signal the return of \<open>main\<close> races with the goroutine of the server, which may end the program with 255.\<close>

lemma shutdown_race:
  assumes "epEnd s = None" "epServer s = Closed"
  shows "event_step s (s\<lparr>epEnd := Some (Exit 0)\<rparr>)" "event_step s (s\<lparr>epEnd := Some (Exit 255)\<rparr>)"
  using assms by (auto intro: ep_return ep_fatal)

end
