(* ===== verification/Ws_Routes.thy ===== *)
theory Ws_Routes
  imports Ws_Gateway
begin

text \<open>The server of the websocket gateway (\<open>cmd/websocket/app/server.go\<close>): its initialisation and its routes. A request
  carries its body decoded for the handler that reads it.\<close>

record gateway =
  gwServer :: Server
  gwAppPath :: string

definition Init_gateway :: "Server \<Rightarrow> (string \<Rightarrow> string) \<Rightarrow> gateway" where
  "Init_gateway server Getenv = \<lparr>gwServer = server, gwAppPath = getEnvAppInfo Getenv\<rparr>"

datatype ws_method = GET | POST

record ws_request =
  wrMethod :: ws_method
  wrPath :: string
  wrUpgrade :: Request
  wrSend :: "string + sendMesssageReq"
  wrClose :: "string + disConnectionReq"

text \<open>An answer: an upgraded connection with what the hub gets to know of it and the headers that are set, the error
  of a middleware, a message, a listing, or that no route fits.\<close>

datatype ws_answer =
    Upgraded Locals "(string \<times> string) list"
  | Refusal go_error
  | Message Reply
  | Listing Reply "UserInfo list"
  | NoRoute
  | Aborted

text \<open>The hub goes on with an upgraded connection by itself (\<open>New\<close> of the websocket server). A panic of the listing
  reaches the framework.\<close>

definition serve_ws :: "string \<Rightarrow> string \<Rightarrow> ws_request \<Rightarrow> gateway \<Rightarrow> ws_answer \<times> gateway" where
  "serve_ws uuid1 uuid2 rq g =
     (if wrMethod rq = GET \<and> wrPath rq = ''/ws'' then
        (case RequireHeader uuid1 uuid2 (wrUpgrade rq) of
           Val (locals, headers) \<Rightarrow> (Upgraded locals headers, g)
         | Err e \<Rightarrow> (Refusal e, g)
         | _ \<Rightarrow> (Aborted, g))
      else if wrMethod rq = GET \<and> wrPath rq = ''/tapr/ws/conn/list'' then
        (case ListConnection (gwServer g) of
           Val (reply, infos) \<Rightarrow> (Listing reply infos, g)
         | Err e \<Rightarrow> (Refusal e, g)
         | _ \<Rightarrow> (Aborted, g))
      else if wrMethod rq = POST \<and> wrPath rq = ''/tapr/ws/conn/send'' then
        (case SendMessage (wrSend rq) (gwServer g) of (reply, s) \<Rightarrow> (Message reply, g\<lparr>gwServer := s\<rparr>))
      else if wrMethod rq = POST \<and> wrPath rq = ''/tapr/ws/conn/close'' then
        (case CloseConnection (wrClose rq) (gwServer g) of (reply, s) \<Rightarrow> (Message reply, g\<lparr>gwServer := s\<rparr>))
      else if wrMethod rq = POST \<and> wrPath rq = ''/tapr/ws/conn/debug'' then
        (case DebugFunc (gwServer g) of (reply, s) \<Rightarrow> (Message reply, g\<lparr>gwServer := s\<rparr>))
      else (NoRoute, g))"

text \<open>What the hub hands on to the application behind the gateway.\<close>

definition forward :: "gateway \<Rightarrow> ReadMessage \<Rightarrow> (string \<times> ReadMessage \<times> string) list" where
  "forward g data = handleWebSocketMessage (gwAppPath g) data"

text \<open>Only the two posts that send and close act on the hub, and each adds at most one message to its queue; an upgrade
  is admitted only with the headers of a request that asks for it.\<close>

lemma serve_ws_changes:
  assumes "serve_ws uuid1 uuid2 rq g = (a, g')" "gwServer g' \<noteq> gwServer g"
  shows "wrMethod rq = POST \<and>
    (wrPath rq = ''/tapr/ws/conn/send'' \<and> (\<exists>m. wrSend rq = Inr m \<and> (smConnId m \<noteq> [] \<or> smUsers m \<noteq> [] \<or> smTokens m \<noteq> [])) \<or>
     wrPath rq = ''/tapr/ws/conn/close'' \<and> (\<exists>m. wrClose rq = Inr m))"
  using assms unfolding serve_ws_def SendMessage_def CloseConnection_def DebugFunc_def
  by (auto split: if_splits res.splits sum.splits prod.splits)

lemma serve_ws_upgrade:
  assumes "serve_ws uuid1 uuid2 rq g = (Upgraded locals headers, g')"
  shows "wrPath rq = ''/ws'' \<and> rqIsWebSocketUpgrade (wrUpgrade rq) \<and> lConnId locals = uuid2 \<and>
    lAccessPublic locals = (rqAuthToken (wrUpgrade rq) = []) \<and> g' = g"
  using assms unfolding serve_ws_def RequireHeader_def SendMessage_def CloseConnection_def DebugFunc_def Let_def
  by (auto split: if_splits res.splits sum.splits prod.splits option.splits)

end
