(* ===== verification/Spec2Isabelle.thy ===== *)
theory Spec2Isabelle
  imports Ws_Gateway Nats_Proofs Postgres_Proofs Backup_Handlers Corefile_Proofs
    Citus_Proofs Redis_Proofs Controllers_Proofs Watcher_Proofs App_Proofs
    Vault_Mongo Sys_Proofs Upload_Proofs Programs Ws_Routes
begin

text \<open>
  A verification library for \<^bold>\<open>tapr\<close>, the application runtime of Terminus OS: the operators,
  watchers and gateways that give applications their middleware (PostgreSQL, Redis, NATS and
  others), their system events and their websocket connections. Paths below are relative to
  \<open>src/\<close>.

  \<^bold>\<open>The program.\<close>
  \<^item> The \<^emph>\<open>middleware operator\<close> (\<open>cmd/middleware/operator\<close>) runs one controller per custom resource
    (\<open>pkg/apis/apr/v1alpha1\<close>). Each controller has event handlers that put an item in a work
    queue and a worker that takes items out, runs the handler and settles the item. The handlers
    call the helpers in \<open>pkg/workload/*\<close> and the clients in \<open>pkg/postgres\<close> and \<open>pkg/mongo\<close>; these
    talk to Kubernetes, to the databases and to the file system.
  \<^item> The \<^emph>\<open>websocket gateway\<close> (\<open>cmd/websocket\<close>, \<open>pkg/ws\<close>) admits connections, passes what they
    send on to an application and lets the application write to them, list them and close them.
  \<^item> The \<^emph>\<open>system event watcher\<close> (\<open>cmd/sys-event\<close>) follows users, nodes and applications and, among
    other things, keeps the Corefile of the cluster's DNS server.
    It also tells other parts of the platform about users, applications, workflows and loads.
  \<^item> The \<^emph>\<open>uploader\<close> (\<open>cmd/images/uploader\<close>) takes images from users and publishes them.
  \<^item> The \<^emph>\<open>vault\<close> (\<open>cmd/vault\<close>, \<open>pkg/vault/infisical\<close>) stands between the users and applications and a
    store of secrets: it creates a user with a pair of keys in the database of the store, signs tokens for
    it, and encrypts and decrypts the secrets.

  \<^bold>\<open>How programs are modelled.\<close> \<open>Prelude\<close> has the outcome of a call (\<open>Val\<close>, \<open>Err\<close>, \<open>Panic\<close>, and
  \<open>Looping\<close> when a bound of the model is used up) and the programs, which pass on a state of the
  world and the list of calls made so far: \<open>seqc\<close> is a statement followed by \<open>if err != nil
  return err\<close>, \<open>tryc\<close> a statement whose error is inspected, \<open>ignorec\<close> one whose error is dropped,
  \<open>deferc\<close> is \<open>defer\<close>, \<open>poll\<close> is \<open>wait.Poll\<close> and its relatives. \<open>World\<close> has what lies outside the
  repository (Kubernetes, the clients of the custom resources, files, SQL, redis, MongoDB, MinIO,
  RabbitMQ, Elasticsearch, NATS): a record of operations on an arbitrary state that the models take as an argument,
  together with a datatype of the calls. So a property about the list of calls holds for every
  behaviour of these services. \<open>Prelude\<close> also has the rules by which such properties are
  proved: weakest preconditions (collection \<open>wp_simps\<close>) and traces.

  \<^bold>\<open>Theories and sources.\<close>
  \<^item> \<open>Utils\<close>: \<open>pkg/utils/utils.go\<close>, with MD5 computed on 32-bit words.
  \<^item> \<open>Ws_Server\<close>, \<open>Ws_Server_Proofs\<close>, \<open>Ws_Gateway\<close>: \<open>pkg/ws\<close> and \<open>cmd/websocket/app\<close>. The hub is the
    record \<open>Server\<close>: the table of users and connections, the store of clients (shared by
    pointer in the code), and the queues of messages read, messages to write and closes with their
    capacity of 500. An iteration of a goroutine is one definition (\<open>routineWrite\<close>, \<open>routineClose\<close>,
    \<open>checkExpired\<close>, \<open>onConnection\<close>), and a step relation interleaves them with the HTTP handlers.
    C1 to C7: exact effect of closing, writing and expiry, the invariant of all reachable
    states and the absence of panics there, liveness of a pinging connection, closing by token.
    \<open>Ws_Routes\<close> has the routes, with lemmas on which requests act on the hub.
  \<^item> \<open>Api_Types\<close>: the custom resources of \<open>pkg/apis/apr/v1alpha1\<close>.
  \<^item> \<open>Nats\<close>, \<open>Nats_Proofs\<close>: \<open>pkg/workload/nats\<close>, \<open>handler_nats.go\<close> and \<open>controller_config.go\<close>. C8,
    C9, C11: which subjects a request is granted, the table of users, refusal of requests that
    refer to subjects not exported to them.
  \<^item> \<open>Redis_Requests\<close>, \<open>Redis_Proofs\<close>: \<open>handler_redis.go\<close> and the proxy configuration in
    \<open>pkg/workload/redis-cluster\<close>, with the regular expression that finds the section to replace. C10.
  \<^item> \<open>Postgres\<close>, \<open>Postgres_Proofs\<close>: \<open>pkg/postgres/client.go\<close> and \<open>handler_pg.go\<close>. C13 to C15: what a
    successful creation or deletion has done on every node of the cluster, and what an update
    never drops.
  \<^item> \<open>Requests\<close>, \<open>Kvrocks\<close>, \<open>Kvrocks_Proofs\<close>: \<open>pkg/workload/kvrocks\<close> and \<open>redixcluster/handler.go\<close>. C17,
    C18, C21: order and safety of a restore, reconciliation without effect on an up-to-date
    cluster; lemmas on the derived workload and on the connection of a backup.
  \<^item> \<open>Backup_Jobs\<close>, \<open>Backup_Proofs\<close>, \<open>Backup_Handlers\<close>: the four backup and restore controllers. C24,
    C32: the protocol of jobs and status updates and the waits for their completion; lemmas about the conditions
    for a job to start and for a backup to count as ready,
    about the life cycle of a status, finished states, and the loss of the cause of a failure.
  \<^item> \<open>Corefile\<close>, \<open>Corefile_Proofs\<close>: \<open>cmd/sys-event/watchers/corefile.go\<close>. C33, C35, C37: the addresses of
    users are in range and distinct, edits of a Corefile, idempotence of its regeneration.
  \<^item> \<open>Sys_Events\<close>, \<open>Sys_Proofs\<close>: the rest of \<open>cmd/sys-event\<close>: notifications, callbacks, the queue of events with
    its worker and subscribers, and the watchers of users and of metrics, whose values are \<open>float64\<close> as rationals with
    rounded products. C20, C29, C30: what a round of callbacks has delivered, that events of users are handled once, and
    to whom notifications go. \<open>Prom_Templates\<close> is the table of metric expressions.
  \<^item> \<open>Uploader\<close>, \<open>Upload_Proofs\<close>: \<open>cmd/images/uploader\<close>, \<open>pkg/terminus\<close>, the check of tokens and the Zinc client. C19:
    where uploads are written and for whom.
  \<^item> \<open>Citus\<close>, \<open>Citus_Proofs\<close>: \<open>pkg/workload/citus\<close> and \<open>pgcluster/handler.go\<close>. C38: the decision to
    change the administrator refines a comparison of credentials.
  \<^item> \<open>Middleware\<close>: the request handlers of MariaDB, MySQL, MongoDB, MinIO, RabbitMQ and
    Elasticsearch, their helpers and \<open>pkg/mongo\<close>.
  \<^item> \<open>Controllers\<close>, \<open>Controllers_Proofs\<close>: \<open>middleware-request/handler.go\<close> and the workers of all eight
    controllers. C39, C40: a worker takes each item once and settles it; deletions when the
    service is gone.
  \<^item> \<open>Controller_Run\<close>: \<open>NewController\<close>, \<open>Run\<close> and \<open>Cancel\<close> of the controllers. The informer, the workers and \<open>Run\<close> are
    goroutines; a step relation interleaves the delivery of an event, the taking and the settling of an item, the
    end of the synchronisation and the end of the context. C26: no event gets lost on the way to its handler.
  \<^item> \<open>Programs\<close>: \<open>pkg/signals/signal.go\<close>, \<open>cmd/middleware/main.go\<close> and \<open>cmd/sys-event/main.go\<close>, again as step relations; the
    phases of a controller refine into those of \<open>Controller_Run\<close> (\<open>ctl_step_phase\<close>). C28: how the operator ends.
  \<^item> \<open>Cluster_Resources\<close>, \<open>Backup_Watcher\<close>, \<open>Watcher_Proofs\<close>: the operations on redis and MongoDB
    clusters in \<open>pkg/workload\<close> and the backup watcher of \<open>cmd/middleware/operator/backup\<close>, whose two
    goroutines are run one after the other, with the ways in which their results can reach the
    shared list as a parameter. C16, C22: what a successful backup of the system has done, and
    that its state cannot be written without the backup of MongoDB. The operator as it stands does not start this watcher:
    the call is commented out in \<open>main\<close>.
  \<^item> \<open>Middleware_App\<close>, \<open>App_Proofs\<close>: \<open>cmd/middleware/app\<close>, \<open>pkg/app/middleware\<close> and \<open>pkg/kubesphere\<close>. C12,
    C36: who gets past the checks, and that the answer given to an application names what the
    controllers of \<open>Controllers\<close> have set up for it. \<open>Results\<close> has the calculus of returned values these
    proofs use.
  \<^item> \<open>Aes_Gcm\<close>, \<open>Vault_Crypto\<close>, \<open>Vault_Store\<close>, \<open>Vault_App\<close>, \<open>Vault_Server\<close>: the vault. \<open>Aes_Gcm\<close> is base64, AES
    and the Galois counter mode of Go's library as functions on bytes, checked against published
    vectors; \<open>Vault_Crypto\<close> is \<open>crypto/*.go\<close> and \<open>key.go\<close>, \<open>Vault_Store\<close> the rows and statements of
    \<open>postgres.go\<close>, \<open>init.go\<close> and \<open>token.go\<close>, \<open>Vault_App\<close> and \<open>Vault_Server\<close> the controllers and the routes. The
    box of NaCl, the signature of tokens, the random source, the database and the store of secrets are parameters.
  \<^item> \<open>Vault_Mongo\<close>: \<open>mongo.go\<close> with the functions of \<open>init.go\<close> and \<open>token.go\<close> that use it; lemmas on the documents of a new user, on
    its key, and on what a failure leaves behind.
  \<^item> \<open>Vault_Proofs\<close>, \<open>Vault_Access\<close>, \<open>Vault_Secrets\<close>: C25 (every request to the store carries a token of the user
    who asked), C34 (an application reaches only workspaces that a permission of its own names), C23,
    C27 and C31 (what was encrypted can be read back: single texts, the key of a new user, a secret that was created or updated).

  \<^bold>\<open>Interfaces.\<close> \<open>field_filter\<close> (the filters of connections by user, token and identifier),
  \<open>user_table\<close> (the users of the NATS configuration), \<open>status_update\<close> (the status of the four
  backup and restore resources), \<open>job_runner\<close> and \<open>job_controller\<close> (the PostgreSQL controllers that run
  a job), \<open>item_processor\<close> (the two ways of settling an item of the queue) and \<open>controller_run\<close> (what a controller
  relies on from its attempts and its event handlers, for the three kinds of controllers) are locales, each
  interpreted on the definitions of the model.

  \<^bold>\<open>Bounds.\<close> A wait that polls until a time-out takes the number of polls as an argument; the
  theorems hold for every number, so for the one that the intervals and time-outs of the code
  allow. Polling without a time-out, the attempts to connect (\<open>voPolls\<close> in the vault), the rounds of a watcher, the attempts at a deletion and the iterations of a worker
  are bounded in the same way; there, running out is the outcome \<open>Looping\<close>, in which nothing
  further happens, not even the deferred calls. Safety properties hold with it, and properties
  that say that something ends give a bound that is enough (C39) or show that none is (C40).
  Integers whose width matters are kept at it: the octets of addresses are \<open>8 word\<close>, the digest
  is computed on \<open>32 word\<close>, replica counts are read as 32-bit integers. The addresses of C33 are
  proved distinct for up to 2097152 users, half of the addresses of the /10 network; beyond 4194304 the
  code panics.

  \<^bold>\<open>Not modelled.\<close> The generated clients, informers, listers and copy functions, the registration of types and the list
  types of the resources, which hold no logic of the program; the resource types of third-party operators; the
  construction of clients and the parsing of flags; the programs that only start one server; the JSON and export forms of a
  metric sample and the generator of random strings in the NATS helper, which nothing calls. A round of a handler is one
  step of its controller, since handlers leave the queue alone. Log messages, times of log entries and the texts of most errors are left out
  everywhere.
\<close>

end
